(* ===== verification/CoreTypes.thy ===== *)
theory CoreTypes
  imports Prelude
begin

text \<open>
  The API types of \<^verbatim>\<open>api/core/v1\<close> and the methods every other part of the control plane reads
  them through: \<^verbatim>\<open>types.go\<close>, \<^verbatim>\<open>affinity.go\<close>, \<^verbatim>\<open>env.go\<close>, \<^verbatim>\<open>service.go\<close>.

  A pointer field is an \<open>option\<close>; an \<open>int32\<close> or \<open>int64\<close> field is an \<^typ>\<open>int\<close>; a map is a
  \<open>gomap\<close>. \<open>resource.Quantity\<close> belongs to another module: it is a type variable \<open>'q\<close>
  constrained to the linearly ordered abelian groups, whose laws are what that type documents of
  its \<open>Add\<close>, \<open>Sub\<close>, \<open>Cmp\<close>, \<open>IsZero\<close> and \<open>Sign\<close>. The free-form \<open>spec.values\<close>, which no
  modelled operation reads, is left out of the record.
\<close>

section \<open>Object metadata\<close>

text \<open>
  A timestamp is \<open>None\<close> for Go's zero time and \<open>Some\<close> a number of nanoseconds otherwise.
\<close>

type_synonym gotime = "int option"

record owner_reference =
  or_api_version :: string
  or_kind :: string
  or_name :: string
  or_uid :: string
  or_controller :: "bool option"

record object_meta =
  om_name :: string
  om_namespace :: string
  om_uid :: string
  om_resource_version :: string
  om_generation :: int
  om_creation_timestamp :: gotime
  om_deletion_timestamp :: "int option"
  om_labels :: "(string, string) gomap"
  om_annotations :: "(string, string) gomap"
  om_finalizers :: "string list"
  om_owner_references :: "owner_reference list"

section \<open>Resources\<close>

record 'q resource_amounts =
  ra_cpu :: 'q
  ra_memory :: 'q

record 'q resource_requirements =
  rr_requests :: "'q resource_amounts"
  rr_limits :: "'q resource_amounts"

section \<open>Affinity (affinity.go)\<close>

record node_selector_requirement =
  nsr_key :: string
  nsr_operator :: string
  nsr_values :: "string list"

record node_selector =
  nsel_match_labels :: "(string, string) gomap"
  nsel_match_expressions :: "node_selector_requirement list"

record preferred_node_term =
  pnt_weight :: int
  pnt_preference :: node_selector

record node_affinity =
  na_required :: "node_selector option"
  na_preferred :: "preferred_node_term list"

record workload_affinity_term =
  wat_label_selector :: "(string, string) gomap"
  wat_topology_key :: string

record weighted_workload_affinity_term =
  wwat_weight :: int
  wwat_term :: workload_affinity_term

record workload_affinity =
  wa_required :: "workload_affinity_term list"
  wa_preferred :: "weighted_workload_affinity_term list"

record affinity =
  aff_node :: "node_affinity option"
  aff_workload :: "workload_affinity option"
  aff_workload_anti :: "workload_affinity option"

section \<open>Application\<close>

record env_secret_ref =
  esr_name :: string
  esr_key :: string
  esr_prefix :: string
  esr_optional :: "bool option"

record env_var =
  ev_name :: string
  ev_value :: string
  ev_secret_ref :: "env_secret_ref option"

record port =
  pt_name :: string
  pt_port :: int

record lifecycle =
  lc_restart_policy :: string
  lc_termination_grace_period_seconds :: "int option"
  lc_active_deadline_seconds :: "int option"
  lc_backoff_limit :: "int option"

record placement =
  pl_node_name :: string
  pl_node_selector :: "(string, string) gomap"
  pl_affinity :: "affinity option"
  pl_priority :: "int option"

record security_context =
  sc_run_as_user :: "int option"
  sc_run_as_group :: "int option"

record key_to_path =
  ktp_key :: string
  ktp_path :: string
  ktp_mode :: "int option"

record 'q volume_source =
  vs_type :: string
  vs_name :: string
  vs_size :: 'q
  vs_items :: "key_to_path list"
  vs_default_mode :: "int option"
  vs_optional :: "bool option"
  vs_audience :: string

record 'q volume_mount =
  vm_volume :: "'q volume_source"
  vm_mount_path :: string
  vm_read_only :: bool
  vm_sub_path :: string

record 'q application_spec =
  as_image :: string
  as_command :: "string list"
  as_args :: "string list"
  as_env :: "env_var list"
  as_ports :: "port list"
  as_resources :: "'q resource_requirements"
  as_lifecycle :: lifecycle
  as_placement :: placement
  as_host_network :: "bool option"
  as_service_name :: string
  as_runtime_class_name :: string
  as_security_context :: "security_context option"
  as_volumes :: "'q volume_mount list"

record application_status =
  ast_observed_generation :: int
  ast_phase :: string
  ast_message :: string
  ast_address :: string
  ast_exit_code :: "int option"
  ast_finished_at :: gotime
  ast_attempts :: int

record 'q application =
  app_meta :: object_meta
  app_spec :: "'q application_spec"
  app_status :: application_status

abbreviation app_name :: "'q application \<Rightarrow> string" where
  "app_name a \<equiv> om_name (app_meta a)"

abbreviation app_namespace :: "'q application \<Rightarrow> string" where
  "app_namespace a \<equiv> om_namespace (app_meta a)"

abbreviation app_labels :: "'q application \<Rightarrow> (string, string) gomap" where
  "app_labels a \<equiv> om_labels (app_meta a)"

abbreviation app_node_name :: "'q application \<Rightarrow> string" where
  "app_node_name a \<equiv> pl_node_name (as_placement (app_spec a))"

abbreviation AppPhasePending :: string where "AppPhasePending \<equiv> ''Pending''"
abbreviation AppPhaseRunning :: string where "AppPhaseRunning \<equiv> ''Running''"
abbreviation AppPhaseSucceeded :: string where "AppPhaseSucceeded \<equiv> ''Succeeded''"
abbreviation AppPhaseFailed :: string where "AppPhaseFailed \<equiv> ''Failed''"
abbreviation RestartNever :: string where "RestartNever \<equiv> ''Never''"
abbreviation DefaultTerminationGracePeriodSeconds :: int where
  "DefaultTerminationGracePeriodSeconds \<equiv> 30"

definition Deleting :: "'q application \<Rightarrow> bool" where
  "Deleting a \<longleftrightarrow> om_deletion_timestamp (app_meta a) \<noteq> None"

definition OnHostNetwork :: "'q application \<Rightarrow> bool" where
  "OnHostNetwork a =
     (case as_host_network (app_spec a) of None \<Rightarrow> True | Some b \<Rightarrow> b)"

definition RunToCompletion :: "lifecycle \<Rightarrow> bool" where
  "RunToCompletion l \<longleftrightarrow> lc_restart_policy l = RestartNever"

definition Retries :: "lifecycle \<Rightarrow> int" where
  "Retries l =
     (case lc_backoff_limit l of None \<Rightarrow> 0 | Some b \<Rightarrow> if b < 0 then 0 else b)"

text \<open>
  \<open>GracePeriod\<close> multiplies a number of seconds by \<open>time.Second\<close> in \<open>int64\<close>, so the product
  wraps.
\<close>

definition GracePeriod :: "lifecycle \<Rightarrow> int" where
  "GracePeriod l =
     (let secs = (case lc_termination_grace_period_seconds l of
                    None \<Rightarrow> DefaultTerminationGracePeriodSeconds
                  | Some s \<Rightarrow> if 0 \<le> s then s else DefaultTerminationGracePeriodSeconds)
      in wrap64 (secs * 1000000000))"

definition TerminalPhase :: "string \<Rightarrow> lifecycle \<Rightarrow> int \<Rightarrow> bool" where
  "TerminalPhase phase l attempts =
     (if phase = AppPhaseSucceeded then True
      else if phase \<noteq> AppPhaseFailed \<or> \<not> RunToCompletion l then False
      else max attempts 1 > Retries l)"

definition Finished :: "'q application \<Rightarrow> bool" where
  "Finished a \<longleftrightarrow>
     TerminalPhase (ast_phase (app_status a)) (as_lifecycle (app_spec a)) (ast_attempts (app_status a)) \<and>
     ast_observed_generation (app_status a) = om_generation (app_meta a)"

definition ApplicationStatus_IsZero :: "application_status \<Rightarrow> bool" where
  "ApplicationStatus_IsZero s \<longleftrightarrow> ast_phase s = [] \<and> ast_message s = []"

section \<open>Volumes and secrets\<close>

definition IsPV :: "'q volume_mount \<Rightarrow> bool" where
  "IsPV m \<longleftrightarrow> vs_type (vm_volume m) = ''pv''"

definition IsTmpfs :: "'q volume_mount \<Rightarrow> bool" where
  "IsTmpfs m \<longleftrightarrow> vs_type (vm_volume m) = ''tmpfs''"

definition VolumeMount_IsSecret :: "'q volume_mount \<Rightarrow> bool" where
  "VolumeMount_IsSecret m \<longleftrightarrow> vs_type (vm_volume m) = ''secret''"

definition IsToken :: "'q volume_mount \<Rightarrow> bool" where
  "IsToken m \<longleftrightarrow> vs_type (vm_volume m) = ''token''"

definition TokenAudience :: "'q volume_mount \<Rightarrow> string" where
  "TokenAudience m =
     (if vs_audience (vm_volume m) \<noteq> [] then vs_audience (vm_volume m) else ''horchestra'')"

text \<open>\<open>slices.Sorted(maps.Keys(seen))\<close>: the distinct elements in ascending order.\<close>

definition sorted_keys :: "string list \<Rightarrow> string list" where
  "sorted_keys xs = sort (remdups xs)"

definition TokenAudiences :: "'q application \<Rightarrow> string list" where
  "TokenAudiences a = sorted_keys (map TokenAudience (filter IsToken (as_volumes (app_spec a))))"

definition SecretName :: "'q volume_mount \<Rightarrow> string" where
  "SecretName m = vs_name (vm_volume m)"

definition PVName :: "'q volume_mount \<Rightarrow> string \<Rightarrow> string" where
  "PVName m appName = (if vs_name (vm_volume m) \<noteq> [] then vs_name (vm_volume m) else appName)"

definition EnvSecretRef_IsWildcard :: "env_secret_ref \<Rightarrow> bool" where
  "EnvSecretRef_IsWildcard r \<longleftrightarrow> esr_key r = ''*''"

definition EnvSecretRef_IsOptional :: "env_secret_ref \<Rightarrow> bool" where
  "EnvSecretRef_IsOptional r \<longleftrightarrow> esr_optional r = Some True"

definition secretRefs :: "'q application \<Rightarrow> bool \<Rightarrow> string list" where
  "secretRefs a includeOptional =
     sorted_keys
       (map SecretName
          (filter (\<lambda>m. VolumeMount_IsSecret m \<and> SecretName m \<noteq> [] \<and>
                       (includeOptional \<or> vs_optional (vm_volume m) \<noteq> Some True))
             (as_volumes (app_spec a))) @
        map (\<lambda>v. esr_name (the (ev_secret_ref v)))
          (filter (\<lambda>v. case ev_secret_ref v of
                          None \<Rightarrow> False
                        | Some r \<Rightarrow> esr_name r \<noteq> [] \<and> (includeOptional \<or> \<not> EnvSecretRef_IsOptional r))
             (as_env (app_spec a))))"

definition SecretRefs :: "'q application \<Rightarrow> string list" where
  "SecretRefs a = secretRefs a True"

definition RequiredSecretRefs :: "'q application \<Rightarrow> string list" where
  "RequiredSecretRefs a = secretRefs a False"

section \<open>PersistentVolume and Namespace\<close>

record 'q persistent_volume =
  pv_meta :: object_meta
  pv_size :: 'q
  pv_node :: string
  pv_mode :: string
  pv_reclaim_policy :: string
  pv_shared :: bool

record namespace =
  ns_meta :: object_meta

definition WorkloadID :: "string \<Rightarrow> string \<Rightarrow> string" where
  "WorkloadID ns name = (if ns = [] then name else ns @ ''_'' @ name)"

definition PersistentVolume_ID :: "'q persistent_volume \<Rightarrow> string" where
  "PersistentVolume_ID pv = WorkloadID (om_namespace (pv_meta pv)) (om_name (pv_meta pv))"

section \<open>Node\<close>

record platform =
  pf_os :: string
  pf_arch :: string

record 'q node_status =
  nst_capacity :: "'q resource_amounts"
  nst_allocated :: "'q resource_amounts"
  nst_os :: string
  nst_ip :: string
  nst_ready :: bool
  nst_heartbeat :: gotime
  nst_runtimes :: "string list"
  nst_platform :: platform
  nst_routed_network :: bool
  nst_labels :: "(string, string) gomap"

record 'q node =
  nd_meta :: object_meta
  nd_unschedulable :: bool
  nd_status :: "'q node_status"

abbreviation nd_name :: "'q node \<Rightarrow> string" where
  "nd_name n \<equiv> om_name (nd_meta n)"

abbreviation LabelHostname :: string where "LabelHostname \<equiv> ''horchestra.io/hostname''"
abbreviation LabelOS :: string where "LabelOS \<equiv> ''horchestra.io/os''"
abbreviation LabelArch :: string where "LabelArch \<equiv> ''horchestra.io/arch''"

definition DerivedNodeLabels :: "'q node \<Rightarrow> (string, string) gomap" where
  "DerivedNodeLabels n =
     (let p = nst_platform (nd_status n);
          out = [(LabelHostname, nd_name n)];
          out = (if pf_os p \<noteq> [] then goput LabelOS (pf_os p) out else out)
      in if pf_arch p \<noteq> [] then goput LabelArch (pf_arch p) out else out)"

text \<open>\<open>maps.Copy(dst, src)\<close>: every entry of \<open>src\<close>, overwriting.\<close>

definition gocopy :: "('k, 'v) gomap \<Rightarrow> ('k, 'v) gomap \<Rightarrow> ('k, 'v) gomap" where
  "gocopy dst src = fold (\<lambda>(k, v). goput k v) src dst"

definition SchedulingLabels :: "'q node \<Rightarrow> (string, string) gomap" where
  "SchedulingLabels n =
     (if nst_labels (nd_status n) = [] then om_labels (nd_meta n)
      else gocopy (gocopy [] (om_labels (nd_meta n))) (nst_labels (nd_status n)))"

definition SchedulingLabel :: "'q node \<Rightarrow> string \<Rightarrow> string option" where
  "SchedulingLabel n key =
     (case map_of (nst_labels (nd_status n)) key of
        Some v \<Rightarrow> Some v
      | None \<Rightarrow> map_of (om_labels (nd_meta n)) key)"

section \<open>Resource arithmetic\<close>

abbreviation zero_amounts :: "('q::zero) resource_amounts" where
  "zero_amounts \<equiv> \<lparr>ra_cpu = 0, ra_memory = 0\<rparr>"

definition ResourceAmounts_IsZero :: "('q::zero) resource_amounts \<Rightarrow> bool" where
  "ResourceAmounts_IsZero a \<longleftrightarrow> ra_cpu a = 0 \<and> ra_memory a = 0"

definition ResourceAmounts_Add ::
  "('q::plus) resource_amounts \<Rightarrow> 'q resource_amounts \<Rightarrow> 'q resource_amounts" where
  "ResourceAmounts_Add a b = \<lparr>ra_cpu = ra_cpu a + ra_cpu b, ra_memory = ra_memory a + ra_memory b\<rparr>"

definition overResource :: "('q::linordered_ab_group_add) \<Rightarrow> 'q \<Rightarrow> bool \<Rightarrow> bool" where
  "overResource requested capacity unconstrainedZero =
     (if capacity = 0 then \<not> unconstrainedZero \<and> requested \<noteq> 0 else capacity < requested)"

text \<open>
  \<open>Exceeds\<close> lists the resources that are over, by name; the rendered amounts of the message are
  not modelled.
\<close>

definition Exceeds ::
  "('q::linordered_ab_group_add) resource_amounts \<Rightarrow> 'q resource_amounts \<Rightarrow> bool \<Rightarrow> string list" where
  "Exceeds a capacity unconstrainedZero =
     (if overResource (ra_cpu a) (ra_cpu capacity) unconstrainedZero then [''cpu''] else []) @
     (if overResource (ra_memory a) (ra_memory capacity) unconstrainedZero then [''memory''] else [])"

definition EffectiveRequests :: "('q::zero) resource_requirements \<Rightarrow> 'q resource_amounts" where
  "EffectiveRequests r =
     \<lparr>ra_cpu = (if ra_cpu (rr_requests r) = 0 then ra_cpu (rr_limits r) else ra_cpu (rr_requests r)),
      ra_memory = (if ra_memory (rr_requests r) = 0 then ra_memory (rr_limits r)
                   else ra_memory (rr_requests r))\<rparr>"

abbreviation app_requests :: "('q::zero) application \<Rightarrow> 'q resource_amounts" where
  "app_requests a \<equiv> EffectiveRequests (as_resources (app_spec a))"

section \<open>Service (service.go)\<close>

record service_port =
  sp_name :: string
  sp_port :: int
  sp_target_name :: string
  sp_target_port :: int
  sp_protocol :: string

record service =
  svc_meta :: object_meta
  svc_cluster_ip :: string
  svc_ports :: "service_port list"

text \<open>
  \<open>int32(ap.Port)\<close> truncates an \<open>int\<close> to 32 bits.
\<close>

definition wrap32 :: "int \<Rightarrow> int" where
  "wrap32 x = (x + 2 ^ 31) mod 2 ^ 32 - 2 ^ 31"

definition TargetFor :: "service_port \<Rightarrow> 'q application option \<Rightarrow> int" where
  "TargetFor p app =
     (if sp_target_port p \<noteq> 0 then sp_target_port p
      else case (if sp_target_name p \<noteq> [] then app else None) of
             None \<Rightarrow> sp_port p
           | Some a \<Rightarrow>
               (case find (\<lambda>ap. pt_name ap = sp_target_name p) (as_ports (app_spec a)) of
                  None \<Rightarrow> sp_port p
                | Some ap \<Rightarrow> wrap32 (pt_port ap)))"

definition CatalogName :: "service \<Rightarrow> service_port \<Rightarrow> string" where
  "CatalogName s p =
     (if sp_name p = [] then om_name (svc_meta s) else om_name (svc_meta s) @ ''-'' @ sp_name p)"

section \<open>Facts the components use\<close>

lemma set_sorted_keys [simp]: "set (sorted_keys xs) = set xs"
  by (simp add: sorted_keys_def)

lemma sorted_sorted_keys: "sorted (sorted_keys xs)" "distinct (sorted_keys xs)"
  by (simp_all add: sorted_keys_def)

lemma map_of_gocopy: "map_of (gocopy dst src) = map_of dst ++ map_of (rev src)"
proof (induction src arbitrary: dst)
  case Nil
  then show ?case by (simp add: gocopy_def)
next
  case (Cons kv src)
  obtain k v where kv: "kv = (k, v)" by (cases kv)
  have "map_of (gocopy dst (kv # src)) = map_of (goput k v dst) ++ map_of (rev src)"
    using Cons.IH by (simp add: gocopy_def kv)
  then show ?case by (simp add: kv update_conv' fun_eq_iff map_add_def split: option.splits)
qed

text \<open>
  A map has each key once; reading one label is reading the merged map.
\<close>

lemma SchedulingLabels_lookup:
  assumes "distinct (map fst (om_labels (nd_meta n)))" "distinct (map fst (nst_labels (nd_status n)))"
  shows "map_of (SchedulingLabels n) k = SchedulingLabel n k"
proof -
  have rev: "map_of (rev m) = map_of m" if "distinct (map fst m)" for m :: "(string, string) gomap"
    using that by (intro map_of_eqI) (auto simp: rev_map[symmetric] map_of_eq_Some_iff)
  show ?thesis
    using rev[OF assms(1)] rev[OF assms(2)]
    by (auto simp: SchedulingLabels_def SchedulingLabel_def map_of_gocopy map_add_def split: option.splits)
qed

lemma ResourceAmounts_Add_simps [simp]:
  "ra_cpu (ResourceAmounts_Add a b) = ra_cpu a + ra_cpu b"
  "ra_memory (ResourceAmounts_Add a b) = ra_memory a + ra_memory b"
  by (simp_all add: ResourceAmounts_Add_def)

lemma ResourceAmounts_Add_assoc:
  "ResourceAmounts_Add (ResourceAmounts_Add a b) c =
   ResourceAmounts_Add a (ResourceAmounts_Add b (c :: ('q::ab_group_add) resource_amounts))"
  by (simp add: ResourceAmounts_Add_def add.assoc)

lemma ResourceAmounts_Add_commute:
  "ResourceAmounts_Add a b = ResourceAmounts_Add b (a :: ('q::ab_group_add) resource_amounts)"
  by (simp add: ResourceAmounts_Add_def add.commute)

lemma ResourceAmounts_Add_zero [simp]:
  "ResourceAmounts_Add zero_amounts a = (a :: ('q::ab_group_add) resource_amounts)"
  "ResourceAmounts_Add a zero_amounts = (a :: ('q::ab_group_add) resource_amounts)"
  by (simp_all add: ResourceAmounts_Add_def)

lemma Exceeds_Nil:
  "Exceeds a c u = [] \<longleftrightarrow>
     \<not> overResource (ra_cpu a) (ra_cpu c) u \<and> \<not> overResource (ra_memory a) (ra_memory c) u"
  by (simp add: Exceeds_def)

lemma overResource_mono: "overResource r c True \<Longrightarrow> overResource r c False"
  by (auto simp: overResource_def split: if_splits)

lemma Exceeds_strict_lenient: "Exceeds a c False = [] \<Longrightarrow> Exceeds a c True = []"
  using overResource_mono by (auto simp: Exceeds_Nil)

lemma GracePeriod_exact:
  assumes "lc_termination_grace_period_seconds l = Some s" "0 \<le> s" "s \<le> 9223372036"
  shows "GracePeriod l = s * 1000000000"
  using assms by (simp add: GracePeriod_def wrap64_id int64_def)

end
