(* ===== verification/SchedFramework.thy ===== *)
theory SchedFramework
  imports CoreTypes
begin

text \<open>
  The scheduling framework, \<^verbatim>\<open>controller/loops/scheduler/framework/framework.go\<close>: plugin statuses,
  the per-cycle scratch state, the node snapshot and the extension points a framework runs.

  A plugin is a record of the extension points it implements (a missing point is \<open>None\<close>, Go's
  failed interface assertion). A point that may write takes the scheduler's state \<open>'s\<close> and
  returns it; \<open>Less\<close>, \<open>Filter\<close> and \<open>Score\<close> read it only. The snapshot's two indexes share
  their node infos: \<open>byName\<close> is a view of \<open>ordered\<close>, and a write through a pointer it returns
  is a write at that position of \<open>ordered\<close>.
\<close>

section \<open>Status\<close>

datatype code = Success | Unschedulable | Error | Skip

record status =
  st_code :: code
  st_reason :: string
  st_err :: "string option"

text \<open>A nil \<open>*Status\<close> is \<open>None\<close>.\<close>

type_synonym status_ptr = "status option"

definition NewStatus :: "code \<Rightarrow> string \<Rightarrow> status_ptr" where
  "NewStatus c reason = Some \<lparr>st_code = c, st_reason = reason, st_err = None\<rparr>"

definition AsErrorStatus :: "string option \<Rightarrow> status_ptr" where
  "AsErrorStatus err =
     (case err of None \<Rightarrow> None
      | Some e \<Rightarrow> Some \<lparr>st_code = Error, st_reason = [], st_err = Some e\<rparr>)"

definition IsSuccess :: "status_ptr \<Rightarrow> bool" where
  "IsSuccess s = (case s of None \<Rightarrow> True | Some st \<Rightarrow> st_code st = Success)"

definition Status_Code :: "status_ptr \<Rightarrow> code" where
  "Status_Code s = (case s of None \<Rightarrow> Success | Some st \<Rightarrow> st_code st)"

definition Message :: "status_ptr \<Rightarrow> string" where
  "Message s = (case s of None \<Rightarrow> []
                | Some st \<Rightarrow> (case st_err st of Some e \<Rightarrow> e | None \<Rightarrow> st_reason st))"

definition Status_AsError :: "status_ptr \<Rightarrow> string option" where
  "Status_AsError s = (case s of None \<Rightarrow> None
                       | Some st \<Rightarrow> if st_code st \<noteq> Error then None else st_err st)"

section \<open>Cycle state\<close>

type_synonym 'v cycle_state = "(string, 'v) gomap"

definition NewCycleState :: "'v cycle_state" where
  "NewCycleState = []"

definition CycleState_Write :: "'v cycle_state \<Rightarrow> string \<Rightarrow> 'v \<Rightarrow> 'v cycle_state" where
  "CycleState_Write c key val = goput key val c"

definition CycleState_Read :: "'v cycle_state \<Rightarrow> string \<Rightarrow> 'v option" where
  "CycleState_Read c key = map_of c key"

section \<open>Node infos and the snapshot\<close>

record placed_app =
  pa_namespace :: string
  pa_name :: string
  pa_labels :: "(string, string) gomap"
  pa_anti_affinity :: "workload_affinity_term list"

record 'q node_info =
  ni_node :: "'q node"
  ni_requested :: "'q resource_amounts"
  ni_apps :: "placed_app list"

abbreviation ni_name :: "'q node_info \<Rightarrow> string" where
  "ni_name ni \<equiv> nd_name (ni_node ni)"

abbreviation ni_capacity :: "'q node_info \<Rightarrow> 'q resource_amounts" where
  "ni_capacity ni \<equiv> nst_capacity (nd_status (ni_node ni))"

definition AddApp :: "placed_app \<Rightarrow> 'q node_info \<Rightarrow> 'q node_info" where
  "AddApp a n = n\<lparr>ni_apps := ni_apps n @ [a]\<rparr>"

fun remove_app :: "string \<Rightarrow> string \<Rightarrow> placed_app list \<Rightarrow> placed_app list" where
  "remove_app ns name [] = []"
| "remove_app ns name (a # as) =
     (if pa_namespace a = ns \<and> pa_name a = name then as else a # remove_app ns name as)"

definition RemoveApp :: "string \<Rightarrow> string \<Rightarrow> 'q node_info \<Rightarrow> 'q node_info" where
  "RemoveApp ns name n = n\<lparr>ni_apps := remove_app ns name (ni_apps n)\<rparr>"

definition PlacedFromApp :: "'q application \<Rightarrow> placed_app" where
  "PlacedFromApp app =
     \<lparr>pa_namespace = app_namespace app, pa_name = app_name app, pa_labels = app_labels app,
      pa_anti_affinity =
        (case pl_affinity (as_placement (app_spec app)) of
           None \<Rightarrow> []
         | Some aff \<Rightarrow> (case aff_workload_anti aff of None \<Rightarrow> [] | Some wa \<Rightarrow> wa_required wa))\<rparr>"

definition NodeInfo_Reserve :: "('q::plus) resource_amounts \<Rightarrow> 'q node_info \<Rightarrow> 'q node_info" where
  "NodeInfo_Reserve r n =
     n\<lparr>ni_requested := \<lparr>ra_cpu = ra_cpu (ni_requested n) + ra_cpu r,
                        ra_memory = ra_memory (ni_requested n) + ra_memory r\<rparr>\<rparr>"

definition NodeInfo_Unreserve :: "('q::minus) resource_amounts \<Rightarrow> 'q node_info \<Rightarrow> 'q node_info" where
  "NodeInfo_Unreserve r n =
     n\<lparr>ni_requested := \<lparr>ra_cpu = ra_cpu (ni_requested n) - ra_cpu r,
                        ra_memory = ra_memory (ni_requested n) - ra_memory r\<rparr>\<rparr>"

record 'q snapshot =
  sn_ordered :: "'q node_info list"

text \<open>
  \<open>NewSnapshot\<close> sorts by node name. Node names are unique in the store, so the unstable sort of
  the source and the stable one here agree.
\<close>

definition NewSnapshot :: "'q node_info list \<Rightarrow> 'q snapshot" where
  "NewSnapshot infos = \<lparr>sn_ordered = sort_key ni_name infos\<rparr>"

definition Snapshot_List :: "'q snapshot \<Rightarrow> 'q node_info list" where
  "Snapshot_List s = sn_ordered s"

text \<open>Building \<open>byName\<close> in order, the last info of a name wins.\<close>

definition Snapshot_Get :: "'q snapshot \<Rightarrow> string \<Rightarrow> 'q node_info option" where
  "Snapshot_Get s name = find (\<lambda>ni. ni_name ni = name) (rev (sn_ordered s))"

definition Snapshot_Modify ::
  "string \<Rightarrow> ('q node_info \<Rightarrow> 'q node_info) \<Rightarrow> 'q snapshot \<Rightarrow> 'q snapshot" where
  "Snapshot_Modify name f s =
     s\<lparr>sn_ordered := rev (upd_first (\<lambda>ni. ni_name ni = name) f (rev (sn_ordered s)))\<rparr>"

definition Domain :: "'q snapshot \<Rightarrow> string \<Rightarrow> string \<Rightarrow> 'q node_info list" where
  "Domain s node topologyKey =
     (case Snapshot_Get s node of
        None \<Rightarrow> []
      | Some self \<Rightarrow>
          (case SchedulingLabel (ni_node self) topologyKey of
             None \<Rightarrow> [self]
           | Some want \<Rightarrow>
               self # filter (\<lambda>ni. ni_name ni \<noteq> node \<and>
                                    SchedulingLabel (ni_node ni) topologyKey = Some want)
                        (sn_ordered s)))"

section \<open>Plugins\<close>

type_synonym ('q, 's) node_step = "'q application \<Rightarrow> string \<Rightarrow> 's \<Rightarrow> status_ptr \<times> 's"

record ('q, 's) plugin =
  p_name :: string
  p_less :: "('q application \<Rightarrow> 'q application \<Rightarrow> bool) option"
  p_pre_filter :: "('q application \<Rightarrow> 's \<Rightarrow> status_ptr \<times> 's) option"
  p_filter :: "('q application \<Rightarrow> 'q node_info \<Rightarrow> 's \<Rightarrow> status_ptr) option"
  p_post_filter :: "('q application \<Rightarrow> (string, status_ptr) gomap \<Rightarrow> 's \<Rightarrow> (string \<times> status_ptr) \<times> 's) option"
  p_pre_score :: "('q application \<Rightarrow> 'q node_info list \<Rightarrow> 's \<Rightarrow> status_ptr \<times> 's) option"
  p_score :: "('q application \<Rightarrow> 'q node_info \<Rightarrow> 's \<Rightarrow> int \<times> status_ptr) option"
  p_reserve :: "(('q, 's) node_step \<times> ('q application \<Rightarrow> string \<Rightarrow> 's \<Rightarrow> 's)) option"
  p_permit :: "('q, 's) node_step option"
  p_pre_bind :: "('q, 's) node_step option"
  p_bind :: "('q, 's) node_step option"
  p_post_bind :: "('q application \<Rightarrow> string \<Rightarrow> 's \<Rightarrow> 's) option"

definition no_points :: "string \<Rightarrow> ('q, 's) plugin" where
  "no_points name =
     \<lparr>p_name = name, p_less = None, p_pre_filter = None, p_filter = None, p_post_filter = None,
      p_pre_score = None, p_score = None, p_reserve = None, p_permit = None, p_pre_bind = None,
      p_bind = None, p_post_bind = None\<rparr>"

text \<open>A registry maps a name to what its factory returns for the handle.\<close>

type_synonym ('q, 's) registry = "(string, string + ('q, 's) plugin) gomap"

definition Register ::
  "string \<Rightarrow> (string + ('q, 's) plugin) \<Rightarrow> ('q, 's) registry \<Rightarrow> ('q, 's) registry" where
  "Register name f r = goput name f r"

record profile =
  pr_plugins :: "string list"
  pr_score_weights :: "(string, int) gomap"

record ('q, 's) framework =
  fw_queue_sort :: "(string \<times> ('q application \<Rightarrow> 'q application \<Rightarrow> bool)) option"
  fw_pre_filter :: "('q application \<Rightarrow> 's \<Rightarrow> status_ptr \<times> 's) list"
  fw_filter :: "('q application \<Rightarrow> 'q node_info \<Rightarrow> 's \<Rightarrow> status_ptr) list"
  fw_post_filter :: "('q application \<Rightarrow> (string, status_ptr) gomap \<Rightarrow> 's \<Rightarrow> (string \<times> status_ptr) \<times> 's) list"
  fw_pre_score :: "('q application \<Rightarrow> 'q node_info list \<Rightarrow> 's \<Rightarrow> status_ptr \<times> 's) list"
  fw_score :: "(string \<times> ('q application \<Rightarrow> 'q node_info \<Rightarrow> 's \<Rightarrow> int \<times> status_ptr)) list"
  fw_reserve :: "(('q, 's) node_step \<times> ('q application \<Rightarrow> string \<Rightarrow> 's \<Rightarrow> 's)) list"
  fw_permit :: "('q, 's) node_step list"
  fw_pre_bind :: "('q, 's) node_step list"
  fw_bind :: "('q, 's) node_step list"
  fw_post_bind :: "('q application \<Rightarrow> string \<Rightarrow> 's \<Rightarrow> 's) list"
  fw_weights :: "(string, int) gomap"

definition empty_framework :: "('q, 's) framework" where
  "empty_framework =
     \<lparr>fw_queue_sort = None, fw_pre_filter = [], fw_filter = [], fw_post_filter = [],
      fw_pre_score = [], fw_score = [], fw_reserve = [], fw_permit = [], fw_pre_bind = [],
      fw_bind = [], fw_post_bind = [], fw_weights = []\<rparr>"

datatype new_error = UnknownPlugin string | InitPlugin string string | TwoQueueSorts string string

definition opt_append :: "'a list \<Rightarrow> 'a option \<Rightarrow> 'a list" where
  "opt_append xs x = (case x of None \<Rightarrow> xs | Some v \<Rightarrow> xs @ [v])"

text \<open>File one constructed plugin under every point it implements.\<close>

definition file_plugin ::
  "(string, int) gomap \<Rightarrow> string \<Rightarrow> ('q, 's) plugin \<Rightarrow> ('q, 's) framework \<Rightarrow> ('q, 's) framework" where
  "file_plugin ws name pl fw =
     fw\<lparr>fw_queue_sort := (case p_less pl of None \<Rightarrow> fw_queue_sort fw | Some l \<Rightarrow> Some (p_name pl, l)),
        fw_pre_filter := opt_append (fw_pre_filter fw) (p_pre_filter pl),
        fw_filter := opt_append (fw_filter fw) (p_filter pl),
        fw_post_filter := opt_append (fw_post_filter fw) (p_post_filter pl),
        fw_pre_score := opt_append (fw_pre_score fw) (p_pre_score pl),
        fw_score := opt_append (fw_score fw) (map_option (Pair (p_name pl)) (p_score pl)),
        fw_reserve := opt_append (fw_reserve fw) (p_reserve pl),
        fw_permit := opt_append (fw_permit fw) (p_permit pl),
        fw_pre_bind := opt_append (fw_pre_bind fw) (p_pre_bind pl),
        fw_bind := opt_append (fw_bind fw) (p_bind pl),
        fw_post_bind := opt_append (fw_post_bind fw) (p_post_bind pl),
        fw_weights := (case p_score pl of
                         None \<Rightarrow> fw_weights fw
                       | Some _ \<Rightarrow> goput name (goget 1 ws name) (fw_weights fw))\<rparr>"

definition New_step ::
  "('q, 's) registry \<Rightarrow> profile \<Rightarrow> string \<Rightarrow> ('q, 's) framework \<Rightarrow> (new_error, ('q, 's) framework) result" where
  "New_step r p name fw =
     (case map_of r name of
        None \<Rightarrow> Inl (UnknownPlugin name)
      | Some (Inl e) \<Rightarrow> Inl (InitPlugin name e)
      | Some (Inr pl) \<Rightarrow>
          (case (p_less pl, fw_queue_sort fw) of
             (Some _, Some (other, _)) \<Rightarrow> Inl (TwoQueueSorts other name)
           | _ \<Rightarrow> Inr (file_plugin (pr_score_weights p) name pl fw)))"

definition framework_New ::
  "('q, 's) registry \<Rightarrow> profile \<Rightarrow> (new_error, ('q, 's) framework) result" where
  "framework_New r p = rfold (New_step r p) (pr_plugins p) empty_framework"

section \<open>Running the points\<close>

text \<open>
  \<open>slices.SortStableFunc\<close>: an element goes before the first one it does not come after.
\<close>

fun insert_stable :: "('a \<Rightarrow> 'a \<Rightarrow> bool) \<Rightarrow> 'a \<Rightarrow> 'a list \<Rightarrow> 'a list" where
  "insert_stable lt x [] = [x]"
| "insert_stable lt x (y # ys) =
     (if lt y x then y # insert_stable lt x ys else x # y # ys)"

definition sort_stable :: "('a \<Rightarrow> 'a \<Rightarrow> bool) \<Rightarrow> 'a list \<Rightarrow> 'a list" where
  "sort_stable lt xs = foldr (insert_stable lt) xs []"

definition framework_Sort :: "('q, 's) framework \<Rightarrow> 'q application list \<Rightarrow> 'q application list" where
  "framework_Sort fw apps =
     (case fw_queue_sort fw of None \<Rightarrow> apps | Some (_, lt) \<Rightarrow> sort_stable lt apps)"

text \<open>The points that stop at the first plugin that does not succeed.\<close>

fun run_until_fail :: "('s \<Rightarrow> status_ptr \<times> 's) list \<Rightarrow> 's \<Rightarrow> status_ptr \<times> 's" where
  "run_until_fail [] s = (None, s)"
| "run_until_fail (p # ps) s =
     (let (st, s') = p s in if IsSuccess st then run_until_fail ps s' else (st, s'))"

definition RunPreFilter :: "('q, 's) framework \<Rightarrow> 'q application \<Rightarrow> 's \<Rightarrow> status_ptr \<times> 's" where
  "RunPreFilter fw app s = run_until_fail (map (\<lambda>p. p app) (fw_pre_filter fw)) s"

fun filter_loop ::
  "('q application \<Rightarrow> 'q node_info \<Rightarrow> 's \<Rightarrow> status_ptr) list \<Rightarrow> 'q application \<Rightarrow> 'q node_info \<Rightarrow> 's \<Rightarrow> status_ptr" where
  "filter_loop [] app node s = None"
| "filter_loop (p # ps) app node s =
     (let st = p app node s in if IsSuccess st then filter_loop ps app node s else st)"

definition RunFilter ::
  "('q, 's) framework \<Rightarrow> 'q application \<Rightarrow> 'q node_info \<Rightarrow> 's \<Rightarrow> status_ptr" where
  "RunFilter fw app node s = filter_loop (fw_filter fw) app node s"

fun post_filter_loop ::
  "('q application \<Rightarrow> (string, status_ptr) gomap \<Rightarrow> 's \<Rightarrow> (string \<times> status_ptr) \<times> 's) list \<Rightarrow>
   'q application \<Rightarrow> (string, status_ptr) gomap \<Rightarrow> 's \<Rightarrow> (string \<times> status_ptr) \<times> 's" where
  "post_filter_loop [] app filtered s =
     (([], NewStatus Unschedulable ''no PostFilter plugin could make room''), s)"
| "post_filter_loop (p # ps) app filtered s =
     (let ((node, st), s') = p app filtered s
      in if IsSuccess st then ((node, st), s') else post_filter_loop ps app filtered s')"

definition RunPostFilter ::
  "('q, 's) framework \<Rightarrow> 'q application \<Rightarrow> (string, status_ptr) gomap \<Rightarrow> 's \<Rightarrow> (string \<times> status_ptr) \<times> 's" where
  "RunPostFilter fw app filtered s = post_filter_loop (fw_post_filter fw) app filtered s"

definition RunPreScore ::
  "('q, 's) framework \<Rightarrow> 'q application \<Rightarrow> 'q node_info list \<Rightarrow> 's \<Rightarrow> status_ptr \<times> 's" where
  "RunPreScore fw app nodes s = run_until_fail (map (\<lambda>p. p app nodes) (fw_pre_score fw)) s"

text \<open>One plugin over one node: a failed score ends the run, a good one is weighted and added.\<close>

definition score_node ::
  "('q application \<Rightarrow> 'q node_info \<Rightarrow> 's \<Rightarrow> int \<times> status_ptr) \<Rightarrow> int \<Rightarrow> 'q application \<Rightarrow> 's \<Rightarrow>
   'q node_info \<Rightarrow> (string, int) gomap \<Rightarrow> (status_ptr, (string, int) gomap) result" where
  "score_node p w app s ni acc =
     (let (sc, st) = p app ni s
      in if IsSuccess st then Inr (goput (ni_name ni) (goget 0 acc (ni_name ni) + sc * w) acc)
         else Inl st)"

definition RunScore ::
  "('q, 's) framework \<Rightarrow> 'q application \<Rightarrow> 'q node_info list \<Rightarrow> 's \<Rightarrow> (status_ptr, (string, int) gomap) result" where
  "RunScore fw app nodes s =
     rfold (\<lambda>(name, p). rfold (score_node p (goget 0 (fw_weights fw) name) app s) nodes)
       (fw_score fw) (fold (\<lambda>ni. goput (ni_name ni) 0) nodes [])"

text \<open>The first failing \<open>Reserve\<close> unreserves the ones before it, in their order.\<close>

fun reserve_loop ::
  "('q application \<Rightarrow> string \<Rightarrow> 's \<Rightarrow> 's) list \<Rightarrow>
   (('q, 's) node_step \<times> ('q application \<Rightarrow> string \<Rightarrow> 's \<Rightarrow> 's)) list \<Rightarrow>
   'q application \<Rightarrow> string \<Rightarrow> 's \<Rightarrow> status_ptr \<times> 's" where
  "reserve_loop rs [] app node s = (None, s)"
| "reserve_loop rs ((r, u) # ps) app node s =
     (let (st, s') = r app node s
      in if IsSuccess st then reserve_loop (rs @ [u]) ps app node s'
         else (st, fold (\<lambda>u. u app node) rs s'))"

definition RunReserve :: "('q, 's) framework \<Rightarrow> ('q, 's) node_step" where
  "RunReserve fw app node s = reserve_loop [] (fw_reserve fw) app node s"

definition RunUnreserve :: "('q, 's) framework \<Rightarrow> 'q application \<Rightarrow> string \<Rightarrow> 's \<Rightarrow> 's" where
  "RunUnreserve fw app node s = fold (\<lambda>(r, u). u app node) (fw_reserve fw) s"

definition RunPermit :: "('q, 's) framework \<Rightarrow> ('q, 's) node_step" where
  "RunPermit fw app node s = run_until_fail (map (\<lambda>p. p app node) (fw_permit fw)) s"

definition RunPreBind :: "('q, 's) framework \<Rightarrow> ('q, 's) node_step" where
  "RunPreBind fw app node s = run_until_fail (map (\<lambda>p. p app node) (fw_pre_bind fw)) s"

fun bind_loop :: "('q, 's) node_step list \<Rightarrow> 'q application \<Rightarrow> string \<Rightarrow> 's \<Rightarrow> status_ptr \<times> 's" where
  "bind_loop [] app node s = (NewStatus Error ''all bind plugins skipped'', s)"
| "bind_loop (p # ps) app node s =
     (let (st, s') = p app node s
      in if Status_Code st = Skip then bind_loop ps app node s' else (st, s'))"

definition RunBind :: "('q, 's) framework \<Rightarrow> ('q, 's) node_step" where
  "RunBind fw app node s =
     (if fw_bind fw = [] then (NewStatus Error ''no bind plugin configured'', s)
      else bind_loop (fw_bind fw) app node s)"

definition RunPostBind :: "('q, 's) framework \<Rightarrow> 'q application \<Rightarrow> string \<Rightarrow> 's \<Rightarrow> 's" where
  "RunPostBind fw app node s = fold (\<lambda>p. p app node) (fw_post_bind fw) s"

section \<open>Facts about statuses and loops\<close>

lemma IsSuccess_simps [simp]:
  "IsSuccess None"
  "IsSuccess (NewStatus c m) \<longleftrightarrow> c = Success"
  "IsSuccess (AsErrorStatus e) \<longleftrightarrow> e = None"
  by (auto simp: IsSuccess_def NewStatus_def AsErrorStatus_def split: option.splits)

lemma Status_Code_simps [simp]:
  "Status_Code None = Success"
  "Status_Code (NewStatus c m) = c"
  "Status_Code (AsErrorStatus e) = (if e = None then Success else Error)"
  by (auto simp: Status_Code_def NewStatus_def AsErrorStatus_def split: option.splits)

text \<open>Every filter must pass.\<close>

lemma filter_loop_success:
  "IsSuccess (filter_loop ps app node s) \<longleftrightarrow> (\<forall>p \<in> set ps. IsSuccess (p app node s))"
  by (induction ps) (auto simp: Let_def)

lemma filter_loop_first_failure:
  assumes "\<not> IsSuccess (filter_loop ps app node s)"
  shows "\<exists>us p vs. ps = us @ p # vs \<and> (\<forall>u \<in> set us. IsSuccess (u app node s)) \<and>
           filter_loop ps app node s = p app node s \<and> \<not> IsSuccess (p app node s)"
  using assms
proof (induction ps)
  case Nil
  then show ?case by simp
next
  case (Cons q ps)
  show ?case
  proof (cases "IsSuccess (q app node s)")
    case True
    with Cons obtain us p vs where "ps = us @ p # vs" "\<forall>u \<in> set us. IsSuccess (u app node s)"
      "filter_loop ps app node s = p app node s" "\<not> IsSuccess (p app node s)"
      by (auto simp: Let_def)
    with True show ?thesis
      by (intro exI[of _ "q # us"] exI[of _ p] exI[of _ vs]) (auto simp: Let_def)
  next
    case False
    then show ?thesis by (intro exI[of _ "[]"]) (auto simp: Let_def)
  qed
qed

section \<open>Facts about the snapshot\<close>

lemma Snapshot_Get_name: "Snapshot_Get s n = Some ni \<Longrightarrow> ni_name ni = n"
  by (auto simp: Snapshot_Get_def find_Some_iff)

lemma Snapshot_Get_mem: "Snapshot_Get s n = Some ni \<Longrightarrow> ni \<in> set (sn_ordered s)"
  by (metis Snapshot_Get_def find_Some_iff nth_mem set_rev)

lemma Snapshot_Get_None: "Snapshot_Get s n = None \<longleftrightarrow> n \<notin> ni_name ` set (sn_ordered s)"
  by (auto simp: Snapshot_Get_def find_None_iff)

lemma Snapshot_Get_distinct:
  assumes "distinct (map ni_name (sn_ordered s))" "ni \<in> set (sn_ordered s)"
  shows "Snapshot_Get s (ni_name ni) = Some ni"
proof -
  obtain x where x: "Snapshot_Get s (ni_name ni) = Some x"
    using assms(2) by (cases "Snapshot_Get s (ni_name ni)") (auto simp: Snapshot_Get_None)
  then have "ni_name x = ni_name ni" "x \<in> set (sn_ordered s)"
    by (auto dest: Snapshot_Get_name Snapshot_Get_mem)
  then have "x = ni" using assms by (metis distinct_map inj_onD)
  then show ?thesis using x by simp
qed

lemma Snapshot_Modify_names:
  assumes "\<And>ni. ni_node (f ni) = ni_node ni"
  shows "map ni_node (sn_ordered (Snapshot_Modify n f s)) = map ni_node (sn_ordered s)"
  using assms by (simp add: Snapshot_Modify_def rev_map[symmetric] map_upd_first)

lemma Snapshot_Modify_mem:
  "ni \<in> set (sn_ordered (Snapshot_Modify n f s)) \<Longrightarrow>
   ni \<in> set (sn_ordered s) \<or> (\<exists>m \<in> set (sn_ordered s). ni_name m = n \<and> ni = f m)"
  by (auto simp: Snapshot_Modify_def dest!: set_upd_first_elem)

lemma Snapshot_Modify_undo:
  assumes "\<And>ni. ni_name (f ni) = ni_name ni" "\<And>ni. ni_name ni = n \<Longrightarrow> g (f ni) = ni"
  shows "Snapshot_Modify n g (Snapshot_Modify n f s) = s"
  using assms by (simp add: Snapshot_Modify_def upd_first_upd_first_id)

lemma Snapshot_Modify_undo_on:
  assumes "\<And>ni. ni_name (f ni) = ni_name ni" "\<forall>ni \<in> set (sn_ordered s). g (f ni) = ni"
  shows "Snapshot_Modify n g (Snapshot_Modify n f s) = s"
  using assms by (simp add: Snapshot_Modify_def upd_first_undo_on)

lemma Snapshot_Modify_commute:
  assumes "\<And>ni. ni_name (f ni) = ni_name ni" "\<And>ni. ni_name (g ni) = ni_name ni"
    and "\<And>ni. f (g ni) = g (f ni)"
  shows "Snapshot_Modify n f (Snapshot_Modify n g s) = Snapshot_Modify n g (Snapshot_Modify n f s)"
  using assms by (simp add: Snapshot_Modify_def upd_first_comp comp_def)

lemma Unreserve_Reserve [simp]:
  "NodeInfo_Unreserve r (NodeInfo_Reserve (r :: ('q::ab_group_add) resource_amounts) n) = n"
  by (simp add: NodeInfo_Unreserve_def NodeInfo_Reserve_def)

lemma remove_app_append:
  assumes "\<forall>a \<in> set as. \<not> (pa_namespace a = ns \<and> pa_name a = name)"
  shows "remove_app ns name (as @ bs) = as @ remove_app ns name bs"
  using assms by (induction as) auto

lemma RemoveApp_AddApp:
  assumes "\<forall>b \<in> set (ni_apps n). \<not> (pa_namespace b = pa_namespace a \<and> pa_name b = pa_name a)"
  shows "RemoveApp (pa_namespace a) (pa_name a) (AddApp a n) = n"
  using assms by (simp add: RemoveApp_def AddApp_def remove_app_append)

lemma ni_updates [simp]:
  "ni_node (AddApp a n) = ni_node n"
  "ni_node (RemoveApp ns nm n) = ni_node n"
  "ni_requested (AddApp a n) = ni_requested n"
  "ni_requested (RemoveApp ns nm n) = ni_requested n"
  "ni_apps (AddApp a n) = ni_apps n @ [a]"
  by (simp_all add: AddApp_def RemoveApp_def)

lemma ni_reserve_updates [simp]:
  "ni_node (NodeInfo_Reserve r n) = ni_node n"
  "ni_requested (NodeInfo_Reserve r n) = ResourceAmounts_Add (ni_requested n) r"
  "ni_apps (NodeInfo_Reserve r n) = ni_apps n"
  by (simp_all add: NodeInfo_Reserve_def ResourceAmounts_Add_def)

lemma ni_unreserve_updates [simp]:
  "ni_node (NodeInfo_Unreserve r n) = ni_node n"
  "ni_apps (NodeInfo_Unreserve r n) = ni_apps n"
  by (simp_all add: NodeInfo_Unreserve_def)

section \<open>The reserve contract\<close>

text \<open>
  What the scheduler relies on of a \<open>Reserve\<close> plugin: reserving succeeds, its effect on the part
  of the state the plugins share (\<open>view\<close>) is \<open>debit\<close>, and unreserving takes exactly that
  effect back. Two such plugins that touch different parts undo together although the framework
  unreserves them in the order it reserved them.
\<close>

locale reserve_plugin =
  fixes reserve :: "('q, 's) node_step"
    and unreserve :: "'q application \<Rightarrow> string \<Rightarrow> 's \<Rightarrow> 's"
    and view :: "'s \<Rightarrow> 'v"
    and debit :: "'q application \<Rightarrow> string \<Rightarrow> 'v \<Rightarrow> 'v"
    and credit :: "'q application \<Rightarrow> string \<Rightarrow> 'v \<Rightarrow> 'v"
    and fresh :: "'q application \<Rightarrow> 'v \<Rightarrow> bool"
  assumes reserve_ok: "IsSuccess (fst (reserve a n s))"
    and reserve_view: "view (snd (reserve a n s)) = debit a n (view s)"
    and unreserve_view: "view (unreserve a n s) = credit a n (view s)"
    and credit_debit: "fresh a v \<Longrightarrow> credit a n (debit a n v) = v"

locale reserve_pair =
  first: reserve_plugin r1 u1 view d1 c1 fresh + second: reserve_plugin r2 u2 view d2 c2 fresh
  for r1 :: "('q, 's) node_step" and u1 and view :: "'s \<Rightarrow> 'v" and d1 and c1 and fresh and r2 and u2 and d2 and c2 +
  assumes independent: "c1 a n (d2 a n v) = d2 a n (c1 a n v)"
begin

lemma reserve_both:
  "reserve_loop [] [(r1, u1), (r2, u2)] a n s = (st, s') \<Longrightarrow>
   IsSuccess st \<and> view s' = d2 a n (d1 a n (view s))"
  using first.reserve_ok[of a n s] first.reserve_view[of a n s] second.reserve_ok[of a n "snd (r1 a n s)"]
    second.reserve_view[of a n "snd (r1 a n s)"]
  by (auto simp: Let_def split: prod.splits if_splits)

lemma unreserve_both:
  assumes "fresh a v" "view s = d2 a n (d1 a n v)"
  shows "view (fold (\<lambda>(r, u). u a n) [(r1, u1), (r2, u2)] s) = v"
proof -
  have "view (u2 a n (u1 a n s)) = c2 a n (d2 a n (c1 a n (d1 a n v)))"
    by (simp add: first.unreserve_view second.unreserve_view assms(2) independent)
  then show ?thesis using assms(1) by (simp add: first.credit_debit second.credit_debit)
qed

end

end
