(* ===== verification/GoFloat.thy ===== *)
theory GoFloat
  imports Prelude Complex_Main "HOL-Library.Log_Nat"
begin

text \<open>
  The part of Go's \<open>float64\<close> the node score uses (IEEE 754 binary64, round to nearest, ties to
  even). A finite value is the rational it denotes; \<open>fl64\<close> rounds an exact rational result to
  the nearest binary64 value of 53 significant bits.

  The operands are converted \<open>int64\<close> values, their quotients, and products of those by 100, so a
  non-zero result lies between \<open>2 ^ -64\<close> and \<open>2 ^ 71\<close> in absolute value: neither overflow nor
  a subnormal arises, and the exponent range needs no bound here.
\<close>

section \<open>Rounding\<close>

definition round_half_even :: "rat \<Rightarrow> int" where
  "round_half_even x =
     (let f = \<lfloor>x\<rfloor>; d = x - of_int f
      in if d < 1/2 then f else if d > 1/2 then f + 1 else if even f then f else f + 1)"

text \<open>The exponent \<open>e\<close> with \<open>2 ^ e \<le> x < 2 ^ (e + 1)\<close>, for a positive \<open>x\<close>.\<close>

definition exponent2 :: "rat \<Rightarrow> int" where
  "exponent2 x =
     (let (a, b) = quotient_of x; n = bitlen a - bitlen b
      in if x < 2 powi n then n - 1 else n)"

definition fl_pos :: "rat \<Rightarrow> rat" where
  "fl_pos x = (let u = 2 powi (exponent2 x - 52) in of_int (round_half_even (x / u)) * u)"

definition fl64 :: "rat \<Rightarrow> rat" where
  "fl64 x = (if x = 0 then 0 else if 0 < x then fl_pos x else - fl_pos (- x))"

section \<open>Values and operations\<close>

datatype f64 = Fin rat | PInf | NInf | NaN

definition f64_of_int :: "int \<Rightarrow> f64" where
  "f64_of_int i = Fin (fl64 (of_int i))"

text \<open>Division by a converted integer: its zero is the positive zero.\<close>

definition f64_div :: "f64 \<Rightarrow> f64 \<Rightarrow> f64" where
  "f64_div x y =
     (case (x, y) of
        (Fin a, Fin b) \<Rightarrow>
          if b = 0 then (if a = 0 then NaN else if 0 < a then PInf else NInf) else Fin (fl64 (a / b))
      | _ \<Rightarrow> NaN)"

text \<open>A finite number minus \<open>x\<close>, and \<open>x\<close> times a positive finite number.\<close>

definition f64_from :: "rat \<Rightarrow> f64 \<Rightarrow> f64" where
  "f64_from a x = (case x of Fin b \<Rightarrow> Fin (fl64 (a - b)) | PInf \<Rightarrow> NInf | NInf \<Rightarrow> PInf | NaN \<Rightarrow> NaN)"

definition f64_scale :: "f64 \<Rightarrow> rat \<Rightarrow> f64" where
  "f64_scale x a = (case x of Fin b \<Rightarrow> Fin (fl64 (b * a)) | y \<Rightarrow> y)"

definition f64_gt :: "f64 \<Rightarrow> f64 \<Rightarrow> bool" where
  "f64_gt x y =
     (case (x, y) of
        (Fin a, Fin b) \<Rightarrow> a > b
      | (PInf, Fin _) \<Rightarrow> True | (PInf, NInf) \<Rightarrow> True | (Fin _, NInf) \<Rightarrow> True
      | _ \<Rightarrow> False)"

text \<open>
  Conversion to \<open>int64\<close> discards the fraction. What a value outside the range of \<open>int64\<close> (or
  not finite) converts to is left to the implementation by the language: it is the argument \<open>undef\<close>.
\<close>

definition trunc_rat :: "rat \<Rightarrow> int" where
  "trunc_rat x = (if 0 \<le> x then \<lfloor>x\<rfloor> else \<lceil>x\<rceil>)"

definition f64_to_int64 :: "int \<Rightarrow> f64 \<Rightarrow> int" where
  "f64_to_int64 undef x =
     (case x of Fin a \<Rightarrow> (if int64 (trunc_rat a) then trunc_rat a else undef) | _ \<Rightarrow> undef)"

section \<open>Rounding is monotone and exact on small integers\<close>

lemma round_half_even_near: "round_half_even x = \<lfloor>x\<rfloor> \<or> round_half_even x = \<lfloor>x\<rfloor> + 1"
  by (simp add: round_half_even_def Let_def)

lemma round_half_even_of_int [simp]: "round_half_even (of_int i) = i"
  by (simp add: round_half_even_def)

lemma round_half_even_mono:
  assumes "x \<le> y"
  shows "round_half_even x \<le> round_half_even y"
proof (cases "\<lfloor>x\<rfloor> = \<lfloor>y\<rfloor>")
  case True
  then show ?thesis using assms by (auto simp: round_half_even_def Let_def)
next
  case False
  then have "\<lfloor>x\<rfloor> + 1 \<le> \<lfloor>y\<rfloor>" using floor_mono[OF assms] by linarith
  then show ?thesis using round_half_even_near[of x] round_half_even_near[of y] by linarith
qed

lemma bitlen_pow_bounds:
  assumes "0 < (a :: int)"
  shows "2 powi (bitlen a - 1) \<le> (of_int a :: rat)" "(of_int a :: rat) < 2 powi bitlen a"
proof -
  have l: "0 \<le> bitlen a - 1" using assms bitlen_nonneg[of a] by (simp add: bitlen_def floorlog_def)
  have b: "2 ^ nat (bitlen a - 1) \<le> a" "a < 2 ^ nat (bitlen a)"
    using bitlen_bounds[OF assms] by auto
  have "(2::rat) ^ nat (bitlen a - 1) \<le> of_int a"
    using b(1) by (metis of_int_le_iff of_int_numeral of_int_power)
  moreover have "(of_int a :: rat) < 2 ^ nat (bitlen a)"
    using b(2) by (metis of_int_less_iff of_int_numeral of_int_power)
  ultimately show "2 powi (bitlen a - 1) \<le> (of_int a :: rat)" "(of_int a :: rat) < 2 powi bitlen a"
    using l by (simp_all add: power_int_def)
qed

lemma exponent2_bounds:
  assumes "0 < x"
  shows "2 powi exponent2 x \<le> x \<and> x < 2 powi (exponent2 x + 1)"
proof -
  obtain a b where q: "quotient_of x = (a, b)" by (cases "quotient_of x")
  have b0: "0 < b" using q by (rule quotient_of_denom_pos)
  have x: "x = of_int a / of_int b" using q by (rule quotient_of_div)
  have a0: "0 < a" using assms b0 x by (simp add: zero_less_divide_iff)
  note A = bitlen_pow_bounds[OF a0] and B = bitlen_pow_bounds[OF b0]
  define n where "n = bitlen a - bitlen b"
  have "x < 2 powi bitlen a / 2 powi (bitlen b - 1)"
    unfolding x using A(2) B(1) b0 a0 by (intro frac_less) auto
  then have up: "x < 2 powi (n + 1)" by (simp add: n_def power_int_diff power_int_add)
  have "2 powi (bitlen a - 1) / 2 powi bitlen b \<le> x"
    unfolding x using A(1) B(2) b0 a0 by (intro frac_le) auto
  then have lo: "2 powi (n - 1) \<le> x"
    by (simp add: n_def power_int_diff power_int_add field_simps)
  show ?thesis using up lo by (auto simp: exponent2_def q n_def[symmetric])
qed

lemma fl_pos_bounds:
  assumes "0 < x"
  shows "2 powi exponent2 x \<le> fl_pos x \<and> fl_pos x \<le> 2 powi (exponent2 x + 1)"
proof -
  define u :: rat where "u = 2 powi (exponent2 x - 52)"
  have u0: "0 < u" by (simp add: u_def)
  have e: "2 powi exponent2 x = 2 ^ 52 * u" "2 powi (exponent2 x + 1) = 2 ^ 53 * u"
    by (simp_all add: u_def power_int_diff power_int_add)
  have "of_int (2 ^ 52) \<le> x / u" "x / u \<le> of_int (2 ^ 53)"
    using exponent2_bounds[OF assms] u0 unfolding e by (simp_all add: field_simps)
  then have "2 ^ 52 \<le> round_half_even (x / u)" "round_half_even (x / u) \<le> 2 ^ 53"
    using round_half_even_mono round_half_even_of_int by metis+
  then have "(2 ^ 52 :: rat) \<le> of_int (round_half_even (x / u))"
    "of_int (round_half_even (x / u)) \<le> (2 ^ 53 :: rat)"
    by (metis of_int_le_iff of_int_numeral of_int_power)+
  then show ?thesis using u0 by (simp add: fl_pos_def Let_def u_def[symmetric] e)
qed

lemma exponent2_mono:
  assumes "0 < x" "x \<le> y"
  shows "exponent2 x \<le> exponent2 y"
proof (rule ccontr)
  assume "\<not> exponent2 x \<le> exponent2 y"
  then have "(2 :: rat) powi (exponent2 y + 1) \<le> 2 powi exponent2 x"
    by (intro power_int_increasing) auto
  then show False using exponent2_bounds[of x] exponent2_bounds[of y] assms by fastforce
qed

lemma fl_pos_mono:
  assumes "0 < x" "x \<le> y"
  shows "fl_pos x \<le> fl_pos y"
proof (cases "exponent2 x = exponent2 y")
  case True
  have "x / 2 powi (exponent2 y - 52) \<le> y / 2 powi (exponent2 y - 52)"
    using assms by (simp add: divide_right_mono)
  from round_half_even_mono[OF this] show ?thesis
    by (simp add: fl_pos_def Let_def True mult_right_mono)
next
  case False
  then have "exponent2 x + 1 \<le> exponent2 y" using exponent2_mono[OF assms] by simp
  then have "(2 :: rat) powi (exponent2 x + 1) \<le> 2 powi exponent2 y"
    by (intro power_int_increasing) auto
  then show ?thesis using fl_pos_bounds[of x] fl_pos_bounds[of y] assms by fastforce
qed

lemma fl_pos_positive: "0 < x \<Longrightarrow> 0 < fl_pos x"
  using fl_pos_bounds[of x] by (meson less_le_trans zero_less_numeral zero_less_power_int)

lemma fl64_mono:
  assumes "x \<le> y"
  shows "fl64 x \<le> fl64 y"
proof -
  consider "0 < x" | "x \<le> 0" "0 \<le> y" | "y < 0" using assms by linarith
  then show ?thesis
  proof cases
    case 1
    then show ?thesis using assms by (simp add: fl64_def fl_pos_mono)
  next
    case 2
    then show ?thesis using fl_pos_positive[of y] fl_pos_positive[of "- x"]
      by (auto simp: fl64_def)
  next
    case 3
    then show ?thesis using assms fl_pos_mono[of "- y" "- x"] by (simp add: fl64_def)
  qed
qed

lemma fl64_0 [simp]: "fl64 0 = 0"
  by (simp add: fl64_def)

lemma fl64_1 [simp]: "fl64 1 = 1"
  by code_simp

lemma fl64_100 [simp]: "fl64 100 = 100"
  by code_simp

lemma fl64_unit: "0 \<le> x \<Longrightarrow> x \<le> 1 \<Longrightarrow> 0 \<le> fl64 x \<and> fl64 x \<le> 1"
  using fl64_mono[of 0 x] fl64_mono[of x 1] by simp

lemma fl64_percent: "0 \<le> x \<Longrightarrow> x \<le> 100 \<Longrightarrow> 0 \<le> fl64 x \<and> fl64 x \<le> 100"
  using fl64_mono[of 0 x] fl64_mono[of x 100] by simp

lemma trunc_rat_range: "0 \<le> x \<Longrightarrow> x \<le> 100 \<Longrightarrow> 0 \<le> trunc_rat x \<and> trunc_rat x \<le> 100"
  by (simp add: trunc_rat_def floor_le_iff)

lemma fl64_of_int_pos: "0 < i \<Longrightarrow> 0 < fl64 (of_int i)"
  by (simp add: fl64_def fl_pos_positive)

end
