(* ===== verification/SchedPlugins.thy ===== *)
theory SchedPlugins
  imports SchedFramework GoFloat "HOL-Library.Product_Lexorder"
begin

text \<open>
  The built-in scheduler plugins, \<^verbatim>\<open>controller/loops/scheduler/plugins/*.go\<close>, and the
  \<open>framework.Handle\<close> they are given, which \<^verbatim>\<open>scheduler.go\<close> implements.

  The control plane the scheduler writes to (interface \<open>Cluster\<close>) is a record of operations over
  a world \<open>'w\<close>; the quantities' integer views (\<open>MilliValue\<close>, \<open>Value\<close> of the Kubernetes
  resource package) are two functions of the same record. Affinity weights are \<open>int32\<close>, so
  their sums and the products with \<open>MaxNodeScore\<close> stay inside \<open>int64\<close> for any list of fewer
  than \<open>2 ^ 24\<close> terms: they are computed in \<^typ>\<open>int\<close>.
\<close>

section \<open>The scheduler's state and its handle\<close>

record volume_state =
  vst_required :: string
  vst_nodeless :: "string list"

text \<open>What the plugins stash in the cycle state: a score map, or the volume constraint.\<close>

datatype cycle_value = CScores "(string, int) gomap" | CVolume volume_state

record ('q, 'w) sched =
  s_snap :: "'q snapshot"
  s_pvs :: "(string, 'q persistent_volume) gomap"
  s_cycle :: "cycle_value cycle_state"
  s_world :: 'w

record ('q, 'w) cluster =
  c_applications :: "'w \<Rightarrow> (string, 'q application list) result \<times> 'w"
  c_nodes :: "'w \<Rightarrow> (string, 'q node list) result \<times> 'w"
  c_volumes :: "'w \<Rightarrow> (string, 'q persistent_volume list) result \<times> 'w"
  c_assign :: "string \<Rightarrow> string \<Rightarrow> string \<Rightarrow> 'w \<Rightarrow> string option \<times> 'w"
  c_assign_volume :: "string \<Rightarrow> string \<Rightarrow> string \<Rightarrow> 'w \<Rightarrow> string option \<times> 'w"
  c_create_volume :: "string \<Rightarrow> string \<Rightarrow> 'q \<Rightarrow> 'w \<Rightarrow> string option \<times> 'w"
  c_update_app_status :: "'q application \<Rightarrow> 'w \<Rightarrow> string option \<times> 'w"
  c_now :: "'w \<Rightarrow> int"
  q_milli_value :: "'q \<Rightarrow> int"
  q_value :: "'q \<Rightarrow> int"
  f_undef :: int

definition zero_meta :: object_meta where
  "zero_meta =
     \<lparr>om_name = [], om_namespace = [], om_uid = [], om_resource_version = [], om_generation = 0,
      om_creation_timestamp = None, om_deletion_timestamp = None, om_labels = [],
      om_annotations = [], om_finalizers = [], om_owner_references = []\<rparr>"

definition zero_pv :: "('q::zero) persistent_volume" where
  "zero_pv = \<lparr>pv_meta = zero_meta, pv_size = 0, pv_node = [], pv_mode = [],
              pv_reclaim_policy = [], pv_shared = False\<rparr>"

definition Handle_PV :: "string \<Rightarrow> string \<Rightarrow> ('q, 'w) sched \<Rightarrow> 'q persistent_volume option" where
  "Handle_PV ns name s = map_of (s_pvs s) (WorkloadID ns name)"

definition CreatePV ::
  "('q::zero, 'w) cluster \<Rightarrow> string \<Rightarrow> string \<Rightarrow> 'q \<Rightarrow> ('q, 'w) sched \<Rightarrow> string option \<times> ('q, 'w) sched" where
  "CreatePV c ns name sz s =
     (let (err, w) = c_create_volume c ns name sz (s_world s); s = s\<lparr>s_world := w\<rparr>
      in case err of
           Some e \<Rightarrow> (Some e, s)
         | None \<Rightarrow> (None, s\<lparr>s_pvs := goput (WorkloadID ns name) (zero_pv\<lparr>pv_size := sz\<rparr>) (s_pvs s)\<rparr>))"

definition BindPV ::
  "('q::zero, 'w) cluster \<Rightarrow> string \<Rightarrow> string \<Rightarrow> string \<Rightarrow> ('q, 'w) sched \<Rightarrow> string option \<times> ('q, 'w) sched" where
  "BindPV c ns name node s =
     (let (err, w) = c_assign_volume c ns name node (s_world s); s = s\<lparr>s_world := w\<rparr>
      in case err of
           Some e \<Rightarrow> (Some e, s)
         | None \<Rightarrow>
             (let id = WorkloadID ns name; pv = goget zero_pv (s_pvs s) id
              in (None, s\<lparr>s_pvs := goput id (pv\<lparr>pv_node := node\<rparr>) (s_pvs s)\<rparr>)))"

definition BindApp ::
  "('q, 'w) cluster \<Rightarrow> string \<Rightarrow> string \<Rightarrow> string \<Rightarrow> ('q, 'w) sched \<Rightarrow> string option \<times> ('q, 'w) sched" where
  "BindApp c ns name node s =
     (let (err, w) = c_assign c ns name node (s_world s) in (err, s\<lparr>s_world := w\<rparr>))"

section \<open>PrioritySort\<close>

definition priorityOf :: "'q application \<Rightarrow> int" where
  "priorityOf a = (case pl_priority (as_placement (app_spec a)) of None \<Rightarrow> 0 | Some p \<Rightarrow> p)"

text \<open>An instant in nanoseconds since the Unix epoch; the zero time is the start of year 1.\<close>

definition instant :: "gotime \<Rightarrow> int" where
  "instant t = (case t of None \<Rightarrow> - 62135596800000000000 | Some n \<Rightarrow> n)"

definition PrioritySort_Less :: "'q application \<Rightarrow> 'q application \<Rightarrow> bool" where
  "PrioritySort_Less a b =
     (let pa = priorityOf a; pb = priorityOf b
      in if pa \<noteq> pb then pb < pa
         else let ta = instant (om_creation_timestamp (app_meta a));
                  tb = instant (om_creation_timestamp (app_meta b))
              in if ta \<noteq> tb then ta < tb else app_name a < app_name b)"

section \<open>NodeSchedulable, RuntimeClass, RoutedNetwork\<close>

text \<open>\<open>Time.Sub\<close> saturates at the ends of \<open>int64\<close>.\<close>

definition time_sub :: "int \<Rightarrow> int \<Rightarrow> int" where
  "time_sub t u = max (- (2 ^ 63)) (min (2 ^ 63 - 1) (t - u))"

definition NodeSchedulable_Filter ::
  "('q::zero, 'w) cluster \<Rightarrow> int \<Rightarrow> 'q application \<Rightarrow> 'q node_info \<Rightarrow> ('q, 'w) sched \<Rightarrow> status_ptr" where
  "NodeSchedulable_Filter c timeout app node s =
     (let n = ni_node node; cap = nst_capacity (nd_status n)
      in if nd_unschedulable n then NewStatus Unschedulable ''node is cordoned''
         else if \<not> nst_ready (nd_status n) then NewStatus Unschedulable ''node is not ready''
         else if ra_cpu cap = 0 \<or> ra_memory cap = 0
              then NewStatus Unschedulable ''node has not reported capacity''
         else case nst_heartbeat (nd_status n) of
                None \<Rightarrow> NewStatus Unschedulable ''node heartbeat is stale''
              | Some hb \<Rightarrow> if time_sub (c_now c (s_world s)) hb > timeout
                          then NewStatus Unschedulable ''node heartbeat is stale'' else None)"

definition RuntimeClass_Filter ::
  "'q application \<Rightarrow> 'q node_info \<Rightarrow> ('q, 'w) sched \<Rightarrow> status_ptr" where
  "RuntimeClass_Filter app node s =
     (let class = as_runtime_class_name (app_spec app)
      in if class = [] then None
         else if class \<in> set (nst_runtimes (nd_status (ni_node node))) then None
         else NewStatus Unschedulable (''node does not advertise runtime class '' @ class))"

definition RoutedNetwork_Filter ::
  "'q application \<Rightarrow> 'q node_info \<Rightarrow> ('q, 'w) sched \<Rightarrow> status_ptr" where
  "RoutedNetwork_Filter app node s =
     (if OnHostNetwork app then None
      else if nst_routed_network (nd_status (ni_node node)) then None
      else NewStatus Unschedulable
             ''node has no network helper, so it cannot give a workload a network of its own'')"

section \<open>NodeAffinity and the shared affinity helpers\<close>

abbreviation MaxNodeScore :: int where "MaxNodeScore \<equiv> 100"

definition nodeAffinity :: "'q application \<Rightarrow> node_affinity option" where
  "nodeAffinity app =
     (case pl_affinity (as_placement (app_spec app)) of None \<Rightarrow> None | Some a \<Rightarrow> aff_node a)"

definition subsetMatch :: "(string, string) gomap \<Rightarrow> (string, string) gomap \<Rightarrow> bool" where
  "subsetMatch selector have \<longleftrightarrow> (\<forall>(k, v) \<in> set selector. goget [] have k = v)"

definition requirementMatches :: "(string, string) gomap \<Rightarrow> node_selector_requirement \<Rightarrow> bool" where
  "requirementMatches have r =
     (let v = map_of have (nsr_key r); op = nsr_operator r
      in if op = ''In'' then (case v of None \<Rightarrow> False | Some x \<Rightarrow> x \<in> set (nsr_values r))
         else if op = ''NotIn'' then (case v of None \<Rightarrow> True | Some x \<Rightarrow> x \<notin> set (nsr_values r))
         else if op = ''Exists'' then v \<noteq> None
         else if op = ''DoesNotExist'' then v = None
         else False)"

definition nodeSelectorMatches :: "node_selector \<Rightarrow> (string, string) gomap \<Rightarrow> bool" where
  "nodeSelectorMatches sel have \<longleftrightarrow>
     subsetMatch (nsel_match_labels sel) have \<and> list_all (requirementMatches have) (nsel_match_expressions sel)"

definition normalize :: "(string, int) gomap \<Rightarrow> (string, int) gomap" where
  "normalize raw =
     (case map snd raw of
        [] \<Rightarrow> raw
      | v # vs \<Rightarrow>
          (let lo = fold min vs v; hi = fold max vs v
           in if hi = lo then [] else map (\<lambda>(k, v). (k, godiv ((v - lo) * MaxNodeScore) (hi - lo))) raw))"

definition scoreFromState :: "cycle_value cycle_state \<Rightarrow> string \<Rightarrow> string \<Rightarrow> int" where
  "scoreFromState st key node =
     (case CycleState_Read st key of Some (CScores m) \<Rightarrow> goget 0 m node | _ \<Rightarrow> 0)"

definition NodeAffinity_Filter ::
  "'q application \<Rightarrow> 'q node_info \<Rightarrow> ('q, 'w) sched \<Rightarrow> status_ptr" where
  "NodeAffinity_Filter app node s =
     (let labels = SchedulingLabels (ni_node node)
      in if \<not> subsetMatch (pl_node_selector (as_placement (app_spec app))) labels
         then NewStatus Unschedulable ''node labels do not match spec.nodeSelector''
         else case nodeAffinity app of
                None \<Rightarrow> None
              | Some na \<Rightarrow>
                  (case na_required na of
                     None \<Rightarrow> None
                   | Some req \<Rightarrow>
                       if \<not> nodeSelectorMatches req labels
                       then NewStatus Unschedulable ''node labels do not match required nodeAffinity''
                       else None))"

definition node_preference :: "node_affinity \<Rightarrow> 'q node_info \<Rightarrow> int" where
  "node_preference na ni =
     sum_list (map pnt_weight
       (filter (\<lambda>t. nodeSelectorMatches (pnt_preference t) (SchedulingLabels (ni_node ni))) (na_preferred na)))"

text \<open>The raw map: the last node of a name wins.\<close>

definition raw_scores :: "('q node_info \<Rightarrow> int) \<Rightarrow> 'q node_info list \<Rightarrow> (string, int) gomap" where
  "raw_scores f nodes = fold (\<lambda>ni. goput (ni_name ni) (f ni)) nodes []"

definition NodeAffinity_PreScore ::
  "'q application \<Rightarrow> 'q node_info list \<Rightarrow> ('q, 'w) sched \<Rightarrow> status_ptr \<times> ('q, 'w) sched" where
  "NodeAffinity_PreScore app nodes s =
     (case nodeAffinity app of
        None \<Rightarrow> (None, s)
      | Some na \<Rightarrow>
          if na_preferred na = [] then (None, s)
          else (None, s\<lparr>s_cycle := CycleState_Write (s_cycle s) ''NodeAffinity.scores''
                          (CScores (normalize (raw_scores (node_preference na) nodes)))\<rparr>))"

definition NodeAffinity_Score ::
  "'q application \<Rightarrow> 'q node_info \<Rightarrow> ('q, 'w) sched \<Rightarrow> int \<times> status_ptr" where
  "NodeAffinity_Score app node s =
     (scoreFromState (s_cycle s) ''NodeAffinity.scores'' (ni_name node), None)"

section \<open>WorkloadAffinity\<close>

definition domainHasMatch :: "'q snapshot \<Rightarrow> string \<Rightarrow> string \<Rightarrow> workload_affinity_term \<Rightarrow> bool" where
  "domainHasMatch snap node ns t \<longleftrightarrow>
     (\<exists>ni \<in> set (Domain snap node (wat_topology_key t)). \<exists>a \<in> set (ni_apps ni).
        pa_namespace a = ns \<and> subsetMatch (wat_label_selector t) (pa_labels a))"

definition nodeInDomain :: "'q snapshot \<Rightarrow> string \<Rightarrow> string \<Rightarrow> string \<Rightarrow> bool" where
  "nodeInDomain snap node domainOf topologyKey \<longleftrightarrow>
     (\<exists>ni \<in> set (Domain snap domainOf topologyKey). ni_name ni = node)"

definition workloadAff :: "'q application \<Rightarrow> workload_affinity option \<times> workload_affinity option" where
  "workloadAff app =
     (case pl_affinity (as_placement (app_spec app)) of
        None \<Rightarrow> (None, None)
      | Some a \<Rightarrow> (aff_workload a, aff_workload_anti a))"

definition opt_required :: "workload_affinity option \<Rightarrow> workload_affinity_term list" where
  "opt_required wa = (case wa of None \<Rightarrow> [] | Some w \<Rightarrow> wa_required w)"

definition opt_preferred :: "workload_affinity option \<Rightarrow> weighted_workload_affinity_term list" where
  "opt_preferred wa = (case wa of None \<Rightarrow> [] | Some w \<Rightarrow> wa_preferred w)"

text \<open>Would an app with these labels on \<open>node\<close> break the anti-affinity of an app placed already?\<close>

definition repelled :: "'q snapshot \<Rightarrow> string \<Rightarrow> (string, string) gomap \<Rightarrow> string \<Rightarrow> bool" where
  "repelled snap ns labels node \<longleftrightarrow>
     (\<exists>ni \<in> set (Snapshot_List snap). \<exists>placed \<in> set (ni_apps ni).
        pa_namespace placed = ns \<and>
        (\<exists>t \<in> set (pa_anti_affinity placed).
           subsetMatch (wat_label_selector t) labels \<and>
           nodeInDomain snap node (ni_name ni) (wat_topology_key t)))"

definition WorkloadAffinity_Filter ::
  "'q application \<Rightarrow> 'q node_info \<Rightarrow> ('q, 'w) sched \<Rightarrow> status_ptr" where
  "WorkloadAffinity_Filter app node s =
     (let snap = s_snap s; (aff, anti) = workloadAff app; n = ni_name node; ns = app_namespace app
      in if \<not> list_all (domainHasMatch snap n ns) (opt_required aff)
         then NewStatus Unschedulable ''no matching workload in the required affinity topology domain''
         else if list_ex (domainHasMatch snap n ns) (opt_required anti)
         then NewStatus Unschedulable ''a workload the app repels is already in the topology domain''
         else if repelled snap ns (app_labels app) n
         then NewStatus Unschedulable ''placement would violate an already-placed workload's anti-affinity''
         else None)"

definition matched_weight ::
  "'q snapshot \<Rightarrow> string \<Rightarrow> string \<Rightarrow> weighted_workload_affinity_term list \<Rightarrow> int" where
  "matched_weight snap node ns ws =
     sum_list (map wwat_weight (filter (\<lambda>w. domainHasMatch snap node ns (wwat_term w)) ws))"

definition WorkloadAffinity_PreScore ::
  "'q application \<Rightarrow> 'q node_info list \<Rightarrow> ('q, 'w) sched \<Rightarrow> status_ptr \<times> ('q, 'w) sched" where
  "WorkloadAffinity_PreScore app nodes s =
     (let (aff, anti) = workloadAff app; snap = s_snap s; ns = app_namespace app
      in if opt_preferred aff = [] \<and> opt_preferred anti = [] then (None, s)
         else (None, s\<lparr>s_cycle := CycleState_Write (s_cycle s) ''WorkloadAffinity.scores''
                         (CScores (normalize (raw_scores
                           (\<lambda>ni. matched_weight snap (ni_name ni) ns (opt_preferred aff) -
                                 matched_weight snap (ni_name ni) ns (opt_preferred anti)) nodes)))\<rparr>))"

definition WorkloadAffinity_Score ::
  "'q application \<Rightarrow> 'q node_info \<Rightarrow> ('q, 'w) sched \<Rightarrow> int \<times> status_ptr" where
  "WorkloadAffinity_Score app node s =
     (scoreFromState (s_cycle s) ''WorkloadAffinity.scores'' (ni_name node), None)"

definition WorkloadAffinity_Reserve :: "('q, ('q, 'w) sched) node_step" where
  "WorkloadAffinity_Reserve app node s =
     (None, s\<lparr>s_snap := Snapshot_Modify node (AddApp (PlacedFromApp app)) (s_snap s)\<rparr>)"

definition WorkloadAffinity_Unreserve ::
  "'q application \<Rightarrow> string \<Rightarrow> ('q, 'w) sched \<Rightarrow> ('q, 'w) sched" where
  "WorkloadAffinity_Unreserve app node s =
     s\<lparr>s_snap := Snapshot_Modify node (RemoveApp (app_namespace app) (app_name app)) (s_snap s)\<rparr>"

section \<open>NodeResourcesFit\<close>

definition NodeResourcesFit_Filter ::
  "('q::linordered_ab_group_add) application \<Rightarrow> 'q node_info \<Rightarrow> ('q, 'w) sched \<Rightarrow> status_ptr" where
  "NodeResourcesFit_Filter app node s =
     (let after = ResourceAmounts_Add (ni_requested node) (app_requests app)
      in if Exceeds after (ni_capacity node) False \<noteq> []
         then NewStatus Unschedulable ''insufficient cpu/memory'' else None)"

definition dominant ::
  "('q, 'w) cluster \<Rightarrow> 'q resource_amounts \<Rightarrow> 'q resource_amounts \<Rightarrow> f64" where
  "dominant c capacity used =
     (let cpu = f64_div (f64_of_int (q_milli_value c (ra_cpu used)))
                        (f64_of_int (q_milli_value c (ra_cpu capacity)));
          mem = f64_div (f64_of_int (q_value c (ra_memory used)))
                        (f64_of_int (q_value c (ra_memory capacity)))
      in if f64_gt cpu mem then cpu else mem)"

definition NodeResourcesFit_Score ::
  "('q::linordered_ab_group_add, 'w) cluster \<Rightarrow> bool \<Rightarrow> 'q application \<Rightarrow> 'q node_info \<Rightarrow>
   ('q, 'w) sched \<Rightarrow> int \<times> status_ptr" where
  "NodeResourcesFit_Score c binpack app node s =
     (let used = ResourceAmounts_Add (ni_requested node) (app_requests app);
          util = dominant c (ni_capacity node) used
      in if binpack then (f64_to_int64 (f_undef c) (f64_scale util 100), None)
         else (f64_to_int64 (f_undef c) (f64_scale (f64_from 1 util) 100), None))"

definition NodeResourcesFit_Reserve ::
  "('q::linordered_ab_group_add, ('q, 'w) sched) node_step" where
  "NodeResourcesFit_Reserve app node s =
     (None, s\<lparr>s_snap := Snapshot_Modify node (NodeInfo_Reserve (app_requests app)) (s_snap s)\<rparr>)"

definition NodeResourcesFit_Unreserve ::
  "('q::linordered_ab_group_add) application \<Rightarrow> string \<Rightarrow> ('q, 'w) sched \<Rightarrow> ('q, 'w) sched" where
  "NodeResourcesFit_Unreserve app node s =
     s\<lparr>s_snap := Snapshot_Modify node (NodeInfo_Unreserve (app_requests app)) (s_snap s)\<rparr>"

section \<open>VolumeBinding and DefaultBinder\<close>

text \<open>
  One mount of the \<open>PreFilter\<close> loop: a missing volume is created nodeless, a nodeless one is
  noted, a bound one constrains the node.
\<close>

fun volume_loop ::
  "('q::zero, 'w) cluster \<Rightarrow> 'q application \<Rightarrow> 'q volume_mount list \<Rightarrow> volume_state \<Rightarrow>
   ('q, 'w) sched \<Rightarrow> (status_ptr, volume_state) result \<times> ('q, 'w) sched" where
  "volume_loop c app [] vs s = (Inr vs, s)"
| "volume_loop c app (m # ms) vs s =
     (if \<not> IsPV m then volume_loop c app ms vs s
      else let name = PVName m (app_name app); ns = app_namespace app
           in case Handle_PV ns name s of
                None \<Rightarrow>
                  (case CreatePV c ns name (vs_size (vm_volume m)) s of
                     (Some e, s') \<Rightarrow> (Inl (AsErrorStatus (Some e)), s')
                   | (None, s') \<Rightarrow>
                       volume_loop c app ms (vs\<lparr>vst_nodeless := vst_nodeless vs @ [name]\<rparr>) s')
              | Some pv \<Rightarrow>
                  if pv_node pv = [] then
                    volume_loop c app ms (vs\<lparr>vst_nodeless := vst_nodeless vs @ [name]\<rparr>) s
                  else if vst_required vs \<noteq> [] \<and> vst_required vs \<noteq> pv_node pv then
                    (Inl (NewStatus Unschedulable ''mounted volumes are on conflicting nodes''), s)
                  else volume_loop c app ms (vs\<lparr>vst_required := pv_node pv\<rparr>) s)"

definition VolumeBinding_PreFilter ::
  "('q::zero, 'w) cluster \<Rightarrow> 'q application \<Rightarrow> ('q, 'w) sched \<Rightarrow> status_ptr \<times> ('q, 'w) sched" where
  "VolumeBinding_PreFilter c app s =
     (case volume_loop c app (as_volumes (app_spec app)) \<lparr>vst_required = [], vst_nodeless = []\<rparr> s of
        (Inl st, s') \<Rightarrow> (st, s')
      | (Inr vs, s') \<Rightarrow>
          (None, s'\<lparr>s_cycle := CycleState_Write (s_cycle s') ''VolumeBinding'' (CVolume vs)\<rparr>))"

definition volumeStateOf :: "cycle_value cycle_state \<Rightarrow> volume_state" where
  "volumeStateOf st =
     (case CycleState_Read st ''VolumeBinding'' of
        Some (CVolume vs) \<Rightarrow> vs
      | _ \<Rightarrow> \<lparr>vst_required = [], vst_nodeless = []\<rparr>)"

definition VolumeBinding_Filter ::
  "'q application \<Rightarrow> 'q node_info \<Rightarrow> ('q, 'w) sched \<Rightarrow> status_ptr" where
  "VolumeBinding_Filter app node s =
     (let vs = volumeStateOf (s_cycle s)
      in if vst_required vs \<noteq> [] \<and> vst_required vs \<noteq> ni_name node
         then NewStatus Unschedulable ''a mounted volume is backed on another node'' else None)"

fun bind_volumes ::
  "('q::zero, 'w) cluster \<Rightarrow> string \<Rightarrow> string \<Rightarrow> string list \<Rightarrow> ('q, 'w) sched \<Rightarrow> status_ptr \<times> ('q, 'w) sched" where
  "bind_volumes c ns node [] s = (None, s)"
| "bind_volumes c ns node (name # names) s =
     (case BindPV c ns name node s of
        (Some e, s') \<Rightarrow> (AsErrorStatus (Some e), s')
      | (None, s') \<Rightarrow> bind_volumes c ns node names s')"

definition VolumeBinding_PreBind :: "('q::zero, 'w) cluster \<Rightarrow> ('q, ('q, 'w) sched) node_step" where
  "VolumeBinding_PreBind c app node s =
     bind_volumes c (app_namespace app) node (vst_nodeless (volumeStateOf (s_cycle s))) s"

definition DefaultBinder_Bind :: "('q, 'w) cluster \<Rightarrow> ('q, ('q, 'w) sched) node_step" where
  "DefaultBinder_Bind c app node s =
     (let (err, s') = BindApp c (app_namespace app) (app_name app) node s in (AsErrorStatus err, s'))"

section \<open>The queue order\<close>

lemma insert_stable_key:
  assumes "\<And>x y. lt x y \<longleftrightarrow> f x < (f y :: 'k::linorder)"
  shows "insert_stable lt x ys = insort_key f x ys"
  using assms by (induction ys) auto

lemma sort_stable_key:
  assumes "\<And>x y. lt x y \<longleftrightarrow> f x < (f y :: 'k::linorder)"
  shows "sort_stable lt xs = sort_key f xs"
proof -
  have "insert_stable lt = insort_key f" using insert_stable_key[of lt f, OF assms] by (intro ext)
  then show ?thesis by (simp add: sort_stable_def sort_key_def)
qed

definition queue_key :: "'q application \<Rightarrow> int \<times> int \<times> string" where
  "queue_key a = (- priorityOf a, instant (om_creation_timestamp (app_meta a)), app_name a)"

lemma PrioritySort_Less_key: "PrioritySort_Less a b \<longleftrightarrow> queue_key a < queue_key b"
  by (auto simp: PrioritySort_Less_def queue_key_def Let_def)

section \<open>Scores\<close>

lemma fold_min_le: "fold min vs (v :: int) \<le> v \<and> (\<forall>x \<in> set vs. fold min vs v \<le> x)"
  unfolding Min.set_eq_fold[symmetric] by simp

lemma fold_max_ge: "(v :: int) \<le> fold max vs v \<and> (\<forall>x \<in> set vs. x \<le> fold max vs v)"
  unfolding Max.set_eq_fold[symmetric] by simp

lemma scaled_range:
  assumes "lo \<le> v" "v \<le> hi" "lo < (hi :: int)"
  shows "0 \<le> godiv ((v - lo) * 100) (hi - lo) \<and> godiv ((v - lo) * 100) (hi - lo) \<le> 100"
proof -
  define d where "d = hi - lo"
  have d: "0 < d" "0 \<le> (v - lo) * 100" "(v - lo) * 100 \<le> 100 * d" using assms by (auto simp: d_def)
  then have "(v - lo) * 100 div d \<le> 100 * d div d" by (intro zdiv_mono1) auto
  then have "(v - lo) * 100 div d \<le> 100" using d(1) by simp
  then show ?thesis using d by (simp add: godiv_nonneg pos_imp_zdiv_nonneg_iff d_def[symmetric])
qed

lemma normalize_cases:
  assumes "map_of (normalize raw) k = Some x"
  obtains v lo hi where "(k, v) \<in> set raw" "lo \<le> v" "v \<le> hi" "lo < hi"
    "x = godiv ((v - lo) * MaxNodeScore) (hi - lo)"
proof -
  obtain k0 v0 rest where raw: "raw = (k0, v0) # rest"
    using assms by (cases raw) (auto simp: normalize_def)
  define lo hi where "lo = fold min (map snd rest) v0" and "hi = fold max (map snd rest) v0"
  have b: "lo \<le> v \<and> v \<le> hi" if "(k', v) \<in> set raw" for k' v
    using that fold_min_le[of "map snd rest" v0] fold_max_ge[of v0 "map snd rest"]
    by (force simp: raw lo_def hi_def)
  have ne: "hi \<noteq> lo" and x: "(k, x) \<in> set (map (\<lambda>(k, v). (k, godiv ((v - lo) * 100) (hi - lo))) raw)"
    using assms by (auto simp: normalize_def raw lo_def hi_def Let_def split: if_splits dest: map_of_SomeD)
  from x obtain v where v: "(k, v) \<in> set raw" "x = godiv ((v - lo) * 100) (hi - lo)" by auto
  show ?thesis using that[of v lo hi] b[OF v(1)] v ne by auto
qed

lemma normalize_range: "0 \<le> goget 0 (normalize raw) k \<and> goget 0 (normalize raw) k \<le> MaxNodeScore"
proof (cases "map_of (normalize raw) k")
  case None
  then show ?thesis by (simp add: goget_def)
next
  case (Some x)
  then show ?thesis using scaled_range by (auto simp: goget_def elim!: normalize_cases)
qed

lemma f64_ratio:
  assumes "0 \<le> u" "u \<le> c" "0 < (c :: int)"
  shows "\<exists>r. f64_div (f64_of_int u) (f64_of_int c) = Fin r \<and> 0 \<le> r \<and> r \<le> 1"
proof -
  have c: "0 < fl64 (of_int c)" using assms(3) by (rule fl64_of_int_pos)
  have "0 \<le> fl64 (of_int u)" "fl64 (of_int u) \<le> fl64 (of_int c)"
    using fl64_mono[of 0 "of_int u"] fl64_mono[of "of_int u" "of_int c"] assms by auto
  then have "0 \<le> fl64 (of_int u) / fl64 (of_int c)" "fl64 (of_int u) / fl64 (of_int c) \<le> 1"
    using c by auto
  then show ?thesis using fl64_unit c by (auto simp: f64_div_def f64_of_int_def)
qed

lemma f64_percent:
  assumes "0 \<le> r" "r \<le> 1"
  shows "0 \<le> f64_to_int64 u (f64_scale (Fin r) 100) \<and> f64_to_int64 u (f64_scale (Fin r) 100) \<le> 100"
proof -
  have "0 \<le> fl64 (r * 100)" "fl64 (r * 100) \<le> 100" using fl64_percent[of "r * 100"] assms by auto
  then have t: "0 \<le> trunc_rat (fl64 (r * 100)) \<and> trunc_rat (fl64 (r * 100)) \<le> 100"
    by (rule trunc_rat_range)
  then have "int64 (trunc_rat (fl64 (r * 100)))" by (simp add: int64_def)
  with t show ?thesis by (simp add: f64_scale_def f64_to_int64_def)
qed

lemma dominant_range:
  assumes "0 \<le> q_milli_value c (ra_cpu used)" "q_milli_value c (ra_cpu used) \<le> q_milli_value c (ra_cpu cap)"
    "0 < q_milli_value c (ra_cpu cap)"
    "0 \<le> q_value c (ra_memory used)" "q_value c (ra_memory used) \<le> q_value c (ra_memory cap)"
    "0 < q_value c (ra_memory cap)"
  shows "\<exists>r. dominant c cap used = Fin r \<and> 0 \<le> r \<and> r \<le> 1"
  using f64_ratio[OF assms(1-3)] f64_ratio[OF assms(4-6)] by (auto simp: dominant_def Let_def)

lemma fit_bounds:
  assumes "IsSuccess (NodeResourcesFit_Filter app ni s)"
    and "ra_cpu (ni_capacity ni) \<noteq> 0" "ra_memory (ni_capacity ni) \<noteq> 0"
  shows "ra_cpu (ni_requested ni) + ra_cpu (app_requests app) \<le> ra_cpu (ni_capacity ni)"
    "ra_memory (ni_requested ni) + ra_memory (app_requests app) \<le> ra_memory (ni_capacity ni)"
  using assms by (auto simp: NodeResourcesFit_Filter_def Exceeds_Nil overResource_def Let_def split: if_splits)

section \<open>The reserve plugins keep the contract\<close>

abbreviation app_key :: "'q application \<Rightarrow> string \<times> string" where
  "app_key app \<equiv> (app_namespace app, app_name app)"

abbreviation pa_key :: "placed_app \<Rightarrow> string \<times> string" where
  "pa_key a \<equiv> (pa_namespace a, pa_name a)"

definition placed_keys :: "'q snapshot \<Rightarrow> (string \<times> string) set" where
  "placed_keys snap = (\<Union>ni \<in> set (sn_ordered snap). pa_key ` set (ni_apps ni))"

definition not_placed :: "'q application \<Rightarrow> 'q snapshot \<Rightarrow> bool" where
  "not_placed app snap \<longleftrightarrow> app_key app \<notin> placed_keys snap"

lemma PlacedFromApp_key [simp]:
  "pa_namespace (PlacedFromApp app) = app_namespace app" "pa_name (PlacedFromApp app) = app_name app"
  "pa_labels (PlacedFromApp app) = app_labels app"
  by (simp_all add: PlacedFromApp_def)

lemma not_placed_undo:
  assumes "not_placed app snap"
  shows "\<forall>ni \<in> set (sn_ordered snap). RemoveApp (app_namespace app) (app_name app) (AddApp (PlacedFromApp app) ni) = ni"
proof
  fix ni assume "ni \<in> set (sn_ordered snap)"
  then have "\<forall>b \<in> set (ni_apps ni). \<not> (pa_namespace b = pa_namespace (PlacedFromApp app) \<and> pa_name b = pa_name (PlacedFromApp app))"
    using assms by (force simp: not_placed_def placed_keys_def)
  from RemoveApp_AddApp[OF this]
  show "RemoveApp (app_namespace app) (app_name app) (AddApp (PlacedFromApp app) ni) = ni" by simp
qed

lemma add_remove_undo:
  "not_placed app snap \<Longrightarrow>
   Snapshot_Modify n (RemoveApp (app_namespace app) (app_name app))
     (Snapshot_Modify n (AddApp (PlacedFromApp app)) snap) = snap"
  by (rule Snapshot_Modify_undo_on) (simp_all add: not_placed_undo)

interpretation wa: reserve_plugin WorkloadAffinity_Reserve WorkloadAffinity_Unreserve s_snap
  "\<lambda>app n. Snapshot_Modify n (AddApp (PlacedFromApp app))"
  "\<lambda>app n. Snapshot_Modify n (RemoveApp (app_namespace app) (app_name app))" not_placed
  by unfold_locales
    (simp_all add: WorkloadAffinity_Reserve_def WorkloadAffinity_Unreserve_def add_remove_undo)

interpretation nrf: reserve_plugin NodeResourcesFit_Reserve NodeResourcesFit_Unreserve s_snap
  "\<lambda>app n. Snapshot_Modify n (NodeInfo_Reserve (app_requests app))"
  "\<lambda>app n. Snapshot_Modify n (NodeInfo_Unreserve (app_requests app))" not_placed
  by unfold_locales
    (simp_all add: NodeResourcesFit_Reserve_def NodeResourcesFit_Unreserve_def Snapshot_Modify_undo)

interpretation builtin_reserve: reserve_pair WorkloadAffinity_Reserve WorkloadAffinity_Unreserve s_snap
  "\<lambda>app n. Snapshot_Modify n (AddApp (PlacedFromApp app))"
  "\<lambda>app n. Snapshot_Modify n (RemoveApp (app_namespace app) (app_name app))" not_placed
  NodeResourcesFit_Reserve NodeResourcesFit_Unreserve
  "\<lambda>app n. Snapshot_Modify n (NodeInfo_Reserve (app_requests app))"
  "\<lambda>app n. Snapshot_Modify n (NodeInfo_Unreserve (app_requests app))"
  by unfold_locales
    (rule Snapshot_Modify_commute; simp add: RemoveApp_def NodeInfo_Reserve_def)

end
