(* ===== verification/Scheduler.thy ===== *)
theory Scheduler
  imports SchedPlugins
begin

text \<open>
  The scheduler, \<^verbatim>\<open>controller/loops/scheduler/scheduler.go\<close> and \<^verbatim>\<open>unschedulable.go\<close>: the
  built-in registry and profile, one scheduling pass, and the per-pass builders. Logging is left
  out. A cycle state lives for one application; it is the field \<open>s_cycle\<close>, emptied where the
  source allocates a new one.
\<close>

section \<open>Construction\<close>

record config =
  cfg_policy :: string
  cfg_resync :: int
  cfg_ready_timeout :: int

record ('q, 'w) scheduler =
  sd_cluster :: "('q, 'w) cluster"
  sd_policy :: string
  sd_resync :: int
  sd_ready_timeout :: int
  sd_fw :: "('q, ('q, 'w) sched) framework"

definition PrioritySort_plugin :: "('q, ('q, 'w) sched) plugin" where
  "PrioritySort_plugin = (no_points ''PrioritySort'')\<lparr>p_less := Some PrioritySort_Less\<rparr>"

definition NodeSchedulable_plugin :: "('q::zero, 'w) cluster \<Rightarrow> int \<Rightarrow> ('q, ('q, 'w) sched) plugin" where
  "NodeSchedulable_plugin c timeout =
     (no_points ''NodeSchedulable'')\<lparr>p_filter := Some (NodeSchedulable_Filter c timeout)\<rparr>"

definition RuntimeClass_plugin :: "('q, ('q, 'w) sched) plugin" where
  "RuntimeClass_plugin = (no_points ''RuntimeClass'')\<lparr>p_filter := Some RuntimeClass_Filter\<rparr>"

definition RoutedNetwork_plugin :: "('q, ('q, 'w) sched) plugin" where
  "RoutedNetwork_plugin = (no_points ''RoutedNetwork'')\<lparr>p_filter := Some RoutedNetwork_Filter\<rparr>"

definition NodeAffinity_plugin :: "('q, ('q, 'w) sched) plugin" where
  "NodeAffinity_plugin =
     (no_points ''NodeAffinity'')\<lparr>p_filter := Some NodeAffinity_Filter,
        p_pre_score := Some NodeAffinity_PreScore, p_score := Some NodeAffinity_Score\<rparr>"

definition WorkloadAffinity_plugin :: "('q, ('q, 'w) sched) plugin" where
  "WorkloadAffinity_plugin =
     (no_points ''WorkloadAffinity'')\<lparr>p_filter := Some WorkloadAffinity_Filter,
        p_pre_score := Some WorkloadAffinity_PreScore, p_score := Some WorkloadAffinity_Score,
        p_reserve := Some (WorkloadAffinity_Reserve, WorkloadAffinity_Unreserve)\<rparr>"

definition NodeResourcesFit_plugin ::
  "('q::linordered_ab_group_add, 'w) cluster \<Rightarrow> bool \<Rightarrow> ('q, ('q, 'w) sched) plugin" where
  "NodeResourcesFit_plugin c binpack =
     (no_points ''NodeResourcesFit'')\<lparr>p_filter := Some NodeResourcesFit_Filter,
        p_score := Some (NodeResourcesFit_Score c binpack),
        p_reserve := Some (NodeResourcesFit_Reserve, NodeResourcesFit_Unreserve)\<rparr>"

definition VolumeBinding_plugin :: "('q::zero, 'w) cluster \<Rightarrow> ('q, ('q, 'w) sched) plugin" where
  "VolumeBinding_plugin c =
     (no_points ''VolumeBinding'')\<lparr>p_pre_filter := Some (VolumeBinding_PreFilter c),
        p_filter := Some VolumeBinding_Filter, p_pre_bind := Some (VolumeBinding_PreBind c)\<rparr>"

definition DefaultBinder_plugin :: "('q, 'w) cluster \<Rightarrow> ('q, ('q, 'w) sched) plugin" where
  "DefaultBinder_plugin c = (no_points ''DefaultBinder'')\<lparr>p_bind := Some (DefaultBinder_Bind c)\<rparr>"

definition sched_registry ::
  "('q::linordered_ab_group_add, 'w) cluster \<Rightarrow> int \<Rightarrow> string \<Rightarrow> ('q, ('q, 'w) sched) registry" where
  "sched_registry c timeout policy =
     Register ''DefaultBinder'' (Inr (DefaultBinder_plugin c))
      (Register ''VolumeBinding'' (Inr (VolumeBinding_plugin c))
       (Register ''NodeResourcesFit'' (Inr (NodeResourcesFit_plugin c (policy = ''binpack'')))
        (Register ''WorkloadAffinity'' (Inr WorkloadAffinity_plugin)
         (Register ''NodeAffinity'' (Inr NodeAffinity_plugin)
          (Register ''RoutedNetwork'' (Inr RoutedNetwork_plugin)
           (Register ''RuntimeClass'' (Inr RuntimeClass_plugin)
            (Register ''NodeSchedulable'' (Inr (NodeSchedulable_plugin c timeout))
             (Register ''PrioritySort'' (Inr PrioritySort_plugin) []))))))))"

definition defaultProfile :: profile where
  "defaultProfile =
     \<lparr>pr_plugins = [''PrioritySort'', ''NodeSchedulable'', ''RuntimeClass'', ''RoutedNetwork'',
        ''NodeAffinity'', ''WorkloadAffinity'', ''NodeResourcesFit'', ''VolumeBinding'', ''DefaultBinder''],
      pr_score_weights = [(''NodeResourcesFit'', 1), (''NodeAffinity'', 1), (''WorkloadAffinity'', 1)]\<rparr>"

text \<open>A failed framework construction panics: \<open>Inl\<close>.\<close>

definition scheduler_New ::
  "('q::linordered_ab_group_add, 'w) cluster \<Rightarrow> config \<Rightarrow> (new_error, ('q, 'w) scheduler) result" where
  "scheduler_New c cfg =
     (let policy = (if cfg_policy cfg = [] then ''spread'' else cfg_policy cfg);
          resync = (if cfg_resync cfg \<le> 0 then 30000000000 else cfg_resync cfg);
          timeout = (if cfg_ready_timeout cfg \<le> 0 then 45000000000 else cfg_ready_timeout cfg)
      in rbind (framework_New (sched_registry c timeout policy) defaultProfile)
           (\<lambda>fw. Inr \<lparr>sd_cluster = c, sd_policy = policy, sd_resync = resync,
                      sd_ready_timeout = timeout, sd_fw = fw\<rparr>))"

section \<open>Reporting\<close>

definition unschedulable ::
  "('q, 'w) cluster \<Rightarrow> 'q application \<Rightarrow> string \<Rightarrow> ('q, 'w) sched \<Rightarrow> ('q, 'w) sched" where
  "unschedulable c app message s =
     (if ast_phase (app_status app) = AppPhasePending \<and> ast_message (app_status app) = message then s
      else let upd = app\<lparr>app_status := (app_status app)\<lparr>ast_phase := AppPhasePending, ast_message := message\<rparr>\<rparr>
           in s\<lparr>s_world := snd (c_update_app_status c upd (s_world s))\<rparr>)"

definition scheduled ::
  "('q, 'w) cluster \<Rightarrow> 'q application \<Rightarrow> ('q, 'w) sched \<Rightarrow> ('q, 'w) sched" where
  "scheduled c app s =
     (if ast_message (app_status app) = [] then s
      else let upd = app\<lparr>app_status := (app_status app)\<lparr>ast_message := []\<rparr>\<rparr>
           in s\<lparr>s_world := snd (c_update_app_status c upd (s_world s))\<rparr>)"

fun join :: "string \<Rightarrow> string list \<Rightarrow> string" where
  "join sep [] = []"
| "join sep [x] = x"
| "join sep (x # y # ys) = x @ sep @ join sep (y # ys)"

definition filter_reason :: "status_ptr \<Rightarrow> string" where
  "filter_reason st = (if st \<noteq> None \<and> Message st \<noteq> [] then Message st else ''filtered'')"

definition reason_counts :: "(string, status_ptr) gomap \<Rightarrow> (string, nat) gomap" where
  "reason_counts filtered =
     fold (\<lambda>(_, st) m. goput (filter_reason st) (goget 0 m (filter_reason st) + 1) m) filtered []"

definition noNodeFits :: "nat \<Rightarrow> (string, status_ptr) gomap \<Rightarrow> string" where
  "noNodeFits considered filtered =
     (if considered = 0 then ''no node is registered''
      else let counts = reason_counts filtered;
               reasons = sort_stable (\<lambda>(r, n) (r', n'). if n \<noteq> n' then n > n' else r < r') counts;
               parts = map (\<lambda>(r, n). show_nat n @ '' '' @ r) reasons
           in ''0/'' @ show_nat considered @ '' nodes are available: '' @ join '', '' parts)"

section \<open>One application\<close>

fun pick_loop :: "string \<Rightarrow> int \<Rightarrow> 'q node_info list \<Rightarrow> (string, int) gomap \<Rightarrow> string" where
  "pick_loop best bestScore [] scores = best"
| "pick_loop best bestScore (ni # nis) scores =
     (let sc = goget 0 scores (ni_name ni)
      in if best = [] \<or> bestScore < sc then pick_loop (ni_name ni) sc nis scores
         else pick_loop best bestScore nis scores)"

definition pickBest :: "'q node_info list \<Rightarrow> (string, int) gomap \<Rightarrow> string" where
  "pickBest feasible scores = pick_loop [] 0 feasible scores"

text \<open>From the filter verdicts to a node, or to the message of the failure.\<close>

definition choose_node ::
  "('q, ('q, 'w) sched) framework \<Rightarrow> 'q application \<Rightarrow> 'q node_info list \<Rightarrow> (string, status_ptr) gomap \<Rightarrow>
   ('q, 'w) sched \<Rightarrow> (string, string) result \<times> ('q, 'w) sched" where
  "choose_node fw app feasible filtered s =
     (if feasible = [] then
        (let ((nominated, st), s) = RunPostFilter fw app filtered s
         in if \<not> IsSuccess st
            then (Inl (noNodeFits (length (Snapshot_List (s_snap s))) filtered), s)
            else (Inr nominated, s))
      else
        (let (st, s) = RunPreScore fw app feasible s
         in if \<not> IsSuccess st then (Inl (''not schedulable: '' @ Message st), s)
            else case RunScore fw app feasible s of
                   Inl st \<Rightarrow> (Inl (''not schedulable: '' @ Message st), s)
                 | Inr scores \<Rightarrow> (Inr (pickBest feasible scores), s)))"

text \<open>
  From the node to the binding; \<open>True\<close> tells that the application was bound. A failure after
  \<open>Reserve\<close> rolls the reservation back.
\<close>

definition place_on ::
  "('q, ('q, 'w) sched) framework \<Rightarrow> ('q, 'w) cluster \<Rightarrow> 'q application \<Rightarrow> string \<Rightarrow>
   ('q, 'w) sched \<Rightarrow> bool \<times> ('q, 'w) sched" where
  "place_on fw c app node s =
     (let refused = (\<lambda>st s. (False, unschedulable c app (''not placed on '' @ node @ '': '' @ Message st) s));
          (st, s) = RunReserve fw app node s
      in if \<not> IsSuccess st then refused st s
         else let (st, s) = RunPermit fw app node s
              in if \<not> IsSuccess st then refused st (RunUnreserve fw app node s)
                 else let (st, s) = RunPreBind fw app node s
                      in if \<not> IsSuccess st then refused st (RunUnreserve fw app node s)
                         else let (st, s) = RunBind fw app node s
                              in if \<not> IsSuccess st then refused st (RunUnreserve fw app node s)
                                 else (True, scheduled c app (RunPostBind fw app node s)))"

definition feasible_nodes ::
  "('q, ('q, 'w) sched) framework \<Rightarrow> 'q application \<Rightarrow> ('q, 'w) sched \<Rightarrow> 'q node_info list" where
  "feasible_nodes fw app s =
     filter (\<lambda>ni. IsSuccess (RunFilter fw app ni s)) (Snapshot_List (s_snap s))"

definition filtered_nodes ::
  "('q, ('q, 'w) sched) framework \<Rightarrow> 'q application \<Rightarrow> ('q, 'w) sched \<Rightarrow> (string, status_ptr) gomap" where
  "filtered_nodes fw app s =
     fold (\<lambda>ni m. let st = RunFilter fw app ni s in if IsSuccess st then m else goput (ni_name ni) st m)
       (Snapshot_List (s_snap s)) []"

definition scheduleApp ::
  "('q, ('q, 'w) sched) framework \<Rightarrow> ('q, 'w) cluster \<Rightarrow> 'q application \<Rightarrow> ('q, 'w) sched \<Rightarrow> ('q, 'w) sched" where
  "scheduleApp fw c app s =
     (let (st, s) = RunPreFilter fw app (s\<lparr>s_cycle := NewCycleState\<rparr>)
      in if \<not> IsSuccess st then unschedulable c app (''not schedulable: '' @ Message st) s
         else case choose_node fw app (feasible_nodes fw app s) (filtered_nodes fw app s) s of
                (Inl msg, s) \<Rightarrow> unschedulable c app msg s
              | (Inr node, s) \<Rightarrow> snd (place_on fw c app node s))"

section \<open>One pass\<close>

definition pending :: "'q application list \<Rightarrow> 'q application list" where
  "pending apps = filter (\<lambda>a. app_node_name a = []) apps"

definition indexPVs :: "'q persistent_volume list \<Rightarrow> (string, 'q persistent_volume) gomap" where
  "indexPVs pvs = fold (\<lambda>pv. goput (PersistentVolume_ID pv) pv) pvs []"

definition occupies :: "'q application \<Rightarrow> bool" where
  "occupies a \<longleftrightarrow> \<not> (app_node_name a = [] \<or> Finished a)"

text \<open>One application of the \<open>buildSnapshot\<close> loop, over the maps \<open>alloc\<close> and \<open>placed\<close>.\<close>

fun tally ::
  "('q::linordered_ab_group_add) application \<Rightarrow>
   (string, 'q resource_amounts) gomap \<times> (string, placed_app list) gomap \<Rightarrow>
   (string, 'q resource_amounts) gomap \<times> (string, placed_app list) gomap" where
  "tally a (alloc, placed) =
     (if \<not> occupies a then (alloc, placed)
      else let n = app_node_name a
           in (goput n (ResourceAmounts_Add (goget zero_amounts alloc n) (app_requests a)) alloc,
               goput n (goget [] placed n @ [PlacedFromApp a]) placed))"

definition buildSnapshot ::
  "('q::linordered_ab_group_add) node list \<Rightarrow> 'q application list \<Rightarrow> 'q snapshot" where
  "buildSnapshot nodes apps =
     (let (alloc, placed) = fold tally apps ([], [])
      in NewSnapshot (map (\<lambda>n. \<lparr>ni_node = n, ni_requested = goget zero_amounts alloc (nd_name n),
                                 ni_apps = goget [] placed (nd_name n)\<rparr>) nodes))"

text \<open>The volume points of an application that has a node already.\<close>

definition coschedule ::
  "('q, ('q, 'w) sched) framework \<Rightarrow> 'q application \<Rightarrow> ('q, 'w) sched \<Rightarrow> ('q, 'w) sched" where
  "coschedule fw app s =
     (if app_node_name app = [] then s
      else let (st, s) = RunPreFilter fw app (s\<lparr>s_cycle := NewCycleState\<rparr>)
           in if \<not> IsSuccess st then s else snd (RunPreBind fw app (app_node_name app) s))"

definition scheduleOnce ::
  "('q::linordered_ab_group_add, 'w) scheduler \<Rightarrow> ('q, 'w) sched \<Rightarrow> ('q, 'w) sched" where
  "scheduleOnce sd s =
     (let c = sd_cluster sd; fw = sd_fw sd;
          (apps, w) = c_applications c (s_world s); s = s\<lparr>s_world := w\<rparr>
      in case apps of
           Inl _ \<Rightarrow> s
         | Inr apps \<Rightarrow>
             (let (nodes, w) = c_nodes c (s_world s); s = s\<lparr>s_world := w\<rparr>
              in case nodes of
                   Inl _ \<Rightarrow> s
                 | Inr nodes \<Rightarrow>
                     (let (pvs, w) = c_volumes c (s_world s); s = s\<lparr>s_world := w\<rparr>
                      in case pvs of
                           Inl _ \<Rightarrow> s
                         | Inr pvs \<Rightarrow>
                             (let s = s\<lparr>s_pvs := indexPVs pvs, s_snap := buildSnapshot nodes apps\<rparr>;
                                  s = fold (coschedule fw) apps s
                              in fold (scheduleApp fw c) (framework_Sort fw (pending apps)) s))))"

section \<open>The built-in framework\<close>

definition builtin_framework ::
  "('q::linordered_ab_group_add, 'w) cluster \<Rightarrow> int \<Rightarrow> string \<Rightarrow> ('q, ('q, 'w) sched) framework" where
  "builtin_framework c timeout policy =
     \<lparr>fw_queue_sort = Some (''PrioritySort'', PrioritySort_Less),
      fw_pre_filter = [VolumeBinding_PreFilter c],
      fw_filter = [NodeSchedulable_Filter c timeout, RuntimeClass_Filter, RoutedNetwork_Filter,
                   NodeAffinity_Filter, WorkloadAffinity_Filter, NodeResourcesFit_Filter, VolumeBinding_Filter],
      fw_post_filter = [],
      fw_pre_score = [NodeAffinity_PreScore, WorkloadAffinity_PreScore],
      fw_score = [(''NodeAffinity'', NodeAffinity_Score), (''WorkloadAffinity'', WorkloadAffinity_Score),
                  (''NodeResourcesFit'', NodeResourcesFit_Score c (policy = ''binpack''))],
      fw_reserve = [(WorkloadAffinity_Reserve, WorkloadAffinity_Unreserve),
                    (NodeResourcesFit_Reserve, NodeResourcesFit_Unreserve)],
      fw_permit = [], fw_pre_bind = [VolumeBinding_PreBind c], fw_bind = [DefaultBinder_Bind c],
      fw_post_bind = [],
      fw_weights = [(''NodeAffinity'', 1), (''WorkloadAffinity'', 1), (''NodeResourcesFit'', 1)]\<rparr>"

lemma framework_New_builtin:
  "framework_New (sched_registry c timeout policy) defaultProfile = Inr (builtin_framework c timeout policy)"
  by (simp add: framework_New_def defaultProfile_def sched_registry_def Register_def New_step_def
      file_plugin_def opt_append_def no_points_def empty_framework_def builtin_framework_def goget_def
      PrioritySort_plugin_def NodeSchedulable_plugin_def RuntimeClass_plugin_def RoutedNetwork_plugin_def
      NodeAffinity_plugin_def WorkloadAffinity_plugin_def NodeResourcesFit_plugin_def
      VolumeBinding_plugin_def DefaultBinder_plugin_def)

end
