(* ===== verification/SchedulePass.thy ===== *)
theory SchedulePass
  imports Scheduler
begin

text \<open>
  A scheduling pass over the built-in framework: which steps touch the snapshot, what a reservation
  does to it and that a failed binding takes it back, what the filters promise of a feasible node,
  and the invariants a whole pass keeps. An invariant that one admitted reservation keeps is one a
  pass keeps (locale \<open>pass_invariant\<close>); it is interpreted for the nodes' capacity and for the
  applications' anti-affinity.
\<close>

section \<open>Which steps leave the snapshot alone\<close>

lemma CreatePV_snap: "CreatePV c ns name sz s = (e, s') \<Longrightarrow> s_snap s' = s_snap s"
  by (auto simp: CreatePV_def Let_def split: prod.splits option.splits)

lemma BindPV_snap: "BindPV c ns name node s = (e, s') \<Longrightarrow> s_snap s' = s_snap s"
  by (auto simp: BindPV_def Let_def split: prod.splits option.splits)

lemma volume_loop_snap: "s_snap (snd (volume_loop c app ms vs s)) = s_snap s"
proof (induction ms arbitrary: vs s)
  case (Cons m ms)
  obtain e s' where create:
    "CreatePV c (app_namespace app) (PVName m (app_name app)) (vs_size (vm_volume m)) s = (e, s')"
    by fastforce
  show ?case
    using Cons.IH CreatePV_snap[OF create]
    by (cases e) (simp_all add: create Let_def split: option.split)
qed simp

lemma bind_volumes_snap: "bind_volumes c ns node names s = (st, s') \<Longrightarrow> s_snap s' = s_snap s"
proof (induction names arbitrary: s)
  case (Cons name names)
  obtain e s1 where bind: "BindPV c ns name node s = (e, s1)" by fastforce
  show ?case using Cons BindPV_snap[OF bind] by (cases e) (auto simp: bind)
qed simp

lemma VolumeBinding_snap:
  "VolumeBinding_PreFilter c app s = (st, s') \<Longrightarrow> s_snap s' = s_snap s"
  "VolumeBinding_PreBind c app node s = (st, s') \<Longrightarrow> s_snap s' = s_snap s"
  using volume_loop_snap[of c app "as_volumes (app_spec app)" "\<lparr>vst_required = [], vst_nodeless = []\<rparr>" s]
  by (auto simp: VolumeBinding_PreFilter_def VolumeBinding_PreBind_def
      split: prod.splits sum.splits dest: bind_volumes_snap)

lemma DefaultBinder_snap: "DefaultBinder_Bind c app node s = (st, s') \<Longrightarrow> s_snap s' = s_snap s"
  by (auto simp: DefaultBinder_Bind_def BindApp_def Let_def split: prod.splits)

lemma PreScore_snap:
  "NodeAffinity_PreScore app nodes s = (st, s') \<Longrightarrow> s_snap s' = s_snap s \<and> st = None"
  "WorkloadAffinity_PreScore app nodes s = (st, s') \<Longrightarrow> s_snap s' = s_snap s \<and> st = None"
  by (auto simp: NodeAffinity_PreScore_def WorkloadAffinity_PreScore_def Let_def
      split: prod.splits option.splits if_splits)

lemma report_snap [simp]:
  "s_snap (unschedulable c app msg s) = s_snap s" "s_snap (scheduled c app s) = s_snap s"
  by (simp_all add: unschedulable_def scheduled_def Let_def)

section \<open>The built-in points\<close>

lemma builtin_PreFilter_snap:
  "RunPreFilter (builtin_framework c t p) app s = (st, s') \<Longrightarrow> s_snap s' = s_snap s"
  by (auto simp: RunPreFilter_def builtin_framework_def Let_def split: prod.splits if_splits
      dest: VolumeBinding_snap)

lemma builtin_PreBind_snap:
  "RunPreBind (builtin_framework c t p) app node s = (st, s') \<Longrightarrow> s_snap s' = s_snap s"
  by (auto simp: RunPreBind_def builtin_framework_def Let_def split: prod.splits if_splits
      dest: VolumeBinding_snap)

lemma builtin_Permit: "RunPermit (builtin_framework c t p) app node s = (None, s)"
  by (simp add: RunPermit_def builtin_framework_def)

lemma builtin_Bind_snap:
  "RunBind (builtin_framework c t p) app node s = (st, s') \<Longrightarrow> s_snap s' = s_snap s"
  by (auto simp: RunBind_def builtin_framework_def Let_def split: prod.splits if_splits
      dest: DefaultBinder_snap)

lemma builtin_PostBind: "RunPostBind (builtin_framework c t p) app node s = s"
  by (simp add: RunPostBind_def builtin_framework_def)

lemma builtin_PreScore:
  "RunPreScore (builtin_framework c t p) app nodes s = (st, s') \<Longrightarrow> s_snap s' = s_snap s \<and> st = None"
  by (auto simp: RunPreScore_def builtin_framework_def Let_def split: prod.splits if_splits
      dest!: PreScore_snap)

text \<open>What a reservation does to the snapshot.\<close>

definition reserved :: "('q::linordered_ab_group_add) application \<Rightarrow> string \<Rightarrow> 'q snapshot \<Rightarrow> 'q snapshot" where
  "reserved app n snap =
     Snapshot_Modify n (NodeInfo_Reserve (app_requests app)) (Snapshot_Modify n (AddApp (PlacedFromApp app)) snap)"

lemma builtin_Reserve:
  "RunReserve (builtin_framework c t p) app n s = (st, s') \<Longrightarrow>
   IsSuccess st \<and> s_snap s' = reserved app n (s_snap s)"
  unfolding RunReserve_def reserved_def builtin_framework_def framework.simps
  by (rule builtin_reserve.reserve_both)

lemma builtin_Unreserve:
  "not_placed app snap \<Longrightarrow> s_snap s = reserved app n snap \<Longrightarrow>
   s_snap (RunUnreserve (builtin_framework c t p) app n s) = snap"
  unfolding RunUnreserve_def reserved_def builtin_framework_def framework.simps
  by (rule builtin_reserve.unreserve_both)

lemma place_on_snap:
  assumes "not_placed app (s_snap s)" "place_on (builtin_framework c t p) c' app n s = (bound, s')"
  shows "s_snap s' = (if bound then reserved app n (s_snap s) else s_snap s)"
proof -
  obtain st1 s1 where r: "RunReserve (builtin_framework c t p) app n s = (st1, s1)" by fastforce
  obtain st2 s2 where b: "RunPreBind (builtin_framework c t p) app n s1 = (st2, s2)" by fastforce
  obtain st3 s3 where d: "RunBind (builtin_framework c t p) app n s2 = (st3, s3)" by fastforce
  note snaps = builtin_Reserve[OF r] builtin_PreBind_snap[OF b] builtin_Bind_snap[OF d]
  have undo: "s_snap (RunUnreserve (builtin_framework c t p) app n s2) = s_snap s"
    "s_snap (RunUnreserve (builtin_framework c t p) app n s3) = s_snap s"
    using builtin_Unreserve[OF assms(1)] snaps by auto
  show ?thesis using assms(2) snaps(1,2) snaps(3) undo
    by (cases "IsSuccess st2"; cases "IsSuccess st3")
      (auto simp: place_on_def r b d builtin_Permit builtin_PostBind Let_def)
qed

section \<open>The chosen node\<close>

lemma pick_loop_mem: "pick_loop best sc nis scores \<in> insert best (ni_name ` set nis)"
  by (induction nis arbitrary: best sc) (auto simp: Let_def)

lemma pickBest_mem: "nis \<noteq> [] \<Longrightarrow> pickBest nis scores \<in> ni_name ` set nis"
  using pick_loop_mem[of "ni_name (hd nis)" "goget 0 scores (ni_name (hd nis))" "tl nis" scores]
  by (cases nis) (auto simp: pickBest_def Let_def)

lemma choose_node_feasible:
  assumes "choose_node (builtin_framework c t p) app nis filtered s = (r, s')"
  shows "s_snap s' = s_snap s \<and> (\<forall>n. r = Inr n \<longrightarrow> n \<in> ni_name ` set nis)"
proof (cases "nis = []")
  case True
  then show ?thesis using assms
    by (auto simp: choose_node_def RunPostFilter_def builtin_framework_def Let_def)
next
  case False
  obtain st s1 where ps: "RunPreScore (builtin_framework c t p) app nis s = (st, s1)" by fastforce
  show ?thesis using assms False builtin_PreScore[OF ps] pickBest_mem[OF False]
    by (auto simp: choose_node_def ps split: sum.splits)
qed

section \<open>What the filters promise\<close>

definition affinity_admits :: "'q snapshot \<Rightarrow> 'q application \<Rightarrow> string \<Rightarrow> bool" where
  "affinity_admits snap app n \<longleftrightarrow>
     (\<forall>t \<in> set (opt_required (fst (workloadAff app))). domainHasMatch snap n (app_namespace app) t) \<and>
     (\<forall>t \<in> set (opt_required (snd (workloadAff app))). \<not> domainHasMatch snap n (app_namespace app) t) \<and>
     \<not> repelled snap (app_namespace app) (app_labels app) n"

lemma WorkloadAffinity_Filter_success:
  "IsSuccess (WorkloadAffinity_Filter app ni s) \<longleftrightarrow> affinity_admits (s_snap s) app (ni_name ni)"
  by (auto simp: WorkloadAffinity_Filter_def affinity_admits_def list_all_iff list_ex_iff Let_def
      split: prod.splits)

definition room_for :: "('q::linordered_ab_group_add) application \<Rightarrow> 'q node_info \<Rightarrow> bool" where
  "room_for app ni \<longleftrightarrow>
     Exceeds (ResourceAmounts_Add (ni_requested ni) (app_requests app)) (ni_capacity ni) False = []"

lemma NodeResourcesFit_Filter_success:
  "IsSuccess (NodeResourcesFit_Filter app ni s) \<longleftrightarrow> room_for app ni"
  by (simp add: NodeResourcesFit_Filter_def room_for_def Let_def)

lemma builtin_Filter_success:
  "IsSuccess (RunFilter (builtin_framework c t p) app ni s) \<longleftrightarrow>
     IsSuccess (NodeSchedulable_Filter c t app ni s) \<and> IsSuccess (RuntimeClass_Filter app ni s) \<and>
     IsSuccess (RoutedNetwork_Filter app ni s) \<and> IsSuccess (NodeAffinity_Filter app ni s) \<and>
     affinity_admits (s_snap s) app (ni_name ni) \<and> room_for app ni \<and>
     IsSuccess (VolumeBinding_Filter app ni s)"
  unfolding RunFilter_def filter_loop_success
  by (simp add: builtin_framework_def WorkloadAffinity_Filter_success NodeResourcesFit_Filter_success)

section \<open>The snapshot along a pass\<close>

abbreviation node_names :: "'q snapshot \<Rightarrow> string list" where
  "node_names snap \<equiv> map ni_name (sn_ordered snap)"

lemma reserved_nodes: "map ni_node (sn_ordered (reserved app n snap)) = map ni_node (sn_ordered snap)"
  by (simp add: reserved_def Snapshot_Modify_names)

lemma reserved_names: "node_names (reserved app n snap) = node_names snap"
proof -
  have "map nd_name (map ni_node (sn_ordered (reserved app n snap))) = map nd_name (map ni_node (sn_ordered snap))"
    by (simp only: reserved_nodes)
  then show ?thesis by (simp add: comp_def)
qed

lemma reserved_alt:
  "reserved app n snap =
     Snapshot_Modify n (\<lambda>ni. NodeInfo_Reserve (app_requests app) (AddApp (PlacedFromApp app) ni)) snap"
  by (simp add: reserved_def Snapshot_Modify_def upd_first_comp comp_def)

lemma reserved_mem:
  assumes "ni \<in> set (sn_ordered (reserved app n snap))"
  obtains "ni \<in> set (sn_ordered snap)"
  | m where "m \<in> set (sn_ordered snap)" "ni_name m = n" "ni_node ni = ni_node m"
      "ni_requested ni = ResourceAmounts_Add (ni_requested m) (app_requests app)"
      "ni_apps ni = ni_apps m @ [PlacedFromApp app]"
  using Snapshot_Modify_mem[OF assms[unfolded reserved_alt]] by auto

lemma placed_keysI: "ni \<in> set (sn_ordered snap) \<Longrightarrow> a \<in> set (ni_apps ni) \<Longrightarrow> pa_key a \<in> placed_keys snap"
  unfolding placed_keys_def by blast

lemma placed_keysE:
  assumes "k \<in> placed_keys snap"
  obtains ni a where "ni \<in> set (sn_ordered snap)" "a \<in> set (ni_apps ni)" "k = pa_key a"
  using assms unfolding placed_keys_def by blast

lemma placed_keys_reserved: "placed_keys (reserved app n snap) \<subseteq> insert (app_key app) (placed_keys snap)"
proof
  fix k assume "k \<in> placed_keys (reserved app n snap)"
  then obtain ni a where k: "ni \<in> set (sn_ordered (reserved app n snap))" "a \<in> set (ni_apps ni)" "k = pa_key a"
    by (rule placed_keysE)
  from k(1) show "k \<in> insert (app_key app) (placed_keys snap)"
  proof (cases rule: reserved_mem)
    case 1
    then show ?thesis using k placed_keysI by blast
  next
    case (2 m)
    then show ?thesis using k placed_keysI[of m snap a] by auto
  qed
qed

lemma scheduleApp_snap:
  assumes "not_placed app (s_snap s)"
  shows "s_snap (scheduleApp (builtin_framework c t p) c' app s) = s_snap s \<or>
    (\<exists>ni \<in> set (sn_ordered (s_snap s)). affinity_admits (s_snap s) app (ni_name ni) \<and> room_for app ni \<and>
       s_snap (scheduleApp (builtin_framework c t p) c' app s) = reserved app (ni_name ni) (s_snap s))"
proof -
  let ?fw = "builtin_framework c t p"
  obtain st s1 where pf: "RunPreFilter ?fw app (s\<lparr>s_cycle := NewCycleState\<rparr>) = (st, s1)" by fastforce
  obtain r s2 where ch: "choose_node ?fw app (feasible_nodes ?fw app s1) (filtered_nodes ?fw app s1) s1 = (r, s2)"
    by fastforce
  have snap1: "s_snap s1 = s_snap s" using builtin_PreFilter_snap[OF pf] by simp
  have snap2: "s_snap s2 = s_snap s" using choose_node_feasible[OF ch] snap1 by simp
  show ?thesis
  proof (cases "IsSuccess st \<and> (\<exists>n. r = Inr n)")
    case False
    then show ?thesis using snap1 snap2
      by (cases r) (auto simp: scheduleApp_def pf ch Let_def)
  next
    case True
    then obtain n where n: "r = Inr n" and ok: "IsSuccess st" by auto
    from choose_node_feasible[OF ch] n obtain ni where
      ni: "ni \<in> set (feasible_nodes ?fw app s1)" "ni_name ni = n" by auto
    then have adm: "ni \<in> set (sn_ordered (s_snap s))" "affinity_admits (s_snap s) app (ni_name ni)" "room_for app ni"
      using snap1 by (auto simp: feasible_nodes_def Snapshot_List_def builtin_Filter_success)
    obtain b s3 where pl: "place_on ?fw c' app n s2 = (b, s3)" by fastforce
    have "s_snap s3 = (if b then reserved app n (s_snap s) else s_snap s)"
      using place_on_snap[OF _ pl] assms snap2 by simp
    moreover have "scheduleApp ?fw c' app s = s3"
      using ok n by (simp add: scheduleApp_def pf ch pl Let_def)
    ultimately have "s_snap (scheduleApp ?fw c' app s) =
      (if b then reserved app (ni_name ni) (s_snap s) else s_snap s)" by (simp add: ni(2))
    then show ?thesis using adm by (cases b) auto
  qed
qed

lemma scheduleApp_frame:
  assumes "not_placed app (s_snap s)"
  shows "node_names (s_snap (scheduleApp (builtin_framework c t p) c' app s)) = node_names (s_snap s)"
    "placed_keys (s_snap (scheduleApp (builtin_framework c t p) c' app s)) \<subseteq>
       insert (app_key app) (placed_keys (s_snap s))"
proof -
  consider "s_snap (scheduleApp (builtin_framework c t p) c' app s) = s_snap s"
    | n where "s_snap (scheduleApp (builtin_framework c t p) c' app s) = reserved app n (s_snap s)"
    using scheduleApp_snap[OF assms, of c t p c'] by blast
  note cases = this
  show "node_names (s_snap (scheduleApp (builtin_framework c t p) c' app s)) = node_names (s_snap s)"
    using cases by cases (simp_all only: reserved_names)
  show "placed_keys (s_snap (scheduleApp (builtin_framework c t p) c' app s)) \<subseteq>
       insert (app_key app) (placed_keys (s_snap s))"
    using cases by cases (simp_all only: placed_keys_reserved subset_insertI)
qed

lemma coschedule_snap: "s_snap (coschedule (builtin_framework c t p) app s) = s_snap s"
proof -
  obtain st s1 where pf: "RunPreFilter (builtin_framework c t p) app (s\<lparr>s_cycle := NewCycleState\<rparr>) = (st, s1)"
    by fastforce
  obtain st2 s2 where pb: "RunPreBind (builtin_framework c t p) app (app_node_name app) s1 = (st2, s2)"
    by fastforce
  show ?thesis using builtin_PreFilter_snap[OF pf] builtin_PreBind_snap[OF pb]
    by (simp add: coschedule_def pf pb Let_def)
qed

lemma coschedule_all_snap: "s_snap (fold (coschedule (builtin_framework c t p)) apps s) = s_snap s"
  by (induction apps arbitrary: s) (simp_all add: coschedule_snap)

locale pass_invariant =
  fixes I :: "('q::linordered_ab_group_add) snapshot \<Rightarrow> bool"
  assumes reserve_keeps:
    "distinct (node_names snap) \<Longrightarrow> I snap \<Longrightarrow> not_placed app snap \<Longrightarrow> ni \<in> set (sn_ordered snap) \<Longrightarrow>
     affinity_admits snap app (ni_name ni) \<Longrightarrow> room_for app ni \<Longrightarrow> I (reserved app (ni_name ni) snap)"
begin

lemma scheduleApp_keeps:
  assumes "distinct (node_names (s_snap s))" "I (s_snap s)" "not_placed app (s_snap s)"
  shows "I (s_snap (scheduleApp (builtin_framework c t p) c' app s))"
proof -
  consider "s_snap (scheduleApp (builtin_framework c t p) c' app s) = s_snap s"
    | ni where "ni \<in> set (sn_ordered (s_snap s))" "affinity_admits (s_snap s) app (ni_name ni)" "room_for app ni"
      "s_snap (scheduleApp (builtin_framework c t p) c' app s) = reserved app (ni_name ni) (s_snap s)"
    using scheduleApp_snap[OF assms(3), of c t p c'] by blast
  then show ?thesis
  proof cases
    case 1
    show ?thesis unfolding 1 by (rule assms(2))
  next
    case (2 ni)
    show ?thesis unfolding 2(4) by (rule reserve_keeps[OF assms 2(1-3)])
  qed
qed

lemma queue_keeps:
  assumes "distinct (node_names (s_snap s))" "I (s_snap s)" "distinct (map app_key pend)"
    "\<forall>app \<in> set pend. not_placed app (s_snap s)"
  shows "I (s_snap (fold (scheduleApp (builtin_framework c t p) c') pend s))"
  using assms
proof (induction pend arbitrary: s)
  case (Cons app pend)
  let ?s = "scheduleApp (builtin_framework c t p) c' app s"
  have np: "not_placed app (s_snap s)" using Cons.prems(4) by (rule bspec) (rule list.set_intros)
  note names = scheduleApp_frame(1)[OF np, of c t p c'] and keys = scheduleApp_frame(2)[OF np, of c t p c']
  have fresh: "not_placed a (s_snap ?s)" if "a \<in> set pend" for a
  proof -
    have "app_key a \<noteq> app_key app" using Cons.prems(3) that by (rule distinct_map_Cons_neq)
    moreover have "app_key a \<notin> placed_keys (s_snap s)"
      using Cons.prems(4) that unfolding not_placed_def by (metis list.set_intros(2))
    ultimately show ?thesis using keys unfolding not_placed_def by blast
  qed
  have "I (s_snap (fold (scheduleApp (builtin_framework c t p) c') pend ?s))"
  proof (rule Cons.IH)
    show "distinct (node_names (s_snap ?s))" using Cons.prems(1) by (simp only: names)
    show "I (s_snap ?s)" using Cons.prems(1,2) np by (rule scheduleApp_keeps)
    show "distinct (map app_key pend)" using Cons.prems(3) by (rule distinct_map_ConsD)
  qed (use fresh in blast)
  then show ?case by simp
qed simp

end

section \<open>No placement overcommits a node\<close>

definition node_fits :: "('q::linordered_ab_group_add) node_info \<Rightarrow> bool" where
  "node_fits ni \<longleftrightarrow> Exceeds (ni_requested ni) (ni_capacity ni) False = []"

definition within_capacity :: "('q::linordered_ab_group_add) snapshot \<Rightarrow> 'q snapshot \<Rightarrow> bool" where
  "within_capacity base snap \<longleftrightarrow>
     (\<forall>ni \<in> set (sn_ordered snap). node_fits ni \<or>
        (\<exists>m \<in> set (sn_ordered base). ni_node ni = ni_node m \<and> ni_requested ni = ni_requested m))"

lemma same_node_info:
  assumes "distinct (node_names snap)" "m \<in> set (sn_ordered snap)" "ni \<in> set (sn_ordered snap)"
    "ni_name m = ni_name ni"
  shows "m = ni"
  using assms by (metis distinct_map inj_onD)

interpretation capacity: pass_invariant "within_capacity base" for base
proof
  fix snap :: "'a snapshot" and app ni
  assume d: "distinct (node_names snap)" and I: "within_capacity base snap"
    and ni: "ni \<in> set (sn_ordered snap)" and room: "room_for app ni"
  show "within_capacity base (reserved app (ni_name ni) snap)"
    unfolding within_capacity_def
  proof
    fix x assume "x \<in> set (sn_ordered (reserved app (ni_name ni) snap))"
    then show "node_fits x \<or>
        (\<exists>m \<in> set (sn_ordered base). ni_node x = ni_node m \<and> ni_requested x = ni_requested m)"
    proof (cases rule: reserved_mem)
      case 1
      then show ?thesis using I by (simp add: within_capacity_def)
    next
      case (2 m)
      then have "m = ni" using same_node_info d ni by blast
      then show ?thesis using 2 room by (simp add: node_fits_def room_for_def)
    qed
  qed
qed

section \<open>No placement breaks an anti-affinity\<close>

definition repels :: "'q snapshot \<Rightarrow> placed_app \<Rightarrow> string \<Rightarrow> placed_app \<Rightarrow> string \<Rightarrow> bool" where
  "repels snap a n b m \<longleftrightarrow>
     pa_namespace a = pa_namespace b \<and>
     (\<exists>t \<in> set (pa_anti_affinity a). subsetMatch (wat_label_selector t) (pa_labels b) \<and>
        nodeInDomain snap m n (wat_topology_key t))"

definition anti_affinity_ok :: "'q snapshot \<Rightarrow> bool" where
  "anti_affinity_ok snap \<longleftrightarrow>
     (\<forall>ni \<in> set (sn_ordered snap). \<forall>nj \<in> set (sn_ordered snap).
        \<forall>a \<in> set (ni_apps ni). \<forall>b \<in> set (ni_apps nj).
          pa_key a \<noteq> pa_key b \<longrightarrow> \<not> repels snap a (ni_name ni) b (ni_name nj))"

text \<open>The topology domains depend on the nodes only.\<close>

definition domain_nodes :: "'q node list \<Rightarrow> string \<Rightarrow> string \<Rightarrow> 'q node list" where
  "domain_nodes nodes node key =
     (case find (\<lambda>n. nd_name n = node) (rev nodes) of
        None \<Rightarrow> []
      | Some self \<Rightarrow>
          (case SchedulingLabel self key of
             None \<Rightarrow> [self]
           | Some want \<Rightarrow> self # filter (\<lambda>n. nd_name n \<noteq> node \<and> SchedulingLabel n key = Some want) nodes))"

lemma map_Domain: "map ni_node (Domain snap n key) = domain_nodes (map ni_node (sn_ordered snap)) n key"
  by (auto simp: Domain_def domain_nodes_def Snapshot_Get_def rev_map find_map comp_def filter_map
      split: option.splits)

lemma nodeInDomain_nodes:
  "nodeInDomain snap m n key \<longleftrightarrow> m \<in> nd_name ` set (domain_nodes (map ni_node (sn_ordered snap)) n key)"
proof -
  have "nd_name ` set (map ni_node (Domain snap n key)) = ni_name ` set (Domain snap n key)"
    by (simp add: image_image)
  then show ?thesis unfolding map_Domain nodeInDomain_def by (metis (mono_tags) image_iff)
qed

lemma repels_reserved: "repels (reserved app n snap) = repels snap"
  by (simp add: fun_eq_iff repels_def nodeInDomain_nodes reserved_nodes)

lemma Domain_mem: "d \<in> set (Domain snap n key) \<Longrightarrow> d \<in> set (sn_ordered snap)"
  by (auto simp: Domain_def split: option.splits dest: Snapshot_Get_mem[OF sym])

lemma PlacedFromApp_anti [simp]:
  "pa_anti_affinity (PlacedFromApp app) = opt_required (snd (workloadAff app))"
  by (simp add: PlacedFromApp_def opt_required_def workloadAff_def split: option.split)

lemma reserved_app_mem:
  assumes "ni \<in> set (sn_ordered (reserved app n snap))" "a \<in> set (ni_apps ni)"
  shows "(\<exists>m \<in> set (sn_ordered snap). ni_name m = ni_name ni \<and> a \<in> set (ni_apps m)) \<or>
    a = PlacedFromApp app \<and> ni_name ni = n"
  using assms(1)
proof (cases rule: reserved_mem)
  case 1
  then show ?thesis using assms(2) by blast
next
  case (2 m)
  then show ?thesis using assms(2) by auto
qed

lemma admitted_no_repulsion:
  assumes "distinct (node_names snap)" "affinity_admits snap app n"
    "nj \<in> set (sn_ordered snap)" "b \<in> set (ni_apps nj)"
  shows "\<not> repels snap (PlacedFromApp app) n b (ni_name nj)" "\<not> repels snap b (ni_name nj) (PlacedFromApp app) n"
proof -
  show "\<not> repels snap (PlacedFromApp app) n b (ni_name nj)"
  proof
    assume "repels snap (PlacedFromApp app) n b (ni_name nj)"
    then obtain t d where t: "t \<in> set (opt_required (snd (workloadAff app)))" "pa_namespace b = app_namespace app"
      "subsetMatch (wat_label_selector t) (pa_labels b)"
      and d: "d \<in> set (Domain snap n (wat_topology_key t))" "ni_name d = ni_name nj"
      by (auto simp: repels_def nodeInDomain_def)
    have "d = nj" using same_node_info[OF assms(1) Domain_mem[OF d(1)] assms(3) d(2)] .
    then have "domainHasMatch snap n (app_namespace app) t" using t d assms(4) by (auto simp: domainHasMatch_def)
    then show False using t(1) assms(2) by (simp add: affinity_admits_def)
  qed
  show "\<not> repels snap b (ni_name nj) (PlacedFromApp app) n"
    using assms(2-4) by (auto simp: affinity_admits_def repelled_def repels_def Snapshot_List_def)
qed

interpretation anti_affinity: pass_invariant anti_affinity_ok
proof
  fix snap :: "'a snapshot" and app ni
  assume d: "distinct (node_names snap)" and I: "anti_affinity_ok snap"
    and adm: "affinity_admits snap app (ni_name ni)"
  let ?n = "ni_name ni" and ?x = "PlacedFromApp app"
  show "anti_affinity_ok (reserved app ?n snap)"
    unfolding anti_affinity_ok_def repels_reserved
  proof (intro ballI impI)
    fix p q a b
    assume p: "p \<in> set (sn_ordered (reserved app ?n snap))" "a \<in> set (ni_apps p)"
      and q: "q \<in> set (sn_ordered (reserved app ?n snap))" "b \<in> set (ni_apps q)"
      and ab: "pa_key a \<noteq> pa_key b"
    from reserved_app_mem[OF p] reserved_app_mem[OF q] show "\<not> repels snap a (ni_name p) b (ni_name q)"
    proof (elim disjE bexE conjE)
      fix m m' assume "m \<in> set (sn_ordered snap)" "ni_name m = ni_name p" "a \<in> set (ni_apps m)"
        "m' \<in> set (sn_ordered snap)" "ni_name m' = ni_name q" "b \<in> set (ni_apps m')"
      then show ?thesis using I ab unfolding anti_affinity_ok_def by metis
    next
      fix m assume "m \<in> set (sn_ordered snap)" "ni_name m = ni_name p" "a \<in> set (ni_apps m)"
        "b = ?x" "ni_name q = ?n"
      then show ?thesis using admitted_no_repulsion(2)[OF d adm] by metis
    next
      fix m assume "a = ?x" "ni_name p = ?n"
        "m \<in> set (sn_ordered snap)" "ni_name m = ni_name q" "b \<in> set (ni_apps m)"
      then show ?thesis using admitted_no_repulsion(1)[OF d adm] by metis
    qed (use ab in simp)
  qed
qed

section \<open>The snapshot of a pass\<close>

definition occupants :: "'q application list \<Rightarrow> string \<Rightarrow> 'q application list" where
  "occupants apps n = filter (\<lambda>a. occupies a \<and> app_node_name a = n) apps"

definition total_requests :: "('q::linordered_ab_group_add) application list \<Rightarrow> 'q resource_amounts" where
  "total_requests apps =
     \<lparr>ra_cpu = (\<Sum>a\<leftarrow>apps. ra_cpu (app_requests a)), ra_memory = (\<Sum>a\<leftarrow>apps. ra_memory (app_requests a))\<rparr>"

definition info_of ::
  "('q::linordered_ab_group_add) application list \<Rightarrow> 'q node \<Rightarrow> 'q node_info" where
  "info_of apps n =
     \<lparr>ni_node = n, ni_requested = total_requests (occupants apps (nd_name n)),
      ni_apps = map PlacedFromApp (occupants apps (nd_name n))\<rparr>"

lemma occupants_snoc:
  "occupants (apps @ [a]) n = occupants apps n @ (if occupies a \<and> app_node_name a = n then [a] else [])"
  by (simp add: occupants_def)

lemma total_requests_snoc:
  "total_requests (apps @ [a]) = ResourceAmounts_Add (total_requests apps) (app_requests a)"
  by (simp add: total_requests_def ResourceAmounts_Add_def)

lemma tally_all:
  "goget zero_amounts (fst (fold tally apps ([], []))) n = total_requests (occupants apps n) \<and>
   goget [] (snd (fold tally apps ([], []))) n = map PlacedFromApp (occupants apps n)"
proof (induction apps arbitrary: n rule: rev_induct)
  case Nil
  then show ?case by (simp add: occupants_def total_requests_def)
next
  case (snoc a apps)
  obtain al pl where prev: "fold tally apps ([], []) = (al, pl)" by fastforce
  show ?case using snoc.IH
    by (auto simp: prev occupants_snoc total_requests_snoc goget_goput Let_def)
qed

lemma buildSnapshot_eq: "buildSnapshot nodes apps = NewSnapshot (map (info_of apps) nodes)"
  by (simp add: buildSnapshot_def case_prod_beta tally_all info_of_def[abs_def])

lemma buildSnapshot_infos: "set (sn_ordered (buildSnapshot nodes apps)) = info_of apps ` set nodes"
  by (simp add: buildSnapshot_eq NewSnapshot_def)

lemma buildSnapshot_distinct:
  assumes "distinct (map nd_name nodes)"
  shows "distinct (node_names (buildSnapshot nodes apps))"
proof -
  have "distinct (map ni_name (map (info_of apps) nodes))" using assms by (simp add: info_of_def comp_def)
  then show ?thesis unfolding buildSnapshot_eq NewSnapshot_def snapshot.simps by (rule distinct_map_sort)
qed

lemma pending_not_placed:
  assumes "distinct (map app_key apps)" "app \<in> set (pending apps)"
  shows "not_placed app (buildSnapshot nodes apps)"
proof (rule ccontr)
  assume "\<not> not_placed app (buildSnapshot nodes apps)"
  then obtain ni a where ni: "ni \<in> set (sn_ordered (buildSnapshot nodes apps))" "a \<in> set (ni_apps ni)"
    "app_key app = pa_key a"
    unfolding not_placed_def by (blast elim: placed_keysE)
  then obtain b where b: "b \<in> set apps" "app_node_name b \<noteq> []" "app_key app = app_key b"
    by (auto simp: buildSnapshot_infos info_of_def occupants_def occupies_def)
  have app: "app \<in> set apps" "app_node_name app = []" using assms(2) by (auto simp: pending_def)
  have "app = b" using assms(1) app(1) b(1,3) by (metis (mono_tags, lifting) distinct_map inj_onD)
  then show False using app(2) b(2) by simp
qed

lemma scheduleOnce_pass:
  assumes "scheduler_New c cfg = Inr sd" "c_applications c (s_world s) = (Inr apps, w1)"
    "c_nodes c w1 = (Inr nodes, w2)" "c_volumes c w2 = (Inr pvs, w3)"
  shows "\<exists>t p s0. sd_fw sd = builtin_framework c t p \<and> s_snap s0 = buildSnapshot nodes apps \<and>
    scheduleOnce sd s =
      fold (scheduleApp (builtin_framework c t p) c) (sort_key queue_key (pending apps)) s0"
proof -
  obtain t p where fw: "sd_fw sd = builtin_framework c t p" "sd_cluster sd = c"
    using assms(1) by (auto simp: scheduler_New_def framework_New_builtin Let_def)
  have sort: "framework_Sort (builtin_framework c t p) xs = sort_key queue_key xs" for xs
    by (simp add: framework_Sort_def builtin_framework_def sort_stable_key[OF PrioritySort_Less_key])
  let ?s0 = "s\<lparr>s_world := w3, s_pvs := indexPVs pvs, s_snap := buildSnapshot nodes apps\<rparr>"
  have "scheduleOnce sd s = fold (scheduleApp (builtin_framework c t p) c)
      (sort_key queue_key (pending apps)) (fold (coschedule (builtin_framework c t p)) apps ?s0)"
    by (simp add: scheduleOnce_def fw assms(2-4) sort Let_def)
  moreover have "s_snap (fold (coschedule (builtin_framework c t p)) apps ?s0) = buildSnapshot nodes apps"
    by (simp add: coschedule_all_snap)
  ultimately show ?thesis using fw(1) by blast
qed

context pass_invariant
begin

lemma pass_keeps:
  assumes "scheduler_New c cfg = Inr sd" "c_applications c (s_world s) = (Inr apps, w1)"
    "c_nodes c w1 = (Inr nodes, w2)" "c_volumes c w2 = (Inr pvs, w3)"
    and "distinct (map nd_name nodes)" "distinct (map app_key apps)" "I (buildSnapshot nodes apps)"
  shows "I (s_snap (scheduleOnce sd s))"
proof -
  obtain t p s0 where s0: "s_snap s0 = buildSnapshot nodes apps" "scheduleOnce sd s =
      fold (scheduleApp (builtin_framework c t p) c) (sort_key queue_key (pending apps)) s0"
    using scheduleOnce_pass[OF assms(1-4)] by blast
  have d: "distinct (map app_key (sort_key queue_key (pending apps)))"
    using assms(6) unfolding pending_def by (intro distinct_map_sort distinct_map_filter)
  show ?thesis unfolding s0(2)
  proof (rule queue_keeps)
    show "distinct (node_names (s_snap s0))" using buildSnapshot_distinct[OF assms(5)] by (simp add: s0(1))
    show "I (s_snap s0)" using assms(7) by (simp add: s0(1))
    show "\<forall>app \<in> set (sort_key queue_key (pending apps)). not_placed app (s_snap s0)"
      using pending_not_placed[OF assms(6)] by (simp add: s0(1))
  qed (rule d)
qed

end

end
