(* ===== verification/SchedBinding.thy ===== *)
theory SchedBinding
  imports SchedulePass
begin

text \<open>
  What one successful scheduling cycle guarantees: the node picked is the best scored of the
  feasible ones and the first of those by name, it meets every constraint of the application, and
  every persistent volume the application mounts is on it.
\<close>

section \<open>Picking the best node\<close>

lemma pick_loop_best:
  assumes "best \<noteq> []" "\<forall>ni \<in> set nis. ni_name ni \<noteq> []" "sc = goget 0 scores best"
  shows "\<forall>m \<in> insert best (ni_name ` set nis). goget 0 scores m \<le> goget 0 scores (pick_loop best sc nis scores)"
  using assms
proof (induction nis arbitrary: best sc)
  case (Cons ni nis)
  let ?x = "goget 0 scores (ni_name ni)"
  show ?case
  proof (cases "sc < ?x")
    case True
    then show ?thesis using Cons.IH[of "ni_name ni" ?x] Cons.prems by (auto simp: Let_def)
  next
    case False
    then show ?thesis using Cons.IH[of best sc] Cons.prems by (force simp: Let_def)
  qed
qed simp

lemma pick_loop_first:
  assumes "best \<noteq> []" "\<forall>ni \<in> set nis. ni_name ni \<noteq> []" "sc = goget 0 scores best"
    and "sorted (best # map ni_name nis)" "m \<in> insert best (ni_name ` set nis)"
    and "goget 0 scores m = goget 0 scores (pick_loop best sc nis scores)"
  shows "pick_loop best sc nis scores \<le> m"
  using assms
proof (induction nis arbitrary: best sc m)
  case (Cons ni nis)
  let ?x = "goget 0 scores (ni_name ni)"
  have ne: "ni_name ni \<noteq> []" "\<forall>ni \<in> set nis. ni_name ni \<noteq> []" using Cons.prems(2) by simp_all
  have srt: "sorted (ni_name ni # map ni_name nis)" "sorted (best # map ni_name nis)" "best \<le> ni_name ni"
    using Cons.prems(4) by simp_all
  show ?case
  proof (cases "sc < ?x")
    case True
    then have step: "pick_loop best sc (ni # nis) scores = pick_loop (ni_name ni) ?x nis scores"
      by (simp add: Let_def)
    have "?x \<le> goget 0 scores (pick_loop (ni_name ni) ?x nis scores)"
      using pick_loop_best[OF ne refl, of scores] by simp
    then have "m \<noteq> best" using Cons.prems(3,6) True unfolding step by fastforce
    then have "m \<in> insert (ni_name ni) (ni_name ` set nis)" using Cons.prems(5) by simp
    from Cons.IH[OF ne refl srt(1) this] Cons.prems(6) show ?thesis unfolding step by simp
  next
    case False
    then have step: "pick_loop best sc (ni # nis) scores = pick_loop best sc nis scores"
      using Cons.prems(1) by (simp add: Let_def)
    note IH = Cons.IH[OF Cons.prems(1) ne(2) Cons.prems(3) srt(2)]
    show ?thesis
    proof (cases "m = ni_name ni")
      case True
      have "sc \<le> goget 0 scores (pick_loop best sc nis scores)"
        using pick_loop_best[OF Cons.prems(1) ne(2) Cons.prems(3)] Cons.prems(3) by simp
      then have "goget 0 scores best = goget 0 scores (pick_loop best sc nis scores)"
        using Cons.prems(3,6) False True unfolding step by simp
      then have "pick_loop best sc nis scores \<le> best" using IH[of best] by simp
      then show ?thesis unfolding step True using srt(3) by (rule order_trans)
    next
      case neq: False
      then show ?thesis using IH[of m] Cons.prems(5,6) unfolding step by simp
    qed
  qed
qed simp

lemma pickBest_spec:
  assumes "nis \<noteq> []" "\<forall>ni \<in> set nis. ni_name ni \<noteq> []" "sorted (map ni_name nis)"
  shows "pickBest nis scores \<in> ni_name ` set nis \<and>
    (\<forall>ni \<in> set nis. goget 0 scores (ni_name ni) \<le> goget 0 scores (pickBest nis scores) \<and>
       (goget 0 scores (ni_name ni) = goget 0 scores (pickBest nis scores) \<longrightarrow>
          pickBest nis scores \<le> ni_name ni))"
proof -
  obtain x xs where nis: "nis = x # xs" using assms(1) by (cases nis) auto
  let ?n = "ni_name x" and ?sc = "goget 0 scores (ni_name x)"
  have eq: "pickBest nis scores = pick_loop ?n ?sc xs scores" by (simp add: pickBest_def nis Let_def)
  have ne: "?n \<noteq> []" "\<forall>ni \<in> set xs. ni_name ni \<noteq> []" using assms(2) nis by auto
  note best = pick_loop_best[OF ne refl, of scores]
    and first = pick_loop_first[OF ne refl, of _ scores]
  show ?thesis
    unfolding eq using best first assms(3) pick_loop_mem[of ?n ?sc xs scores] by (auto simp: nis)
qed

section \<open>Volumes follow their application\<close>

definition volume_bound :: "('q, 'w) sched \<Rightarrow> string \<Rightarrow> string \<Rightarrow> string \<Rightarrow> bool" where
  "volume_bound s ns name node \<longleftrightarrow>
     (\<exists>pv. map_of (s_pvs s) (WorkloadID ns name) = Some pv \<and> pv_node pv = node)"

lemma CreatePV_pvs:
  assumes "CreatePV c ns name sz s = (None, s')" "Handle_PV ns name s = None"
    "map_of (s_pvs s) k = Some pv"
  shows "map_of (s_pvs s') k = Some pv"
  using assms by (auto simp: CreatePV_def Handle_PV_def map_of_goput Let_def split: prod.splits option.splits)

lemma volume_loop_Cons:
  assumes "volume_loop c app (m # ms) vs s = (Inr vs', s')" "IsPV m"
  defines "ns \<equiv> app_namespace app" and "name \<equiv> PVName m (app_name app)"
  obtains (create) s1 where "Handle_PV ns name s = None"
      "CreatePV c ns name (vs_size (vm_volume m)) s = (None, s1)"
      "volume_loop c app ms (vs\<lparr>vst_nodeless := vst_nodeless vs @ [name]\<rparr>) s1 = (Inr vs', s')"
  | (nodeless) "volume_loop c app ms (vs\<lparr>vst_nodeless := vst_nodeless vs @ [name]\<rparr>) s = (Inr vs', s')"
  | (bound) pv where "Handle_PV ns name s = Some pv" "pv_node pv \<noteq> []"
      "vst_required vs = [] \<or> vst_required vs = pv_node pv"
      "volume_loop c app ms (vs\<lparr>vst_required := pv_node pv\<rparr>) s = (Inr vs', s')"
proof (cases "Handle_PV ns name s")
  case None
  obtain e s1 where cr: "CreatePV c ns name (vs_size (vm_volume m)) s = (e, s1)" by fastforce
  show ?thesis
  proof (cases e)
    case None': None
    then show ?thesis using assms(1,2) None cr create by (simp add: Let_def ns_def name_def)
  next
    case (Some x)
    then show ?thesis using assms(1,2) None cr by (simp add: Let_def ns_def name_def)
  qed
next
  case (Some pv)
  note eq = assms(1)[unfolded volume_loop.simps Let_def ns_def[symmetric] name_def[symmetric] Some]
  show ?thesis
  proof (cases "pv_node pv = []")
    case True
    then show ?thesis using eq assms(2) nodeless by simp
  next
    case False
    then show ?thesis using eq assms(2) bound[OF Some] by (auto split: if_splits)
  qed
qed

lemma volume_loop_resolves:
  assumes "volume_loop c app ms vs s = (Inr vs', s')"
  shows "(\<forall>name \<in> set (vst_nodeless vs). name \<in> set (vst_nodeless vs')) \<and>
    (vst_required vs \<noteq> [] \<longrightarrow> vst_required vs' = vst_required vs) \<and>
    (\<forall>k pv. map_of (s_pvs s) k = Some pv \<longrightarrow> map_of (s_pvs s') k = Some pv) \<and>
    (\<forall>m \<in> set ms. IsPV m \<longrightarrow> PVName m (app_name app) \<in> set (vst_nodeless vs') \<or>
       vst_required vs' \<noteq> [] \<and> volume_bound s' (app_namespace app) (PVName m (app_name app)) (vst_required vs'))"
  using assms
proof (induction ms arbitrary: vs s)
  case (Cons m ms)
  show ?case
  proof (cases "IsPV m")
    case False
    then show ?thesis using Cons.IH[of vs s] Cons.prems by simp
  next
    case True
    from Cons.prems True show ?thesis
    proof (cases rule: volume_loop_Cons)
      case (create s1)
      from Cons.IH[OF create(3)] show ?thesis using CreatePV_pvs[OF create(2,1)] by simp
    next
      case nodeless
      from Cons.IH[OF nodeless] show ?thesis by simp
    next
      case (bound pv)
      from Cons.IH[OF bound(4)] show ?thesis
        using bound(1-3) by (auto simp: volume_bound_def Handle_PV_def)
    qed
  qed
qed simp

lemma BindPV_binds:
  assumes "BindPV c ns name node s = (None, s')"
  shows "volume_bound s' ns name node" "volume_bound s ns' name' node \<Longrightarrow> volume_bound s' ns' name' node"
  using assms by (auto simp: BindPV_def volume_bound_def map_of_goput Let_def split: prod.splits option.splits)

lemma bind_volumes_binds:
  assumes "bind_volumes c ns node names s = (st, s')" "IsSuccess st"
  shows "(\<forall>name \<in> set names. volume_bound s' ns name node) \<and>
    (\<forall>ns' name'. volume_bound s ns' name' node \<longrightarrow> volume_bound s' ns' name' node)"
  using assms
proof (induction names arbitrary: s)
  case (Cons name names)
  obtain e s1 where b: "BindPV c ns name node s = (e, s1)" by fastforce
  show ?case
  proof (cases e)
    case None
    then have "bind_volumes c ns node names s1 = (st, s')" using Cons.prems(1) b by simp
    from Cons.IH[OF this Cons.prems(2)] BindPV_binds[OF b[unfolded None]] show ?thesis by simp
  next
    case (Some x)
    then show ?thesis using Cons.prems b by auto
  qed
qed simp

section \<open>What a binding guarantees\<close>

text \<open>The node an application is bound to in its cycle, with the state after it.\<close>

definition binding_of ::
  "('q, ('q, 'w) sched) framework \<Rightarrow> ('q, 'w) cluster \<Rightarrow> 'q application \<Rightarrow> ('q, 'w) sched \<Rightarrow>
   (string \<times> ('q, 'w) sched) option" where
  "binding_of fw c app s =
     (case RunPreFilter fw app (s\<lparr>s_cycle := NewCycleState\<rparr>) of
        (st, s) \<Rightarrow>
          if \<not> IsSuccess st then None
          else (case choose_node fw app (feasible_nodes fw app s) (filtered_nodes fw app s) s of
                  (Inl _, _) \<Rightarrow> None
                | (Inr node, s) \<Rightarrow>
                    (case place_on fw c app node s of (bound, s) \<Rightarrow> if bound then Some (node, s) else None)))"

lemma binding_ofE:
  assumes "binding_of fw c app s = Some (n, s')"
  obtains st s1 s2 where "RunPreFilter fw app (s\<lparr>s_cycle := NewCycleState\<rparr>) = (st, s1)" "IsSuccess st"
    "choose_node fw app (feasible_nodes fw app s1) (filtered_nodes fw app s1) s1 = (Inr n, s2)"
    "place_on fw c app n s2 = (True, s')"
  using assms by (auto simp: binding_of_def split: prod.splits sum.splits if_splits)

lemma scheduleApp_binding:
  assumes "binding_of fw c app s = Some (n, s')"
  shows "scheduleApp fw c app s = s'"
  using assms by (elim binding_ofE) (simp add: scheduleApp_def)

lemma binding_feasible:
  assumes "binding_of (builtin_framework c t p) c app s = Some (n, s')"
  obtains st s1 ni where "RunPreFilter (builtin_framework c t p) app (s\<lparr>s_cycle := NewCycleState\<rparr>) = (st, s1)"
    "IsSuccess st" "ni \<in> set (sn_ordered (s_snap s))" "ni_name ni = n" "s_snap s1 = s_snap s"
    "IsSuccess (RunFilter (builtin_framework c t p) app ni s1)"
  using assms
proof (rule binding_ofE)
  fix st s1 s2
  assume pf: "RunPreFilter (builtin_framework c t p) app (s\<lparr>s_cycle := NewCycleState\<rparr>) = (st, s1)" "IsSuccess st"
    and ch: "choose_node (builtin_framework c t p) app (feasible_nodes (builtin_framework c t p) app s1)
      (filtered_nodes (builtin_framework c t p) app s1) s1 = (Inr n, s2)"
  have snap: "s_snap s1 = s_snap s" using builtin_PreFilter_snap[OF pf(1)] by simp
  obtain ni where ni: "ni \<in> set (feasible_nodes (builtin_framework c t p) app s1)" "ni_name ni = n"
    using choose_node_feasible[OF ch] by auto
  have "ni \<in> set (sn_ordered (s_snap s))" "IsSuccess (RunFilter (builtin_framework c t p) app ni s1)"
    using ni(1) snap by (simp_all add: feasible_nodes_def Snapshot_List_def)
  then show thesis using that[OF pf _ ni(2) snap] by blast
qed

lemma NodeSchedulable_Filter_success:
  assumes "IsSuccess (NodeSchedulable_Filter c t app ni s)"
  shows "\<not> nd_unschedulable (ni_node ni) \<and> nst_ready (nd_status (ni_node ni)) \<and>
    ra_cpu (ni_capacity ni) \<noteq> 0 \<and> ra_memory (ni_capacity ni) \<noteq> 0 \<and>
    (\<exists>hb. nst_heartbeat (nd_status (ni_node ni)) = Some hb \<and> time_sub (c_now c (s_world s)) hb \<le> t)"
  using assms by (auto simp: NodeSchedulable_Filter_def Let_def split: if_splits option.splits)

lemma placement_constraints:
  assumes "IsSuccess (RuntimeClass_Filter app ni s)" "IsSuccess (RoutedNetwork_Filter app ni s)"
    "IsSuccess (NodeAffinity_Filter app ni s)"
  shows "(as_runtime_class_name (app_spec app) = [] \<or>
      as_runtime_class_name (app_spec app) \<in> set (nst_runtimes (nd_status (ni_node ni)))) \<and>
    (OnHostNetwork app \<or> nst_routed_network (nd_status (ni_node ni))) \<and>
    subsetMatch (pl_node_selector (as_placement (app_spec app))) (SchedulingLabels (ni_node ni)) \<and>
    (\<forall>na req. nodeAffinity app = Some na \<longrightarrow> na_required na = Some req \<longrightarrow>
       nodeSelectorMatches req (SchedulingLabels (ni_node ni)))"
  using assms
  by (auto simp: RuntimeClass_Filter_def RoutedNetwork_Filter_def NodeAffinity_Filter_def Let_def
      split: if_splits option.splits)

section \<open>Volumes of a bound application\<close>

lemma PreScore_volumes:
  assumes "RunPreScore (builtin_framework c t p) app nis s = (st, s')"
  shows "s_pvs s' = s_pvs s \<and> volumeStateOf (s_cycle s') = volumeStateOf (s_cycle s)"
proof -
  have na: "s_pvs s1 = s_pvs s \<and> volumeStateOf (s_cycle s1) = volumeStateOf (s_cycle s)"
    if "NodeAffinity_PreScore app nis s = (st, s1)" for st s1 and s :: "('a, 'b) sched"
    using that by (auto simp: NodeAffinity_PreScore_def volumeStateOf_def CycleState_Read_def
        CycleState_Write_def map_of_goput split: option.splits if_splits)
  have wa: "s_pvs s1 = s_pvs s \<and> volumeStateOf (s_cycle s1) = volumeStateOf (s_cycle s)"
    if "WorkloadAffinity_PreScore app nis s = (st, s1)" for st s1 and s :: "('a, 'b) sched"
    using that by (auto simp: WorkloadAffinity_PreScore_def volumeStateOf_def CycleState_Read_def
        CycleState_Write_def map_of_goput Let_def split: prod.splits if_splits)
  obtain st1 s1 where 1: "NodeAffinity_PreScore app nis s = (st1, s1)" by fastforce
  obtain st2 s2 where 2: "WorkloadAffinity_PreScore app nis s1 = (st2, s2)" by fastforce
  show ?thesis using assms na[OF 1] wa[OF 2] PreScore_snap(1)[OF 1] PreScore_snap(2)[OF 2]
    by (simp add: RunPreScore_def builtin_framework_def 1 2)
qed

lemma choose_node_volumes:
  assumes "choose_node (builtin_framework c t p) app nis filtered s = (Inr n, s')"
  shows "s_pvs s' = s_pvs s \<and> volumeStateOf (s_cycle s') = volumeStateOf (s_cycle s)"
proof (cases "nis = []")
  case True
  then show ?thesis using assms
    by (simp add: choose_node_def RunPostFilter_def builtin_framework_def Let_def)
next
  case False
  obtain st s1 where ps: "RunPreScore (builtin_framework c t p) app nis s = (st, s1)" by fastforce
  show ?thesis using assms False PreScore_volumes[OF ps]
    by (auto simp: choose_node_def ps split: sum.splits if_splits)
qed

lemma Reserve_volumes:
  assumes "RunReserve (builtin_framework c t p) app n s = (st, s')"
  shows "s_pvs s' = s_pvs s \<and> s_cycle s' = s_cycle s"
  using assms
  by (simp add: RunReserve_def builtin_framework_def WorkloadAffinity_Reserve_def NodeResourcesFit_Reserve_def Let_def)
    auto

lemma builtin_PreBind_eq:
  "RunPreBind (builtin_framework c t p) app n s =
     (let (st, s') = VolumeBinding_PreBind c app n s in if IsSuccess st then (None, s') else (st, s'))"
  by (simp add: RunPreBind_def builtin_framework_def Let_def split: prod.split)

lemma builtin_Bind_eq: "RunBind (builtin_framework c t p) app n s = DefaultBinder_Bind c app n s"
  by (simp add: RunBind_def builtin_framework_def DefaultBinder_Bind_def Let_def split: prod.split)

lemma volume_loop_failure: "volume_loop c app ms vs s = (Inl st, s') \<Longrightarrow> \<not> IsSuccess st"
proof (induction ms arbitrary: vs s)
  case (Cons m ms)
  obtain e s1 where cr:
    "CreatePV c (app_namespace app) (PVName m (app_name app)) (vs_size (vm_volume m)) s = (e, s1)" by fastforce
  show ?case using Cons.prems Cons.IH
    by (cases e) (auto simp: cr Let_def split: if_splits option.splits)
qed simp

lemma place_on_volumes:
  assumes "place_on (builtin_framework c t p) c app n s = (True, s')"
  shows "(\<forall>name \<in> set (vst_nodeless (volumeStateOf (s_cycle s))). volume_bound s' (app_namespace app) name n) \<and>
    (\<forall>name. volume_bound s (app_namespace app) name n \<longrightarrow> volume_bound s' (app_namespace app) name n)"
proof -
  let ?fw = "builtin_framework c t p"
  obtain st1 s1 where r: "RunReserve ?fw app n s = (st1, s1)" by fastforce
  obtain st2 s2 where b: "VolumeBinding_PreBind c app n s1 = (st2, s2)" by fastforce
  obtain st3 s3 where d: "DefaultBinder_Bind c app n s2 = (st3, s3)" by fastforce
  have s1: "s_pvs s1 = s_pvs s" "s_cycle s1 = s_cycle s" using Reserve_volumes[OF r] by auto
  have "s_pvs s3 = s_pvs s2" using d by (auto simp: DefaultBinder_Bind_def BindApp_def Let_def split: prod.splits)
  moreover have ok: "IsSuccess st2" and s': "s' = scheduled c app s3"
    using assms builtin_Reserve[OF r]
    by (cases "IsSuccess st2"; cases "IsSuccess st3",
        simp_all add: place_on_def r builtin_Permit builtin_PostBind builtin_PreBind_eq builtin_Bind_eq b d Let_def)+
  ultimately have "s_pvs s' = s_pvs s2" by (simp add: scheduled_def Let_def)
  then have v: "volume_bound s' ns name n = volume_bound s2 ns name n" for ns name
    by (simp add: volume_bound_def)
  have "volume_bound s1 ns name n = volume_bound s ns name n" for ns name
    by (simp add: volume_bound_def s1)
  then show ?thesis unfolding v
    using bind_volumes_binds[OF b[unfolded VolumeBinding_PreBind_def] ok] by (simp add: s1)
qed

lemma builtin_PreFilter_resolves:
  assumes "RunPreFilter (builtin_framework c t p) app s = (st, s')" "IsSuccess st"
    "m \<in> set (as_volumes (app_spec app))" "IsPV m"
  defines "vs \<equiv> volumeStateOf (s_cycle s')"
  shows "PVName m (app_name app) \<in> set (vst_nodeless vs) \<or>
    vst_required vs \<noteq> [] \<and> volume_bound s' (app_namespace app) (PVName m (app_name app)) (vst_required vs)"
proof -
  have "VolumeBinding_PreFilter c app s = (st, s') \<or> (\<exists>st'. VolumeBinding_PreFilter c app s = (st', s') \<and> IsSuccess st')"
    using assms(1,2) by (auto simp: RunPreFilter_def builtin_framework_def Let_def split: prod.splits if_splits)
  then obtain st' where pf: "VolumeBinding_PreFilter c app s = (st', s')" "IsSuccess st'" using assms(2) by blast
  then obtain vs' s1 where loop: "volume_loop c app (as_volumes (app_spec app)) \<lparr>vst_required = [], vst_nodeless = []\<rparr> s = (Inr vs', s1)"
    and s': "s' = s1\<lparr>s_cycle := CycleState_Write (s_cycle s1) ''VolumeBinding'' (CVolume vs')\<rparr>"
    by (auto simp: VolumeBinding_PreFilter_def split: prod.splits sum.splits dest: volume_loop_failure)
  have "vs = vs'" by (simp add: vs_def s' volumeStateOf_def CycleState_Read_def CycleState_Write_def map_of_goput)
  moreover have "volume_bound s' ns name n = volume_bound s1 ns name n" for ns name n
    by (simp add: volume_bound_def s')
  ultimately show ?thesis using volume_loop_resolves[OF loop] assms(3,4) by auto
qed

lemma bound_volumes_on_node:
  assumes "binding_of (builtin_framework c t p) c app s = Some (n, s')"
    "m \<in> set (as_volumes (app_spec app))" "IsPV m"
  shows "volume_bound s' (app_namespace app) (PVName m (app_name app)) n"
  using assms(1)
proof (rule binding_ofE)
  let ?fw = "builtin_framework c t p"
  fix st s1 s2
  assume pf: "RunPreFilter ?fw app (s\<lparr>s_cycle := NewCycleState\<rparr>) = (st, s1)" "IsSuccess st"
    and ch: "choose_node ?fw app (feasible_nodes ?fw app s1) (filtered_nodes ?fw app s1) s1 = (Inr n, s2)"
    and pl: "place_on ?fw c app n s2 = (True, s')"
  let ?vs = "volumeStateOf (s_cycle s1)"
  have s2: "s_pvs s2 = s_pvs s1" "volumeStateOf (s_cycle s2) = ?vs" using choose_node_volumes[OF ch] by auto
  obtain ni where ni: "ni \<in> set (feasible_nodes ?fw app s1)" "ni_name ni = n"
    using choose_node_feasible[OF ch] by auto
  then have req: "vst_required ?vs = [] \<or> vst_required ?vs = n"
    by (auto simp: feasible_nodes_def builtin_Filter_success VolumeBinding_Filter_def Let_def split: if_splits)
  have vb: "volume_bound s2 ns name n = volume_bound s1 ns name n" for ns name
    by (simp add: volume_bound_def s2)
  show ?thesis
    using builtin_PreFilter_resolves[OF pf assms(2,3)] place_on_volumes[OF pl] req
    unfolding s2 vb by auto
qed

end
