(* ===== verification/SchedProps.thy ===== *)
theory SchedProps
  imports SchedBinding
begin

text \<open>
  The properties of the scheduler, with a small concrete cluster at which the ones that have
  hypotheses are applied: two nodes, an application \<open>db\<close> on the first one that repels its own
  kind, and a pending one of that kind with a volume.
\<close>

section \<open>Scores stay in range\<close>










section \<open>The failure summary\<close>

lemma reason_counts_spec:
  "map_of (reason_counts filtered) r =
     (let n = length (filter (\<lambda>(_, st). filter_reason st = r) filtered) in if n = 0 then None else Some n)"
proof (induction filtered arbitrary: r rule: rev_induct)
  case Nil
  then show ?case by (simp add: reason_counts_def)
next
  case (snoc x xs)
  then show ?case
    by (auto simp: reason_counts_def map_of_goput goget_def Let_def split: prod.splits)
qed

lemma reason_counts_distinct: "distinct (map fst (reason_counts filtered))"
proof -
  have "distinct (map fst (fold (\<lambda>(_, st) m. goput (filter_reason st) (goget 0 m (filter_reason st) + 1) m) xs m))"
    if "distinct (map fst m)" for xs :: "(string, status_ptr) gomap" and m :: "(string, nat) gomap"
    using that by (induction xs arbitrary: m) (auto simp: distinct_update split: prod.splits)
  then show ?thesis by (simp add: reason_counts_def)
qed

definition reason_key :: "string \<times> nat \<Rightarrow> int \<times> string" where
  "reason_key rn = (- int (snd rn), fst rn)"

lemma noNodeFits_perm:
  assumes "\<And>r. length (filter (\<lambda>(_, st). filter_reason st = r) f1) = length (filter (\<lambda>(_, st). filter_reason st = r) f2)"
  shows "noNodeFits n f1 = noNodeFits n f2"
proof -
  have lt: "(\<lambda>(r, n) (r', n'). if n \<noteq> n' then n > n' else r < r') = (\<lambda>x y. reason_key x < reason_key y)"
    by (auto simp: fun_eq_iff reason_key_def)
  have "map_of (reason_counts f1) = map_of (reason_counts f2)"
    by (simp add: fun_eq_iff reason_counts_spec assms)
  then have set: "set (reason_counts f1) = set (reason_counts f2)"
    using reason_counts_distinct by (metis map_of_inject_set)
  have inj: "inj reason_key" by (auto simp: inj_on_def reason_key_def)
  have "sort_key reason_key (reason_counts f1) = sort_key reason_key (reason_counts f2)"
  proof -
    have d: "distinct (map reason_key (sort_key reason_key (reason_counts f)))" for f
      using reason_counts_distinct[of f] inj_on_subset[OF inj] by (simp add: distinct_map)
    have "map reason_key (sort_key reason_key (reason_counts f1)) = map reason_key (sort_key reason_key (reason_counts f2))"
      by (rule sorted_distinct_set_unique) (simp_all add: d set)
    then show ?thesis using inj by (simp add: inj_map_eq_map)
  qed
  then show ?thesis by (simp add: noNodeFits_def lt sort_stable_key[of _ reason_key] Let_def)
qed

section \<open>A concrete cluster\<close>

definition demo_meta :: "string \<Rightarrow> string \<Rightarrow> (string, string) gomap \<Rightarrow> object_meta" where
  "demo_meta ns name labels = zero_meta\<lparr>om_namespace := ns, om_name := name, om_labels := labels\<rparr>"

definition demo_app :: "string \<Rightarrow> string \<Rightarrow> int volume_mount list \<Rightarrow> int application" where
  "demo_app name node vols =
     \<lparr>app_meta = demo_meta ''prod'' name [(''tier'', ''db'')],
      app_spec =
        \<lparr>as_image = ''img'', as_command = [], as_args = [], as_env = [], as_ports = [],
         as_resources = \<lparr>rr_requests = \<lparr>ra_cpu = 2, ra_memory = 2\<rparr>, rr_limits = zero_amounts\<rparr>,
         as_lifecycle = \<lparr>lc_restart_policy = [], lc_termination_grace_period_seconds = None,
           lc_active_deadline_seconds = None, lc_backoff_limit = None\<rparr>,
         as_placement = \<lparr>pl_node_name = node, pl_node_selector = [],
           pl_affinity = Some \<lparr>aff_node = None, aff_workload = None,
             aff_workload_anti = Some \<lparr>wa_required = [\<lparr>wat_label_selector = [(''tier'', ''db'')],
               wat_topology_key = ''zone''\<rparr>], wa_preferred = []\<rparr>\<rparr>,
           pl_priority = None\<rparr>,
         as_host_network = Some True, as_service_name = [], as_runtime_class_name = [],
         as_security_context = None, as_volumes = vols\<rparr>,
      app_status = \<lparr>ast_observed_generation = 0, ast_phase = [], ast_message = [], ast_address = [],
        ast_exit_code = None, ast_finished_at = None, ast_attempts = 0\<rparr>\<rparr>"

definition demo_node :: "string \<Rightarrow> int node" where
  "demo_node name =
     \<lparr>nd_meta = demo_meta [] name [], nd_unschedulable = False,
      nd_status = \<lparr>nst_capacity = \<lparr>ra_cpu = 4, ra_memory = 4\<rparr>, nst_allocated = zero_amounts, nst_os = [],
        nst_ip = [], nst_ready = True, nst_heartbeat = Some 0, nst_runtimes = [],
        nst_platform = \<lparr>pf_os = [], pf_arch = []\<rparr>, nst_routed_network = True, nst_labels = []\<rparr>\<rparr>"

definition demo_volume :: "int volume_mount" where
  "demo_volume =
     \<lparr>vm_volume = \<lparr>vs_type = ''pv'', vs_name = ''data'', vs_size = 1, vs_items = [], vs_default_mode = None,
        vs_optional = None, vs_audience = []\<rparr>, vm_mount_path = ''/data'', vm_read_only = False, vm_sub_path = []\<rparr>"

definition demo_pending :: "int application" where
  "demo_pending = demo_app ''db2'' [] [demo_volume]"

definition demo_apps :: "int application list" where
  "demo_apps = [demo_pending, demo_app ''db1'' ''n1'' []]"

definition demo_nodes :: "int node list" where
  "demo_nodes = [demo_node ''n2'', demo_node ''n1'']"

text \<open>A control plane that accepts every write and lists what it was given.\<close>

definition demo_cluster :: "(int, string list) cluster" where
  "demo_cluster =
     \<lparr>c_applications = (\<lambda>w. (Inr demo_apps, w)), c_nodes = (\<lambda>w. (Inr demo_nodes, w)),
      c_volumes = (\<lambda>w. (Inr [], w)), c_assign = (\<lambda>ns name node w. (None, w @ [node])),
      c_assign_volume = (\<lambda>ns name node w. (None, w)), c_create_volume = (\<lambda>ns name sz w. (None, w)),
      c_update_app_status = (\<lambda>app w. (None, w)), c_now = (\<lambda>w. 1),
      q_milli_value = (\<lambda>q. 1000 * q), q_value = (\<lambda>q. q), f_undef = 0\<rparr>"


definition demo_framework :: "(int, (int, string list) sched) framework" where
  "demo_framework = builtin_framework demo_cluster 45000000000 ''spread''"


definition demo_state :: "(int, string list) sched" where
  "demo_state = \<lparr>s_snap = buildSnapshot demo_nodes demo_apps, s_pvs = [], s_cycle = [], s_world = []\<rparr>"

text \<open>A control plane that refuses every assignment.\<close>

definition refusing_cluster :: "(int, string list) cluster" where
  "refusing_cluster = demo_cluster\<lparr>c_assign := \<lambda>ns name node w. (Some ''full'', w)\<rparr>"



lemma demo_names: "distinct (map nd_name demo_nodes)" "distinct (map app_key demo_apps)"
  by code_simp+


lemma demo_binding: "map_option fst (binding_of demo_framework demo_cluster demo_pending demo_state) = Some ''n2''"
  by code_simp



section \<open>Properties\<close>





text \<open>C3: A failed binding leaves no trace in the snapshot. Whatever step after \<open>Reserve\<close>
  refuses the node, the snapshot is the one before; a successful one adds the application and its
  requests to the chosen node and changes nothing else.\<close>

theorem place_on_rollback:
  assumes "not_placed app (s_snap s)" "place_on (builtin_framework c t p) c app n s = (bound, s')"
  shows "s_snap s' = (if bound then
      Snapshot_Modify n (\<lambda>ni. NodeInfo_Reserve (app_requests app) (AddApp (PlacedFromApp app) ni)) (s_snap s)
    else s_snap s)"
  using place_on_snap[OF assms] unfolding reserved_alt .

lemma refusing_not_placed: "not_placed demo_pending (s_snap demo_state)"
  using pending_not_placed[OF demo_names(2), of demo_pending demo_nodes]
  by (simp add: demo_state_def pending_def demo_apps_def demo_pending_def demo_app_def)

lemma refusing_unbound:
  "\<not> fst (place_on (builtin_framework refusing_cluster 45000000000 ''spread'') refusing_cluster demo_pending ''n2'' demo_state)"
  by code_simp

theorem place_on_rollback_witness:
  "s_snap (snd (place_on (builtin_framework refusing_cluster 45000000000 ''spread'') refusing_cluster
     demo_pending ''n2'' demo_state)) = s_snap demo_state"
  using place_on_rollback[OF refusing_not_placed prod.collapse[symmetric]] refusing_unbound by simp

text \<open>C4: An application is bound only to a node that meets every constraint it states: the node
  is schedulable, ready, reports capacity and a heartbeat, offers the runtime class and the network
  asked for, matches the node selector and the required node affinity, satisfies workload affinity
  and anti-affinity in both directions, and has room for the requests.\<close>

theorem binding_admissible:
  assumes "binding_of (builtin_framework c t p) c app s = Some (n, s')"
  shows "\<exists>ni \<in> set (sn_ordered (s_snap s)). ni_name ni = n \<and>
    \<not> nd_unschedulable (ni_node ni) \<and> nst_ready (nd_status (ni_node ni)) \<and>
    ra_cpu (ni_capacity ni) \<noteq> 0 \<and> ra_memory (ni_capacity ni) \<noteq> 0 \<and>
    nst_heartbeat (nd_status (ni_node ni)) \<noteq> None \<and>
    (as_runtime_class_name (app_spec app) = [] \<or>
       as_runtime_class_name (app_spec app) \<in> set (nst_runtimes (nd_status (ni_node ni)))) \<and>
    (OnHostNetwork app \<or> nst_routed_network (nd_status (ni_node ni))) \<and>
    subsetMatch (pl_node_selector (as_placement (app_spec app))) (SchedulingLabels (ni_node ni)) \<and>
    (\<forall>na req. nodeAffinity app = Some na \<longrightarrow> na_required na = Some req \<longrightarrow>
       nodeSelectorMatches req (SchedulingLabels (ni_node ni))) \<and>
    affinity_admits (s_snap s) app n \<and> room_for app ni"
  using assms
proof (rule binding_feasible)
  fix st s1 ni
  assume "ni \<in> set (sn_ordered (s_snap s))" "ni_name ni = n" "s_snap s1 = s_snap s"
    and ok: "IsSuccess (RunFilter (builtin_framework c t p) app ni s1)"
  moreover note f = ok[unfolded builtin_Filter_success]
  moreover have "nst_heartbeat (nd_status (ni_node ni)) \<noteq> None"
    using NodeSchedulable_Filter_success[of c t app ni s1] f by auto
  ultimately show ?thesis
    using NodeSchedulable_Filter_success[of c t app ni s1] placement_constraints[of app ni s1] by metis
qed

lemma demo_bindingE:
  obtains s' where "binding_of (builtin_framework demo_cluster 45000000000 ''spread'') demo_cluster
     demo_pending demo_state = Some (''n2'', s')"
  using demo_binding unfolding demo_framework_def by auto

theorem binding_admissible_witness:
  "\<exists>ni. ni \<in> set (sn_ordered (s_snap demo_state)) \<and> ni_name ni = ''n2'' \<and> room_for demo_pending ni \<and>
     affinity_admits (s_snap demo_state) demo_pending ''n2''"
  using demo_bindingE binding_admissible by metis

text \<open>C5: Every persistent volume a bound application mounts is on the node it was bound to,
  whether the volume was created by the scheduler, was there without a node, or had one.\<close>

theorem bound_volumes_colocated:
  assumes "binding_of (builtin_framework c t p) c app s = Some (n, s')"
    "m \<in> set (as_volumes (app_spec app))" "IsPV m"
  shows "\<exists>pv. map_of (s_pvs s') (WorkloadID (app_namespace app) (PVName m (app_name app))) = Some pv \<and> pv_node pv = n"
  using bound_volumes_on_node[OF assms] unfolding volume_bound_def .

theorem bound_volumes_colocated_witness:
  "\<exists>n s' pv. binding_of demo_framework demo_cluster demo_pending demo_state = Some (n, s') \<and>
     map_of (s_pvs s') ''prod_data'' = Some pv \<and> pv_node pv = n"
proof -
  obtain s' where s': "binding_of (builtin_framework demo_cluster 45000000000 ''spread'') demo_cluster
     demo_pending demo_state = Some (''n2'', s')" by (rule demo_bindingE)
  have m: "demo_volume \<in> set (as_volumes (app_spec demo_pending))" "IsPV demo_volume"
    "WorkloadID (app_namespace demo_pending) (PVName demo_volume (app_name demo_pending)) = ''prod_data''"
    by code_simp+
  show ?thesis using bound_volumes_colocated[OF s' m(1,2)] s' unfolding demo_framework_def m(3) by blast
qed

text \<open>C6: \<open>pickBest\<close> returns a feasible node of the highest score, and of those the one whose
  name comes first.\<close>

theorem pickBest_highest_first:
  assumes "nis \<noteq> []" "\<forall>ni \<in> set nis. ni_name ni \<noteq> []" "sorted (map ni_name nis)"
  shows "pickBest nis scores \<in> ni_name ` set nis \<and>
    (\<forall>ni \<in> set nis. goget 0 scores (ni_name ni) \<le> goget 0 scores (pickBest nis scores) \<and>
       (goget 0 scores (ni_name ni) = goget 0 scores (pickBest nis scores) \<longrightarrow>
          pickBest nis scores \<le> ni_name ni))"
  using assms by (rule pickBest_spec)

lemma demo_snapshot_names:
  "sn_ordered (s_snap demo_state) \<noteq> []" "\<forall>ni \<in> set (sn_ordered (s_snap demo_state)). ni_name ni \<noteq> []"
  "sorted (map ni_name (sn_ordered (s_snap demo_state)))"
  by code_simp+

theorem pickBest_highest_first_witness:
  "pickBest (sn_ordered (s_snap demo_state)) [(''n2'', 7), (''n1'', 3)] \<in>
     ni_name ` set (sn_ordered (s_snap demo_state))"
  using pickBest_highest_first[OF demo_snapshot_names] by blast







text \<open>C10: The summary of a cycle without a feasible node depends on how many nodes gave each
  reason and on nothing else, so it does not change between cycles with the iteration order of a map.\<close>

theorem noNodeFits_deterministic:
  assumes "\<And>r. length (filter (\<lambda>(_, st). filter_reason st = r) f1) = length (filter (\<lambda>(_, st). filter_reason st = r) f2)"
  shows "noNodeFits n f1 = noNodeFits n f2"
  using assms by (rule noNodeFits_perm)

theorem noNodeFits_deterministic_witness:
  "noNodeFits 2 [(''a'', NewStatus Unschedulable ''node is cordoned''), (''b'', NewStatus Unschedulable ''node is not ready'')] =
   noNodeFits 2 [(''b'', NewStatus Unschedulable ''node is not ready''), (''a'', NewStatus Unschedulable ''node is cordoned'')]"
  by (rule noNodeFits_deterministic) (auto simp: filter_reason_def)

end
