(* ===== verification/Storage.thy ===== *)
theory Storage
  imports CoreTypes
begin

text \<open>
  What the two stores share: the persistence contract's types and errors
  (\<^verbatim>\<open>api/storage/storage.go\<close>), API objects and their JSON form, the scheme that decodes them
  (\<^verbatim>\<open>api/scheme/scheme.go\<close>), and the split of an object's top-level fields into core state and
  subresources that \<^verbatim>\<open>pkg/storage/bolt/bolt.go\<close> and \<^verbatim>\<open>controller/internal/memory/mem.go\<close> both make.

  An object is its type meta, its metadata and its other top-level fields, whose values are opaque
  JSON of type \<open>'j\<close>. Encoded, it is the map from top-level field names to raw values that the
  code gets by unmarshalling into \<open>map[string]json.RawMessage\<close>. Two raw values are equal iff their bytes
  are: both sides come from the encoder of the same Kind.

  Not under src: the group/version parser (\<open>schema.ParseGroupVersion\<close>) and the label selector parser
  (\<open>labels.Parse\<close>) of apimachinery. They are the fields of \<open>deps\<close>; a parsed selector is the
  predicate it stands for.
\<close>

section \<open>Errors and references\<close>

datatype storage_error = ErrNotFound | ErrAlreadyExists | ErrConflict | ErrOther string

type_synonym gvk = "string \<times> string \<times> string"

record object_ref =
  mr_api_version :: string
  mr_kind :: string
  mr_namespace :: string
  mr_name :: string

record deps =
  dp_parse_gv :: "string \<Rightarrow> (string, string \<times> string) result"
  dp_parse_selector :: "string \<Rightarrow> (string, (string, string) gomap \<Rightarrow> bool) result"

section \<open>Objects and their JSON form\<close>

record 'j object =
  o_api_version :: string
  o_kind :: string
  o_meta :: object_meta
  o_body :: "(string, 'j) gomap"

datatype 'j raw = RString string | RMeta object_meta | RJson 'j

type_synonym 'j encoded = "(string, 'j raw) gomap"

definition type_meta_field :: "string \<Rightarrow> bool" where
  "type_meta_field k \<longleftrightarrow> k = ''apiVersion'' \<or> k = ''kind'' \<or> k = ''metadata''"

definition marshal :: "'j object \<Rightarrow> 'j encoded" where
  "marshal o' =
     [(''apiVersion'', RString (o_api_version o')), (''kind'', RString (o_kind o')),
      (''metadata'', RMeta (o_meta o'))] @ map (\<lambda>(k, v). (k, RJson v)) (o_body o')"

text \<open>A missing string field decodes to the empty string, missing metadata to the zero value.\<close>

definition string_field :: "'j encoded \<Rightarrow> string \<Rightarrow> (storage_error, string) result" where
  "string_field m k =
     (case map_of m k of None \<Rightarrow> Inr [] | Some (RString s) \<Rightarrow> Inr s | Some _ \<Rightarrow> Inl (ErrOther ''json''))"

definition zero_object_meta :: object_meta where
  "zero_object_meta =
     \<lparr>om_name = [], om_namespace = [], om_uid = [], om_resource_version = [], om_generation = 0,
      om_creation_timestamp = None, om_deletion_timestamp = None, om_labels = [],
      om_annotations = [], om_finalizers = [], om_owner_references = []\<rparr>"

definition meta_field :: "'j encoded \<Rightarrow> (storage_error, object_meta) result" where
  "meta_field m =
     (case map_of m ''metadata'' of
        None \<Rightarrow> Inr zero_object_meta | Some (RMeta mt) \<Rightarrow> Inr mt | Some _ \<Rightarrow> Inl (ErrOther ''json''))"

definition body_fields :: "'j encoded \<Rightarrow> (string, 'j) gomap" where
  "body_fields m = concat (map (\<lambda>(k, v). case v of RJson j \<Rightarrow> if type_meta_field k then [] else [(k, j)] | _ \<Rightarrow> []) m)"

section \<open>Scheme\<close>

record resource =
  rs_plural :: string
  rs_singular :: string
  rs_short_names :: "string list"
  rs_namespaced :: bool
  rs_no_history :: bool

record scheme =
  sc_known :: "gvk list"
  sc_res :: "(gvk, resource) gomap"

definition scheme_New :: "scheme \<Rightarrow> gvk \<Rightarrow> (storage_error, unit) result" where
  "scheme_New s k = (if k \<in> set (sc_known s) then Inr () else Inl (ErrOther ''no type registered''))"

definition scheme_Decode :: "deps \<Rightarrow> scheme \<Rightarrow> 'j encoded \<Rightarrow> (storage_error, string \<times> string) result" where
  "scheme_Decode d s m =
     rbind (string_field m ''apiVersion'') (\<lambda>api. rbind (string_field m ''kind'') (\<lambda>kind.
       if kind = [] then Inl (ErrOther ''couldn't get apiVersion/kind'')
       else case dp_parse_gv d api of
              Inl e \<Rightarrow> Inl (ErrOther e)
            | Inr (g, v) \<Rightarrow> rbind (scheme_New s (g, v, kind)) (\<lambda>_. Inr (api, kind))))"

text \<open>\<open>DB.decode\<close>: the scheme picks the type, then the data is unmarshalled into it.\<close>

definition decode :: "deps \<Rightarrow> scheme \<Rightarrow> 'j encoded \<Rightarrow> (storage_error, 'j object) result" where
  "decode d s m =
     rbind (scheme_Decode d s m) (\<lambda>(api, kind). rbind (meta_field m) (\<lambda>mt.
       Inr \<lparr>o_api_version = api, o_kind = kind, o_meta = mt, o_body = body_fields m\<rparr>))"

section \<open>Core state and subresources\<close>

definition subresourceField :: "string \<Rightarrow> bool" where
  "subresourceField k \<longleftrightarrow> k = ''status''"

definition coreField :: "string \<Rightarrow> bool" where
  "coreField k \<longleftrightarrow> \<not> subresourceField k"

text \<open>The core entries of the incoming map, the others of the stored one.\<close>

definition merge_fields :: "'j encoded \<Rightarrow> 'j encoded \<Rightarrow> 'j encoded" where
  "merge_fields incoming stored =
     filter (\<lambda>(k, v). coreField k) incoming @ filter (\<lambda>(k, v). \<not> coreField k) stored"

definition mergeCore :: "'j object \<Rightarrow> 'j encoded \<Rightarrow> 'j encoded" where
  "mergeCore obj stored = merge_fields (marshal obj) stored"

definition desired_changed :: "'j encoded \<Rightarrow> 'j encoded \<Rightarrow> bool" where
  "desired_changed a b \<longleftrightarrow>
     (\<exists>(k, _) \<in> set a. coreField k \<and> k \<noteq> ''metadata'' \<and> map_of a k \<noteq> map_of b k)"

definition nextGeneration :: "'j object \<Rightarrow> 'j encoded \<Rightarrow> int \<Rightarrow> int" where
  "nextGeneration incoming stored current =
     (if desired_changed (marshal incoming) stored \<or> desired_changed stored (marshal incoming)
      then wrap64 (current + 1) else current)"

section \<open>Keys\<close>

definition bucketKeyFor :: "string \<Rightarrow> string \<Rightarrow> (storage_error, string) result" where
  "bucketKeyFor grp kind =
     (if kind = [] then Inl (ErrOther ''object kind is required'') else Inr (grp @ ''/'' @ kind))"

text \<open>
  \<open>GetObjectKind().GroupVersionKind()\<close>: the parsed \<open>apiVersion\<close>, an unparsable one yielding the
  empty group.
\<close>

definition object_group :: "deps \<Rightarrow> 'j object \<Rightarrow> string" where
  "object_group d obj = (case dp_parse_gv d (o_api_version obj) of Inl _ \<Rightarrow> [] | Inr (g, _) \<Rightarrow> g)"

definition bucketKeyForObject :: "deps \<Rightarrow> 'j object \<Rightarrow> (storage_error, string) result" where
  "bucketKeyForObject d obj = bucketKeyFor (object_group d obj) (o_kind obj)"

definition bucketKeyForMeta :: "deps \<Rightarrow> object_ref \<Rightarrow> (storage_error, string) result" where
  "bucketKeyForMeta d m =
     (case dp_parse_gv d (mr_api_version m) of
        Inl e \<Rightarrow> Inl (ErrOther e)
      | Inr (g, _) \<Rightarrow> bucketKeyFor g (mr_kind m))"

definition recordKey :: "string \<Rightarrow> string \<Rightarrow> string" where
  "recordKey ns name = ns @ ''/'' @ name"

abbreviation o_key :: "'j object \<Rightarrow> string" where
  "o_key obj \<equiv> recordKey (om_namespace (o_meta obj)) (om_name (o_meta obj))"

abbreviation o_rv :: "'j object \<Rightarrow> string" where
  "o_rv obj \<equiv> om_resource_version (o_meta obj)"

abbreviation o_uid :: "'j object \<Rightarrow> string" where
  "o_uid obj \<equiv> om_uid (o_meta obj)"

definition checkResourceVersion :: "object_meta \<Rightarrow> object_meta \<Rightarrow> (storage_error, unit) result" where
  "checkResourceVersion want stored =
     guard (om_resource_version want = [] \<or> om_resource_version want = om_resource_version stored) ErrConflict"

section \<open>Watch subscriptions\<close>

datatype event_type = Added | Modified | Deleted

record 'j subscription =
  su_id :: nat
  su_selector :: "(string, string) gomap \<Rightarrow> bool"
  su_namespace :: string
  su_ch :: "(event_type \<times> 'j encoded) list"

type_synonym 'j subs = "(string, 'j subscription list) gomap"

abbreviation watchBuf :: nat where "watchBuf \<equiv> 64"

definition wants :: "string \<Rightarrow> (string, string) gomap \<Rightarrow> 'j subscription \<Rightarrow> bool" where
  "wants ns lbls sub \<longleftrightarrow> \<not> (su_namespace sub \<noteq> [] \<and> su_namespace sub \<noteq> ns) \<and> su_selector sub lbls"

text \<open>A send that would block is dropped.\<close>

definition offer :: "event_type \<times> 'j encoded \<Rightarrow> 'j subscription \<Rightarrow> 'j subscription" where
  "offer evt sub = (if length (su_ch sub) < watchBuf then sub\<lparr>su_ch := su_ch sub @ [evt]\<rparr> else sub)"

definition publish ::
  "string \<Rightarrow> event_type \<Rightarrow> 'j encoded \<Rightarrow> string \<Rightarrow> (string, string) gomap \<Rightarrow> 'j subs \<Rightarrow> 'j subs" where
  "publish bkey et raw ns lbls subs =
     map (\<lambda>(k, xs). (k, if k = bkey then map (\<lambda>x. if wants ns lbls x then offer (et, raw) x else x) xs else xs)) subs"

definition parseSelector :: "deps \<Rightarrow> string \<Rightarrow> (storage_error, (string, string) gomap \<Rightarrow> bool) result" where
  "parseSelector d s =
     (if s = [] then Inr (\<lambda>_. True)
      else case dp_parse_selector d s of Inl e \<Rightarrow> Inl (ErrOther e) | Inr f \<Rightarrow> Inr f)"

section \<open>Facts\<close>

text \<open>An object whose other fields do not shadow the type meta.\<close>

definition wf_object :: "'j object \<Rightarrow> bool" where
  "wf_object obj \<longleftrightarrow> (\<forall>(k, _) \<in> set (o_body obj). \<not> type_meta_field k)"

lemma subresource_not_type_meta: "type_meta_field k \<Longrightarrow> coreField k"
  by (auto simp: type_meta_field_def coreField_def subresourceField_def)

lemma map_of_marshal:
  "map_of (marshal obj) k =
     (if k = ''apiVersion'' then Some (RString (o_api_version obj))
      else if k = ''kind'' then Some (RString (o_kind obj))
      else if k = ''metadata'' then Some (RMeta (o_meta obj))
      else map_option RJson (map_of (o_body obj) k))"
  by (auto simp: marshal_def map_of_map)

lemma map_of_merge_fields:
  "map_of (merge_fields inc st) k = (if coreField k then map_of inc k else map_of st k)"
  by (auto simp: merge_fields_def map_add_def map_of_filter_keys[of coreField]
      map_of_filter_keys[of "\<lambda>k. \<not> coreField k"] split: option.split)

lemma body_fields_append [simp]: "body_fields (xs @ ys) = body_fields xs @ body_fields ys"
  by (simp add: body_fields_def)

lemma body_fields_Cons [simp]:
  "body_fields ((k, v) # m) =
     (case v of RJson j \<Rightarrow> if type_meta_field k then [] else [(k, j)] | _ \<Rightarrow> []) @ body_fields m"
  by (simp add: body_fields_def)

text \<open>The encoded objects of the stores: the type meta has its types, everything else is JSON.\<close>

definition json_fields :: "'j encoded \<Rightarrow> bool" where
  "json_fields m \<longleftrightarrow> (\<forall>(k, v) \<in> set m. \<not> type_meta_field k \<longrightarrow> (\<exists>j. v = RJson j))"

definition wf_encoded :: "'j encoded \<Rightarrow> bool" where
  "wf_encoded m \<longleftrightarrow> json_fields m \<and>
     (\<exists>api kind mt. map_of m ''apiVersion'' = Some (RString api) \<and> map_of m ''kind'' = Some (RString kind) \<and>
        map_of m ''metadata'' = Some (RMeta mt))"

lemma map_of_body_fields:
  assumes "json_fields m" "\<not> type_meta_field k"
  shows "map_option RJson (map_of (body_fields m) k) = map_of m k"
  using assms
proof (induction m)
  case (Cons kv m)
  obtain k' v where kv: "kv = (k', v)" by (cases kv)
  have "json_fields m" using Cons.prems(1) by (simp add: json_fields_def)
  then have IH: "map_option RJson (map_of (body_fields m) k) = map_of m k" using Cons.IH Cons.prems(2) by blast
  show ?case
  proof (cases "k' = k")
    case True
    then obtain j where "v = RJson j" using Cons.prems by (auto simp: json_fields_def kv)
    then show ?thesis using True Cons.prems(2) by (simp add: kv)
  next
    case False
    then show ?thesis using IH by (auto simp: kv split: raw.split)
  qed
qed (simp add: body_fields_def)

lemma wf_marshal: "wf_object obj \<Longrightarrow> wf_encoded (marshal obj)"
  by (auto simp: wf_encoded_def json_fields_def map_of_marshal) (auto simp: marshal_def type_meta_field_def)

lemma coreField_type_meta [simp]: "coreField ''apiVersion''" "coreField ''kind''" "coreField ''metadata''"
  by (simp_all add: coreField_def subresourceField_def)

lemma wf_merge: "wf_encoded a \<Longrightarrow> wf_encoded b \<Longrightarrow> wf_encoded (merge_fields a b)"
  by (auto simp: wf_encoded_def map_of_merge_fields) (auto simp: json_fields_def merge_fields_def)

lemma wf_body_fields: "(k, j) \<in> set (body_fields m) \<Longrightarrow> \<not> type_meta_field k"
  by (auto simp: body_fields_def split: raw.splits if_splits)

lemma decode_wf: "decode d s m = Inr obj \<Longrightarrow> wf_object obj"
  by (auto simp: decode_def rbind_eq_Inr wf_object_def dest: wf_body_fields)

text \<open>Two objects with the same fields.\<close>

definition same_object :: "'j object \<Rightarrow> 'j object \<Rightarrow> bool" where
  "same_object a b \<longleftrightarrow> o_api_version a = o_api_version b \<and> o_kind a = o_kind b \<and> o_meta a = o_meta b \<and>
     (\<forall>k. map_of (o_body a) k = map_of (o_body b) k)"

lemma decodeE:
  assumes "decode d s m = Inr obj"
  obtains api kind mt where "string_field m ''apiVersion'' = Inr api" "string_field m ''kind'' = Inr kind"
    "kind \<noteq> []" "meta_field m = Inr mt"
    "obj = \<lparr>o_api_version = api, o_kind = kind, o_meta = mt, o_body = body_fields m\<rparr>"
proof -
  from assms obtain api kind mt where 1: "scheme_Decode d s m = Inr (api, kind)" "meta_field m = Inr mt"
    "obj = \<lparr>o_api_version = api, o_kind = kind, o_meta = mt, o_body = body_fields m\<rparr>"
    by (auto simp: decode_def rbind_eq_Inr)
  from 1(1) have "string_field m ''apiVersion'' = Inr api" "string_field m ''kind'' = Inr kind" "kind \<noteq> []"
    unfolding scheme_Decode_def rbind_eq_Inr by (auto simp: result_simps split: if_splits sum.splits)
  then show thesis using that 1(2,3) by blast
qed

lemma decode_fields:
  assumes "decode d s m = Inr obj"
  shows decode_meta: "map_of m ''metadata'' = Some (RMeta mt) \<Longrightarrow> o_meta obj = mt"
    and decode_kind: "map_of m ''kind'' = Some (RString kd) \<Longrightarrow> o_kind obj = kd"
    and decode_api: "map_of m ''apiVersion'' = Some (RString api) \<Longrightarrow> o_api_version obj = api"
    and decode_body: "wf_encoded m \<Longrightarrow> \<not> type_meta_field k \<Longrightarrow> map_option RJson (map_of (o_body obj) k) = map_of m k"
  using assms by (auto elim!: decodeE simp: meta_field_def string_field_def map_of_body_fields wf_encoded_def)

lemma wf_object_type_meta: "wf_object obj \<Longrightarrow> type_meta_field k \<Longrightarrow> map_of (o_body obj) k = None"
  by (fastforce simp: wf_object_def map_of_eq_None_iff)

lemma map_option_RJson_eq [simp]: "map_option RJson x = map_option RJson y \<longleftrightarrow> x = y"
  by (cases x; cases y) auto

lemma decode_marshal:
  assumes "wf_object obj" "decode d s (marshal obj) = Inr obj'"
  shows "same_object obj' obj"
proof -
  note f = decode_fields[OF assms(2)]
  have "map_of (o_body obj') k = map_of (o_body obj) k" for k
  proof (cases "type_meta_field k")
    case True
    then show ?thesis using wf_object_type_meta decode_wf[OF assms(2)] assms(1) by metis
  next
    case False
    then have "map_of (marshal obj) k = map_option RJson (map_of (o_body obj) k)"
      by (simp add: map_of_marshal type_meta_field_def)
    then show ?thesis using f(4)[OF wf_marshal[OF assms(1)] False] by simp
  qed
  then show ?thesis using f(1-3) by (simp add: same_object_def map_of_marshal)
qed

text \<open>A stored encoding is, field by field, the encoding of the object it decodes to.\<close>

lemma encoded_as_marshal:
  assumes "decode d s m = Inr obj" "wf_encoded m"
  shows "map_of m k = map_of (marshal obj) k"
proof (cases "type_meta_field k")
  case True
  obtain api kind mt where "map_of m ''apiVersion'' = Some (RString api)" "map_of m ''kind'' = Some (RString kind)"
    "map_of m ''metadata'' = Some (RMeta mt)"
    using assms(2) by (auto simp: wf_encoded_def)
  then show ?thesis using decode_fields(1-3)[OF assms(1)] True
    by (auto simp: map_of_marshal type_meta_field_def)
next
  case False
  then show ?thesis using decode_body[OF assms(1,2) False]
    by (simp add: map_of_marshal type_meta_field_def)
qed

lemma desired_changed_sym:
  "desired_changed a b \<or> desired_changed b a \<longleftrightarrow>
     (\<exists>k. coreField k \<and> k \<noteq> ''metadata'' \<and> map_of a k \<noteq> map_of b k)"
proof -
  have iff: "desired_changed x y \<longleftrightarrow> (\<exists>k. map_of x k \<noteq> None \<and> coreField k \<and> k \<noteq> ''metadata'' \<and> map_of x k \<noteq> map_of y k)"
    for x y :: "'a encoded"
    unfolding desired_changed_def map_of_eq_None_iff by force
  show ?thesis unfolding iff by metis
qed

lemma nextGeneration_eq:
  assumes "decode d s m = Inr old" "wf_encoded m"
  shows "nextGeneration obj m c =
    (if \<exists>k. coreField k \<and> k \<noteq> ''metadata'' \<and> map_of (marshal obj) k \<noteq> map_of (marshal old) k
     then wrap64 (c + 1) else c)"
  unfolding nextGeneration_def desired_changed_sym encoded_as_marshal[OF assms] ..

end
