(* ===== verification/BoltStore.thy ===== *)
theory BoltStore
  imports Storage
begin

text \<open>
  The BoltDB store, \<^verbatim>\<open>pkg/storage/bolt/bolt.go\<close>. The embedded database (bbolt) is not under src: it
  is the record \<open>bbolt\<close> of the operations the store calls, over a database state \<open>'b\<close>; what
  the store relies on of them is the locale \<open>bbolt_laws\<close> of the next theory. A write transaction
  is a function from the state to a result; an error in it, or in its commit, leaves the database as it was.

  The commit and its watch event happen under one mutex, so an operation is one step. The uid a
  \<open>Create\<close> draws at random and the time it reads are its arguments. Cloning the caller's object is
  the identity here: the model passes values.
\<close>

section \<open>The database\<close>

datatype 'j blob = Text string | Obj "'j encoded"

record ('b, 'j) bbolt =
  bb_has :: "'b \<Rightarrow> string \<Rightarrow> bool"
  bb_get :: "'b \<Rightarrow> string \<Rightarrow> string \<Rightarrow> 'j blob option"
  bb_keys :: "'b \<Rightarrow> string \<Rightarrow> string list"
  bb_create :: "string \<Rightarrow> 'b \<Rightarrow> (string, 'b) result"
  bb_drop :: "string \<Rightarrow> 'b \<Rightarrow> (string, 'b) result"
  bb_put :: "string \<Rightarrow> string \<Rightarrow> 'j blob \<Rightarrow> 'b \<Rightarrow> (string, 'b) result"
  bb_delete :: "string \<Rightarrow> string \<Rightarrow> 'b \<Rightarrow> (string, 'b) result"
  bb_commit :: "'b \<Rightarrow> string option"

definition bb_res :: "(string, 'a) result \<Rightarrow> (storage_error, 'a) result" where
  "bb_res r = (case r of Inl e \<Rightarrow> Inl (ErrOther e) | Inr x \<Rightarrow> Inr x)"

definition db_Update ::
  "('b, 'j) bbolt \<Rightarrow> ('b \<Rightarrow> (storage_error, 'a \<times> 'b) result) \<Rightarrow> 'b \<Rightarrow> (storage_error, 'a) result \<times> 'b" where
  "db_Update ops f b =
     (case f b of
        Inl e \<Rightarrow> (Inl e, b)
      | Inr (x, b') \<Rightarrow> (case bb_commit ops b' of Some e \<Rightarrow> (Inl (ErrOther e), b) | None \<Rightarrow> (Inr x, b')))"

text \<open>\<open>tx.Bucket(bkey)\<close>, then \<open>Get\<close>: nothing without the bucket.\<close>

definition lookup_blob :: "('b, 'j) bbolt \<Rightarrow> 'b \<Rightarrow> string \<Rightarrow> string \<Rightarrow> 'j blob option" where
  "lookup_blob ops b bkey key = (if bb_has ops b bkey then bb_get ops b bkey key else None)"

definition as_json :: "'j blob \<Rightarrow> (storage_error, 'j encoded) result" where
  "as_json v = (case v of Obj m \<Rightarrow> Inr m | Text _ \<Rightarrow> Inl (ErrOther ''json''))"

definition find_record ::
  "('b, 'j) bbolt \<Rightarrow> 'b \<Rightarrow> string \<Rightarrow> string \<Rightarrow> (storage_error, 'j encoded) result" where
  "find_record ops b bkey key =
     (case lookup_blob ops b bkey key of None \<Rightarrow> Inl ErrNotFound | Some v \<Rightarrow> as_json v)"

section \<open>The store\<close>

record ('b, 'j) DB =
  d_db :: 'b
  d_scheme :: scheme
  d_no_history :: "string list"
  d_subs :: "'j subs"
  d_next_sub :: nat

abbreviation seqBucket :: string where "seqBucket \<equiv> ''__rv_seq''"

abbreviation sep :: string where "sep \<equiv> [CHR 0x00]"

abbreviation maxHistory :: nat where "maxHistory \<equiv> 10"

definition historyBucket :: "string \<Rightarrow> string" where
  "historyBucket bkey = bkey @ CHR 0x00 # ''history''"

text \<open>\<open>%020d\<close> of a 64-bit value: always twenty digits.\<close>

fun pad_digits :: "nat \<Rightarrow> nat \<Rightarrow> string" where
  "pad_digits 0 n = []"
| "pad_digits (Suc w) n = pad_digits w (n div 10) @ [digit_char (n mod 10)]"

definition historyKey :: "string \<Rightarrow> nat \<Rightarrow> string" where
  "historyKey uid rv = uid @ sep @ pad_digits 20 rv"

definition has_prefix :: "string \<Rightarrow> string \<Rightarrow> bool" where
  "has_prefix p k \<longleftrightarrow> take (length p) k = p"

text \<open>The keys a cursor visits from \<open>Seek(prefix)\<close> while the prefix holds.\<close>

definition seek_prefix :: "string \<Rightarrow> string list \<Rightarrow> string list" where
  "seek_prefix p ks = takeWhile (has_prefix p) (dropWhile (\<lambda>k. k < p) ks)"

definition delete_keys ::
  "('b, 'j) bbolt \<Rightarrow> string \<Rightarrow> string list \<Rightarrow> 'b \<Rightarrow> (storage_error, 'b) result" where
  "delete_keys ops h ks b = rfold (\<lambda>k b. bb_res (bb_delete ops h k b)) ks b"

definition pruneHistory ::
  "('b, 'j) bbolt \<Rightarrow> string \<Rightarrow> string \<Rightarrow> 'b \<Rightarrow> (storage_error, 'b) result" where
  "pruneHistory ops h uid b =
     (let ks = seek_prefix (uid @ sep) (bb_keys ops b h)
      in delete_keys ops h (take (length ks - maxHistory) ks) b)"

definition deleteHistory ::
  "('b, 'j) bbolt \<Rightarrow> string \<Rightarrow> string \<Rightarrow> 'b \<Rightarrow> (storage_error, 'b) result" where
  "deleteHistory ops bkey uid b =
     (let h = historyBucket bkey
      in if \<not> bb_has ops b h then Inr b
         else delete_keys ops h (seek_prefix (uid @ sep) (bb_keys ops b h)) b)"

text \<open>
  \<open>strconv.ParseUint\<close> with its error dropped: 0 for a syntax error, the largest value for a range error.
\<close>

definition parse_uint64 :: "string \<Rightarrow> nat" where
  "parse_uint64 v = (case parse_nat v of None \<Rightarrow> 0 | Some n \<Rightarrow> min n (2 ^ 64 - 1))"

definition current_rv :: "('b, 'j) bbolt \<Rightarrow> 'b \<Rightarrow> string \<Rightarrow> nat" where
  "current_rv ops b bkey =
     (case bb_get ops b seqBucket bkey of Some (Text v) \<Rightarrow> parse_uint64 v | _ \<Rightarrow> 0)"

definition nextRV :: "('b, 'j) bbolt \<Rightarrow> string \<Rightarrow> 'b \<Rightarrow> (storage_error, nat \<times> 'b) result" where
  "nextRV ops bkey b =
     (let rv = (current_rv ops b bkey + 1) mod 2 ^ 64
      in rbind (bb_res (bb_put ops seqBucket bkey (Text (show_nat rv)) b)) (\<lambda>b. Inr (rv, b)))"

definition putHead ::
  "('b, 'j) bbolt \<Rightarrow> string \<Rightarrow> string \<Rightarrow> 'j encoded \<Rightarrow> 'b \<Rightarrow> (storage_error, 'b) result" where
  "putHead ops bkey key enc b =
     rbind (bb_res (bb_create ops bkey b)) (\<lambda>b. bb_res (bb_put ops bkey key (Obj enc) b))"

definition commit ::
  "('b, 'j) bbolt \<Rightarrow> string list \<Rightarrow> string \<Rightarrow> string \<Rightarrow> string \<Rightarrow> nat \<Rightarrow> 'j encoded \<Rightarrow> 'b \<Rightarrow>
   (storage_error, 'b) result" where
  "commit ops noHistory bkey key uid rv enc b =
     rbind (putHead ops bkey key enc b) (\<lambda>b.
       if bkey \<in> set noHistory then Inr b
       else rbind (bb_res (bb_create ops (historyBucket bkey) b)) (\<lambda>b.
            rbind (bb_res (bb_put ops (historyBucket bkey) (historyKey uid rv) (Obj enc) b)) (\<lambda>b.
              pruneHistory ops (historyBucket bkey) uid b)))"

section \<open>Open and close\<close>

text \<open>The buckets of the Kinds that keep no history.\<close>

fun no_history_keys :: "(gvk \<times> resource) list \<Rightarrow> (storage_error, string list) result" where
  "no_history_keys [] = Inr []"
| "no_history_keys (((g, v, k), r) # rs) =
     (if \<not> rs_no_history r then no_history_keys rs
      else rbind (bucketKeyFor g k) (\<lambda>bkey. rbind (no_history_keys rs) (\<lambda>ks. Inr (bkey # ks))))"

definition drop_history :: "('b, 'j) bbolt \<Rightarrow> string \<Rightarrow> 'b \<Rightarrow> (storage_error, 'b) result" where
  "drop_history ops bkey b =
     (if bb_has ops b (historyBucket bkey) then bb_res (bb_drop ops (historyBucket bkey) b) else Inr b)"

definition Open :: "('b, 'j) bbolt \<Rightarrow> scheme \<Rightarrow> 'b \<Rightarrow> (storage_error, ('b, 'j) DB) result" where
  "Open ops sch b0 =
     rbind (no_history_keys (sc_res sch)) (\<lambda>noHistory.
       case db_Update ops (\<lambda>b. rbind (bb_res (bb_create ops seqBucket b)) (\<lambda>b.
              rbind (rfold (drop_history ops) noHistory b) (\<lambda>b. Inr ((), b)))) b0 of
         (Inl e, _) \<Rightarrow> Inl e
       | (Inr _, b) \<Rightarrow> Inr \<lparr>d_db = b, d_scheme = sch, d_no_history = noHistory, d_subs = [], d_next_sub = 0\<rparr>)"

definition Close :: "('b, 'j) DB \<Rightarrow> ('b, 'j) DB" where
  "Close s = s\<lparr>d_subs := []\<rparr>"

section \<open>Writes\<close>

text \<open>Install the transaction's database and, on success, publish the event it asks for.\<close>

definition finish ::
  "string \<Rightarrow> event_type \<Rightarrow> (storage_error, 'j object \<times> 'j encoded \<times> object_meta) result \<times> 'b \<Rightarrow> ('b, 'j) DB \<Rightarrow>
   (storage_error, 'j object) result \<times> ('b, 'j) DB" where
  "finish bkey et r s =
     (case r of
        (Inl e, b) \<Rightarrow> (Inl e, s\<lparr>d_db := b\<rparr>)
      | (Inr (out, enc, mt), b) \<Rightarrow>
          (Inr out, s\<lparr>d_db := b, d_subs := publish bkey et enc (om_namespace mt) (om_labels mt) (d_subs s)\<rparr>))"

definition rfc3339 :: "int \<Rightarrow> int" where
  "rfc3339 t = t - t mod 1000000000"

definition created_meta :: "string \<Rightarrow> nat \<Rightarrow> int \<Rightarrow> object_meta \<Rightarrow> object_meta" where
  "created_meta uid rv now mt =
     mt\<lparr>om_uid := uid, om_resource_version := show_nat rv, om_generation := 1,
        om_creation_timestamp := Some (rfc3339 now)\<rparr>"

definition create_tx ::
  "('b, 'j) bbolt \<Rightarrow> string list \<Rightarrow> string \<Rightarrow> int \<Rightarrow> string \<Rightarrow> 'j object \<Rightarrow> 'b \<Rightarrow>
   (storage_error, ('j object \<times> 'j encoded \<times> object_meta) \<times> 'b) result" where
  "create_tx ops noHistory uid now bkey obj b =
     (if lookup_blob ops b bkey (o_key obj) \<noteq> None then Inl ErrAlreadyExists
      else rbind (nextRV ops bkey b) (\<lambda>(rv, b).
        let out = obj\<lparr>o_meta := created_meta uid rv now (o_meta obj)\<rparr>; enc = marshal out
        in rbind (commit ops noHistory bkey (o_key obj) uid rv enc b) (\<lambda>b. Inr ((out, enc, o_meta out), b))))"

definition Create ::
  "('b, 'j) bbolt \<Rightarrow> deps \<Rightarrow> string \<Rightarrow> int \<Rightarrow> 'j object \<Rightarrow> ('b, 'j) DB \<Rightarrow>
   (storage_error, 'j object) result \<times> ('b, 'j) DB" where
  "Create ops d uid now obj s =
     (case bucketKeyForObject d obj of
        Inl e \<Rightarrow> (Inl e, s)
      | Inr bkey \<Rightarrow>
          if om_name (o_meta obj) = [] then (Inl (ErrOther ''metadata.name is required''), s)
          else finish bkey Added (db_Update ops (create_tx ops (d_no_history s) uid now bkey obj) (d_db s)) s)"

definition updated_meta :: "object_meta \<Rightarrow> nat \<Rightarrow> int \<Rightarrow> object_meta \<Rightarrow> object_meta" where
  "updated_meta old rv gen mt =
     mt\<lparr>om_uid := om_uid old, om_creation_timestamp := om_creation_timestamp old,
        om_resource_version := show_nat rv, om_generation := gen\<rparr>"

definition update_tx ::
  "('b, 'j) bbolt \<Rightarrow> deps \<Rightarrow> scheme \<Rightarrow> string list \<Rightarrow> string \<Rightarrow> 'j object \<Rightarrow> 'b \<Rightarrow>
   (storage_error, ('j object \<times> 'j encoded \<times> object_meta) \<times> 'b) result" where
  "update_tx ops d sch noHistory bkey obj b =
     rbind (find_record ops b bkey (o_key obj)) (\<lambda>cur.
     rbind (decode d sch cur) (\<lambda>old.
     rbind (checkResourceVersion (o_meta obj) (o_meta old)) (\<lambda>_.
     rbind (nextRV ops bkey b) (\<lambda>(rv, b).
       let stamped = obj\<lparr>o_meta := (o_meta obj)\<lparr>om_uid := o_uid old,
             om_creation_timestamp := om_creation_timestamp (o_meta old), om_resource_version := show_nat rv\<rparr>\<rparr>;
           gen = nextGeneration stamped cur (om_generation (o_meta old));
           out = obj\<lparr>o_meta := updated_meta (o_meta old) rv gen (o_meta obj)\<rparr>;
           merged = mergeCore out cur
       in rbind (decode d sch merged) (\<lambda>res.
          rbind (commit ops noHistory bkey (o_key obj) (o_uid old) rv merged b) (\<lambda>b.
            Inr ((res, merged, o_meta out), b)))))))"

definition Update ::
  "('b, 'j) bbolt \<Rightarrow> deps \<Rightarrow> 'j object \<Rightarrow> ('b, 'j) DB \<Rightarrow> (storage_error, 'j object) result \<times> ('b, 'j) DB" where
  "Update ops d obj s =
     (case bucketKeyForObject d obj of
        Inl e \<Rightarrow> (Inl e, s)
      | Inr bkey \<Rightarrow>
          finish bkey Modified (db_Update ops (update_tx ops d (d_scheme s) (d_no_history s) bkey obj) (d_db s)) s)"

text \<open>
  A subresource write returns the record to publish, or \<open>None\<close> when nothing changed.
\<close>

definition subresource_tx ::
  "('b, 'j) bbolt \<Rightarrow> deps \<Rightarrow> scheme \<Rightarrow> string \<Rightarrow> string \<Rightarrow> 'j raw \<Rightarrow> 'j object \<Rightarrow> 'b \<Rightarrow>
   (storage_error, ('j object \<times> 'j encoded option) \<times> 'b) result" where
  "subresource_tx ops d sch bkey sub val obj b =
     rbind (find_record ops b bkey (o_key obj)) (\<lambda>cur.
     rbind (decode d sch cur) (\<lambda>old.
     rbind (checkResourceVersion (o_meta obj) (o_meta old)) (\<lambda>_.
       if map_of cur sub = Some val then Inr ((old, None), b)
       else rbind (decode d sch (goput sub val cur)) (\<lambda>res.
            rbind (putHead ops bkey (o_key obj) (marshal res) b) (\<lambda>b. Inr ((res, Some (marshal res)), b))))))"

definition UpdateSubresource ::
  "('b, 'j) bbolt \<Rightarrow> deps \<Rightarrow> string \<Rightarrow> 'j object \<Rightarrow> ('b, 'j) DB \<Rightarrow>
   (storage_error, 'j object) result \<times> ('b, 'j) DB" where
  "UpdateSubresource ops d sub obj s =
     (if sub = [] then (Inl (ErrOther ''subresource is required''), s)
      else case bucketKeyForObject d obj of
             Inl e \<Rightarrow> (Inl e, s)
           | Inr bkey \<Rightarrow>
               (case map_of (marshal obj) sub of
                  None \<Rightarrow> (Inl (ErrOther ''object has no field for subresource''), s)
                | Some val \<Rightarrow>
                    (case db_Update ops (subresource_tx ops d (d_scheme s) bkey sub val obj) (d_db s) of
                       (Inl e, b) \<Rightarrow> (Inl e, s\<lparr>d_db := b\<rparr>)
                     | (Inr (res, None), b) \<Rightarrow> (Inr res, s\<lparr>d_db := b\<rparr>)
                     | (Inr (res, Some enc), b) \<Rightarrow>
                         (Inr res, s\<lparr>d_db := b, d_subs := publish bkey Modified enc (om_namespace (o_meta res))
                                       (om_labels (o_meta res)) (d_subs s)\<rparr>))))"

definition GetRevision ::
  "('b, 'j) bbolt \<Rightarrow> deps \<Rightarrow> object_ref \<Rightarrow> string \<Rightarrow> int \<Rightarrow> ('b, 'j) DB \<Rightarrow> (storage_error, 'j object) result" where
  "GetRevision ops d m uid targetRV s =
     rbind (bucketKeyForMeta d m) (\<lambda>bkey.
       if uid = [] then Inl (ErrOther ''uid is required'')
       else if targetRV \<le> 0 then Inl ErrNotFound
       else rbind (find_record ops (d_db s) (historyBucket bkey) (historyKey uid (nat targetRV)))
              (decode d (d_scheme s)))"

definition rollback_tx ::
  "('b, 'j) bbolt \<Rightarrow> deps \<Rightarrow> scheme \<Rightarrow> string list \<Rightarrow> string \<Rightarrow> string \<Rightarrow> nat \<Rightarrow> 'b \<Rightarrow>
   (storage_error, ('j object \<times> 'j encoded \<times> object_meta) \<times> 'b) result" where
  "rollback_tx ops d sch noHistory bkey uid target b =
     rbind (find_record ops b (historyBucket bkey) (historyKey uid target)) (\<lambda>snap.
     rbind (decode d sch snap) (\<lambda>sobj.
     rbind (find_record ops b bkey (o_key sobj)) (\<lambda>cur.
     rbind (nextRV ops bkey b) (\<lambda>(rv, b).
     rbind (decode d sch (merge_fields snap cur)) (\<lambda>res.
     rbind (decode d sch cur) (\<lambda>cobj.
       let stamped = res\<lparr>o_meta := (o_meta res)\<lparr>om_resource_version := show_nat rv\<rparr>\<rparr>;
           gen = nextGeneration stamped cur (om_generation (o_meta cobj));
           out = stamped\<lparr>o_meta := (o_meta stamped)\<lparr>om_generation := gen\<rparr>\<rparr>
       in rbind (commit ops noHistory bkey (o_key sobj) uid rv (marshal out) b) (\<lambda>b.
            Inr ((out, marshal out, o_meta out), b))))))))"

definition Rollback ::
  "('b, 'j) bbolt \<Rightarrow> deps \<Rightarrow> object_ref \<Rightarrow> string \<Rightarrow> int \<Rightarrow> ('b, 'j) DB \<Rightarrow>
   (storage_error, 'j object) result \<times> ('b, 'j) DB" where
  "Rollback ops d m uid targetRV s =
     (case bucketKeyForMeta d m of
        Inl e \<Rightarrow> (Inl e, s)
      | Inr bkey \<Rightarrow>
          if uid = [] then (Inl (ErrOther ''uid is required''), s)
          else if targetRV \<le> 0 then (Inl ErrNotFound, s)
          else if bkey \<in> set (d_no_history s) then (Inl (ErrOther ''retains no revisions''), s)
          else finish bkey Modified
                 (db_Update ops (rollback_tx ops d (d_scheme s) (d_no_history s) bkey uid (nat targetRV)) (d_db s)) s)"

definition delete_tx ::
  "('b, 'j) bbolt \<Rightarrow> deps \<Rightarrow> scheme \<Rightarrow> string \<Rightarrow> string \<Rightarrow> 'b \<Rightarrow>
   (storage_error, ('j object \<times> 'j encoded \<times> object_meta) \<times> 'b) result" where
  "delete_tx ops d sch bkey key b =
     rbind (find_record ops b bkey key) (\<lambda>cur.
     rbind (decode d sch cur) (\<lambda>old.
     rbind (bb_res (bb_delete ops bkey key b)) (\<lambda>b.
     rbind (deleteHistory ops bkey (o_uid old) b) (\<lambda>b.
       Inr ((old, cur, o_meta old), b)))))"

definition Delete ::
  "('b, 'j) bbolt \<Rightarrow> deps \<Rightarrow> object_ref \<Rightarrow> ('b, 'j) DB \<Rightarrow> storage_error option \<times> ('b, 'j) DB" where
  "Delete ops d m s =
     (case bucketKeyForMeta d m of
        Inl e \<Rightarrow> (Some e, s)
      | Inr bkey \<Rightarrow>
          (case finish bkey Deleted
                  (db_Update ops (delete_tx ops d (d_scheme s) bkey (recordKey (mr_namespace m) (mr_name m))) (d_db s)) s of
             (Inl e, s') \<Rightarrow> (Some e, s')
           | (Inr _, s') \<Rightarrow> (None, s')))"

section \<open>Reads and watches\<close>

definition Get :: "('b, 'j) bbolt \<Rightarrow> deps \<Rightarrow> object_ref \<Rightarrow> ('b, 'j) DB \<Rightarrow> (storage_error, 'j object) result" where
  "Get ops d m s =
     rbind (bucketKeyForMeta d m) (\<lambda>bkey.
     rbind (find_record ops (d_db s) bkey (recordKey (mr_namespace m) (mr_name m)))
       (decode d (d_scheme s)))"

definition list_step ::
  "('b, 'j) bbolt \<Rightarrow> deps \<Rightarrow> object_ref \<Rightarrow> ((string, string) gomap \<Rightarrow> bool) \<Rightarrow> string \<Rightarrow> ('b, 'j) DB \<Rightarrow>
   string \<Rightarrow> 'j object list \<Rightarrow> (storage_error, 'j object list) result" where
  "list_step ops d m sel bkey s key out =
     (case bb_get ops (d_db s) bkey key of
        None \<Rightarrow> Inr out
      | Some v \<Rightarrow>
          rbind (as_json v) (\<lambda>enc. rbind (decode d (d_scheme s) enc) (\<lambda>obj.
            if mr_namespace m \<noteq> [] \<and> om_namespace (o_meta obj) \<noteq> mr_namespace m then Inr out
            else if sel (om_labels (o_meta obj)) then Inr (out @ [obj]) else Inr out)))"

definition List_objects ::
  "('b, 'j) bbolt \<Rightarrow> deps \<Rightarrow> object_ref \<Rightarrow> string \<Rightarrow> ('b, 'j) DB \<Rightarrow> (storage_error, 'j object list) result" where
  "List_objects ops d m labelSelector s =
     rbind (bucketKeyForMeta d m) (\<lambda>bkey.
     rbind (parseSelector d labelSelector) (\<lambda>sel.
       if \<not> bb_has ops (d_db s) bkey then Inr []
       else rfold (list_step ops d m sel bkey s) (bb_keys ops (d_db s) bkey) []))"

text \<open>A watch returns the identity of its subscription; its end is \<open>removeSub\<close>.\<close>

definition Watch ::
  "deps \<Rightarrow> object_ref \<Rightarrow> string \<Rightarrow> ('b, 'j) DB \<Rightarrow> (storage_error, nat \<times> ('b, 'j) DB) result" where
  "Watch d m labelSelector s =
     rbind (bucketKeyForMeta d m) (\<lambda>bkey.
     rbind (parseSelector d labelSelector) (\<lambda>sel.
       let i = d_next_sub s;
           sub = \<lparr>su_id = i, su_selector = sel, su_namespace = mr_namespace m, su_ch = []\<rparr>
       in Inr (i, s\<lparr>d_subs := goput bkey (goget [] (d_subs s) bkey @ [sub]) (d_subs s), d_next_sub := i + 1\<rparr>)))"

fun delete_sub :: "nat \<Rightarrow> 'j subscription list \<Rightarrow> 'j subscription list" where
  "delete_sub i [] = []"
| "delete_sub i (x # xs) = (if su_id x = i then xs else x # delete_sub i xs)"

definition removeSub :: "string \<Rightarrow> nat \<Rightarrow> ('b, 'j) DB \<Rightarrow> ('b, 'j) DB" where
  "removeSub bkey i s =
     (let xs = goget [] (d_subs s) bkey
      in if i \<notin> set (map su_id xs) then s
         else let xs' = delete_sub i xs
              in s\<lparr>d_subs := (if xs' = [] then godel bkey (d_subs s) else goput bkey xs' (d_subs s))\<rparr>)"

end
