(* ===== verification/BoltLaws.thy ===== *)
theory BoltLaws
  imports BoltStore
begin

text \<open>
  What the BoltDB store relies on of the embedded database (locale \<open>bbolt_laws\<close>: its documented
  behaviour of buckets, values and the cursor's byte order), that the store's keys keep objects,
  Kinds and revisions apart and sort revisions by number, and a concrete database that meets the laws.
\<close>

section \<open>What the store relies on of bbolt\<close>

locale bbolt_laws =
  fixes ops :: "('b, 'j) bbolt"
  assumes get_none: "\<not> bb_has ops b x \<Longrightarrow> bb_get ops b x k = None"
    and has_create: "bb_create ops x b = Inr b' \<Longrightarrow> bb_has ops b' y \<longleftrightarrow> y = x \<or> bb_has ops b y"
    and get_create: "bb_create ops x b = Inr b' \<Longrightarrow> bb_get ops b' y k = bb_get ops b y k"
    and has_drop: "bb_drop ops x b = Inr b' \<Longrightarrow> bb_has ops b' y \<longleftrightarrow> y \<noteq> x \<and> bb_has ops b y"
    and get_drop: "bb_drop ops x b = Inr b' \<Longrightarrow> bb_get ops b' y k = (if y = x then None else bb_get ops b y k)"
    and has_put: "bb_has ops b x \<Longrightarrow> bb_put ops x k v b = Inr b' \<Longrightarrow> bb_has ops b' y = bb_has ops b y"
    and get_put: "bb_has ops b x \<Longrightarrow> bb_put ops x k v b = Inr b' \<Longrightarrow>
      bb_get ops b' y j = (if y = x \<and> j = k then Some v else bb_get ops b y j)"
    and has_delete: "bb_delete ops x k b = Inr b' \<Longrightarrow> bb_has ops b' y = bb_has ops b y"
    and get_delete: "bb_delete ops x k b = Inr b' \<Longrightarrow>
      bb_get ops b' y j = (if y = x \<and> j = k then None else bb_get ops b y j)"
    and keys_set: "set (bb_keys ops b x) = {k. bb_get ops b x k \<noteq> None}"
    and keys_sorted: "sorted (bb_keys ops b x)"
    and keys_distinct: "distinct (bb_keys ops b x)"

section \<open>Keys\<close>

definition plain :: "string \<Rightarrow> bool" where
  "plain x \<longleftrightarrow> CHR 0x00 \<notin> set x"

text \<open>The bucket of a Kind: \<open>group/kind\<close>, free of the separator byte.\<close>

definition kind_bucket :: "string \<Rightarrow> bool" where
  "kind_bucket x \<longleftrightarrow> plain x \<and> CHR ''/'' \<in> set x"

lemma bucketKeyFor_slash: "bucketKeyFor g k = Inr x \<Longrightarrow> CHR ''/'' \<in> set x"
  by (auto simp: bucketKeyFor_def split: if_splits)

lemma kind_bucket_neq:
  assumes "kind_bucket x"
  shows "x \<noteq> seqBucket" "historyBucket y \<noteq> x" "historyBucket y \<noteq> seqBucket"
  using assms by (auto simp: kind_bucket_def plain_def historyBucket_def)

lemma historyBucket_inj [simp]: "historyBucket x = historyBucket y \<longleftrightarrow> x = y"
  by (simp add: historyBucket_def)

lemma length_pad_digits [simp]: "length (pad_digits w n) = w"
  by (induction w arbitrary: n) auto

lemma digit_char_inj: "a < 10 \<Longrightarrow> b < 10 \<Longrightarrow> digit_char a = digit_char b \<longleftrightarrow> a = b"
  by (metis digit_val_char option.inject)

lemma div10_less: "(m :: nat) < 10 ^ Suc w \<Longrightarrow> m div 10 < 10 ^ w"
  by (rule less_mult_imp_div_less) (simp add: mult.commute)

lemma div_mod10_eq: "(m :: nat) = n \<longleftrightarrow> m div 10 = n div 10 \<and> m mod 10 = n mod 10"
  by (metis div_mult_mod_eq)

lemma pad_digits_inj: "m < 10 ^ w \<Longrightarrow> n < 10 ^ w \<Longrightarrow> pad_digits w m = pad_digits w n \<longleftrightarrow> m = n"
proof (induction w arbitrary: m n)
  case (Suc w)
  note lt = Suc.prems[THEN div10_less]
  have "digit_char (m mod 10) = digit_char (n mod 10) \<longleftrightarrow> m mod 10 = n mod 10"
    by (rule digit_char_inj) auto
  then show ?case using Suc.IH[OF lt] div_mod10_eq[of m n] by simp
qed simp

lemma historyKey_inj:
  assumes "m < 10 ^ 20" "n < 10 ^ 20"
  shows "historyKey u m = historyKey v n \<longleftrightarrow> u = v \<and> m = n"
proof
  assume eq: "historyKey u m = historyKey v n"
  have "length (historyKey u m) = length u + 21" "length (historyKey v n) = length v + 21"
    by (simp_all add: historyKey_def del: pad_digits.simps)
  then have "length u = length v" using eq by simp
  then have "u = v \<and> pad_digits 20 m = pad_digits 20 n" using eq by (simp add: historyKey_def del: pad_digits.simps)
  then show "u = v \<and> m = n" using pad_digits_inj[OF assms] by simp
qed simp

lemma plain_digits: "plain (pad_digits w n)"
proof (induction w arbitrary: n)
  case (Suc w)
  have "digit_char (n mod 10) \<noteq> CHR 0x00" using digit_val_char[of "n mod 10"] by (auto simp: digit_val_def)
  then show ?case using Suc by (auto simp: plain_def)
qed (simp add: plain_def)

lemma has_prefix_iff: "has_prefix p k \<longleftrightarrow> (\<exists>r. k = p @ r)"
  unfolding has_prefix_def by (metis append_eq_conv_conj)

lemma sep_split: "plain u \<Longrightarrow> plain v \<Longrightarrow> u @ CHR 0x00 # x = v @ CHR 0x00 # y \<Longrightarrow> u = v"
proof (induction u arbitrary: v)
  case Nil
  then show ?case by (cases v) (auto simp: plain_def)
next
  case (Cons c u)
  then obtain v' where v: "v = c # v'" by (cases v) (auto simp: plain_def)
  then show ?case using Cons.IH[of v'] Cons.prems by (auto simp: plain_def)
qed

lemma prefix_historyKey:
  assumes "plain u" "plain v"
  shows "has_prefix (u @ sep) (historyKey v n) \<longleftrightarrow> u = v"
proof
  assume "has_prefix (u @ sep) (historyKey v n)"
  then obtain r where "u @ CHR 0x00 # r = v @ CHR 0x00 # pad_digits 20 n"
    unfolding has_prefix_iff historyKey_def by auto
  then show "u = v" by (rule sep_split[OF assms])
next
  assume "u = v"
  then show "has_prefix (u @ sep) (historyKey v n)" unfolding has_prefix_iff historyKey_def by auto
qed

section \<open>Cursor order\<close>

lemma lex_snoc:
  fixes xs ys :: string
  assumes "length xs = length ys"
  shows "xs @ [a] < ys @ [b] \<longleftrightarrow> xs < ys \<or> xs = ys \<and> a < b"
  using assms by (induction xs ys rule: list_induct2) auto

lemma digit_char_less: "a < 10 \<Longrightarrow> b < 10 \<Longrightarrow> digit_char a < digit_char b \<longleftrightarrow> a < b"
  by (simp add: digit_char_def less_char_def)

lemma div_mod10_less: "(m :: nat) < n \<longleftrightarrow> m div 10 < n div 10 \<or> m div 10 = n div 10 \<and> m mod 10 < n mod 10"
proof -
  have eq: "m = 10 * (m div 10) + m mod 10" "n = 10 * (n div 10) + n mod 10" by simp_all
  have "m mod 10 < 10" "n mod 10 < 10" by simp_all
  then show ?thesis using eq by linarith
qed

lemma pad_digits_less: "m < 10 ^ w \<Longrightarrow> n < 10 ^ w \<Longrightarrow> pad_digits w m < pad_digits w n \<longleftrightarrow> m < n"
proof (induction w arbitrary: m n)
  case (Suc w)
  note lt = Suc.prems[THEN div10_less]
  have "pad_digits (Suc w) m < pad_digits (Suc w) n \<longleftrightarrow>
      m div 10 < n div 10 \<or> m div 10 = n div 10 \<and> m mod 10 < n mod 10"
    using Suc.IH[OF lt] pad_digits_inj[OF lt] by (simp add: lex_snoc digit_char_less)
  also have "\<dots> \<longleftrightarrow> m < n" by (rule div_mod10_less[symmetric])
  finally show ?case .
qed simp

lemma lex_append_same: "(xs :: string) @ ys < xs @ zs \<longleftrightarrow> ys < zs"
  by (induction xs) auto

lemma historyKey_less: "m < 10 ^ 20 \<Longrightarrow> n < 10 ^ 20 \<Longrightarrow> historyKey u m < historyKey u n \<longleftrightarrow> m < n"
  using pad_digits_less[of m 20 n] by (simp add: historyKey_def lex_append_same del: pad_digits.simps)

lemma prefix_above:
  fixes p k :: string
  assumes "has_prefix p k"
  shows "p \<le> k"
  using assms
proof (induction p arbitrary: k)
  case (Cons c p)
  then show ?case by (cases k) (auto simp: has_prefix_def)
qed simp

lemma prefix_convex:
  fixes p k k' :: string
  assumes "has_prefix p k'" "p \<le> k" "k \<le> k'"
  shows "has_prefix p k"
  using assms
proof (induction p arbitrary: k k')
  case (Cons c p)
  then obtain r' where k': "k' = c # r'" "has_prefix p r'" by (cases k') (auto simp: has_prefix_def)
  obtain c' r where k: "k = c' # r" using Cons.prems(2) by (cases k) auto
  have "c' = c" "p \<le> r" "r \<le> r'" using Cons.prems(2,3) k k'(1) by auto
  then show ?case using Cons.IH[OF k'(2)] k by (simp add: has_prefix_def)
qed (simp add: has_prefix_def)

lemma seek_prefix_filter:
  assumes "sorted ks"
  shows "seek_prefix p ks = filter (has_prefix p) ks"
  using assms
proof (induction ks)
  case (Cons k ks)
  show ?case
  proof (cases "k < p")
    case True
    then have "\<not> has_prefix p k" using prefix_above by (metis leD)
    then show ?thesis using True Cons by (simp add: seek_prefix_def)
  next
    case False
    have ge: "\<forall>x \<in> set (k # ks). \<not> x < p" using False Cons.prems by auto
    then have drop: "dropWhile (\<lambda>x. x < p) (k # ks) = k # ks" "dropWhile (\<lambda>x. x < p) ks = ks"
      by (simp, metis dropWhile_eq_self_iff hd_in_set list.set_intros(2))
    show ?thesis
    proof (cases "has_prefix p k")
      case True
      then show ?thesis using Cons drop by (simp add: seek_prefix_def)
    next
      case no: False
      have "filter (has_prefix p) ks = []"
        using Cons.prems no prefix_convex[of p _ k] ge by (auto simp: filter_empty_conv) (meson leI)
      then show ?thesis using no drop by (simp add: seek_prefix_def)
    qed
  qed
qed (simp add: seek_prefix_def)

section \<open>A concrete database\<close>

type_synonym 'j alist_db = "(string, (string, 'j blob) gomap) gomap"

definition alist_bbolt :: "('j alist_db, 'j) bbolt" where
  "alist_bbolt =
     \<lparr>bb_has = (\<lambda>b x. map_of b x \<noteq> None),
      bb_get = (\<lambda>b x k. map_of (goget [] b x) k),
      bb_keys = (\<lambda>b x. foldr insort (remdups (map fst (goget [] b x))) []),
      bb_create = (\<lambda>x b. Inr (if map_of b x = None then goput x [] b else b)),
      bb_drop = (\<lambda>x b. Inr (godel x b)),
      bb_put = (\<lambda>x k v b. Inr (goput x (goput k v (goget [] b x)) b)),
      bb_delete = (\<lambda>x k b. Inr (if map_of b x = None then b else goput x (godel k (goget [] b x)) b)),
      bb_commit = (\<lambda>b. None)\<rparr>"

lemma alist_bbolt_simps [simp]:
  "bb_has alist_bbolt b x \<longleftrightarrow> map_of b x \<noteq> None"
  "bb_get alist_bbolt b x k = map_of (goget [] b x) k"
  "bb_keys alist_bbolt b x = sort (remdups (map fst (goget [] b x)))"
  "bb_create alist_bbolt x b = Inr (if map_of b x = None then goput x [] b else b)"
  "bb_drop alist_bbolt x b = Inr (godel x b)"
  "bb_put alist_bbolt x k v b = Inr (goput x (goput k v (goget [] b x)) b)"
  "bb_delete alist_bbolt x k b = Inr (if map_of b x = None then b else goput x (godel k (goget [] b x)) b)"
  "bb_commit alist_bbolt b = None"
  by (simp_all add: alist_bbolt_def sort_key_def)

lemma goget_none: "map_of b x = None \<Longrightarrow> goget z b x = z"
  by (simp add: goget_def)

lemma goget_godel: "goget z (godel x b) y = (if y = x then z else goget z b y)"
  by (simp add: goget_def map_of_godel)

interpretation alist: bbolt_laws alist_bbolt
proof
  fix b :: "'a alist_db" and x
  show "set (bb_keys alist_bbolt b x) = {k. bb_get alist_bbolt b x k \<noteq> None}"
    by (simp add: dom_map_of_conv_image_fst[symmetric] dom_def)
qed (auto simp: goget_none goget_goput goget_godel map_of_goput map_of_godel split: if_splits)

end
