(* ===== verification/BoltSpec.thy ===== *)
theory BoltSpec
  imports BoltLaws
begin

text \<open>
  What the helpers of the BoltDB store do to the database, under the laws of bbolt, and the store's
  invariant: every record and every revision decodes and lies under the key it belongs to, its
  resourceVersion is one its Kind's counter has given out, and a Kind that keeps no history has no history bucket.
\<close>

section \<open>Transactions\<close>

lemma bb_res_eq [simp]: "bb_res r = Inr x \<longleftrightarrow> r = Inr x"
  by (cases r) (auto simp: bb_res_def)

lemma db_Update_Inr:
  "db_Update ops f b = (Inr x, b') \<longleftrightarrow> f b = Inr (x, b') \<and> bb_commit ops b' = None"
  by (auto simp: db_Update_def split: sum.splits option.splits)

lemma db_Update_Inl: "db_Update ops f b = (Inl e, b') \<Longrightarrow> b' = b"
  by (auto simp: db_Update_def split: sum.splits option.splits)

lemma db_Update_error: "f b = Inl e \<Longrightarrow> db_Update ops f b = (Inl e, b)"
  by (simp add: db_Update_def)

section \<open>The effect of the helpers\<close>

context bbolt_laws
begin

lemma lookup_blob_get: "lookup_blob ops b x k = bb_get ops b x k"
  by (simp add: lookup_blob_def get_none)

lemma find_record_Inr: "find_record ops b x k = Inr m \<longleftrightarrow> bb_get ops b x k = Some (Obj m)"
  by (auto simp: find_record_def lookup_blob_get as_json_def split: option.splits blob.splits)

lemma find_record_None: "bb_get ops b x k = None \<Longrightarrow> find_record ops b x k = Inl ErrNotFound"
  by (simp add: find_record_def lookup_blob_get)

lemma putHead_spec:
  assumes "putHead ops bkey key enc b = Inr b'"
  shows "bb_get ops b' y k = (if y = bkey \<and> k = key then Some (Obj enc) else bb_get ops b y k)"
    "bb_has ops b' y \<longleftrightarrow> y = bkey \<or> bb_has ops b y"
proof -
  obtain b1 where 1: "bb_create ops bkey b = Inr b1" "bb_put ops bkey key (Obj enc) b1 = Inr b'"
    using assms by (auto simp: putHead_def rbind_eq_Inr)
  have h: "bb_has ops b1 bkey" using has_create[OF 1(1)] by simp
  show "bb_get ops b' y k = (if y = bkey \<and> k = key then Some (Obj enc) else bb_get ops b y k)"
    by (simp add: get_put[OF h 1(2)] get_create[OF 1(1)])
  show "bb_has ops b' y \<longleftrightarrow> y = bkey \<or> bb_has ops b y"
    by (simp add: has_put[OF h 1(2)] has_create[OF 1(1)])
qed

lemma delete_keys_spec:
  assumes "delete_keys ops h ks b = Inr b'"
  shows "bb_get ops b' y k = (if y = h \<and> k \<in> set ks then None else bb_get ops b y k)"
    "bb_has ops b' y = bb_has ops b y"
proof -
  have "(\<forall>y k. bb_get ops b' y k = (if y = h \<and> k \<in> set ks then None else bb_get ops b y k)) \<and>
        (\<forall>y. bb_has ops b' y = bb_has ops b y)"
    using assms unfolding delete_keys_def
  proof (induction ks arbitrary: b)
    case (Cons x ks)
    then obtain b1 where 1: "bb_delete ops h x b = Inr b1" "rfold (\<lambda>k b. bb_res (bb_delete ops h k b)) ks b1 = Inr b'"
      by (auto simp: rbind_eq_Inr)
    show ?case using Cons.IH[OF 1(2)] get_delete[OF 1(1)] has_delete[OF 1(1)] by simp
  qed simp
  then show "bb_get ops b' y k = (if y = h \<and> k \<in> set ks then None else bb_get ops b y k)"
    "bb_has ops b' y = bb_has ops b y" by blast+
qed

lemma nextRV_spec:
  assumes "nextRV ops bkey b = Inr (rv, b')" "bb_has ops b seqBucket"
  shows "rv = (current_rv ops b bkey + 1) mod 2 ^ 64"
    "bb_get ops b' y k = (if y = seqBucket \<and> k = bkey then Some (Text (show_nat rv)) else bb_get ops b y k)"
    "bb_has ops b' y = bb_has ops b y"
proof -
  have put: "bb_put ops seqBucket bkey (Text (show_nat rv)) b = Inr b'"
    and rv: "rv = (current_rv ops b bkey + 1) mod 2 ^ 64"
    using assms(1) by (auto simp: nextRV_def rbind_eq_Inr Let_def)
  show "rv = (current_rv ops b bkey + 1) mod 2 ^ 64" by (rule rv)
  show "bb_get ops b' y k = (if y = seqBucket \<and> k = bkey then Some (Text (show_nat rv)) else bb_get ops b y k)"
    "bb_has ops b' y = bb_has ops b y"
    by (rule get_put[OF assms(2) put], rule has_put[OF assms(2) put])
qed

lemma current_rv_bound: "current_rv ops b bkey < 2 ^ 64"
  by (auto simp: current_rv_def parse_uint64_def min_def split: option.split blob.split)

text \<open>Which revisions a commit of \<open>uid\<close> prunes: the oldest ones beyond the ten kept.\<close>

definition pruned :: "'b \<Rightarrow> string \<Rightarrow> string \<Rightarrow> string list" where
  "pruned b h uid =
     (let ks = filter (has_prefix (uid @ sep)) (bb_keys ops b h) in take (length ks - maxHistory) ks)"

lemma pruneHistory_spec:
  assumes "pruneHistory ops h uid b = Inr b'"
  shows "bb_get ops b' y k = (if y = h \<and> k \<in> set (pruned b h uid) then None else bb_get ops b y k)"
    "bb_has ops b' y = bb_has ops b y"
  using assms unfolding pruneHistory_def Let_def seek_prefix_filter[OF keys_sorted]
  by (simp_all add: delete_keys_spec pruned_def Let_def)

lemma commit_no_history:
  assumes "commit ops nh bkey key uid rv enc b = Inr b'" "bkey \<in> set nh"
  shows "bb_get ops b' y k = (if y = bkey \<and> k = key then Some (Obj enc) else bb_get ops b y k)"
    "bb_has ops b' y \<longleftrightarrow> y = bkey \<or> bb_has ops b y"
  using assms by (auto simp: commit_def rbind_eq_Inr putHead_spec)

lemma commit_history:
  assumes "commit ops nh bkey key uid rv enc b = Inr b'" "bkey \<notin> set nh"
  obtains b1 where
    "\<And>y k. bb_get ops b1 y k = (if y = bkey \<and> k = key then Some (Obj enc)
       else if y = historyBucket bkey \<and> k = historyKey uid rv then Some (Obj enc) else bb_get ops b y k)"
    "\<And>y k. bb_get ops b' y k =
       (if y = historyBucket bkey \<and> k \<in> set (pruned b1 (historyBucket bkey) uid) then None else bb_get ops b1 y k)"
    "\<And>y. bb_has ops b' y \<longleftrightarrow> y = bkey \<or> y = historyBucket bkey \<or> bb_has ops b y"
proof -
  let ?h = "historyBucket bkey"
  have ne: "?h \<noteq> bkey" by (simp add: historyBucket_def)
  obtain b2 b3 b4 where s: "putHead ops bkey key enc b = Inr b2" "bb_create ops ?h b2 = Inr b3"
    "bb_put ops ?h (historyKey uid rv) (Obj enc) b3 = Inr b4" "pruneHistory ops ?h uid b4 = Inr b'"
    using assms by (auto simp: commit_def rbind_eq_Inr)
  have h: "bb_has ops b3 ?h" using has_create[OF s(2)] by simp
  show thesis
  proof (rule that[of b4])
    show "bb_get ops b4 y k = (if y = bkey \<and> k = key then Some (Obj enc)
       else if y = ?h \<and> k = historyKey uid rv then Some (Obj enc) else bb_get ops b y k)" for y k
      using ne by (simp add: get_put[OF h s(3)] get_create[OF s(2)] putHead_spec(1)[OF s(1)])
    show "bb_get ops b' y k = (if y = ?h \<and> k \<in> set (pruned b4 ?h uid) then None else bb_get ops b4 y k)" for y k
      by (rule pruneHistory_spec[OF s(4)])
    show "bb_has ops b' y \<longleftrightarrow> y = bkey \<or> y = ?h \<or> bb_has ops b y" for y
      by (auto simp: pruneHistory_spec(2)[OF s(4)] has_put[OF h s(3)] has_create[OF s(2)] putHead_spec(2)[OF s(1)])
  qed
qed

text \<open>Outside the Kind's own history bucket, a commit writes the head and nothing else.\<close>

lemma commit_get:
  assumes "commit ops nh bkey key uid rv enc b = Inr b'" "y \<noteq> historyBucket bkey"
  shows "bb_get ops b' y k = (if y = bkey \<and> k = key then Some (Obj enc) else bb_get ops b y k)"
proof (cases "bkey \<in> set nh")
  case True
  then show ?thesis using commit_no_history[OF assms(1)] by simp
next
  case False
  from assms(1) False obtain b1 where
    "bb_get ops b1 y k = (if y = bkey \<and> k = key then Some (Obj enc)
       else if y = historyBucket bkey \<and> k = historyKey uid rv then Some (Obj enc) else bb_get ops b y k)"
    "bb_get ops b' y k =
       (if y = historyBucket bkey \<and> k \<in> set (pruned b1 (historyBucket bkey) uid) then None else bb_get ops b1 y k)"
    by (rule commit_history) blast
  then show ?thesis using assms(2) by simp
qed

lemma commit_has:
  assumes "commit ops nh bkey key uid rv enc b = Inr b'"
  shows "bb_has ops b' y \<longleftrightarrow> y = bkey \<or> (y = historyBucket bkey \<and> bkey \<notin> set nh) \<or> bb_has ops b y"
proof (cases "bkey \<in> set nh")
  case True
  then show ?thesis using commit_no_history[OF assms] by simp
next
  case False
  from assms False show ?thesis by (rule commit_history) (use False in blast)
qed

lemma commit_history_sub:
  assumes "commit ops nh bkey key uid rv enc b = Inr b'" "bb_get ops b' (historyBucket bkey) k = Some v" "bkey \<notin> set nh"
  shows "k = historyKey uid rv \<and> v = Obj enc \<or> bb_get ops b (historyBucket bkey) k = Some v"
  using assms(1,3)
proof (rule commit_history)
  fix b1
  assume "\<And>y k. bb_get ops b1 y k = (if y = bkey \<and> k = key then Some (Obj enc)
       else if y = historyBucket bkey \<and> k = historyKey uid rv then Some (Obj enc) else bb_get ops b y k)"
    "\<And>y k. bb_get ops b' y k =
       (if y = historyBucket bkey \<and> k \<in> set (pruned b1 (historyBucket bkey) uid) then None else bb_get ops b1 y k)"
  then show ?thesis using assms(2) by (auto simp: historyBucket_def split: if_splits)
qed

end

section \<open>The invariant\<close>

text \<open>A record of a Kind's bucket: it decodes, lies under its own key in its own bucket, and its
  resourceVersion is one the Kind's counter has given out.\<close>

definition record_ok :: "deps \<Rightarrow> scheme \<Rightarrow> string \<Rightarrow> nat \<Rightarrow> string \<Rightarrow> 'j blob \<Rightarrow> bool" where
  "record_ok d sch bkey cur key v \<longleftrightarrow>
     (\<exists>m obj n. v = Obj m \<and> wf_encoded m \<and> decode d sch m = Inr obj \<and> o_key obj = key \<and>
        bucketKeyForObject d obj = Inr bkey \<and> o_rv obj = show_nat n \<and> 1 \<le> n \<and> n \<le> cur \<and> plain (o_uid obj))"

text \<open>A revision: it decodes and lies under its own uid and resourceVersion.\<close>

definition revision_ok :: "deps \<Rightarrow> scheme \<Rightarrow> string \<Rightarrow> nat \<Rightarrow> string \<Rightarrow> 'j blob \<Rightarrow> bool" where
  "revision_ok d sch bkey cur key v \<longleftrightarrow>
     (\<exists>m obj n. v = Obj m \<and> wf_encoded m \<and> decode d sch m = Inr obj \<and> key = historyKey (o_uid obj) n \<and>
        bucketKeyForObject d obj = Inr bkey \<and> o_rv obj = show_nat n \<and> 1 \<le> n \<and> n \<le> cur \<and> plain (o_uid obj))"

definition db_inv ::
  "('b, 'j) bbolt \<Rightarrow> deps \<Rightarrow> scheme \<Rightarrow> string list \<Rightarrow> 'b \<Rightarrow> bool" where
  "db_inv ops d sch nh b \<longleftrightarrow>
     bb_has ops b seqBucket \<and>
     (\<forall>bkey key v. kind_bucket bkey \<longrightarrow> bb_get ops b bkey key = Some v \<longrightarrow>
        record_ok d sch bkey (current_rv ops b bkey) key v) \<and>
     (\<forall>bkey key v. kind_bucket bkey \<longrightarrow> bb_get ops b (historyBucket bkey) key = Some v \<longrightarrow>
        revision_ok d sch bkey (current_rv ops b bkey) key v) \<and>
     (\<forall>bkey \<in> set nh. \<not> bb_has ops b (historyBucket bkey))"

definition bolt_inv :: "('b, 'j) bbolt \<Rightarrow> deps \<Rightarrow> ('b, 'j) DB \<Rightarrow> bool" where
  "bolt_inv ops d s \<longleftrightarrow> db_inv ops d (d_scheme s) (d_no_history s) (d_db s)"

lemma record_ok_mono: "record_ok d sch bkey c key v \<Longrightarrow> c \<le> c' \<Longrightarrow> record_ok d sch bkey c' key v"
  unfolding record_ok_def by (elim exE conjE) (intro exI conjI, assumption+, erule (1) order_trans, assumption)

lemma revision_ok_mono: "revision_ok d sch bkey c key v \<Longrightarrow> c \<le> c' \<Longrightarrow> revision_ok d sch bkey c' key v"
  unfolding revision_ok_def by (elim exE conjE) (intro exI conjI, assumption+, erule (1) order_trans, assumption)

context bbolt_laws
begin

lemma current_rv_cong:
  "(\<And>k. bb_get ops b' seqBucket k = bb_get ops b seqBucket k) \<Longrightarrow> current_rv ops b' bkey = current_rv ops b bkey"
  by (simp add: current_rv_def)

lemma nextRV_current:
  assumes "nextRV ops bkey b = Inr (rv, b')" "bb_has ops b seqBucket"
  shows "current_rv ops b' x = (if x = bkey then rv else current_rv ops b x)"
proof -
  have "rv < 2 ^ 64" using nextRV_spec(1)[OF assms] by simp
  then have "parse_uint64 (show_nat rv) = rv" by (simp add: parse_uint64_def)
  then show ?thesis by (simp add: current_rv_def nextRV_spec(2)[OF assms])
qed

lemma nextRV_step:
  assumes "nextRV ops bkey b = Inr (rv, b')" "bb_has ops b seqBucket" "current_rv ops b bkey < 2 ^ 64 - 1"
  shows "rv = current_rv ops b bkey + 1"
  using nextRV_spec(1)[OF assms(1,2)] assms(3) by simp

text \<open>A core write under a fresh resourceVersion keeps the invariant.\<close>

lemma core_write_inv:
  assumes inv: "db_inv ops d sch nh b" and kb: "kind_bucket bkey" and room: "current_rv ops b bkey < 2 ^ 64 - 1"
    and rv: "nextRV ops bkey b = Inr (rv, b1)" and cm: "commit ops nh bkey key uid rv enc b1 = Inr b2"
    and enc: "wf_encoded enc" "decode d sch enc = Inr obj" "o_key obj = key" "o_uid obj = uid"
      "bucketKeyForObject d obj = Inr bkey" "o_rv obj = show_nat rv" "plain uid"
  shows "db_inv ops d sch nh b2" "current_rv ops b2 bkey = current_rv ops b bkey + 1"
proof -
  have seq: "bb_has ops b seqBucket" using inv by (simp add: db_inv_def)
  note step = nextRV_step[OF rv seq room] and cur1 = nextRV_current[OF rv seq] and rv1 = nextRV_spec[OF rv seq]
  note ne = kind_bucket_neq[OF kb]
  have cur2: "current_rv ops b2 x = current_rv ops b1 x" for x
    using commit_get[OF cm ne(3)[symmetric]] ne(1) by (intro current_rv_cong) auto
  show cur: "current_rv ops b2 bkey = current_rv ops b bkey + 1" using cur2 cur1 step by simp
  have le: "current_rv ops b x \<le> current_rv ops b2 x" for x using cur2[of x] cur1[of x] step by simp
  have new: "record_ok d sch bkey (current_rv ops b2 bkey) key (Obj enc)"
    "revision_ok d sch bkey (current_rv ops b2 bkey) (historyKey uid rv) (Obj enc)"
    using enc cur step by (auto simp: record_ok_def revision_ok_def)
  show "db_inv ops d sch nh b2" unfolding db_inv_def
  proof (intro conjI allI impI ballI)
    show "bb_has ops b2 seqBucket" using seq by (simp add: commit_has[OF cm] rv1(3))
  next
    fix x k v assume x: "kind_bucket x" "bb_get ops b2 x k = Some v"
    have "x \<noteq> historyBucket bkey" using kind_bucket_neq(2)[OF x(1)] by metis
    then have "v = Obj enc \<and> x = bkey \<and> k = key \<or> bb_get ops b x k = Some v"
      using x(2) kind_bucket_neq(1)[OF x(1)] by (auto simp: commit_get[OF cm] rv1(2) split: if_splits)
    then show "record_ok d sch x (current_rv ops b2 x) k v"
      using new(1) inv x(1) le record_ok_mono unfolding db_inv_def by metis
  next
    fix x k v assume x: "kind_bucket x" "bb_get ops b2 (historyBucket x) k = Some v"
    have hx: "historyBucket x \<noteq> bkey" "historyBucket x \<noteq> seqBucket" using ne kind_bucket_neq(3)[OF x(1)] by metis+
    have "v = Obj enc \<and> x = bkey \<and> k = historyKey uid rv \<or> bb_get ops b (historyBucket x) k = Some v"
    proof (cases "x = bkey")
      case True
      show ?thesis
      proof (cases "bkey \<in> set nh")
        case nh: True
        then show ?thesis using x(2) True hx by (simp add: commit_no_history[OF cm] rv1(2))
      next
        case False
        from commit_history_sub[OF cm _ False] x(2) True hx show ?thesis by (auto simp: rv1(2))
      qed
    next
      case False
      then show ?thesis using x(2) hx by (simp add: commit_get[OF cm] rv1(2))
    qed
    then show "revision_ok d sch x (current_rv ops b2 x) k v"
      using new(2) inv x(1) le revision_ok_mono unfolding db_inv_def by metis
  next
    fix x assume "x \<in> set nh"
    then have "\<not> bb_has ops b (historyBucket x)" using inv by (simp add: db_inv_def)
    then show "\<not> bb_has ops b2 (historyBucket x)"
      using \<open>x \<in> set nh\<close> ne by (auto simp: commit_has[OF cm] rv1(3))
  qed
qed

text \<open>Rewriting a head under its own key and version, with no revision, keeps it too.\<close>

lemma head_write_inv:
  assumes inv: "db_inv ops d sch nh b" and kb: "kind_bucket bkey"
    and put: "putHead ops bkey key enc b = Inr b'" and ok: "record_ok d sch bkey (current_rv ops b bkey) key (Obj enc)"
  shows "db_inv ops d sch nh b'"
proof -
  note g = putHead_spec[OF put] and ne = kind_bucket_neq[OF kb]
  have cur: "current_rv ops b' x = current_rv ops b x" for x
    using ne(1) by (intro current_rv_cong) (simp add: g(1))
  show ?thesis using inv ok ne unfolding db_inv_def cur
    by (auto simp: g split: if_splits)
qed

text \<open>Deleting records and revisions keeps it.\<close>

lemma delete_inv:
  assumes inv: "db_inv ops d sch nh b"
    and "\<And>y k v. bb_get ops b' y k = Some v \<Longrightarrow> bb_get ops b y k = Some v"
    and "\<And>y. bb_has ops b' y = bb_has ops b y" "\<And>k. bb_get ops b' seqBucket k = bb_get ops b seqBucket k"
  shows "db_inv ops d sch nh b'"
proof -
  have "current_rv ops b' x = current_rv ops b x" for x by (rule current_rv_cong) (rule assms(4))
  then show ?thesis using inv unfolding db_inv_def assms(3) using assms(2) by metis
qed

end

end
