(* ===== verification/BoltOps.thy ===== *)
theory BoltOps
  imports BoltSpec
begin

text \<open>
  The write paths of the bbolt store, unfolded: what each committed transaction of
  \<^verbatim>\<open>pkg/storage/bolt/bolt.go\<close> did, and that each of them keeps the database invariant
  of \<^verbatim>\<open>BoltSpec\<close>. The lemmas on the database live in the locale of the bbolt contract, so they
  hold for every database that keeps it.
\<close>

section \<open>Decoding what the store wrote\<close>

definition registered :: "deps \<Rightarrow> scheme \<Rightarrow> 'j object \<Rightarrow> bool" where
  "registered d sch obj \<longleftrightarrow>
     (\<exists>g v. dp_parse_gv d (o_api_version obj) = Inr (g, v) \<and> o_kind obj \<noteq> [] \<and> (g, v, o_kind obj) \<in> set (sc_known sch))"

lemma body_fields_map:
  "(\<forall>(k, v) \<in> set xs. \<not> type_meta_field k) \<Longrightarrow> body_fields (map (\<lambda>(k, v). (k, RJson v)) xs) = xs"
  by (induction xs) (auto simp: body_fields_def)

lemma body_fields_marshal: "wf_object obj \<Longrightarrow> body_fields (marshal obj) = o_body obj"
  by (simp add: marshal_def body_fields_map wf_object_def)

lemma decode_registered:
  assumes "decode d sch m = Inr obj"
  shows "registered d sch obj"
proof -
  from assms obtain api kind where 1: "scheme_Decode d sch m = Inr (api, kind)" "o_api_version obj = api" "o_kind obj = kind"
    by (auto simp: decode_def rbind_eq_Inr)
  from 1(1) show ?thesis unfolding registered_def 1(2,3) scheme_Decode_def rbind_eq_Inr
    by (auto simp: rbind_eq_Inr scheme_New_def split: if_splits sum.splits)
qed

lemma decode_marshal_eq:
  assumes "registered d sch obj" "wf_object obj"
  shows "decode d sch (marshal obj) = Inr obj"
proof -
  have "string_field (marshal obj) ''apiVersion'' = Inr (o_api_version obj)"
    "string_field (marshal obj) ''kind'' = Inr (o_kind obj)" "meta_field (marshal obj) = Inr (o_meta obj)"
    by (simp_all add: string_field_def meta_field_def map_of_marshal)
  then show ?thesis using assms(1)
    by (auto simp: decode_def scheme_Decode_def registered_def scheme_New_def body_fields_marshal[OF assms(2)])
qed

lemma registered_meta [simp]: "registered d sch (obj\<lparr>o_meta := mt\<rparr>) = registered d sch obj"
  by (simp add: registered_def)

lemma wf_object_meta [simp]: "wf_object (obj\<lparr>o_meta := mt\<rparr>) = wf_object obj"
  by (simp add: wf_object_def)

lemma bucketKeyForObject_meta [simp]: "bucketKeyForObject d (obj\<lparr>o_meta := mt\<rparr>) = bucketKeyForObject d obj"
  by (simp add: bucketKeyForObject_def object_group_def)

lemma bucketKeyForObject_cong:
  "o_api_version a = o_api_version b \<Longrightarrow> o_kind a = o_kind b \<Longrightarrow> bucketKeyForObject d a = bucketKeyForObject d b"
  by (simp add: bucketKeyForObject_def object_group_def)

text \<open>Decoding looks at the type meta and the metadata; the rest is carried along.\<close>

lemma decode_merge:
  assumes "decode d sch (merge_fields inc st) = Inr res" "decode d sch inc = Inr iobj" "wf_encoded inc" "wf_encoded st"
  shows "o_api_version res = o_api_version iobj" "o_kind res = o_kind iobj" "o_meta res = o_meta iobj"
    "\<not> type_meta_field k \<Longrightarrow> map_option RJson (map_of (o_body res) k) = (if coreField k then map_of inc k else map_of st k)"
proof -
  have tm: "map_of (merge_fields inc st) f = map_of inc f" if "type_meta_field f" for f
    using subresource_not_type_meta[OF that] by (simp add: map_of_merge_fields)
  have "string_field (merge_fields inc st) ''apiVersion'' = string_field inc ''apiVersion''"
    "string_field (merge_fields inc st) ''kind'' = string_field inc ''kind''"
    "meta_field (merge_fields inc st) = meta_field inc"
    using tm by (simp_all add: string_field_def meta_field_def type_meta_field_def)
  then show "o_api_version res = o_api_version iobj" "o_kind res = o_kind iobj" "o_meta res = o_meta iobj"
    using assms(1,2) by (auto elim!: decodeE)
  show "\<not> type_meta_field k \<Longrightarrow> map_option RJson (map_of (o_body res) k) = (if coreField k then map_of inc k else map_of st k)"
    using decode_body[OF assms(1) wf_merge[OF assms(3,4)]] by (simp add: map_of_merge_fields)
qed

section \<open>Unfolding a successful write\<close>

lemma finish_Inr:
  "finish bkey et r s = (Inr out, s') \<Longrightarrow> \<exists>enc mt b. r = (Inr (out, enc, mt), b) \<and> d_db s' = b \<and>
     d_scheme s' = d_scheme s \<and> d_no_history s' = d_no_history s"
  by (auto simp: finish_def split: prod.splits sum.splits)

lemma finish_db_Update:
  assumes "finish bkey et (db_Update ops f (d_db s)) s = (Inr out, s')"
  obtains enc mt where "f (d_db s) = Inr ((out, enc, mt), d_db s')" "d_scheme s' = d_scheme s"
    "d_no_history s' = d_no_history s"
  using finish_Inr[OF assms] by (auto simp: db_Update_Inr)

lemma finish_error:
  assumes "finish bkey et (db_Update ops f (d_db s)) s = (Inl e, s')"
  shows "s' = s"
  using assms by (cases "db_Update ops f (d_db s)") (auto simp: finish_def split: sum.splits dest: db_Update_Inl)

lemma create_txD:
  assumes "create_tx ops nh uid now bkey obj b = Inr ((out, enc, mt), b')"
  shows "\<exists>rv b1. nextRV ops bkey b = Inr (rv, b1) \<and> lookup_blob ops b bkey (o_key obj) = None \<and>
    out = obj\<lparr>o_meta := created_meta uid rv now (o_meta obj)\<rparr> \<and> enc = marshal out \<and>
    commit ops nh bkey (o_key obj) uid rv enc b1 = Inr b'"
  using assms by (auto simp: create_tx_def rbind_eq_Inr Let_def split: if_splits)

lemma wf_goput:
  assumes "wf_encoded m" "\<not> type_meta_field k"
  shows "wf_encoded (goput k (RJson v) m)"
proof -
  have "k \<noteq> ''apiVersion''" "k \<noteq> ''kind''" "k \<noteq> ''metadata''" using assms(2) by (auto simp: type_meta_field_def)
  moreover have "json_fields (goput k (RJson v) m)"
    using assms(1) unfolding json_fields_def wf_encoded_def by (fast dest: in_set_goput)
  ultimately show ?thesis using assms(1) by (simp add: wf_encoded_def map_of_goput)
qed

lemma marshal_meta_other: "k \<noteq> ''metadata'' \<Longrightarrow> map_of (marshal (obj\<lparr>o_meta := mt\<rparr>)) k = map_of (marshal obj) k"
  by (simp add: map_of_marshal)

lemma nextGeneration_meta: "nextGeneration (obj\<lparr>o_meta := mt\<rparr>) cur c = nextGeneration obj cur c"
proof -
  have "(\<exists>k. coreField k \<and> k \<noteq> ''metadata'' \<and> map_of (marshal (obj\<lparr>o_meta := mt\<rparr>)) k \<noteq> map_of cur k) \<longleftrightarrow>
    (\<exists>k. coreField k \<and> k \<noteq> ''metadata'' \<and> map_of (marshal obj) k \<noteq> map_of cur k)"
    by (rule ex_cong1) (use marshal_meta_other in metis)
  then show ?thesis unfolding nextGeneration_def desired_changed_sym by simp
qed

lemma update_txD:
  assumes "update_tx ops d sch nh bkey obj b = Inr ((res, enc, mt), b')"
  shows "\<exists>cur old rv b1 gen. find_record ops b bkey (o_key obj) = Inr cur \<and> decode d sch cur = Inr old \<and>
    (o_rv obj = [] \<or> o_rv obj = o_rv old) \<and> nextRV ops bkey b = Inr (rv, b1) \<and>
    gen = nextGeneration obj cur (om_generation (o_meta old)) \<and>
    mt = updated_meta (o_meta old) rv gen (o_meta obj) \<and> enc = mergeCore (obj\<lparr>o_meta := mt\<rparr>) cur \<and>
    decode d sch enc = Inr res \<and> commit ops nh bkey (o_key obj) (o_uid old) rv enc b1 = Inr b'"
  using assms
  by (simp add: update_tx_def rbind_eq_Inr split_paired_Ex checkResourceVersion_def guard_eq_Inr Let_def nextGeneration_meta)
    (elim exE conjE, intro exI conjI, (assumption | simp)+)

lemma update_txE:
  assumes "update_tx ops d sch nh bkey obj b = Inr ((res, enc, mt), b')"
  obtains cur old rv b1 gen where "find_record ops b bkey (o_key obj) = Inr cur" "decode d sch cur = Inr old"
    "o_rv obj = [] \<or> o_rv obj = o_rv old" "nextRV ops bkey b = Inr (rv, b1)"
    "gen = nextGeneration obj cur (om_generation (o_meta old))"
    "mt = updated_meta (o_meta old) rv gen (o_meta obj)" "enc = mergeCore (obj\<lparr>o_meta := mt\<rparr>) cur"
    "decode d sch enc = Inr res" "commit ops nh bkey (o_key obj) (o_uid old) rv enc b1 = Inr b'"
  using update_txD[OF assms] by (elim exE conjE) (rule that)

lemma subresource_txD:
  assumes "subresource_tx ops d sch bkey sub val obj b = Inr ((res, e), b')"
  shows "\<exists>cur old. find_record ops b bkey (o_key obj) = Inr cur \<and> decode d sch cur = Inr old \<and>
    (o_rv obj = [] \<or> o_rv obj = o_rv old) \<and>
    (map_of cur sub = Some val \<and> res = old \<and> e = None \<and> b' = b \<or>
     map_of cur sub \<noteq> Some val \<and> decode d sch (goput sub val cur) = Inr res \<and> e = Some (marshal res) \<and>
     putHead ops bkey (o_key obj) (marshal res) b = Inr b')"
  using assms
  by (auto simp: subresource_tx_def rbind_eq_Inr checkResourceVersion_def guard_eq_Inr split: if_splits)

lemma rollback_txD:
  assumes "rollback_tx ops d sch nh bkey uid target b = Inr ((out, enc, mt), b')"
  shows "\<exists>snap sobj cur cobj rv b1 res gen. find_record ops b (historyBucket bkey) (historyKey uid target) = Inr snap \<and>
    decode d sch snap = Inr sobj \<and> find_record ops b bkey (o_key sobj) = Inr cur \<and> nextRV ops bkey b = Inr (rv, b1) \<and>
    decode d sch (merge_fields snap cur) = Inr res \<and> decode d sch cur = Inr cobj \<and>
    gen = nextGeneration res cur (om_generation (o_meta cobj)) \<and>
    out = res\<lparr>o_meta := (o_meta res)\<lparr>om_resource_version := show_nat rv, om_generation := gen\<rparr>\<rparr> \<and>
    enc = marshal out \<and> commit ops nh bkey (o_key sobj) uid rv enc b1 = Inr b'"
  using assms
  by (simp add: rollback_tx_def rbind_eq_Inr split_paired_Ex Let_def nextGeneration_meta)
    (elim exE conjE, intro exI conjI, (assumption | simp)+)

lemma rollback_txE:
  assumes "rollback_tx ops d sch nh bkey uid target b = Inr ((out, enc, mt), b')"
  obtains snap sobj cur cobj rv b1 res gen where
    "find_record ops b (historyBucket bkey) (historyKey uid target) = Inr snap"
    "decode d sch snap = Inr sobj" "find_record ops b bkey (o_key sobj) = Inr cur" "nextRV ops bkey b = Inr (rv, b1)"
    "decode d sch (merge_fields snap cur) = Inr res" "decode d sch cur = Inr cobj"
    "gen = nextGeneration res cur (om_generation (o_meta cobj))"
    "out = res\<lparr>o_meta := (o_meta res)\<lparr>om_resource_version := show_nat rv, om_generation := gen\<rparr>\<rparr>"
    "enc = marshal out" "commit ops nh bkey (o_key sobj) uid rv enc b1 = Inr b'"
  using rollback_txD[OF assms] by (elim exE conjE) (rule that)

lemma delete_txD:
  assumes "delete_tx ops d sch bkey key b = Inr ((old, cur, mt), b')"
  shows "\<exists>b1. find_record ops b bkey key = Inr cur \<and> decode d sch cur = Inr old \<and>
    bb_delete ops bkey key b = Inr b1 \<and> deleteHistory ops bkey (o_uid old) b1 = Inr b'"
  using assms by (auto simp: delete_tx_def rbind_eq_Inr)

section \<open>The operations keep the invariant\<close>

context bbolt_laws
begin

lemma inv_record:
  assumes "db_inv ops d sch nh b" "kind_bucket bkey" "find_record ops b bkey key = Inr cur"
  obtains obj n where "decode d sch cur = Inr obj" "wf_encoded cur" "o_key obj = key" "bucketKeyForObject d obj = Inr bkey"
    "o_rv obj = show_nat n" "1 \<le> n" "n \<le> current_rv ops b bkey"
proof -
  have "bb_get ops b bkey key = Some (Obj cur)" using assms(3) by (simp add: find_record_Inr)
  then have "record_ok d sch bkey (current_rv ops b bkey) key (Obj cur)"
    using assms(1,2) by (simp add: db_inv_def)
  then show thesis using that by (auto simp: record_ok_def)
qed

lemma inv_revision:
  assumes "db_inv ops d sch nh b" "kind_bucket bkey" "find_record ops b (historyBucket bkey) key = Inr snap"
  obtains obj n where "decode d sch snap = Inr obj" "wf_encoded snap" "key = historyKey (o_uid obj) n"
    "bucketKeyForObject d obj = Inr bkey" "o_rv obj = show_nat n" "1 \<le> n" "n \<le> current_rv ops b bkey"
proof -
  have "bb_get ops b (historyBucket bkey) key = Some (Obj snap)" using assms(3) by (simp add: find_record_Inr)
  then have "revision_ok d sch bkey (current_rv ops b bkey) key (Obj snap)"
    using assms(1,2) by (simp add: db_inv_def)
  then show thesis using that by (auto simp: revision_ok_def)
qed

lemma inv_plain:
  assumes "db_inv ops d sch nh b" "kind_bucket bkey"
  shows "find_record ops b bkey key = Inr m \<Longrightarrow> decode d sch m = Inr obj \<Longrightarrow> plain (o_uid obj)"
    and "find_record ops b (historyBucket bkey) key = Inr m \<Longrightarrow> decode d sch m = Inr obj \<Longrightarrow> plain (o_uid obj)"
proof -
  assume m: "decode d sch m = Inr obj"
  { assume "find_record ops b bkey key = Inr m"
    then have "record_ok d sch bkey (current_rv ops b bkey) key (Obj m)"
      using assms by (simp add: db_inv_def find_record_Inr)
    then show "plain (o_uid obj)" using m by (auto simp: record_ok_def) }
  { assume "find_record ops b (historyBucket bkey) key = Inr m"
    then have "revision_ok d sch bkey (current_rv ops b bkey) key (Obj m)"
      using assms by (simp add: db_inv_def find_record_Inr)
    then show "plain (o_uid obj)" using m by (auto simp: revision_ok_def) }
qed

lemma create_tx_inv:
  assumes "db_inv ops d sch nh b" "kind_bucket bkey" "current_rv ops b bkey < 2 ^ 64 - 1"
    and "bucketKeyForObject d obj = Inr bkey" "registered d sch obj" "wf_object obj" "plain uid"
    and "create_tx ops nh uid now bkey obj b = Inr ((out, enc, mt), b')"
  shows "db_inv ops d sch nh b'"
proof -
  obtain rv b1 where c: "nextRV ops bkey b = Inr (rv, b1)"
    "out = obj\<lparr>o_meta := created_meta uid rv now (o_meta obj)\<rparr>" "enc = marshal out"
    "commit ops nh bkey (o_key obj) uid rv enc b1 = Inr b'"
    using create_txD[OF assms(8)] by blast
  have wf: "wf_object out" "registered d sch out" using c(2) assms(5,6) by simp_all
  show ?thesis
    by (rule core_write_inv(1)[OF assms(1-3) c(1,4), of out])
      (use wf c(2,3) assms(4,7) in \<open>simp_all add: wf_marshal decode_marshal_eq created_meta_def\<close>)
qed

lemma mergeCore_fields:
  assumes "decode d sch (mergeCore obj cur) = Inr res" "wf_object obj" "wf_encoded cur"
  shows "o_api_version res = o_api_version obj" "o_kind res = o_kind obj" "o_meta res = o_meta obj"
    "\<not> type_meta_field k \<Longrightarrow>
       map_option RJson (map_of (o_body res) k) = (if coreField k then map_option RJson (map_of (o_body obj) k) else map_of cur k)"
proof -
  note f = decode_fields[OF assms(1)[unfolded mergeCore_def]]
  have tm: "map_of (merge_fields (marshal obj) cur) f = map_of (marshal obj) f" if "type_meta_field f" for f
    using subresource_not_type_meta[OF that] by (simp add: map_of_merge_fields)
  show "o_api_version res = o_api_version obj" "o_kind res = o_kind obj" "o_meta res = o_meta obj"
    by (rule f(3) f(2) f(1), simp add: tm type_meta_field_def map_of_marshal)+
  show "\<not> type_meta_field k \<Longrightarrow>
       map_option RJson (map_of (o_body res) k) = (if coreField k then map_option RJson (map_of (o_body obj) k) else map_of cur k)"
    using f(4)[OF wf_merge[OF wf_marshal[OF assms(2)] assms(3)]]
    by (simp add: map_of_merge_fields map_of_marshal type_meta_field_def)
qed

lemma update_tx_inv:
  assumes "db_inv ops d sch nh b" "kind_bucket bkey" "current_rv ops b bkey < 2 ^ 64 - 1"
    and "bucketKeyForObject d obj = Inr bkey" "wf_object obj"
    and "update_tx ops d sch nh bkey obj b = Inr ((res, enc, mt), b')"
  shows "db_inv ops d sch nh b'"
proof -
  obtain cur old rv b1 gen where u: "find_record ops b bkey (o_key obj) = Inr cur" "decode d sch cur = Inr old"
    "o_rv obj = [] \<or> o_rv obj = o_rv old" "nextRV ops bkey b = Inr (rv, b1)"
    "gen = nextGeneration obj cur (om_generation (o_meta old))"
    "mt = updated_meta (o_meta old) rv gen (o_meta obj)" "enc = mergeCore (obj\<lparr>o_meta := mt\<rparr>) cur"
    "decode d sch enc = Inr res" "commit ops nh bkey (o_key obj) (o_uid old) rv enc b1 = Inr b'"
    using assms(6) by (rule update_txE)
  have cur: "wf_encoded cur" using assms(1,2) u(1) by (rule inv_record)
  have wfo: "wf_object (obj\<lparr>o_meta := mt\<rparr>)" using assms(5) by simp
  note m = mergeCore_fields[OF u(8)[unfolded u(7)] wfo cur]
  have wfe: "wf_encoded enc" unfolding u(7) mergeCore_def using wfo cur by (intro wf_merge wf_marshal)
  have bk: "bucketKeyForObject d res = Inr bkey"
    using assms(4) bucketKeyForObject_cong[of res obj d] m(1,2) by simp
  show ?thesis
    by (rule core_write_inv(1)[OF assms(1-3) u(4,9) wfe u(8)])
      (use m(3) u(6) bk inv_plain(1)[OF assms(1,2) u(1,2)] in \<open>simp_all add: updated_meta_def\<close>)
qed

lemma subresource_result:
  assumes "decode d sch cur = Inr old" "decode d sch (goput sub val cur) = Inr res" "\<not> type_meta_field sub"
    "wf_encoded cur" "\<exists>j. val = RJson j"
  shows "o_api_version res = o_api_version old" "o_kind res = o_kind old" "o_meta res = o_meta old"
    "\<not> type_meta_field k \<Longrightarrow>
       map_option RJson (map_of (o_body res) k) = (if k = sub then Some val else map_option RJson (map_of (o_body old) k))"
    "wf_encoded (goput sub val cur)"
proof -
  show wf: "wf_encoded (goput sub val cur)"
    using assms(3,4,5) by (auto intro: wf_goput)
  have "string_field (goput sub val cur) ''apiVersion'' = string_field cur ''apiVersion''"
    "string_field (goput sub val cur) ''kind'' = string_field cur ''kind''"
    "meta_field (goput sub val cur) = meta_field cur"
    using assms(3) by (auto simp: string_field_def meta_field_def type_meta_field_def map_of_goput)
  then show "o_api_version res = o_api_version old" "o_kind res = o_kind old" "o_meta res = o_meta old"
    using assms(1,2) by (auto elim!: decodeE)
  show "\<not> type_meta_field k \<Longrightarrow>
       map_option RJson (map_of (o_body res) k) = (if k = sub then Some val else map_option RJson (map_of (o_body old) k))"
    using decode_body[OF assms(2) wf] decode_body[OF assms(1,4)] by (simp add: map_of_goput)
qed

lemma subresource_tx_inv:
  assumes "db_inv ops d sch nh b" "kind_bucket bkey" "\<not> type_meta_field sub" "\<exists>j. val = RJson j"
    and "subresource_tx ops d sch bkey sub val obj b = Inr ((res, e), b')"
  shows "db_inv ops d sch nh b'"
proof -
  obtain cur old where c: "find_record ops b bkey (o_key obj) = Inr cur" "decode d sch cur = Inr old"
    and cases: "b' = b \<or> decode d sch (goput sub val cur) = Inr res \<and> putHead ops bkey (o_key obj) (marshal res) b = Inr b'"
    using subresource_txD[OF assms(5)] by auto
  from assms(1,2) c(1) obtain o' n where r: "decode d sch cur = Inr o'" "wf_encoded cur" "o_key o' = o_key obj"
    "bucketKeyForObject d o' = Inr bkey" "o_rv o' = show_nat n" "1 \<le> n" "n \<le> current_rv ops b bkey"
    by (rule inv_record)
  have old: "o' = old" using r(1) c(2) by simp
  show ?thesis using cases
  proof
    assume "b' = b"
    then show ?thesis using assms(1) by simp
  next
    assume a: "decode d sch (goput sub val cur) = Inr res \<and> putHead ops bkey (o_key obj) (marshal res) b = Inr b'"
    note res = subresource_result[OF c(2) conjunct1[OF a] assms(3) r(2) assms(4)]
    have wfr: "wf_object res" "registered d sch res" using a decode_wf decode_registered by blast+
    have "record_ok d sch bkey (current_rv ops b bkey) (o_key obj) (Obj (marshal res))"
      unfolding record_ok_def
      using wf_marshal[OF wfr(1)] decode_marshal_eq[OF wfr(2,1)] r(3-7) res(1-3) bucketKeyForObject_cong[of res old d]
        inv_plain(1)[OF assms(1,2) c]
      unfolding old by metis
    from head_write_inv[OF assms(1,2) conjunct2[OF a] this] show ?thesis .
  qed
qed

lemma rollback_tx_inv:
  assumes "db_inv ops d sch nh b" "kind_bucket bkey" "current_rv ops b bkey < 2 ^ 64 - 1" "target < 2 ^ 63"
    and "rollback_tx ops d sch nh bkey uid target b = Inr ((out, enc, mt), b')"
  shows "db_inv ops d sch nh b'"
proof -
  obtain snap sobj cur cobj rv b1 res gen where u:
    "find_record ops b (historyBucket bkey) (historyKey uid target) = Inr snap"
    "decode d sch snap = Inr sobj" "find_record ops b bkey (o_key sobj) = Inr cur" "nextRV ops bkey b = Inr (rv, b1)"
    "decode d sch (merge_fields snap cur) = Inr res" "decode d sch cur = Inr cobj"
    "gen = nextGeneration res cur (om_generation (o_meta cobj))"
    "out = res\<lparr>o_meta := (o_meta res)\<lparr>om_resource_version := show_nat rv, om_generation := gen\<rparr>\<rparr>"
    "enc = marshal out" "commit ops nh bkey (o_key sobj) uid rv enc b1 = Inr b'"
    using assms(5) by (rule rollback_txE)
  obtain so n where s: "decode d sch snap = Inr so" "wf_encoded snap" "historyKey uid target = historyKey (o_uid so) n"
    "bucketKeyForObject d so = Inr bkey" "o_rv so = show_nat n" "1 \<le> n" "n \<le> current_rv ops b bkey"
    using assms(1,2) u(1) by (rule inv_revision)
  have so: "so = sobj" using s(1) u(2) by simp
  have lt: "target < 10 ^ 20" "n < 10 ^ 20" using assms(4) s(7) current_rv_bound[of b bkey] by simp_all
  have uid: "o_uid sobj = uid" using s(3) historyKey_inj[OF lt] so by simp
  have cur: "wf_encoded cur" using assms(1,2) u(3) by (rule inv_record)
  note m = decode_merge[OF u(5,2) s(2) cur]
  have wf: "wf_object out" "registered d sch out" using decode_wf[OF u(5)] decode_registered[OF u(5)] u(8) by simp_all
  have bk: "bucketKeyForObject d out = Inr bkey"
    using s(4) bucketKeyForObject_cong[of res sobj d] m(1,2) by (simp add: u(8) so)
  show ?thesis
    by (rule core_write_inv(1)[OF assms(1-3) u(4,10), of out])
      (use wf bk m(3) uid inv_plain(2)[OF assms(1,2) u(1,2)] in \<open>simp_all add: u(8,9) wf_marshal decode_marshal_eq\<close>)
qed

lemma deleteHistory_spec:
  assumes "deleteHistory ops bkey uid b = Inr b'"
  shows "bb_get ops b' y k = (if y = historyBucket bkey \<and> has_prefix (uid @ sep) k then None else bb_get ops b y k)"
    "bb_has ops b' y = bb_has ops b y"
proof -
  let ?h = "historyBucket bkey"
  have none: "bb_get ops b ?h k = None" if "k \<notin> set (bb_keys ops b ?h)" for k
    using that by (simp add: keys_set)
  show "bb_get ops b' y k = (if y = ?h \<and> has_prefix (uid @ sep) k then None else bb_get ops b y k)"
  proof (cases "bb_has ops b ?h")
    case True
    then have "delete_keys ops ?h (filter (has_prefix (uid @ sep)) (bb_keys ops b ?h)) b = Inr b'"
      using assms by (simp add: deleteHistory_def Let_def seek_prefix_filter[OF keys_sorted])
    then show ?thesis using none[of k] by (auto simp: delete_keys_spec)
  next
    case False
    then show ?thesis using assms get_none[OF False] by (auto simp: deleteHistory_def Let_def)
  qed
  show "bb_has ops b' y = bb_has ops b y"
    using assms by (auto simp: deleteHistory_def Let_def delete_keys_spec split: if_splits)
qed

lemma delete_tx_spec:
  assumes "delete_tx ops d sch bkey key b = Inr ((old, cur, mt), b')"
  shows "bb_get ops b' y k = (if y = bkey \<and> k = key then None
      else if y = historyBucket bkey \<and> has_prefix (o_uid old @ sep) k then None else bb_get ops b y k)"
    "bb_has ops b' y = bb_has ops b y" "find_record ops b bkey key = Inr cur" "decode d sch cur = Inr old"
proof -
  obtain b1 where c: "find_record ops b bkey key = Inr cur" "decode d sch cur = Inr old"
    "bb_delete ops bkey key b = Inr b1" "deleteHistory ops bkey (o_uid old) b1 = Inr b'"
    using delete_txD[OF assms] by blast
  show "find_record ops b bkey key = Inr cur" "decode d sch cur = Inr old" by fact+
  show "bb_get ops b' y k = (if y = bkey \<and> k = key then None
      else if y = historyBucket bkey \<and> has_prefix (o_uid old @ sep) k then None else bb_get ops b y k)"
    "bb_has ops b' y = bb_has ops b y"
    by (simp_all add: deleteHistory_spec[OF c(4)] get_delete[OF c(3)] has_delete[OF c(3)])
qed

lemma delete_tx_inv:
  assumes "db_inv ops d sch nh b" "kind_bucket bkey"
    and "delete_tx ops d sch bkey key b = Inr ((old, cur, mt), b')"
  shows "db_inv ops d sch nh b'"
proof (rule delete_inv[OF assms(1)])
  note g = delete_tx_spec[OF assms(3)]
  show "bb_get ops b' y k = Some v \<Longrightarrow> bb_get ops b y k = Some v" for y k v by (simp add: g(1) split: if_splits)
  show "bb_has ops b' y = bb_has ops b y" for y by (rule g(2))
  show "bb_get ops b' seqBucket k = bb_get ops b seqBucket k" for k
    using kind_bucket_neq(1)[OF assms(2)] kind_bucket_neq(3)[OF assms(2), of bkey] by (simp add: g(1) eq_commute)
qed

end

end
