(* ===== verification/BoltEffects.thy ===== *)
theory BoltEffects
  imports BoltOps
begin

text \<open>
  What a caller of the BoltDB store sees: the objects it holds (\<open>stored\<close>) before and after each
  write of \<^verbatim>\<open>pkg/storage/bolt/bolt.go\<close>, and the revisions it keeps. Every lemma is in the locale of the
  bbolt contract.
\<close>

section \<open>The objects of a store\<close>

definition stored :: "('b, 'j) bbolt \<Rightarrow> deps \<Rightarrow> ('b, 'j) DB \<Rightarrow> string \<Rightarrow> string \<Rightarrow> 'j object option" where
  "stored ops d s bkey key =
     (case find_record ops (d_db s) bkey key of
        Inl _ \<Rightarrow> None
      | Inr m \<Rightarrow> (case decode d (d_scheme s) m of Inl _ \<Rightarrow> None | Inr obj \<Rightarrow> Some obj))"

lemma storedI: "find_record ops (d_db s) bkey key = Inr m \<Longrightarrow> decode d (d_scheme s) m = Inr obj \<Longrightarrow>
  stored ops d s bkey key = Some obj"
  by (simp add: stored_def)

lemma storedE:
  assumes "stored ops d s bkey key = Some obj"
  obtains m where "find_record ops (d_db s) bkey key = Inr m" "decode d (d_scheme s) m = Inr obj"
  using assms by (auto simp: stored_def split: sum.splits)

lemma stored_cong:
  assumes "d_scheme s' = d_scheme s" "find_record ops (d_db s') x k = find_record ops (d_db s) x k"
  shows "stored ops d s' x k = stored ops d s x k"
  unfolding stored_def assms ..

text \<open>The desired state of two objects is the same: every core field but the metadata is.\<close>

definition same_desired :: "'j object \<Rightarrow> 'j object \<Rightarrow> bool" where
  "same_desired a b \<longleftrightarrow>
     (\<forall>k. coreField k \<and> k \<noteq> ''metadata'' \<longrightarrow> map_of (marshal a) k = map_of (marshal b) k)"

lemma nextGeneration_stored:
  assumes "decode d sch m = Inr old" "wf_encoded m"
  shows "nextGeneration obj m c = (if same_desired obj old then c else wrap64 (c + 1))"
  unfolding nextGeneration_eq[OF assms] same_desired_def by auto

text \<open>Every revision belongs to an object that is still there, under the same uid.\<close>

definition revision_heads :: "('b, 'j) bbolt \<Rightarrow> deps \<Rightarrow> ('b, 'j) DB \<Rightarrow> bool" where
  "revision_heads ops d s \<longleftrightarrow>
     (\<forall>bkey k m revn. kind_bucket bkey \<longrightarrow> bb_get ops (d_db s) (historyBucket bkey) k = Some (Obj m) \<longrightarrow>
        decode d (d_scheme s) m = Inr revn \<longrightarrow>
        (\<exists>head. stored ops d s bkey (o_key revn) = Some head \<and> o_uid head = o_uid revn))"

lemma revision_headsD:
  assumes "revision_heads ops d s" "kind_bucket bkey" "bb_get ops (d_db s) (historyBucket bkey) k = Some (Obj m)"
    and "decode d (d_scheme s) m = Inr revn"
  obtains head where "stored ops d s bkey (o_key revn) = Some head" "o_uid head = o_uid revn"
  using assms unfolding revision_heads_def by blast

context bbolt_laws
begin

lemma find_record_cong: "bb_get ops b' x k = bb_get ops b x k \<Longrightarrow> find_record ops b' x k = find_record ops b x k"
  by (simp add: find_record_def lookup_blob_get)

lemma stored_record:
  assumes "bolt_inv ops d s" "kind_bucket bkey" "find_record ops (d_db s) bkey key = Inr m"
  obtains obj n where "stored ops d s bkey key = Some obj" "decode d (d_scheme s) m = Inr obj" "wf_encoded m"
    "o_key obj = key" "bucketKeyForObject d obj = Inr bkey" "o_rv obj = show_nat n" "1 \<le> n"
    "n \<le> current_rv ops (d_db s) bkey"
  using assms(1)[unfolded bolt_inv_def] assms(2,3) by (rule inv_record) (use assms(3) in \<open>auto intro!: that storedI\<close>)

lemma stored_None:
  assumes "bolt_inv ops d s" "kind_bucket bkey"
  shows "stored ops d s bkey key = None \<longleftrightarrow> find_record ops (d_db s) bkey key = Inl ErrNotFound"
proof
  assume none: "stored ops d s bkey key = None"
  show "find_record ops (d_db s) bkey key = Inl ErrNotFound"
  proof (cases "bb_get ops (d_db s) bkey key")
    case (Some v)
    then have "record_ok d (d_scheme s) bkey (current_rv ops (d_db s) bkey) key v"
      using assms by (simp add: bolt_inv_def db_inv_def)
    then have "\<exists>m. v = Obj m" by (auto simp: record_ok_def)
    then obtain m where m: "find_record ops (d_db s) bkey key = Inr m" using Some by (auto simp: find_record_Inr)
    from assms m obtain obj n where "stored ops d s bkey key = Some obj" by (rule stored_record)
    then show ?thesis using none by simp
  qed (rule find_record_None)
qed (simp add: stored_def)

lemma stored_version:
  assumes "bolt_inv ops d s" "kind_bucket bkey" "stored ops d s bkey key = Some obj"
  obtains n where "o_rv obj = show_nat n" "1 \<le> n" "n \<le> current_rv ops (d_db s) bkey"
proof -
  from assms(3) obtain m where m: "find_record ops (d_db s) bkey key = Inr m" by (rule storedE)
  from assms(1,2) m obtain o' n where r: "stored ops d s bkey key = Some o'" "decode d (d_scheme s) m = Inr o'" "wf_encoded m"
    "o_key o' = key" "bucketKeyForObject d o' = Inr bkey" "o_rv o' = show_nat n" "1 \<le> n"
    "n \<le> current_rv ops (d_db s) bkey" by (rule stored_record)
  show thesis using r(6-8) assms(3) r(1) by (intro that) auto
qed

lemma stored_put:
  assumes "bb_get ops (d_db s') y k = (if y = bkey \<and> k = key then Some (Obj enc) else bb_get ops (d_db s) y k)"
    and "decode d (d_scheme s) enc = Inr obj" "d_scheme s' = d_scheme s"
  shows "stored ops d s' y k = (if y = bkey \<and> k = key then Some obj else stored ops d s y k)"
proof (cases "y = bkey \<and> k = key")
  case True
  then have "find_record ops (d_db s') y k = Inr enc" using assms(1) by (simp add: find_record_Inr)
  then show ?thesis using True assms(2,3) by (simp add: stored_def)
next
  case False
  then have "find_record ops (d_db s') y k = find_record ops (d_db s) y k" using assms(1) by (intro find_record_cong) auto
  then show ?thesis using False stored_cong[OF assms(3)] by auto
qed

text \<open>A core write, seen from outside: one object changes, the Kind's counter moves by one.\<close>

lemma core_write_effect:
  assumes inv: "bolt_inv ops d s" and kb: "kind_bucket bkey" and room: "current_rv ops (d_db s) bkey < 2 ^ 64 - 1"
    and rv: "nextRV ops bkey (d_db s) = Inr (rv, b1)"
    and cm: "commit ops (d_no_history s) bkey key uid rv enc b1 = Inr (d_db s')"
    and dec: "decode d (d_scheme s) enc = Inr obj" and sch: "d_scheme s' = d_scheme s"
  shows "kind_bucket y \<Longrightarrow> stored ops d s' y k = (if y = bkey \<and> k = key then Some obj else stored ops d s y k)"
    "rv = current_rv ops (d_db s) bkey + 1"
    "current_rv ops (d_db s') x = (if x = bkey then rv else current_rv ops (d_db s) x)"
    "kind_bucket z \<Longrightarrow> bb_get ops (d_db s') (historyBucket z) j = Some v \<Longrightarrow>
       z = bkey \<and> v = Obj enc \<or> bb_get ops (d_db s) (historyBucket z) j = Some v"
proof -
  have seq: "bb_has ops (d_db s) seqBucket" using inv by (simp add: bolt_inv_def db_inv_def)
  note ne = kind_bucket_neq[OF kb] and g1 = nextRV_spec(2)[OF rv seq]
  show "rv = current_rv ops (d_db s) bkey + 1" by (rule nextRV_step[OF rv seq room])
  have "current_rv ops (d_db s') x = current_rv ops b1 x"
    using commit_get[OF cm ne(3)[symmetric]] ne(1) by (intro current_rv_cong) auto
  then show "current_rv ops (d_db s') x = (if x = bkey then rv else current_rv ops (d_db s) x)"
    using nextRV_current[OF rv seq] by simp
  show "stored ops d s' y k = (if y = bkey \<and> k = key then Some obj else stored ops d s y k)" if y: "kind_bucket y"
  proof -
    have "y \<noteq> historyBucket bkey" "y \<noteq> seqBucket" using kind_bucket_neq[OF y] by metis+
    then have get: "bb_get ops (d_db s') y k = (if y = bkey \<and> k = key then Some (Obj enc) else bb_get ops (d_db s) y k)"
      by (simp add: commit_get[OF cm] g1)
    show ?thesis by (rule stored_put[OF get dec sch])
  qed
  show "z = bkey \<and> v = Obj enc \<or> bb_get ops (d_db s) (historyBucket z) j = Some v"
    if z: "kind_bucket z" "bb_get ops (d_db s') (historyBucket z) j = Some v"
  proof (cases "z = bkey \<and> bkey \<notin> set (d_no_history s)")
    case True
    then show ?thesis using commit_history_sub[OF cm] z(2) ne by (auto simp: g1)
  next
    case False
    then have "bb_get ops (d_db s') (historyBucket z) j = bb_get ops b1 (historyBucket z) j"
      using commit_no_history(1)[OF cm] commit_get[OF cm, of "historyBucket z"] ne kind_bucket_neq(2)[OF kb, of z] by auto
    then show ?thesis using z kind_bucket_neq(3)[OF z(1)] by (simp add: g1)
  qed
qed

lemma heads_core_write:
  assumes "revision_heads ops d s" "d_scheme s' = d_scheme s"
    and st: "\<And>y k. kind_bucket y \<Longrightarrow> stored ops d s' y k = (if y = bkey \<and> k = key then Some obj else stored ops d s y k)"
    and hist: "\<And>z j v. kind_bucket z \<Longrightarrow> bb_get ops (d_db s') (historyBucket z) j = Some v \<Longrightarrow>
       z = bkey \<and> v = Obj enc \<or> bb_get ops (d_db s) (historyBucket z) j = Some v"
    and "decode d (d_scheme s) enc = Inr obj" "o_key obj = key"
    and old: "\<And>old. stored ops d s bkey key = Some old \<Longrightarrow> o_uid old = o_uid obj"
  shows "revision_heads ops d s'"
  unfolding revision_heads_def
proof (intro allI impI)
  fix z k m revn
  assume z: "kind_bucket z" "bb_get ops (d_db s') (historyBucket z) k = Some (Obj m)" "decode d (d_scheme s') m = Inr revn"
  consider "z = bkey" "m = enc" | "bb_get ops (d_db s) (historyBucket z) k = Some (Obj m)" using hist[OF z(1,2)] by auto
  then show "\<exists>head. stored ops d s' z (o_key revn) = Some head \<and> o_uid head = o_uid revn"
  proof cases
    case 1
    then show ?thesis using z(1,3) assms(2,5,6) by (simp add: st)
  next
    case 2
    from assms(1) z(1) 2 z(3)[unfolded assms(2)] obtain head where
      "stored ops d s z (o_key revn) = Some head" "o_uid head = o_uid revn" by (rule revision_headsD)
    then show ?thesis using old by (auto simp: st[OF z(1)])
  qed
qed

text \<open>Create: the object appears with generation 1 and the next version of its Kind.\<close>

lemma Create_effect:
  assumes "bolt_inv ops d s" "bucketKeyForObject d obj = Inr bkey" "kind_bucket bkey"
    and "current_rv ops (d_db s) bkey < 2 ^ 64 - 1" "registered d (d_scheme s) obj" "wf_object obj" "plain uid"
    and "Create ops d uid now obj s = (Inr out, s')"
  shows "stored ops d s bkey (o_key obj) = None"
    "out = obj\<lparr>o_meta := created_meta uid (current_rv ops (d_db s) bkey + 1) now (o_meta obj)\<rparr>"
    "kind_bucket y \<Longrightarrow> stored ops d s' y k = (if y = bkey \<and> k = o_key obj then Some out else stored ops d s y k)"
    "bolt_inv ops d s'" "om_name (o_meta obj) \<noteq> []" "revision_heads ops d s \<Longrightarrow> revision_heads ops d s'"
    "current_rv ops (d_db s') x = (if x = bkey then current_rv ops (d_db s) bkey + 1 else current_rv ops (d_db s) x)"
proof -
  have fin: "finish bkey Added (db_Update ops (create_tx ops (d_no_history s) uid now bkey obj) (d_db s)) s = (Inr out, s')"
    and name: "om_name (o_meta obj) \<noteq> []"
    using assms(2,8) by (auto simp: Create_def split: if_splits)
  show "om_name (o_meta obj) \<noteq> []" by (rule name)
  from fin obtain enc mt where tx: "create_tx ops (d_no_history s) uid now bkey obj (d_db s) = Inr ((out, enc, mt), d_db s')"
    and fr: "d_scheme s' = d_scheme s" "d_no_history s' = d_no_history s" by (rule finish_db_Update)
  obtain rv b1 where c: "nextRV ops bkey (d_db s) = Inr (rv, b1)" "lookup_blob ops (d_db s) bkey (o_key obj) = None"
    "out = obj\<lparr>o_meta := created_meta uid rv now (o_meta obj)\<rparr>" "enc = marshal out"
    "commit ops (d_no_history s) bkey (o_key obj) uid rv enc b1 = Inr (d_db s')"
    using create_txD[OF tx] by blast
  have dec: "decode d (d_scheme s) enc = Inr out" using assms(5,6) c(3,4) by (simp add: decode_marshal_eq)
  note e = core_write_effect[OF assms(1,3,4) c(1,5) dec fr(1)]
  show "current_rv ops (d_db s') x = (if x = bkey then current_rv ops (d_db s) bkey + 1 else current_rv ops (d_db s) x)"
    using e(2,3) by simp
  show none: "stored ops d s bkey (o_key obj) = None" using c(2) by (simp add: stored_def find_record_def)
  show "revision_heads ops d s \<Longrightarrow> revision_heads ops d s'"
    by (rule heads_core_write[OF _ fr(1) e(1,4) dec]) (use none c(3) in \<open>auto simp: created_meta_def\<close>)
  show "out = obj\<lparr>o_meta := created_meta uid (current_rv ops (d_db s) bkey + 1) now (o_meta obj)\<rparr>"
    using c(3) e(2) by simp
  show "kind_bucket y \<Longrightarrow> stored ops d s' y k = (if y = bkey \<and> k = o_key obj then Some out else stored ops d s y k)"
    by (rule e(1))
  show "bolt_inv ops d s'"
    using create_tx_inv[OF assms(1)[unfolded bolt_inv_def] assms(3,4,2,5,6,7) tx] fr by (simp add: bolt_inv_def)
qed

lemma Update_tx:
  assumes "bucketKeyForObject d obj = Inr bkey" "Update ops d obj s = (Inr res, s')"
  obtains enc mt where "update_tx ops d (d_scheme s) (d_no_history s) bkey obj (d_db s) = Inr ((res, enc, mt), d_db s')"
    "d_scheme s' = d_scheme s" "d_no_history s' = d_no_history s"
  using assms by (auto simp: Update_def elim: finish_db_Update)

text \<open>Update: the stored object gives uid, creation time and subresources, the caller everything else.\<close>

lemma Update_effect:
  assumes "bolt_inv ops d s" "bucketKeyForObject d obj = Inr bkey" "kind_bucket bkey"
    and "current_rv ops (d_db s) bkey < 2 ^ 64 - 1" "wf_object obj" "Update ops d obj s = (Inr res, s')"
  obtains old where "stored ops d s bkey (o_key obj) = Some old" "o_rv obj = [] \<or> o_rv obj = o_rv old"
    "\<And>y k. kind_bucket y \<Longrightarrow> stored ops d s' y k = (if y = bkey \<and> k = o_key obj then Some res else stored ops d s y k)"
    "o_api_version res = o_api_version obj" "o_kind res = o_kind obj"
    "o_meta res = updated_meta (o_meta old) (current_rv ops (d_db s) bkey + 1)
       (if same_desired obj old then om_generation (o_meta old) else wrap64 (om_generation (o_meta old) + 1)) (o_meta obj)"
    "\<And>k. \<not> type_meta_field k \<Longrightarrow>
       map_of (o_body res) k = (if coreField k then map_of (o_body obj) k else map_of (o_body old) k)"
    "o_rv res \<noteq> o_rv old" "bolt_inv ops d s'" "revision_heads ops d s \<Longrightarrow> revision_heads ops d s'"
    "\<And>x. current_rv ops (d_db s') x = (if x = bkey then current_rv ops (d_db s) bkey + 1 else current_rv ops (d_db s) x)"
proof -
  from assms(2,6) obtain enc mt where
    tx: "update_tx ops d (d_scheme s) (d_no_history s) bkey obj (d_db s) = Inr ((res, enc, mt), d_db s')"
    and fr: "d_scheme s' = d_scheme s" "d_no_history s' = d_no_history s" by (rule Update_tx)
  obtain cur old rv b1 gen where u: "find_record ops (d_db s) bkey (o_key obj) = Inr cur" "decode d (d_scheme s) cur = Inr old"
    "o_rv obj = [] \<or> o_rv obj = o_rv old" "nextRV ops bkey (d_db s) = Inr (rv, b1)"
    "gen = nextGeneration obj cur (om_generation (o_meta old))"
    "mt = updated_meta (o_meta old) rv gen (o_meta obj)" "enc = mergeCore (obj\<lparr>o_meta := mt\<rparr>) cur"
    "decode d (d_scheme s) enc = Inr res" "commit ops (d_no_history s) bkey (o_key obj) (o_uid old) rv enc b1 = Inr (d_db s')"
    using tx by (rule update_txE)
  from assms(1,3) u(1) obtain o' n where r: "stored ops d s bkey (o_key obj) = Some o'" "decode d (d_scheme s) cur = Inr o'"
    "wf_encoded cur" "o_key o' = o_key obj" "bucketKeyForObject d o' = Inr bkey" "o_rv o' = show_nat n" "1 \<le> n"
    "n \<le> current_rv ops (d_db s) bkey" by (rule stored_record)
  have old: "o' = old" using r(2) u(2) by simp
  have wfo: "wf_object (obj\<lparr>o_meta := mt\<rparr>)" using assms(5) by simp
  note m = mergeCore_fields[OF u(8)[unfolded u(7)] wfo r(3)] and e = core_write_effect[OF assms(1,3,4) u(4,9,8) fr(1)]
  have gen: "gen = (if same_desired obj old then om_generation (o_meta old) else wrap64 (om_generation (o_meta old) + 1))"
    unfolding u(5) by (rule nextGeneration_stored[OF u(2) r(3)])
  have meta: "o_meta res = updated_meta (o_meta old) (current_rv ops (d_db s) bkey + 1) gen (o_meta obj)"
    using m(3) u(6) e(2) by simp
  show thesis
  proof (rule that)
    show "stored ops d s bkey (o_key obj) = Some old" using r(1) old by simp
    show "o_meta res = updated_meta (o_meta old) (current_rv ops (d_db s) bkey + 1)
       (if same_desired obj old then om_generation (o_meta old) else wrap64 (om_generation (o_meta old) + 1)) (o_meta obj)"
      using meta unfolding gen .
    show "map_of (o_body res) k = (if coreField k then map_of (o_body obj) k else map_of (o_body old) k)"
      if "\<not> type_meta_field k" for k
      using m(4)[OF that] decode_body[OF u(2) r(3) that, symmetric] by (simp split: if_splits)
    show "o_rv res \<noteq> o_rv old" using meta r(6,8) old by (simp add: updated_meta_def)
    show "revision_heads ops d s \<Longrightarrow> revision_heads ops d s'"
      by (rule heads_core_write[OF _ fr(1) e(1,4) u(8)]) (use meta r(1) old in \<open>auto simp: updated_meta_def\<close>)
    show "bolt_inv ops d s'"
      using update_tx_inv[OF assms(1)[unfolded bolt_inv_def] assms(3,4,2,5) tx] fr by (simp add: bolt_inv_def)
  qed (use u(3) e(1) m(1,2) e(2,3) in auto)
qed

text \<open>UpdateSubresource: one field, and nothing when it is unchanged.\<close>

lemma UpdateSubresource_tx:
  assumes "bucketKeyForObject d obj = Inr bkey" "UpdateSubresource ops d sub obj s = (Inr res, s')"
  obtains val e where "map_of (marshal obj) sub = Some val" "sub \<noteq> []"
    "subresource_tx ops d (d_scheme s) bkey sub val obj (d_db s) = Inr ((res, e), d_db s')"
    "d_scheme s' = d_scheme s" "d_no_history s' = d_no_history s" "d_subs s' = (case e of None \<Rightarrow> d_subs s
       | Some enc \<Rightarrow> publish bkey Modified enc (om_namespace (o_meta res)) (om_labels (o_meta res)) (d_subs s))"
  using assms
  by (auto simp: UpdateSubresource_def db_Update_Inr split: if_splits option.splits prod.splits sum.splits intro: that)

lemma UpdateSubresource_effect:
  assumes "bolt_inv ops d s" "bucketKeyForObject d obj = Inr bkey" "kind_bucket bkey" "\<not> type_meta_field sub"
    and "UpdateSubresource ops d sub obj s = (Inr res, s')"
  obtains old j where "stored ops d s bkey (o_key obj) = Some old" "o_rv obj = [] \<or> o_rv obj = o_rv old"
    "map_of (o_body obj) sub = Some j"
    "\<And>y k. kind_bucket y \<Longrightarrow> stored ops d s' y k = (if y = bkey \<and> k = o_key obj then Some res else stored ops d s y k)"
    "o_api_version res = o_api_version old" "o_kind res = o_kind old" "o_meta res = o_meta old"
    "\<And>k. \<not> type_meta_field k \<Longrightarrow> map_of (o_body res) k = (if k = sub then Some j else map_of (o_body old) k)"
    "\<And>x k. x \<noteq> bkey \<Longrightarrow> bb_get ops (d_db s') x k = bb_get ops (d_db s) x k"
    "map_of (o_body old) sub = Some j \<Longrightarrow> res = old \<and> d_db s' = d_db s \<and> d_subs s' = d_subs s"
    "bolt_inv ops d s'" "revision_heads ops d s \<Longrightarrow> revision_heads ops d s'"
proof -
  from assms(2,5) obtain val e where tx: "map_of (marshal obj) sub = Some val" "sub \<noteq> []"
    "subresource_tx ops d (d_scheme s) bkey sub val obj (d_db s) = Inr ((res, e), d_db s')"
    "d_scheme s' = d_scheme s" "d_no_history s' = d_no_history s" "d_subs s' = (case e of None \<Rightarrow> d_subs s
       | Some enc \<Rightarrow> publish bkey Modified enc (om_namespace (o_meta res)) (om_labels (o_meta res)) (d_subs s))"
    by (rule UpdateSubresource_tx)
  obtain j where j: "val = RJson j" "map_of (o_body obj) sub = Some j"
    using tx(1) assms(4) by (auto simp: map_of_marshal type_meta_field_def)
  obtain cur old where c: "find_record ops (d_db s) bkey (o_key obj) = Inr cur" "decode d (d_scheme s) cur = Inr old"
    "o_rv obj = [] \<or> o_rv obj = o_rv old"
    and cases: "map_of cur sub = Some val \<and> res = old \<and> e = None \<and> d_db s' = d_db s \<or>
     map_of cur sub \<noteq> Some val \<and> decode d (d_scheme s) (goput sub val cur) = Inr res \<and> e = Some (marshal res) \<and>
     putHead ops bkey (o_key obj) (marshal res) (d_db s) = Inr (d_db s')"
    using subresource_txD[OF tx(3)] by blast
  from assms(1,3) c(1) obtain o' n where r: "stored ops d s bkey (o_key obj) = Some o'" "decode d (d_scheme s) cur = Inr o'"
    "wf_encoded cur" "o_key o' = o_key obj" "bucketKeyForObject d o' = Inr bkey" "o_rv o' = show_nat n" "1 \<le> n"
    "n \<le> current_rv ops (d_db s) bkey" by (rule stored_record)
  have old: "stored ops d s bkey (o_key obj) = Some old" using r(1,2) c(2) by simp
  have curj: "map_of (o_body old) sub = Some j \<longleftrightarrow> map_of cur sub = Some val"
    unfolding j(1) decode_body[OF c(2) r(3) assms(4), symmetric] by auto
  have inv: "bolt_inv ops d s'"
    using subresource_tx_inv[OF assms(1)[unfolded bolt_inv_def] assms(3,4) _ tx(3)] j(1) tx(4,5) by (simp add: bolt_inv_def)
  show thesis using cases
  proof (elim disjE conjE)
    assume a: "map_of cur sub = Some val" "res = old" "e = None" "d_db s' = d_db s"
    have same: "stored ops d s' y k = stored ops d s y k" for y k using a(4) by (intro stored_cong) (simp_all add: tx(4))
    have "revision_heads ops d s \<Longrightarrow> revision_heads ops d s'"
      by (rule heads_core_write[OF _ tx(4), where bkey = bkey and key = "o_key obj" and obj = old and enc = cur])
        (use a(4) same old c(2) r(1,4) in auto)
    then show thesis
      by (intro that[OF old c(3) j(2)]) (use a same old inv tx(6) curj in auto)
  next
    assume a: "map_of cur sub \<noteq> Some val" "decode d (d_scheme s) (goput sub val cur) = Inr res" "e = Some (marshal res)"
     "putHead ops bkey (o_key obj) (marshal res) (d_db s) = Inr (d_db s')"
    note res = subresource_result[OF c(2) a(2) assms(4) r(3) exI[of "\<lambda>j. val = RJson j", OF j(1)]] and g = putHead_spec(1)[OF a(4)]
    have dec: "decode d (d_scheme s) (marshal res) = Inr res"
      using decode_wf[OF a(2)] decode_registered[OF a(2)] by (simp add: decode_marshal_eq)
    show thesis
    proof (rule that[OF old c(3) j(2)])
      show "stored ops d s' y k = (if y = bkey \<and> k = o_key obj then Some res else stored ops d s y k)" for y k
        by (rule stored_put[OF g dec tx(4)])
      show "map_of (o_body res) k = (if k = sub then Some j else map_of (o_body old) k)" if "\<not> type_meta_field k" for k
        using res(4)[OF that] j(1) by (cases "k = sub") auto
      show "revision_heads ops d s \<Longrightarrow> revision_heads ops d s'"
        by (rule heads_core_write[OF _ tx(4) stored_put[OF g dec tx(4)] _ dec])
          (use res(3) old r(1,4) kind_bucket_neq(2)[OF assms(3)] g in auto)
    qed (use res(1-3) a(1) curj inv g in auto)
  qed
qed

text \<open>Rollback: the core state of the revision, the subresources of the current object.\<close>

lemma Rollback_effect:
  assumes "bolt_inv ops d s" "revision_heads ops d s" "bucketKeyForMeta d m = Inr bkey" "kind_bucket bkey"
    and "current_rv ops (d_db s) bkey < 2 ^ 64 - 1" "targetRV < 2 ^ 63" "Rollback ops d m uid targetRV s = (Inr res, s')"
  obtains revn old where "GetRevision ops d m uid targetRV s = Inr revn" "o_uid revn = uid"
    "stored ops d s bkey (o_key revn) = Some old" "o_uid old = uid"
    "\<And>y k. kind_bucket y \<Longrightarrow> stored ops d s' y k = (if y = bkey \<and> k = o_key revn then Some res else stored ops d s y k)"
    "o_api_version res = o_api_version revn" "o_kind res = o_kind revn"
    "o_meta res = (o_meta revn)\<lparr>om_resource_version := show_nat (current_rv ops (d_db s) bkey + 1),
       om_generation := (if same_desired res old then om_generation (o_meta old)
                         else wrap64 (om_generation (o_meta old) + 1))\<rparr>"
    "\<And>k. \<not> type_meta_field k \<Longrightarrow>
       map_of (o_body res) k = (if coreField k then map_of (o_body revn) k else map_of (o_body old) k)"
    "bolt_inv ops d s'" "revision_heads ops d s'"
    "\<And>x. current_rv ops (d_db s') x = (if x = bkey then current_rv ops (d_db s) bkey + 1 else current_rv ops (d_db s) x)"
proof -
  have fin: "finish bkey Modified
      (db_Update ops (rollback_tx ops d (d_scheme s) (d_no_history s) bkey uid (nat targetRV)) (d_db s)) s = (Inr res, s')"
    and pos: "uid \<noteq> []" "0 < targetRV"
    using assms(3,7) by (auto simp: Rollback_def split: if_splits)
  from fin obtain enc mt where
    tx: "rollback_tx ops d (d_scheme s) (d_no_history s) bkey uid (nat targetRV) (d_db s) = Inr ((res, enc, mt), d_db s')"
    and fr: "d_scheme s' = d_scheme s" "d_no_history s' = d_no_history s" by (rule finish_db_Update)
  obtain snap sobj cur cobj rv b1 mrg gen where u:
    "find_record ops (d_db s) (historyBucket bkey) (historyKey uid (nat targetRV)) = Inr snap"
    "decode d (d_scheme s) snap = Inr sobj" "find_record ops (d_db s) bkey (o_key sobj) = Inr cur"
    "nextRV ops bkey (d_db s) = Inr (rv, b1)"
    "decode d (d_scheme s) (merge_fields snap cur) = Inr mrg" "decode d (d_scheme s) cur = Inr cobj"
    "gen = nextGeneration mrg cur (om_generation (o_meta cobj))"
    "res = mrg\<lparr>o_meta := (o_meta mrg)\<lparr>om_resource_version := show_nat rv, om_generation := gen\<rparr>\<rparr>"
    "enc = marshal res" "commit ops (d_no_history s) bkey (o_key sobj) uid rv enc b1 = Inr (d_db s')"
    using tx by (rule rollback_txE)
  have snapwf: "wf_encoded snap" and hk: "\<exists>n. historyKey uid (nat targetRV) = historyKey (o_uid sobj) n \<and> n \<le> current_rv ops (d_db s) bkey"
    using assms(1)[unfolded bolt_inv_def] assms(4) u(1) by (rule inv_revision, use u(2) in auto)+
  have uid: "o_uid sobj = uid"
  proof -
    obtain n where n: "historyKey uid (nat targetRV) = historyKey (o_uid sobj) n" "n \<le> current_rv ops (d_db s) bkey"
      using hk by blast
    have "nat targetRV < 10 ^ 20" "n < 10 ^ 20" using assms(6) n(2) current_rv_bound[of "d_db s" bkey] by simp_all
    then show ?thesis using n(1) historyKey_inj by metis
  qed
  have curwf: "wf_encoded cur" using assms(1)[unfolded bolt_inv_def] assms(4) u(3) by (rule inv_record)
  have old: "stored ops d s bkey (o_key sobj) = Some cobj" using u(3,6) by (rule storedI)
  have olduid: "o_uid cobj = uid"
    using revision_headsD[OF assms(2,4) u(1)[unfolded find_record_Inr] u(2)] old uid by auto
  note m = decode_merge[OF u(5,2) snapwf curwf]
  have dec: "decode d (d_scheme s) enc = Inr res"
    using decode_wf[OF u(5)] decode_registered[OF u(5)] unfolding u(8,9) by (simp add: decode_marshal_eq)
  note e = core_write_effect[OF assms(1,4,5) u(4,10) dec fr(1)]
  have gen: "gen = (if same_desired res cobj then om_generation (o_meta cobj) else wrap64 (om_generation (o_meta cobj) + 1))"
    using nextGeneration_stored[OF u(6) curwf, of res "om_generation (o_meta cobj)"] unfolding u(7,8) nextGeneration_meta .
  show thesis
  proof (rule that[OF _ uid old olduid])
    show "GetRevision ops d m uid targetRV s = Inr sobj" using assms(3) pos u(1,2) by (simp add: GetRevision_def)
    show "map_of (o_body res) k = (if coreField k then map_of (o_body sobj) k else map_of (o_body cobj) k)"
      if "\<not> type_meta_field k" for k
      using m(4)[OF that] decode_body[OF u(2) snapwf that, symmetric] decode_body[OF u(6) curwf that, symmetric]
      unfolding u(8) by (simp split: if_splits)
    show "bolt_inv ops d s'"
      using rollback_tx_inv[OF assms(1)[unfolded bolt_inv_def] assms(4,5) _ tx] assms(6) fr by (simp add: bolt_inv_def)
    show "revision_heads ops d s'"
      by (rule heads_core_write[OF assms(2) fr(1) e(1,4) dec]) (use m(3) old olduid uid in \<open>auto simp: u(8)\<close>)
    show "o_meta res = (o_meta sobj)\<lparr>om_resource_version := show_nat (current_rv ops (d_db s) bkey + 1),
       om_generation := (if same_desired res cobj then om_generation (o_meta cobj)
                         else wrap64 (om_generation (o_meta cobj) + 1))\<rparr>"
      unfolding gen[symmetric] using m(3) e(2) by (simp add: u(8))
  qed (use m(1,2) e(1,2,3) in \<open>auto simp: u(8)\<close>)
qed

text \<open>Delete: the object goes, and every revision of it.\<close>

lemma Delete_tx:
  assumes "bucketKeyForMeta d m = Inr bkey" "Delete ops d m s = (None, s')"
  obtains old enc mt where
    "delete_tx ops d (d_scheme s) bkey (recordKey (mr_namespace m) (mr_name m)) (d_db s) = Inr ((old, enc, mt), d_db s')"
    "d_scheme s' = d_scheme s" "d_no_history s' = d_no_history s"
  using assms by (auto simp: Delete_def split: prod.splits sum.splits elim: finish_db_Update)

lemma Delete_effect:
  assumes "bolt_inv ops d s" "revision_heads ops d s" "bucketKeyForMeta d m = Inr bkey" "kind_bucket bkey"
    and "Delete ops d m s = (None, s')"
  defines "key \<equiv> recordKey (mr_namespace m) (mr_name m)"
  obtains old where "stored ops d s bkey key = Some old"
    "\<And>y k. kind_bucket y \<Longrightarrow> stored ops d s' y k = (if y = bkey \<and> k = key then None else stored ops d s y k)"
    "\<And>k enc revn. bb_get ops (d_db s') (historyBucket bkey) k = Some (Obj enc) \<Longrightarrow>
       decode d (d_scheme s') enc = Inr revn \<Longrightarrow> o_key revn \<noteq> key"
    "\<And>uid n. plain uid \<Longrightarrow> uid \<noteq> o_uid old \<Longrightarrow>
       bb_get ops (d_db s') (historyBucket bkey) (historyKey uid n) = bb_get ops (d_db s) (historyBucket bkey) (historyKey uid n)"
    "bolt_inv ops d s'" "revision_heads ops d s'" "d_scheme s' = d_scheme s"
    "\<And>x. current_rv ops (d_db s') x = current_rv ops (d_db s) x"
proof -
  from assms(3,5) obtain old enc mt where
    tx: "delete_tx ops d (d_scheme s) bkey key (d_db s) = Inr ((old, enc, mt), d_db s')"
    and fr: "d_scheme s' = d_scheme s" "d_no_history s' = d_no_history s"
    unfolding key_def by (rule Delete_tx)
  note g = delete_tx_spec[OF tx]
  have old: "stored ops d s bkey key = Some old" using g(3,4) by (rule storedI)
  have st: "stored ops d s' y k = (if y = bkey \<and> k = key then None else stored ops d s y k)" if y: "kind_bucket y" for y k
  proof (cases "y = bkey \<and> k = key")
    case True
    then have "find_record ops (d_db s') y k = Inl ErrNotFound" by (intro find_record_None) (simp add: g(1))
    then show ?thesis using True by (simp add: stored_def)
  next
    case False
    have "y \<noteq> historyBucket bkey" using kind_bucket_neq(2)[OF y] by metis
    then have "find_record ops (d_db s') y k = find_record ops (d_db s) y k"
      using False by (intro find_record_cong) (auto simp: g(1))
    then show ?thesis using False stored_cong[OF fr(1)] by auto
  qed
  have gone: "o_key revn \<noteq> key" and head: "\<exists>head. stored ops d s bkey (o_key revn) = Some head \<and> o_uid head = o_uid revn"
    if r: "bb_get ops (d_db s') (historyBucket bkey) k = Some (Obj e)" "decode d (d_scheme s') e = Inr revn" for k e revn
  proof -
    have kept: "bb_get ops (d_db s) (historyBucket bkey) k = Some (Obj e)" "\<not> has_prefix (o_uid old @ sep) k"
      using r(1) by (auto simp: g(1) split: if_splits)
    from assms(2,4) kept(1) r(2)[unfolded fr(1)] show "\<exists>head. stored ops d s bkey (o_key revn) = Some head \<and> o_uid head = o_uid revn"
      by (rule revision_headsD) blast
    then obtain head where head: "stored ops d s bkey (o_key revn) = Some head" "o_uid head = o_uid revn" by blast
    have "\<exists>n. k = historyKey (o_uid revn) n"
      by (rule inv_revision[OF assms(1)[unfolded bolt_inv_def] assms(4) kept(1)[folded find_record_Inr]]) (use r(2) fr(1) in auto)
    then have "o_uid revn \<noteq> o_uid old" using kept(2) by (auto simp: has_prefix_iff historyKey_def)
    then show "o_key revn \<noteq> key" using head old by auto
  qed
  have cur: "current_rv ops (d_db s') x = current_rv ops (d_db s) x" for x
    using kind_bucket_neq(1)[OF assms(4)] kind_bucket_neq(3)[OF assms(4), of bkey]
    by (intro current_rv_cong) (simp add: g(1) eq_commute)
  show thesis
  proof (rule that[OF old st gone])
    show "bolt_inv ops d s'"
      using delete_tx_inv[OF assms(1)[unfolded bolt_inv_def] assms(4) tx] fr by (simp add: bolt_inv_def)
    show "revision_heads ops d s'" unfolding revision_heads_def
    proof (intro allI impI)
      fix z k e revn
      assume z: "kind_bucket z" "bb_get ops (d_db s') (historyBucket z) k = Some (Obj e)" "decode d (d_scheme s') e = Inr revn"
      show "\<exists>head. stored ops d s' z (o_key revn) = Some head \<and> o_uid head = o_uid revn"
      proof (cases "z = bkey")
        case True
        then show ?thesis using gone[of k e revn] head[of k e revn] z by (simp add: st)
      next
        case False
        then have "bb_get ops (d_db s) (historyBucket z) k = Some (Obj e)"
          using z(2) kind_bucket_neq(2)[OF assms(4)] by (simp add: g(1) split: if_splits)
        from revision_headsD[OF assms(2) z(1) this z(3)[unfolded fr(1)]] show ?thesis
          using False by (auto simp: st[OF z(1)])
      qed
    qed
  qed (use fr cur g prefix_historyKey kind_bucket_neq(2)[OF assms(4)] inv_plain(1)[OF assms(1)[unfolded bolt_inv_def] assms(4) g(3,4)] in auto)
qed

end

end
