(* ===== verification/BoltRuns.thy ===== *)
theory BoltRuns
  imports BoltEffects
begin

text \<open>
  The BoltDB store as a state machine: one rule per operation of \<^verbatim>\<open>pkg/storage/bolt/bolt.go\<close> that
  changes state, failures included, and restarts of the process between any two of them. Every state
  it reaches keeps the store's invariant. Also here: a failed operation changes nothing, and which
  revisions a core write retains.
\<close>

section \<open>Failed operations\<close>

lemma Create_error: "Create ops d uid now obj s = (Inl e, s') \<Longrightarrow> s' = s"
  by (auto simp: Create_def split: sum.splits if_splits dest: finish_error)

lemma Update_error: "Update ops d obj s = (Inl e, s') \<Longrightarrow> s' = s"
  by (auto simp: Update_def split: sum.splits dest: finish_error)

lemma UpdateSubresource_error: "UpdateSubresource ops d sub obj s = (Inl e, s') \<Longrightarrow> s' = s"
  by (auto simp: UpdateSubresource_def split: sum.splits option.splits if_splits prod.splits dest: db_Update_Inl)

lemma Rollback_error: "Rollback ops d m uid n s = (Inl e, s') \<Longrightarrow> s' = s"
  by (auto simp: Rollback_def split: sum.splits if_splits dest: finish_error)

lemma Delete_error: "Delete ops d m s = (Some e, s') \<Longrightarrow> s' = s"
  by (auto simp: Delete_def split: sum.splits prod.splits dest: finish_error)

section \<open>Opening a database\<close>

text \<open>What an earlier process may have left: nothing, or a database in good order.\<close>

definition left_behind :: "('b, 'j) bbolt \<Rightarrow> deps \<Rightarrow> scheme \<Rightarrow> 'b \<Rightarrow> bool" where
  "left_behind ops d sch b \<longleftrightarrow>
     (\<forall>x k. bb_get ops b x k = None) \<or>
     (\<exists>s. d_db s = b \<and> d_scheme s = sch \<and> bolt_inv ops d s \<and> revision_heads ops d s)"

context bbolt_laws
begin

lemma drop_history_spec:
  assumes "rfold (drop_history ops) ks b = Inr b'"
  shows "bb_get ops b' y k = (if y \<in> historyBucket ` set ks then None else bb_get ops b y k)"
    "bb_has ops b' y \<longleftrightarrow> y \<notin> historyBucket ` set ks \<and> bb_has ops b y"
proof -
  have "(\<forall>y k. bb_get ops b' y k = (if y \<in> historyBucket ` set ks then None else bb_get ops b y k)) \<and>
      (\<forall>y. bb_has ops b' y \<longleftrightarrow> y \<notin> historyBucket ` set ks \<and> bb_has ops b y)"
    using assms
  proof (induction ks arbitrary: b)
    case (Cons x ks)
    then obtain b1 where 1: "drop_history ops x b = Inr b1" "rfold (drop_history ops) ks b1 = Inr b'"
      by (auto simp: rbind_eq_Inr)
    have "bb_get ops b1 y k = (if y = historyBucket x then None else bb_get ops b y k)"
      "bb_has ops b1 y \<longleftrightarrow> y \<noteq> historyBucket x \<and> bb_has ops b y" for y k
      using 1(1) get_none by (auto simp: drop_history_def get_drop has_drop split: if_splits)
    then show ?case using Cons.IH[OF 1(2)] by auto
  qed simp
  then show "bb_get ops b' y k = (if y \<in> historyBucket ` set ks then None else bb_get ops b y k)"
    "bb_has ops b' y \<longleftrightarrow> y \<notin> historyBucket ` set ks \<and> bb_has ops b y" by blast+
qed

lemma Open_spec:
  assumes "Open ops sch b = Inr s"
  shows "no_history_keys (sc_res sch) = Inr (d_no_history s)" "d_scheme s = sch" "d_subs s = []"
    "bb_get ops (d_db s) y k = (if y \<in> historyBucket ` set (d_no_history s) then None else bb_get ops b y k)"
    "bb_has ops (d_db s) y \<longleftrightarrow> y \<notin> historyBucket ` set (d_no_history s) \<and> (y = seqBucket \<or> bb_has ops b y)"
proof -
  let ?f = "\<lambda>nh b. rbind (bb_res (bb_create ops seqBucket b)) (\<lambda>b. rbind (rfold (drop_history ops) nh b) (\<lambda>b. Inr ((), b)))"
  obtain nh where nh: "no_history_keys (sc_res sch) = Inr nh"
    and up: "(case db_Update ops (?f nh) b of (Inl e, _) \<Rightarrow> Inl e
       | (Inr _, b) \<Rightarrow> Inr \<lparr>d_db = b, d_scheme = sch, d_no_history = nh, d_subs = [], d_next_sub = 0\<rparr>) = Inr s"
    using assms unfolding Open_def rbind_eq_Inr by blast
  obtain b2 where "db_Update ops (?f nh) b = (Inr (), b2)"
    "s = \<lparr>d_db = b2, d_scheme = sch, d_no_history = nh, d_subs = [], d_next_sub = 0\<rparr>"
    using up by (cases "db_Update ops (?f nh) b" rule: prod.exhaust) (auto split: sum.splits)
  then obtain b1 where o: "no_history_keys (sc_res sch) = Inr nh" "bb_create ops seqBucket b = Inr b1"
    "rfold (drop_history ops) nh b1 = Inr b2"
    "s = \<lparr>d_db = b2, d_scheme = sch, d_no_history = nh, d_subs = [], d_next_sub = 0\<rparr>"
    using nh by (auto simp: rbind_eq_Inr db_Update_Inr)
  show "no_history_keys (sc_res sch) = Inr (d_no_history s)" "d_scheme s = sch" "d_subs s = []" using o(1,4) by simp_all
  show "bb_get ops (d_db s) y k = (if y \<in> historyBucket ` set (d_no_history s) then None else bb_get ops b y k)"
    "bb_has ops (d_db s) y \<longleftrightarrow> y \<notin> historyBucket ` set (d_no_history s) \<and> (y = seqBucket \<or> bb_has ops b y)"
    by (simp_all add: o(4) drop_history_spec[OF o(3)] get_create[OF o(2)] has_create[OF o(2)])
qed

lemma seq_not_history: "seqBucket \<notin> historyBucket ` A"
  by (auto simp: historyBucket_def append_eq_Cons_conv)

lemma kind_not_history: "kind_bucket x \<Longrightarrow> x \<notin> historyBucket ` A"
  using kind_bucket_neq(2) by fastforce

lemma Open_stored:
  assumes "Open ops (d_scheme s) (d_db s) = Inr s'" "kind_bucket y"
  shows "stored ops d s' y k = stored ops d s y k"
  using kind_not_history[OF assms(2)]
  by (intro stored_cong find_record_cong) (simp_all add: Open_spec[OF assms(1)])

lemma Open_current_rv: "Open ops sch b = Inr s \<Longrightarrow> current_rv ops (d_db s) x = current_rv ops b x"
  using seq_not_history by (intro current_rv_cong) (simp add: Open_spec)

lemma Open_keeps:
  assumes "Open ops (d_scheme s) (d_db s) = Inr s'" "bolt_inv ops d s" "revision_heads ops d s"
  shows "bolt_inv ops d s'" "revision_heads ops d s'"
proof -
  note o = Open_spec[OF assms(1)]
  have sub: "bb_get ops (d_db s') y k = Some v \<Longrightarrow> bb_get ops (d_db s) y k = Some v" for y k v
    by (simp add: o(4) split: if_splits)
  show "bolt_inv ops d s'" using assms(2) seq_not_history sub
    unfolding bolt_inv_def db_inv_def Open_current_rv[OF assms(1)] o(2) by (auto simp: o(5))
  show "revision_heads ops d s'" unfolding revision_heads_def
  proof (intro allI impI)
    fix z k m revn
    assume z: "kind_bucket z" "bb_get ops (d_db s') (historyBucket z) k = Some (Obj m)" "decode d (d_scheme s') m = Inr revn"
    from assms(3) z(1) sub[OF z(2)] z(3)[unfolded o(2)]
    show "\<exists>head. stored ops d s' z (o_key revn) = Some head \<and> o_uid head = o_uid revn"
      unfolding Open_stored[OF assms(1) z(1)] by (rule revision_headsD) blast
  qed
qed

lemma Open_left_behind:
  assumes "Open ops sch b = Inr s" "left_behind ops d sch b"
  shows "bolt_inv ops d s" "revision_heads ops d s"
proof -
  note o = Open_spec[OF assms(1)]
  have "bolt_inv ops d s \<and> revision_heads ops d s" using assms(2) unfolding left_behind_def
  proof (elim disjE exE conjE)
    assume none: "\<forall>x k. bb_get ops b x k = None"
    then have "bb_get ops (d_db s) x k = None" for x k by (simp add: o(4))
    then show ?thesis using seq_not_history by (auto simp: bolt_inv_def db_inv_def revision_heads_def o(5))
  next
    fix s0 assume "d_db s0 = b" "d_scheme s0 = sch" "bolt_inv ops d s0" "revision_heads ops d s0"
    then show ?thesis using Open_keeps assms(1) by blast
  qed
  then show "bolt_inv ops d s" "revision_heads ops d s" by simp_all
qed

end

section \<open>Retained revisions\<close>

text \<open>The revisions held for one uid, by version.\<close>

definition revisions :: "('b, 'j) bbolt \<Rightarrow> 'b \<Rightarrow> string \<Rightarrow> string \<Rightarrow> nat set" where
  "revisions ops b bkey uid = {n. n < 2 ^ 64 \<and> bb_get ops b (historyBucket bkey) (historyKey uid n) \<noteq> None}"

lemma sorted_by_history:
  assumes "sorted ks" "distinct ks" "\<forall>k \<in> set ks. \<exists>n < 2 ^ 64. k = historyKey uid n"
  obtains ns where "ks = map (historyKey uid) ns" "sorted_wrt (<) ns" "\<forall>n \<in> set ns. n < 2 ^ 64"
proof -
  obtain f where f: "\<forall>k \<in> set ks. f k < 2 ^ 64 \<and> k = historyKey uid (f k)" using assms(3) by metis
  have eq: "ks = map (historyKey uid) (map f ks)" using f by (simp add: map_idI)
  have ltk: "sorted_wrt (<) ks" using assms(1,2) by (simp add: strict_sorted_iff)
  have "sorted_wrt (\<lambda>x y. f x < f y) ks"
  proof (rule sorted_wrt_mono_rel[OF _ ltk])
    fix x y assume xy: "x \<in> set ks" "y \<in> set ks" "x < y"
    have "f x < 10 ^ 20" "f y < 10 ^ 20" using f xy(1,2) by fastforce+
    then show "f x < f y" using historyKey_less f xy by metis
  qed
  then have "sorted_wrt (<) (map f ks)" by (simp add: sorted_wrt_map)
  then show thesis using that[OF eq] f by auto
qed

text \<open>The ten largest of a set of numbers.\<close>

definition newest :: "nat set \<Rightarrow> nat set \<Rightarrow> bool" where
  "newest A B \<longleftrightarrow> B \<subseteq> A \<and> card B = min maxHistory (card A) \<and> (\<forall>x \<in> B. \<forall>y \<in> A - B. y < x)"

lemma newest_append:
  assumes "sorted_wrt (<) (xs @ ys)" "length ys = min maxHistory (length (xs @ ys))"
  shows "newest (set (xs @ ys)) (set ys)"
proof -
  have d: "distinct (xs @ ys)" using assms(1) by (simp only: strict_sorted_iff)
  then have "distinct ys" by simp
  then have c: "card (set ys) = min maxHistory (card (set (xs @ ys)))"
    using assms(2) distinct_card[OF d] by (simp only: distinct_card)
  have "set ys \<subseteq> set (xs @ ys)" by simp
  moreover have "\<forall>x \<in> set ys. \<forall>y \<in> set (xs @ ys) - set ys. y < x"
  proof (intro ballI)
    fix x y assume "x \<in> set ys" "y \<in> set (xs @ ys) - set ys"
    then have "x \<in> set ys" "y \<in> set xs" by auto
    then show "y < x" using assms(1) by (simp only: sorted_wrt_append)
  qed
  ultimately show ?thesis unfolding newest_def using c by (intro conjI)
qed

lemma newest_drop: "sorted_wrt (<) ns \<Longrightarrow> newest (set ns) (set (drop (length ns - maxHistory) ns))"
  using newest_append[of "take (length ns - maxHistory) ns" "drop (length ns - maxHistory) ns"]
  by (simp only: append_take_drop_id length_drop)

context bbolt_laws
begin

lemma commit_revisions:
  assumes cm: "commit ops nh bkey key uid rv enc b = Inr b'" and h: "bkey \<notin> set nh" and uid: "plain uid" "rv < 2 ^ 64"
    and keys: "\<And>k. bb_get ops b (historyBucket bkey) k \<noteq> None \<Longrightarrow> \<exists>v n. plain v \<and> n < 2 ^ 64 \<and> k = historyKey v n"
  shows "newest (insert rv (revisions ops b bkey uid)) (revisions ops b' bkey uid)"
proof -
  let ?h = "historyBucket bkey"
  from cm h obtain b1 where b1: "\<And>y k. bb_get ops b1 y k = (if y = bkey \<and> k = key then Some (Obj enc)
       else if y = ?h \<and> k = historyKey uid rv then Some (Obj enc) else bb_get ops b y k)"
    and b': "\<And>y k. bb_get ops b' y k = (if y = ?h \<and> k \<in> set (pruned b1 ?h uid) then None else bb_get ops b1 y k)"
    by (rule commit_history) blast
  have ne: "?h \<noteq> bkey" by (simp add: historyBucket_def)
  define ks where "ks = filter (has_prefix (uid @ sep)) (bb_keys ops b1 ?h)"
  have all: "\<exists>n < 2 ^ 64. k = historyKey uid n" if "k \<in> set ks" for k
  proof -
    have k: "bb_get ops b1 ?h k \<noteq> None" "has_prefix (uid @ sep) k" using that by (auto simp: ks_def keys_set)
    then have "\<exists>v n. plain v \<and> n < 2 ^ 64 \<and> k = historyKey v n" using keys[of k] uid ne by (auto simp: b1 split: if_splits)
    then show ?thesis using k(2) prefix_historyKey[OF uid(1)] by blast
  qed
  have "sorted ks" "distinct ks" unfolding ks_def by (simp_all add: keys_sorted keys_distinct sorted_wrt_filter)
  then obtain ns where ns: "ks = map (historyKey uid) ns" "sorted_wrt (<) ns" "\<forall>n \<in> set ns. n < 2 ^ 64"
    using sorted_by_history[of ks uid] all by blast
  let ?old = "take (length ns - maxHistory) ns"
  have inj: "historyKey uid m = historyKey uid n \<longleftrightarrow> m = n" if "m < 2 ^ 64" "n < 2 ^ 64" for m n
    using that historyKey_inj[of m n uid uid] by simp
  have mem: "historyKey uid n \<in> set (map (historyKey uid) xs) \<longleftrightarrow> n \<in> set xs" if "n < 2 ^ 64" "set xs \<subseteq> set ns" for n xs
  proof
    assume "historyKey uid n \<in> set (map (historyKey uid) xs)"
    then obtain m where m: "m \<in> set xs" "historyKey uid n = historyKey uid m" by (auto simp only: set_map)
    have "m < 2 ^ 64" using m(1) that(2) ns(3) by blast
    then show "n \<in> set xs" using m inj[OF that(1)] by blast
  qed simp
  have in_ns: "n \<in> set ns \<longleftrightarrow> bb_get ops b1 ?h (historyKey uid n) \<noteq> None" if "n < 2 ^ 64" for n
  proof -
    have "n \<in> set ns \<longleftrightarrow> historyKey uid n \<in> set ks" using mem[OF that order_refl] unfolding ns(1) by simp
    also have "\<dots> \<longleftrightarrow> bb_get ops b1 ?h (historyKey uid n) \<noteq> None"
      unfolding ks_def set_filter keys_set using prefix_historyKey[OF uid(1) uid(1)] by blast
    finally show ?thesis .
  qed
  have get1: "bb_get ops b1 ?h (historyKey uid n) \<noteq> None \<longleftrightarrow> n = rv \<or> bb_get ops b ?h (historyKey uid n) \<noteq> None"
    if "n < 2 ^ 64" for n
    unfolding b1 using ne inj[OF that uid(2)] by auto
  have A: "insert rv (revisions ops b bkey uid) = set ns"
  proof (rule set_eqI)
    fix n
    show "n \<in> insert rv (revisions ops b bkey uid) \<longleftrightarrow> n \<in> set ns"
    proof (cases "n < 2 ^ 64")
      case True
      then show ?thesis unfolding in_ns[OF True] get1[OF True] revisions_def by blast
    next
      case False
      then have "n \<noteq> rv" "n \<notin> set ns" using uid(2) ns(3) by blast+
      then show ?thesis using False unfolding revisions_def by blast
    qed
  qed
  have pr: "pruned b1 ?h uid = map (historyKey uid) ?old"
    unfolding pruned_def Let_def ks_def[symmetric] ns(1) take_map length_map ..
  have "revisions ops b' bkey uid = {n \<in> set ns. n \<notin> set ?old}"
  proof (rule set_eqI)
    fix n
    show "n \<in> revisions ops b' bkey uid \<longleftrightarrow> n \<in> {n \<in> set ns. n \<notin> set ?old}"
    proof (cases "n < 2 ^ 64")
      case True
      have "bb_get ops b' ?h (historyKey uid n) \<noteq> None \<longleftrightarrow> n \<in> set ns \<and> n \<notin> set ?old"
        unfolding b' pr using mem[OF True set_take_subset] in_ns[OF True] by (metis (full_types))
      then show ?thesis using True unfolding revisions_def by blast
    next
      case False
      then show ?thesis using ns(3) unfolding revisions_def by blast
    qed
  qed
  also have "\<dots> = set (drop (length ns - maxHistory) ns)"
  proof -
    have "distinct ns" using ns(2) by (simp add: strict_sorted_iff)
    then have "distinct (?old @ drop (length ns - maxHistory) ns)" by (simp only: append_take_drop_id)
    then have "set ?old \<inter> set (drop (length ns - maxHistory) ns) = {}" unfolding distinct_append by blast
    moreover have "set ns = set ?old \<union> set (drop (length ns - maxHistory) ns)" by (metis append_take_drop_id set_append)
    ultimately show ?thesis by blast
  qed
  finally show ?thesis unfolding A using newest_drop[OF ns(2)] by simp
qed

end

section \<open>Runs\<close>

text \<open>
  The sixty-four-bit version counter of no Kind is exhausted, and no group or kind holds a zero byte.
\<close>

definition room :: "('b, 'j) bbolt \<Rightarrow> ('b, 'j) DB \<Rightarrow> bool" where
  "room ops s \<longleftrightarrow> (\<forall>bkey. current_rv ops (d_db s) bkey < 2 ^ 64 - 1)"

definition plain_kind :: "deps \<Rightarrow> 'j object \<Rightarrow> bool" where
  "plain_kind d obj \<longleftrightarrow> plain (object_group d obj) \<and> plain (o_kind obj)"

definition plain_ref :: "deps \<Rightarrow> object_ref \<Rightarrow> bool" where
  "plain_ref d m \<longleftrightarrow> plain (mr_kind m) \<and> (\<forall>g v. dp_parse_gv d (mr_api_version m) = Inr (g, v) \<longrightarrow> plain g)"

lemma bucketKeyFor_kind: "bucketKeyFor g k = Inr x \<Longrightarrow> plain g \<Longrightarrow> plain k \<Longrightarrow> kind_bucket x"
  by (auto simp: bucketKeyFor_def kind_bucket_def plain_def split: if_splits)

lemma plain_kind_bucket: "plain_kind d obj \<Longrightarrow> bucketKeyForObject d obj = Inr x \<Longrightarrow> kind_bucket x"
  by (simp add: plain_kind_def bucketKeyForObject_def bucketKeyFor_kind)

lemma plain_ref_bucket: "plain_ref d m \<Longrightarrow> bucketKeyForMeta d m = Inr x \<Longrightarrow> kind_bucket x"
  by (auto simp: plain_ref_def bucketKeyForMeta_def split: sum.splits intro: bucketKeyFor_kind)

inductive bolt_step :: "('b, 'j) bbolt \<Rightarrow> deps \<Rightarrow> ('b, 'j) DB \<Rightarrow> ('b, 'j) DB \<Rightarrow> bool" for ops d where
  create: "bolt_step ops d s s'"
    if "Create ops d uid now obj s = (r, s')" "room ops s" "plain_kind d obj" "registered d (d_scheme s) obj"
      "wf_object obj" "plain uid"
| update: "bolt_step ops d s s'"
    if "Update ops d obj s = (r, s')" "room ops s" "plain_kind d obj" "wf_object obj"
| subresource: "bolt_step ops d s s'"
    if "UpdateSubresource ops d sub obj s = (r, s')" "plain_kind d obj" "subresourceField sub"
| rollback: "bolt_step ops d s s'"
    if "Rollback ops d m uid n s = (r, s')" "room ops s" "plain_ref d m" "int64 n"
| delete: "bolt_step ops d s s'" if "Delete ops d m s = (e, s')" "plain_ref d m"
| watch: "bolt_step ops d s s'" if "Watch d m sel s = Inr (i, s')"
| unwatch: "bolt_step ops d s (removeSub bkey i s)"
| restart: "bolt_step ops d s s'" if "Open ops (d_scheme s) (d_db (Close s)) = Inr s'"

inductive bolt_reach :: "('b, 'j) bbolt \<Rightarrow> deps \<Rightarrow> scheme \<Rightarrow> ('b, 'j) DB \<Rightarrow> bool" for ops d sch where
  opened: "bolt_reach ops d sch s" if "Open ops sch b = Inr s" "left_behind ops d sch b"
| stepped: "bolt_reach ops d sch s'" if "bolt_reach ops d sch s" "bolt_step ops d s s'"

inductive_cases bolt_stepE: "bolt_step ops d s s'"

lemma Watch_frame:
  assumes "Watch d m sel s = Inr (i, s')"
  shows "d_db s' = d_db s" "d_scheme s' = d_scheme s" "d_no_history s' = d_no_history s"
  using assms by (auto simp: Watch_def rbind_eq_Inr Let_def)

lemma removeSub_frame [simp]:
  "d_db (removeSub bkey i s) = d_db s" "d_scheme (removeSub bkey i s) = d_scheme s"
  "d_no_history (removeSub bkey i s) = d_no_history s"
  by (simp_all add: removeSub_def Let_def)

lemma Create_key: "Create ops d uid now obj s = (Inr r, s') \<Longrightarrow> \<exists>x. bucketKeyForObject d obj = Inr x"
  by (auto simp: Create_def split: sum.splits)

lemma Update_key: "Update ops d obj s = (Inr r, s') \<Longrightarrow> \<exists>x. bucketKeyForObject d obj = Inr x"
  by (auto simp: Update_def split: sum.splits)

lemma UpdateSubresource_key: "UpdateSubresource ops d sub obj s = (Inr r, s') \<Longrightarrow> \<exists>x. bucketKeyForObject d obj = Inr x"
  by (auto simp: UpdateSubresource_def split: sum.splits if_splits)

lemma Rollback_key: "Rollback ops d m uid n s = (Inr r, s') \<Longrightarrow> \<exists>x. bucketKeyForMeta d m = Inr x"
  by (auto simp: Rollback_def split: sum.splits)

lemma Delete_key: "Delete ops d m s = (None, s') \<Longrightarrow> \<exists>x. bucketKeyForMeta d m = Inr x"
  by (auto simp: Delete_def split: sum.splits)

context bbolt_laws
begin

lemma same_db_keeps:
  assumes "d_db s' = d_db s" "d_scheme s' = d_scheme s" "d_no_history s' = d_no_history s"
    and "bolt_inv ops d s" "revision_heads ops d s"
  shows "bolt_inv ops d s' \<and> revision_heads ops d s'"
proof -
  have "stored ops d s' y k = stored ops d s y k" for y k using assms(1,2) by (intro stored_cong) simp_all
  then show ?thesis using assms by (simp add: bolt_inv_def revision_heads_def)
qed

lemma step_keeps:
  assumes "bolt_step ops d s s'" and ok: "bolt_inv ops d s" "revision_heads ops d s"
  shows "bolt_inv ops d s' \<and> revision_heads ops d s'"
  using assms(1)
proof cases
  case (create uid now obj r)
  show ?thesis
  proof (cases r)
    case (Inr out)
    then obtain x where x: "bucketKeyForObject d obj = Inr x" using Create_key create(1) by blast
    note e = Create_effect[OF ok(1) x plain_kind_bucket[OF create(3) x] _ create(4,5,6) create(1)[unfolded Inr]]
    show ?thesis using e(4,6) create(2) ok by (auto simp: room_def)
  qed (use Create_error create(1) ok in blast)
next
  case (update obj r)
  show ?thesis
  proof (cases r)
    case (Inr out)
    then obtain x where x: "bucketKeyForObject d obj = Inr x" using Update_key update(1) by blast
    have "current_rv ops (d_db s) x < 2 ^ 64 - 1" using update(2) by (simp add: room_def)
    from ok(1) x plain_kind_bucket[OF update(3) x] this update(4) update(1)[unfolded Inr] show ?thesis
      by (rule Update_effect) (use ok in blast)
  qed (use Update_error update(1) ok in blast)
next
  case (subresource sub obj r)
  show ?thesis
  proof (cases r)
    case (Inr out)
    then obtain x where x: "bucketKeyForObject d obj = Inr x" using UpdateSubresource_key subresource(1) by blast
    have "\<not> type_meta_field sub" using subresource(3) subresource_not_type_meta by (auto simp: coreField_def)
    from ok(1) x plain_kind_bucket[OF subresource(2) x] this subresource(1)[unfolded Inr] show ?thesis
      by (rule UpdateSubresource_effect) (use ok in blast)
  qed (use UpdateSubresource_error subresource(1) ok in blast)
next
  case (rollback m uid n r)
  show ?thesis
  proof (cases r)
    case (Inr out)
    then obtain x where x: "bucketKeyForMeta d m = Inr x" using Rollback_key rollback(1) by blast
    have "current_rv ops (d_db s) x < 2 ^ 64 - 1" "n < 2 ^ 63" using rollback(2,4) by (simp_all add: room_def int64_def)
    from ok x plain_ref_bucket[OF rollback(3) x] this rollback(1)[unfolded Inr] show ?thesis
      by (rule Rollback_effect) blast
  qed (use Rollback_error rollback(1) ok in blast)
next
  case (delete m e)
  show ?thesis
  proof (cases e)
    case None
    then obtain x where x: "bucketKeyForMeta d m = Inr x" using Delete_key delete(1) by blast
    from ok x plain_ref_bucket[OF delete(2) x] delete(1)[unfolded None] show ?thesis
      by (rule Delete_effect) blast
  qed (use Delete_error delete(1) ok in blast)
next
  case (watch m sel i)
  show ?thesis by (rule same_db_keeps[OF Watch_frame[OF watch] ok])
next
  case (unwatch bkey i)
  show ?thesis using same_db_keeps[OF _ _ _ ok, of "removeSub bkey i s"] unwatch by simp
next
  case restart
  then show ?thesis using Open_keeps ok by (simp add: Close_def)
qed

lemma reach_keeps:
  assumes "bolt_reach ops d sch s"
  shows "bolt_inv ops d s \<and> revision_heads ops d s"
  using assms by induction (use Open_left_behind step_keeps in blast)+

end

end
