(* ===== verification/BoltDemo.thy ===== *)
theory BoltDemo
  imports BoltRuns
begin

text \<open>
  A concrete store on the association-list database: one application, created and then updated. The
  witnesses of the store's properties evaluate the operations on it.
\<close>

section \<open>A small store\<close>

declare One_nat_def [simp del]

definition demo_deps :: deps where
  "demo_deps =
     \<lparr>dp_parse_gv = (\<lambda>v. if v = ''h/v1'' then Inr (''h'', ''v1'') else Inl ''unexpected GroupVersion''),
      dp_parse_selector = (\<lambda>_. Inl ''unsupported selector'')\<rparr>"

definition demo_resource :: "bool \<Rightarrow> resource" where
  "demo_resource nh = \<lparr>rs_plural = [], rs_singular = [], rs_short_names = [], rs_namespaced = True, rs_no_history = nh\<rparr>"

definition demo_scheme :: scheme where
  "demo_scheme =
     \<lparr>sc_known = [(''h'', ''v1'', ''App''), (''h'', ''v1'', ''Secret'')],
      sc_res = [((''h'', ''v1'', ''App''), demo_resource False), ((''h'', ''v1'', ''Secret''), demo_resource True)]\<rparr>"

definition demo_obj :: "string \<Rightarrow> string \<Rightarrow> nat \<Rightarrow> nat \<Rightarrow> nat object" where
  "demo_obj kind rv spec status =
     \<lparr>o_api_version = ''h/v1'', o_kind = kind,
      o_meta = zero_object_meta\<lparr>om_name := ''a'', om_namespace := ''n'', om_resource_version := rv\<rparr>,
      o_body = [(''spec'', spec), (''status'', status)]\<rparr>"

definition demo_ref :: "string \<Rightarrow> object_ref" where
  "demo_ref kind = \<lparr>mr_api_version = ''h/v1'', mr_kind = kind, mr_namespace = ''n'', mr_name = ''a''\<rparr>"

definition demo_meta :: "string \<Rightarrow> object_meta" where
  "demo_meta rv = zero_object_meta\<lparr>om_name := ''a'', om_namespace := ''n'', om_uid := ''u'', om_generation := 1,
     om_creation_timestamp := Some 7000000000, om_resource_version := rv\<rparr>"

definition demo_app :: "string \<Rightarrow> int \<Rightarrow> nat \<Rightarrow> nat \<Rightarrow> nat object" where
  "demo_app rv gen spec status =
     demo_obj ''App'' rv spec status\<lparr>o_meta := (demo_meta rv)\<lparr>om_generation := gen\<rparr>\<rparr>"

definition demo_db :: "(string \<times> nat blob) list \<Rightarrow> (string \<times> nat blob) list \<Rightarrow> (string \<times> nat blob) list \<Rightarrow> (nat alist_db, nat) DB" where
  "demo_db sq heads hist =
     \<lparr>d_db = [(seqBucket, sq), (''h/App'', heads), (historyBucket ''h/App'', hist)],
      d_scheme = demo_scheme, d_no_history = [''h/Secret''], d_subs = [], d_next_sub = 0\<rparr>"

definition demo_empty :: "(nat alist_db, nat) DB" where
  "demo_empty = \<lparr>d_db = [(seqBucket, [])], d_scheme = demo_scheme, d_no_history = [''h/Secret''], d_subs = [], d_next_sub = 0\<rparr>"

definition demo_created :: "(nat alist_db, nat) DB" where
  "demo_created = demo_db [(''h/App'', Text ''1'')] [(''n/a'', Obj (marshal (demo_app ''1'' 1 1 0)))]
     [(historyKey ''u'' 1, Obj (marshal (demo_app ''1'' 1 1 0)))]"

lemmas demo_eval = demo_deps_def demo_resource_def demo_scheme_def demo_obj_def demo_ref_def demo_app_def demo_meta_def
  bucketKeyForObject_def bucketKeyForMeta_def bucketKeyFor_def object_group_def recordKey_def

lemma show_small: "show_nat (Suc 0) = ''1''" "show_nat 1 = ''1''" "show_nat 2 = ''2''" "show_nat 3 = ''3''"
  by code_simp+

lemma demo_open: "Open alist_bbolt demo_scheme [] = Inr demo_empty"
  by (simp add: demo_empty_def Open_def demo_eval db_Update_def drop_history_def bb_res_def historyBucket_def)

lemma demo_nextRV: "nextRV alist_bbolt ''h/App'' [(seqBucket, [])] = Inr (1, [(seqBucket, [(''h/App'', Text ''1'')])])"
  by (simp add: nextRV_def current_rv_def goget_def bb_res_def Let_def show_small)

lemma demo_commit:
  "commit alist_bbolt [''h/Secret''] ''h/App'' ''n/a'' ''u'' 1 enc [(seqBucket, [(''h/App'', Text ''1'')])] =
    Inr [(seqBucket, [(''h/App'', Text ''1'')]), (''h/App'', [(''n/a'', Obj enc)]),
         (historyBucket ''h/App'', [(historyKey ''u'' 1, Obj enc)])]"
  by (simp add: commit_def putHead_def bb_res_def goget_def historyBucket_def pruneHistory_def seek_prefix_def delete_keys_def Let_def)

lemma demo_create:
  "Create alist_bbolt demo_deps ''u'' 7000000000 (demo_obj ''App'' [] 1 0) demo_empty = (Inr (demo_app ''1'' 1 1 0), demo_created)"
proof -
  have key: "o_key (demo_obj ''App'' [] 1 0) = ''n/a''" by (simp add: demo_eval)
  have mt: "created_meta ''u'' 1 7000000000 (o_meta (demo_obj ''App'' [] 1 0)) = o_meta (demo_app ''1'' 1 1 0)"
    by (simp add: demo_eval created_meta_def zero_object_meta_def rfc3339_def show_small)
  have out: "demo_obj ''App'' [] 1 0\<lparr>o_meta := o_meta (demo_app ''1'' 1 1 0)\<rparr> = demo_app ''1'' 1 1 0"
    by (simp add: demo_eval)
  have "create_tx alist_bbolt [''h/Secret''] ''u'' 7000000000 ''h/App'' (demo_obj ''App'' [] 1 0) [(seqBucket, [])] =
    Inr ((demo_app ''1'' 1 1 0, marshal (demo_app ''1'' 1 1 0), o_meta (demo_app ''1'' 1 1 0)), d_db demo_created)"
    unfolding create_tx_def key
    by (simp add: mt lookup_blob_def goget_def demo_nextRV out demo_commit Let_def demo_created_def demo_db_def)
  moreover have "bucketKeyForObject demo_deps (demo_obj ''App'' [] 1 0) = Inr ''h/App''"
    "om_name (o_meta (demo_obj ''App'' [] 1 0)) \<noteq> []" by (simp_all add: demo_eval)
  moreover have "d_scheme demo_empty = demo_scheme" "d_no_history demo_empty = [''h/Secret'']" "d_subs demo_empty = []"
    "d_db demo_empty = [(seqBucket, [])]" "d_next_sub demo_empty = 0"
    by (simp_all add: demo_empty_def)
  ultimately show ?thesis
    unfolding Create_def
    by (simp add: db_Update_def finish_def publish_def) (simp add: demo_created_def demo_empty_def demo_db_def)
qed

definition demo_updated :: "(nat alist_db, nat) DB" where
  "demo_updated = demo_db [(''h/App'', Text ''2'')] [(''n/a'', Obj (marshal (demo_app ''2'' 2 7 0)))]
     [(historyKey ''u'' 1, Obj (marshal (demo_app ''1'' 1 1 0))), (historyKey ''u'' 2, Obj (marshal (demo_app ''2'' 2 7 0)))]"

lemma demo_app_ok: "registered demo_deps demo_scheme (demo_app rv gen x y)" "wf_object (demo_app rv gen x y)"
  "registered demo_deps demo_scheme (demo_obj ''App'' rv x y)" "wf_object (demo_obj ''App'' rv x y)"
  by (simp_all add: registered_def wf_object_def type_meta_field_def demo_eval)

lemma demo_decode: "decode demo_deps demo_scheme (marshal (demo_app rv gen x y)) = Inr (demo_app rv gen x y)"
  by (rule decode_marshal_eq) (rule demo_app_ok)+

lemma demo_keys:
  "o_key (demo_obj k rv x y) = ''n/a''" "o_key (demo_app rv gen x y) = ''n/a''" "o_rv (demo_obj k rv x y) = rv"
  "o_rv (demo_app rv gen x y) = rv" "o_uid (demo_app rv gen x y) = ''u''"
  "bucketKeyForObject demo_deps (demo_obj ''App'' rv x y) = Inr ''h/App''"
  "bucketKeyForMeta demo_deps (demo_ref ''App'') = Inr ''h/App''"
  by (simp_all add: demo_eval)

lemma demo_history_neq: "historyKey ''u'' 1 \<noteq> historyKey ''u'' 2" "historyKey ''u'' (Suc 0) \<noteq> historyKey ''u'' 2"
  by (simp_all add: historyKey_inj)

lemma demo_merge:
  "mergeCore (demo_app rv gen x y) (marshal (demo_app rv' gen' x' y')) = marshal (demo_app rv gen x y')"
  by (simp add: mergeCore_def merge_fields_def marshal_def demo_eval coreField_def subresourceField_def)

lemma demo_commit2:
  "commit alist_bbolt [''h/Secret''] ''h/App'' ''n/a'' ''u'' 2 enc
     [(seqBucket, q), (''h/App'', [(''n/a'', e)]), (historyBucket ''h/App'', [(historyKey ''u'' 1, e1)])] =
   Inr [(seqBucket, q), (''h/App'', [(''n/a'', Obj enc)]),
        (historyBucket ''h/App'', [(historyKey ''u'' 1, e1), (historyKey ''u'' 2, Obj enc)])]"
proof -
  have "has_prefix (''u'' @ sep) (historyKey ''u'' n)" for n by (simp add: has_prefix_def historyKey_def)
  then have "seek_prefix (''u'' @ sep) [historyKey ''u'' 1, historyKey ''u'' 2] = [historyKey ''u'' 1, historyKey ''u'' 2]"
    by (subst seek_prefix_filter) (simp_all add: historyKey_less order.strict_implies_order)
  then show ?thesis using demo_history_neq
    by (simp add: commit_def putHead_def bb_res_def goget_def historyBucket_def pruneHistory_def delete_keys_def Let_def
        order.strict_implies_order historyKey_less)
qed

lemma demo_update:
  "Update alist_bbolt demo_deps (demo_obj ''App'' rv 7 y) demo_created = (Inr (demo_app ''2'' 2 7 0), demo_updated)"
  if "rv = [] \<or> rv = ''1''"
proof -
  let ?b = "d_db demo_created" and ?cur = "marshal (demo_app ''1'' 1 1 0)"
  let ?b1 = "[(seqBucket, [(''h/App'', Text ''2'')]), (''h/App'', [(''n/a'', Obj ?cur)]),
              (historyBucket ''h/App'', [(historyKey ''u'' 1, Obj ?cur)])]"
  have fr: "find_record alist_bbolt ?b ''h/App'' ''n/a'' = Inr ?cur"
    by (simp add: find_record_def lookup_blob_def as_json_def demo_created_def demo_db_def goget_def)
  have "current_rv alist_bbolt ?b ''h/App'' = 1"
    by (simp add: current_rv_def demo_created_def demo_db_def goget_def parse_uint64_def flip: show_small(2))
  then have rv: "nextRV alist_bbolt ''h/App'' ?b = Inr (2, ?b1)"
    by (simp add: nextRV_def bb_res_def Let_def show_small demo_created_def demo_db_def goget_def)
  have nsd: "\<not> same_desired (demo_obj ''App'' rv 7 y) (demo_app ''1'' 1 1 0)"
    unfolding same_desired_def
    by (auto intro!: exI[of _ "''spec''"] simp: coreField_def subresourceField_def map_of_marshal demo_eval)
  have gen: "nextGeneration (demo_obj ''App'' rv 7 y) ?cur 1 = 2"
    using nsd nextGeneration_stored[OF demo_decode wf_marshal[OF demo_app_ok(2)]] by (simp add: wrap64_def)
  have mt: "updated_meta (o_meta (demo_app ''1'' 1 1 0)) 2 2 (o_meta (demo_obj ''App'' rv 7 y)) = o_meta (demo_app ''2'' 2 7 y)"
    by (simp add: updated_meta_def demo_eval zero_object_meta_def show_small)
  have out: "demo_obj ''App'' rv 7 y\<lparr>o_meta := o_meta (demo_app ''2'' 2 7 y)\<rparr> = demo_app ''2'' 2 7 y"
    by (simp add: demo_eval)
  have g1: "om_generation (o_meta (demo_app ''1'' 1 1 0)) = 1" by (simp add: demo_eval)
  have "update_tx alist_bbolt demo_deps demo_scheme [''h/Secret''] ''h/App'' (demo_obj ''App'' rv 7 y) ?b =
      Inr ((demo_app ''2'' 2 7 0, marshal (demo_app ''2'' 2 7 0), o_meta (demo_app ''2'' 2 7 y)), d_db demo_updated)"
    unfolding update_tx_def demo_keys fr rbind_Inr demo_decode rv Let_def nextGeneration_meta
    using that
    by (simp add: checkResourceVersion_def demo_keys gen g1 mt out demo_merge demo_decode demo_commit2 demo_updated_def demo_db_def)
  moreover have "d_scheme demo_created = demo_scheme" "d_no_history demo_created = [''h/Secret'']" "d_subs demo_created = []"
    by (simp_all add: demo_created_def demo_db_def)
  ultimately show ?thesis
    unfolding Update_def demo_keys
    by (simp add: db_Update_def finish_def publish_def) (simp add: demo_created_def demo_updated_def demo_db_def)
qed
section \<open>It is reachable\<close>

lemma demo_room: "room alist_bbolt demo_empty" "room alist_bbolt demo_created" "room alist_bbolt demo_updated"
  by (auto simp: room_def current_rv_def demo_empty_def demo_created_def demo_updated_def demo_db_def goget_def
      parse_uint64_def simp flip: show_small)

lemma demo_plain: "plain_kind demo_deps (demo_obj ''App'' rv x y)" "plain_ref demo_deps (demo_ref ''App'')" "plain ''u''"
  by (auto simp: plain_kind_def plain_ref_def plain_def demo_eval)

lemma demo_reach_empty: "bolt_reach alist_bbolt demo_deps demo_scheme demo_empty"
  by (rule bolt_reach.opened[OF demo_open]) (simp add: left_behind_def)

lemma demo_reach_created: "bolt_reach alist_bbolt demo_deps demo_scheme demo_created"
  by (rule bolt_reach.stepped[OF demo_reach_empty bolt_step.create[OF demo_create demo_room(1)]])
    (simp_all add: demo_plain demo_app_ok demo_empty_def)

lemma demo_reach_updated: "bolt_reach alist_bbolt demo_deps demo_scheme demo_updated"
  by (rule bolt_reach.stepped[OF demo_reach_created bolt_step.update[OF demo_update[of "''1''" 5] demo_room(2)]])
    (simp_all add: demo_plain demo_app_ok)

lemma demo_stored:
  "stored alist_bbolt demo_deps demo_created ''h/App'' ''n/a'' = Some (demo_app ''1'' 1 1 0)"
  "stored alist_bbolt demo_deps demo_updated ''h/App'' ''n/a'' = Some (demo_app ''2'' 2 7 0)"
  by (simp_all add: stored_def find_record_def lookup_blob_def as_json_def demo_created_def demo_updated_def demo_db_def
      goget_def demo_decode)

lemma demo_current_rv: "current_rv alist_bbolt (d_db demo_created) ''h/App'' = 1"
  "current_rv alist_bbolt (d_db demo_updated) ''h/App'' = 2"
  by (simp_all add: current_rv_def demo_created_def demo_updated_def demo_db_def goget_def parse_uint64_def
      flip: show_small(2,3))

section \<open>The other writes\<close>

lemma demo_fields [simp]:
  "d_scheme demo_created = demo_scheme" "d_no_history demo_created = [''h/Secret'']" "d_subs demo_created = []"
  "d_scheme demo_updated = demo_scheme" "d_no_history demo_updated = [''h/Secret'']" "d_subs demo_updated = []"
  by (simp_all add: demo_created_def demo_updated_def demo_db_def)

lemma demo_find:
  "find_record alist_bbolt (d_db demo_created) ''h/App'' ''n/a'' = Inr (marshal (demo_app ''1'' 1 1 0))"
  "find_record alist_bbolt (d_db demo_updated) ''h/App'' ''n/a'' = Inr (marshal (demo_app ''2'' 2 7 0))"
  "find_record alist_bbolt (d_db demo_updated) (historyBucket ''h/App'') (historyKey ''u'' 1) = Inr (marshal (demo_app ''1'' 1 1 0))"
  by (simp_all add: find_record_def lookup_blob_def as_json_def demo_created_def demo_updated_def demo_db_def goget_def
      historyBucket_def)

definition demo_status :: "(nat alist_db, nat) DB" where
  "demo_status = demo_db [(''h/App'', Text ''1'')] [(''n/a'', Obj (marshal (demo_app ''1'' 1 1 5)))]
     [(historyKey ''u'' 1, Obj (marshal (demo_app ''1'' 1 1 0)))]"

lemma demo_subresource:
  "UpdateSubresource alist_bbolt demo_deps ''status'' (demo_obj ''App'' ''1'' 9 5) demo_created =
     (Inr (demo_app ''1'' 1 1 5), demo_status)"
proof -
  have val: "map_of (marshal (demo_obj ''App'' ''1'' 9 5)) ''status'' = Some (RJson 5)"
    "map_of (marshal (demo_app ''1'' 1 1 0)) ''status'' = Some (RJson 0)"
    by (simp_all add: map_of_marshal demo_eval)
  have put: "goput ''status'' (RJson 5) (marshal (demo_app ''1'' 1 1 0)) = marshal (demo_app ''1'' 1 1 5)"
    by (simp add: marshal_def demo_eval)
  have "subresource_tx alist_bbolt demo_deps demo_scheme ''h/App'' ''status'' (RJson 5) (demo_obj ''App'' ''1'' 9 5) (d_db demo_created) =
      Inr ((demo_app ''1'' 1 1 5, Some (marshal (demo_app ''1'' 1 1 5))), d_db demo_status)"
    unfolding subresource_tx_def demo_keys demo_find rbind_Inr demo_decode
    by (simp add: checkResourceVersion_def demo_keys val put demo_decode)
      (simp add: putHead_def bb_res_def demo_created_def demo_status_def demo_db_def goget_def)
  then show ?thesis unfolding UpdateSubresource_def demo_keys
    by (simp add: val db_Update_def publish_def) (simp add: demo_created_def demo_status_def demo_db_def)
qed

definition demo_gone :: "(nat alist_db, nat) DB" where
  "demo_gone = demo_db [(''h/App'', Text ''2'')] [] []"

lemma demo_prefix: "has_prefix (''u'' @ sep) (historyKey ''u'' n)"
  by (simp add: has_prefix_def historyKey_def)

lemma demo_sorted: "historyKey ''u'' 1 < historyKey ''u'' 2" "historyKey ''u'' 1 \<le> historyKey ''u'' 2"
  by (simp_all add: historyKey_less order.strict_implies_order)

lemma demo_delete: "Delete alist_bbolt demo_deps (demo_ref ''App'') demo_updated = (None, demo_gone)"
proof -
  let ?hist = "[(historyKey ''u'' 1, Obj (marshal (demo_app ''1'' 1 1 0))), (historyKey ''u'' 2, Obj (marshal (demo_app ''2'' 2 7 0)))]"
  have "seek_prefix (''u'' @ sep) [historyKey ''u'' 1, historyKey ''u'' 2] = [historyKey ''u'' 1, historyKey ''u'' 2]"
    using demo_prefix by (subst seek_prefix_filter) (simp_all add: demo_sorted)
  then have del: "deleteHistory alist_bbolt ''h/App'' ''u''
      [(seqBucket, q), (''h/App'', h), (historyBucket ''h/App'', ?hist)] =
      Inr [(seqBucket, q), (''h/App'', h), (historyBucket ''h/App'', [])]" for q h
    using demo_history_neq demo_sorted
    by (simp add: deleteHistory_def delete_keys_def bb_res_def goget_def Let_def historyBucket_def)
  have key: "recordKey (mr_namespace (demo_ref ''App'')) (mr_name (demo_ref ''App'')) = ''n/a''" by (simp add: demo_eval)
  have "delete_tx alist_bbolt demo_deps demo_scheme ''h/App'' ''n/a'' (d_db demo_updated) =
      Inr ((demo_app ''2'' 2 7 0, marshal (demo_app ''2'' 2 7 0), o_meta (demo_app ''2'' 2 7 0)), d_db demo_gone)"
    unfolding delete_tx_def demo_find rbind_Inr demo_decode
    by (simp add: demo_keys bb_res_def demo_updated_def demo_gone_def demo_db_def goget_def del)
  then show ?thesis unfolding Delete_def demo_keys key
    by (simp add: db_Update_def finish_def publish_def) (simp add: demo_updated_def demo_gone_def demo_db_def)
qed

definition demo_back :: "(nat alist_db, nat) DB" where
  "demo_back = demo_db [(''h/App'', Text ''3'')] [(''n/a'', Obj (marshal (demo_app ''3'' 3 1 0)))]
     [(historyKey ''u'' 1, Obj (marshal (demo_app ''1'' 1 1 0))), (historyKey ''u'' 2, Obj (marshal (demo_app ''2'' 2 7 0))),
      (historyKey ''u'' 3, Obj (marshal (demo_app ''3'' 3 1 0)))]"

lemma demo_commit3:
  "commit alist_bbolt [''h/Secret''] ''h/App'' ''n/a'' ''u'' 3 enc
     [(seqBucket, q), (''h/App'', [(''n/a'', e)]), (historyBucket ''h/App'', [(historyKey ''u'' 1, e1), (historyKey ''u'' 2, e2)])] =
   Inr [(seqBucket, q), (''h/App'', [(''n/a'', Obj enc)]),
        (historyBucket ''h/App'', [(historyKey ''u'' 1, e1), (historyKey ''u'' 2, e2), (historyKey ''u'' 3, Obj enc)])]"
proof -
  let ?ks = "[historyKey ''u'' 1, historyKey ''u'' 2, historyKey ''u'' 3]"
  have lt: "historyKey ''u'' 1 < historyKey ''u'' 2" "historyKey ''u'' 1 < historyKey ''u'' 3" "historyKey ''u'' 2 < historyKey ''u'' 3"
    by (simp_all add: historyKey_less)
  have "seek_prefix (''u'' @ sep) ?ks = ?ks"
    using demo_prefix by (subst seek_prefix_filter) (simp_all add: lt order.strict_implies_order)
  then show ?thesis using lt[THEN less_imp_neq]
    by (simp add: commit_def putHead_def bb_res_def goget_def historyBucket_def pruneHistory_def delete_keys_def Let_def
        order.strict_implies_order lt)
qed

lemma demo_rollback: "Rollback alist_bbolt demo_deps (demo_ref ''App'') ''u'' 1 demo_updated = (Inr (demo_app ''3'' 3 1 0), demo_back)"
proof -
  let ?snap = "marshal (demo_app ''1'' 1 1 0)" and ?cur = "marshal (demo_app ''2'' 2 7 0)"
  have rv: "nextRV alist_bbolt ''h/App'' (d_db demo_updated) =
      Inr (3, [(seqBucket, [(''h/App'', Text ''3'')]), (''h/App'', [(''n/a'', Obj ?cur)]),
               (historyBucket ''h/App'', [(historyKey ''u'' 1, Obj ?snap), (historyKey ''u'' 2, Obj ?cur)])])"
    unfolding nextRV_def demo_current_rv
    by (simp add: bb_res_def Let_def show_small demo_updated_def demo_db_def goget_def)
  have merge: "merge_fields ?snap ?cur = ?snap"
    by (simp add: merge_fields_def marshal_def demo_eval coreField_def subresourceField_def)
  have "\<not> same_desired (demo_app ''1'' 1 1 0) (demo_app ''2'' 2 7 0)"
    unfolding same_desired_def
    by (auto intro!: exI[of _ "''spec''"] simp: coreField_def subresourceField_def map_of_marshal demo_eval)
  then have gen: "nextGeneration (demo_app ''1'' 1 1 0) ?cur 2 = 3"
    using nextGeneration_stored[OF demo_decode wf_marshal[OF demo_app_ok(2)]] by (simp add: wrap64_def)
  have out: "demo_app ''1'' 1 1 0\<lparr>o_meta := o_meta (demo_app ''3'' 3 1 0)\<rparr> = demo_app ''3'' 3 1 0"
    "(o_meta (demo_app ''1'' 1 1 0))\<lparr>om_resource_version := ''3'', om_generation := 3\<rparr> = o_meta (demo_app ''3'' 3 1 0)"
    by (simp_all add: demo_eval zero_object_meta_def)
  have g: "om_generation (o_meta (demo_app ''2'' 2 7 0)) = 2" by (simp add: demo_eval)
  have "rollback_tx alist_bbolt demo_deps demo_scheme [''h/Secret''] ''h/App'' ''u'' 1 (d_db demo_updated) =
      Inr ((demo_app ''3'' 3 1 0, marshal (demo_app ''3'' 3 1 0), o_meta (demo_app ''3'' 3 1 0)), d_db demo_back)"
    unfolding rollback_tx_def demo_find rbind_Inr demo_decode demo_keys rv prod.case merge Let_def nextGeneration_meta g gen
    by (simp add: out show_small demo_keys demo_commit3 demo_back_def demo_db_def)
  then show ?thesis unfolding Rollback_def demo_keys
    by (simp add: db_Update_def finish_def publish_def flip: One_nat_def) (simp add: demo_updated_def demo_back_def demo_db_def)
qed

declare One_nat_def [simp]

end
