(* ===== verification/MemStore.thy ===== *)
theory MemStore
  imports Storage
begin

text \<open>
  The in-memory store, \<^verbatim>\<open>controller/internal/memory/mem.go\<close>: the same contract on Go maps, without
  history. The store keeps and returns pointers to objects; here objects are values, which is the
  store as seen by a caller that does not touch an object after handing it over or getting it back.
\<close>

section \<open>State\<close>

record 'j mem =
  m_seq :: "(string, nat) gomap"
  m_data :: "(string, (string, 'j object) gomap) gomap"
  m_subs :: "'j subs"
  m_next_sub :: nat

definition mem_New :: "'j mem" where
  "mem_New = \<lparr>m_seq = [], m_data = [], m_subs = [], m_next_sub = 0\<rparr>"

definition bucketFromGVK :: "string \<Rightarrow> string \<Rightarrow> (storage_error, string) result" where
  "bucketFromGVK grp kind =
     (if kind = [] then Inl (ErrOther ''object kind is required'') else Inr (grp @ ''/'' @ kind))"

definition bucketFromMeta :: "deps \<Rightarrow> object_ref \<Rightarrow> (storage_error, string) result" where
  "bucketFromMeta d m =
     (case dp_parse_gv d (mr_api_version m) of
        Inl e \<Rightarrow> Inl (ErrOther e)
      | Inr (g, _) \<Rightarrow> bucketFromGVK g (mr_kind m))"

definition memKey :: "string \<Rightarrow> string \<Rightarrow> string" where
  "memKey ns name = ns @ ''/'' @ name"

abbreviation m_key :: "'j object \<Rightarrow> string" where
  "m_key obj \<equiv> memKey (om_namespace (o_meta obj)) (om_name (o_meta obj))"

definition mem_lookup :: "'j mem \<Rightarrow> string \<Rightarrow> string \<Rightarrow> 'j object option" where
  "mem_lookup s bkey key = map_of (goget [] (m_data s) bkey) key"

definition mem_next :: "string \<Rightarrow> 'j mem \<Rightarrow> nat \<times> 'j mem" where
  "mem_next bkey s =
     (let rv = (goget 0 (m_seq s) bkey + 1) mod 2 ^ 64 in (rv, s\<lparr>m_seq := goput bkey rv (m_seq s)\<rparr>))"

definition mem_set :: "string \<Rightarrow> string \<Rightarrow> 'j object \<Rightarrow> 'j mem \<Rightarrow> 'j mem" where
  "mem_set bkey name obj s = s\<lparr>m_data := goput bkey (goput name obj (goget [] (m_data s) bkey)) (m_data s)\<rparr>"

definition mem_publish :: "string \<Rightarrow> event_type \<Rightarrow> 'j object \<Rightarrow> 'j mem \<Rightarrow> 'j mem" where
  "mem_publish bkey et obj s =
     s\<lparr>m_subs := publish bkey et (marshal obj) (om_namespace (o_meta obj)) (om_labels (o_meta obj)) (m_subs s)\<rparr>"

section \<open>Writes\<close>

definition mem_Create :: "deps \<Rightarrow> string \<Rightarrow> int \<Rightarrow> 'j object \<Rightarrow> 'j mem \<Rightarrow> (storage_error, 'j object) result \<times> 'j mem" where
  "mem_Create d uid now obj s =
     (case bucketFromGVK (object_group d obj) (o_kind obj) of
        Inl e \<Rightarrow> (Inl e, s)
      | Inr bkey \<Rightarrow>
          if om_name (o_meta obj) = [] then (Inl (ErrOther ''metadata.name is required''), s)
          else if mem_lookup s bkey (m_key obj) \<noteq> None then (Inl ErrAlreadyExists, s)
          else
            let (rv, s1) = mem_next bkey s;
                out = obj\<lparr>o_meta := (o_meta obj)\<lparr>om_uid := uid, om_resource_version := show_nat rv, om_generation := 1,
                  om_creation_timestamp := Some now\<rparr>\<rparr>
            in (Inr out, mem_publish bkey Added out (mem_set bkey (m_key obj) out s1)))"

text \<open>Rebuilding an object of the same Go type from its fields.\<close>

definition unmarshal :: "'j encoded \<Rightarrow> (storage_error, 'j object) result" where
  "unmarshal m =
     rbind (string_field m ''apiVersion'') (\<lambda>api. rbind (string_field m ''kind'') (\<lambda>kind. rbind (meta_field m) (\<lambda>mt.
       Inr \<lparr>o_api_version = api, o_kind = kind, o_meta = mt, o_body = body_fields m\<rparr>)))"

definition keepSubresources :: "'j object \<Rightarrow> 'j object \<Rightarrow> (storage_error, 'j object) result" where
  "keepSubresources obj stored' = unmarshal (merge_fields (marshal obj) (marshal stored'))"

definition sameObject :: "'j object \<Rightarrow> 'j object \<Rightarrow> bool" where
  "sameObject a b \<longleftrightarrow>
     (\<forall>k \<in> set (map fst (marshal a @ marshal b)). map_of (marshal a) k = map_of (marshal b) k)"

definition writeExisting :: "deps \<Rightarrow> bool \<Rightarrow> 'j object \<Rightarrow> 'j mem \<Rightarrow> (storage_error, 'j object) result \<times> 'j mem" where
  "writeExisting d specWrite obj s =
     (case bucketFromGVK (object_group d obj) (o_kind obj) of
        Inl e \<Rightarrow> (Inl e, s)
      | Inr bkey \<Rightarrow>
          (case mem_lookup s bkey (m_key obj) of
             None \<Rightarrow> (Inl ErrNotFound, s)
           | Some cur \<Rightarrow>
               if o_rv obj \<noteq> [] \<and> o_rv obj \<noteq> o_rv cur then (Inl ErrConflict, s)
               else
                 let mt = (o_meta obj)\<lparr>om_uid := o_uid cur, om_creation_timestamp := om_creation_timestamp (o_meta cur)\<rparr>
                 in if specWrite then
                      let (rv, s1) = mem_next bkey s;
                          out = obj\<lparr>o_meta := mt\<lparr>om_generation := wrap64 (om_generation (o_meta cur) + 1),
                            om_resource_version := show_nat rv\<rparr>\<rparr>
                      in (case keepSubresources out cur of
                            Inl e \<Rightarrow> (Inl e, s1)
                          | Inr merged \<Rightarrow> (Inr merged, mem_publish bkey Modified merged (mem_set bkey (m_key obj) merged s1)))
                    else
                      let out = obj\<lparr>o_meta := mt\<lparr>om_generation := om_generation (o_meta cur), om_resource_version := o_rv cur\<rparr>\<rparr>
                      in if sameObject cur out then (Inr cur, s)
                         else (Inr out, mem_publish bkey Modified out (mem_set bkey (m_key obj) out s))))"

definition mem_Update :: "deps \<Rightarrow> 'j object \<Rightarrow> 'j mem \<Rightarrow> (storage_error, 'j object) result \<times> 'j mem" where
  "mem_Update d obj s = writeExisting d True obj s"

definition mem_UpdateSubresource :: "deps \<Rightarrow> string \<Rightarrow> 'j object \<Rightarrow> 'j mem \<Rightarrow> (storage_error, 'j object) result \<times> 'j mem" where
  "mem_UpdateSubresource d sub obj s = writeExisting d False obj s"

definition mem_Rollback :: "object_ref \<Rightarrow> string \<Rightarrow> int \<Rightarrow> 'j mem \<Rightarrow> (storage_error, 'j object) result \<times> 'j mem" where
  "mem_Rollback m uid targetRV s = (Inl ErrNotFound, s)"

definition mem_GetRevision :: "object_ref \<Rightarrow> string \<Rightarrow> int \<Rightarrow> 'j mem \<Rightarrow> (storage_error, 'j object) result" where
  "mem_GetRevision m uid targetRV s = Inl ErrNotFound"

definition mem_Delete :: "deps \<Rightarrow> object_ref \<Rightarrow> 'j mem \<Rightarrow> storage_error option \<times> 'j mem" where
  "mem_Delete d m s =
     (case bucketFromMeta d m of
        Inl e \<Rightarrow> (Some e, s)
      | Inr bkey \<Rightarrow>
          (case mem_lookup s bkey (memKey (mr_namespace m) (mr_name m)) of
             None \<Rightarrow> (Some ErrNotFound, s)
           | Some obj \<Rightarrow>
               (None, mem_publish bkey Deleted obj
                  (s\<lparr>m_data := goput bkey (godel (memKey (mr_namespace m) (mr_name m)) (goget [] (m_data s) bkey)) (m_data s)\<rparr>))))"

section \<open>Reads and watches\<close>

definition mem_Get :: "deps \<Rightarrow> object_ref \<Rightarrow> 'j mem \<Rightarrow> (storage_error, 'j object) result" where
  "mem_Get d m s =
     rbind (bucketFromMeta d m) (\<lambda>bkey.
       case mem_lookup s bkey (memKey (mr_namespace m) (mr_name m)) of None \<Rightarrow> Inl ErrNotFound | Some obj \<Rightarrow> Inr obj)"

definition mem_List :: "deps \<Rightarrow> object_ref \<Rightarrow> string \<Rightarrow> 'j mem \<Rightarrow> (storage_error, 'j object list) result" where
  "mem_List d m labelSelector s =
     rbind (bucketFromMeta d m) (\<lambda>bkey.
     rbind (parseSelector d labelSelector) (\<lambda>sel.
       let bucket = goget [] (m_data s) bkey; names = sort (remdups (map fst bucket))
       in Inr (filter (\<lambda>obj. \<not> (mr_namespace m \<noteq> [] \<and> om_namespace (o_meta obj) \<noteq> mr_namespace m) \<and> sel (om_labels (o_meta obj)))
                (map (\<lambda>k. the (map_of bucket k)) names))))"

definition mem_Watch :: "deps \<Rightarrow> object_ref \<Rightarrow> string \<Rightarrow> 'j mem \<Rightarrow> (storage_error, nat \<times> 'j mem) result" where
  "mem_Watch d m labelSelector s =
     rbind (bucketFromMeta d m) (\<lambda>bkey.
     rbind (parseSelector d labelSelector) (\<lambda>sel.
       let i = m_next_sub s;
           x = \<lparr>su_id = i, su_selector = sel, su_namespace = mr_namespace m, su_ch = []\<rparr>
       in Inr (i, s\<lparr>m_subs := goput bkey (goget [] (m_subs s) bkey @ [x]) (m_subs s), m_next_sub := i + 1\<rparr>)))"

fun remove_watch :: "nat \<Rightarrow> 'j subscription list \<Rightarrow> 'j subscription list" where
  "remove_watch i [] = []"
| "remove_watch i (x # xs) = (if su_id x = i then xs else x # remove_watch i xs)"

definition mem_unwatch :: "string \<Rightarrow> nat \<Rightarrow> 'j mem \<Rightarrow> 'j mem" where
  "mem_unwatch bkey i s =
     (let xs = goget [] (m_subs s) bkey
      in if i \<in> set (map su_id xs) then s\<lparr>m_subs := goput bkey (remove_watch i xs) (m_subs s)\<rparr> else s)"

definition mem_Close :: "'j mem \<Rightarrow> 'j mem" where
  "mem_Close s = s\<lparr>m_subs := []\<rparr>"

section \<open>What the writes do\<close>

lemma mem_lookup_set [simp]:
  "mem_lookup (mem_set bkey name obj s) b k = (if b = bkey \<and> k = name then Some obj else mem_lookup s b k)"
  by (auto simp: mem_lookup_def mem_set_def goget_goput map_of_goput)

lemma mem_frames [simp]:
  "mem_lookup (mem_publish bkey et obj s) b k = mem_lookup s b k"
  "m_seq (mem_publish bkey et obj s) = m_seq s" "m_seq (mem_set bkey name obj s) = m_seq s"
  by (simp_all add: mem_lookup_def mem_publish_def mem_set_def)

lemma mem_next_eq:
  "goget 0 (m_seq s) bkey < 2 ^ 64 - 1 \<Longrightarrow>
     mem_next bkey s = (goget 0 (m_seq s) bkey + 1, s\<lparr>m_seq := goput bkey (goget 0 (m_seq s) bkey + 1) (m_seq s)\<rparr>)"
  by (simp add: mem_next_def Let_def)

lemma mem_lookup_seq [simp]: "mem_lookup (s\<lparr>m_seq := q\<rparr>) b k = mem_lookup s b k"
  by (simp add: mem_lookup_def)

lemma unmarshal_merge:
  "unmarshal (merge_fields (marshal a) (marshal b)) =
     Inr \<lparr>o_api_version = o_api_version a, o_kind = o_kind a, o_meta = o_meta a,
          o_body = body_fields (merge_fields (marshal a) (marshal b))\<rparr>"
  by (simp add: unmarshal_def string_field_def meta_field_def map_of_merge_fields map_of_marshal)

lemma sameObject_iff: "sameObject a b \<longleftrightarrow> (\<forall>k. map_of (marshal a) k = map_of (marshal b) k)"
proof -
  have "map_of (marshal a) k = map_of (marshal b) k" if "k \<notin> set (map fst (marshal a @ marshal b))" for k
  proof -
    have "map_of (marshal a) k = None" "map_of (marshal b) k = None" using that by (simp_all add: map_of_eq_None_iff)
    then show ?thesis by simp
  qed
  then show ?thesis unfolding sameObject_def by blast
qed

lemma mem_Create_effect:
  assumes "mem_Create d uid now obj s = (Inr out, s')" "goget 0 (m_seq s) bkey < 2 ^ 64 - 1"
    and "bucketFromGVK (object_group d obj) (o_kind obj) = Inr bkey"
  shows "mem_lookup s bkey (m_key obj) = None" "o_rv out = show_nat (goget 0 (m_seq s) bkey + 1)"
    "mem_lookup s' b k = (if b = bkey \<and> k = m_key obj then Some out else mem_lookup s b k)"
    "goget 0 (m_seq s') b = (if b = bkey then goget 0 (m_seq s) bkey + 1 else goget 0 (m_seq s) b)"
proof -
  have c: "mem_lookup s bkey (m_key obj) = None" "om_name (o_meta obj) \<noteq> []"
    using assms(1,3) by (auto simp: mem_Create_def split: if_splits)
  then show "mem_lookup s bkey (m_key obj) = None" by simp
  show "o_rv out = show_nat (goget 0 (m_seq s) bkey + 1)"
    "mem_lookup s' b k = (if b = bkey \<and> k = m_key obj then Some out else mem_lookup s b k)"
    "goget 0 (m_seq s') b = (if b = bkey then goget 0 (m_seq s) bkey + 1 else goget 0 (m_seq s) b)"
    using assms(1) c unfolding mem_Create_def assms(3) Let_def
    by (auto simp: goget_goput mem_next_eq[OF assms(2)])
qed

lemma mem_Update_effect:
  assumes "mem_Update d obj s = (Inr out, s')" "goget 0 (m_seq s) bkey < 2 ^ 64 - 1"
    and "bucketFromGVK (object_group d obj) (o_kind obj) = Inr bkey"
  obtains cur where "mem_lookup s bkey (m_key obj) = Some cur" "o_rv obj = [] \<or> o_rv obj = o_rv cur"
    "o_meta out = (o_meta obj)\<lparr>om_uid := o_uid cur, om_creation_timestamp := om_creation_timestamp (o_meta cur),
       om_generation := wrap64 (om_generation (o_meta cur) + 1),
       om_resource_version := show_nat (goget 0 (m_seq s) bkey + 1)\<rparr>"
    "\<And>f. \<not> type_meta_field f \<Longrightarrow> wf_object obj \<Longrightarrow> wf_object cur \<Longrightarrow>
       map_of (o_body out) f = (if coreField f then map_of (o_body obj) f else map_of (o_body cur) f)" "wf_object out"
    "\<And>b k. mem_lookup s' b k = (if b = bkey \<and> k = m_key obj then Some out else mem_lookup s b k)"
    "\<And>b. goget 0 (m_seq s') b = (if b = bkey then goget 0 (m_seq s) bkey + 1 else goget 0 (m_seq s) b)"
proof -
  obtain cur where cur: "mem_lookup s bkey (m_key obj) = Some cur" "o_rv obj = [] \<or> o_rv obj = o_rv cur"
    using assms(1,3) by (auto simp: mem_Update_def writeExisting_def split: option.splits if_splits)
  define mt where "mt = (o_meta obj)\<lparr>om_uid := o_uid cur, om_creation_timestamp := om_creation_timestamp (o_meta cur),
       om_generation := wrap64 (om_generation (o_meta cur) + 1),
       om_resource_version := show_nat (goget 0 (m_seq s) bkey + 1)\<rparr>"
  let ?m = "merge_fields (marshal (obj\<lparr>o_meta := mt\<rparr>)) (marshal cur)"
  have out: "out = \<lparr>o_api_version = o_api_version obj, o_kind = o_kind obj, o_meta = mt, o_body = body_fields ?m\<rparr>"
    and s': "s' = mem_publish bkey Modified out (mem_set bkey (m_key obj) out
        (s\<lparr>m_seq := goput bkey (goget 0 (m_seq s) bkey + 1) (m_seq s)\<rparr>))"
    using assms(1) cur unfolding mem_Update_def writeExisting_def assms(3) Let_def keepSubresources_def
    by (auto simp: unmarshal_merge mt_def mem_next_eq[OF assms(2)])
  show thesis
  proof (rule that[OF cur])
    show "o_meta out = (o_meta obj)\<lparr>om_uid := o_uid cur, om_creation_timestamp := om_creation_timestamp (o_meta cur),
       om_generation := wrap64 (om_generation (o_meta cur) + 1),
       om_resource_version := show_nat (goget 0 (m_seq s) bkey + 1)\<rparr>" by (simp add: out mt_def)
    show "wf_object out" by (auto simp: out wf_object_def dest: wf_body_fields)
    show "map_of (o_body out) f = (if coreField f then map_of (o_body obj) f else map_of (o_body cur) f)"
      if f: "\<not> type_meta_field f" "wf_object obj" "wf_object cur" for f
    proof -
      have "json_fields ?m" using wf_merge[OF wf_marshal wf_marshal[OF f(3)], of "obj\<lparr>o_meta := mt\<rparr>"] f(2)
        by (simp add: wf_encoded_def wf_object_def)
      from map_of_body_fields[OF this f(1)] show ?thesis
        using f(1) by (simp add: out map_of_merge_fields map_of_marshal type_meta_field_def split: if_splits)
    qed
  qed (simp_all add: s' goget_goput)
qed

lemma mem_UpdateSubresource_effect:
  assumes "mem_UpdateSubresource d sub obj s = (Inr out, s')"
    and "bucketFromGVK (object_group d obj) (o_kind obj) = Inr bkey"
  obtains cur where "mem_lookup s bkey (m_key obj) = Some cur" "o_rv obj = [] \<or> o_rv obj = o_rv cur"
    "o_rv out = o_rv cur" "o_uid out = o_uid cur" "om_generation (o_meta out) = om_generation (o_meta cur)"
    "\<And>b k. mem_lookup s' b k = (if b = bkey \<and> k = m_key obj then Some out else mem_lookup s b k)" "m_seq s' = m_seq s"
proof -
  obtain cur where cur: "mem_lookup s bkey (m_key obj) = Some cur" "o_rv obj = [] \<or> o_rv obj = o_rv cur"
    using assms by (auto simp: mem_UpdateSubresource_def writeExisting_def split: option.splits if_splits)
  show thesis
    by (rule that[OF cur])
      (use assms(1) cur in \<open>auto simp: mem_UpdateSubresource_def writeExisting_def assms(2) Let_def split: if_splits\<close>)
qed

lemma mem_Delete_effect:
  assumes "mem_Delete d m s = (None, s')" "bucketFromMeta d m = Inr bkey"
  shows "mem_lookup s bkey (memKey (mr_namespace m) (mr_name m)) \<noteq> None"
    "mem_lookup s' b k = (if b = bkey \<and> k = memKey (mr_namespace m) (mr_name m) then None else mem_lookup s b k)"
    "m_seq s' = m_seq s"
  using assms by (auto simp: mem_Delete_def mem_lookup_def mem_publish_def goget_goput map_of_godel split: option.splits)

text \<open>A failed write changes nothing.\<close>

lemma mem_errors:
  "mem_Create d uid now obj s = (Inl e, s') \<Longrightarrow> s' = s"
  "mem_Update d obj s = (Inl e, s') \<Longrightarrow> s' = s"
  "mem_UpdateSubresource d sub obj s = (Inl e, s') \<Longrightarrow> s' = s"
  "mem_Delete d m s = (Some e', s') \<Longrightarrow> s' = s"
  by (auto simp: mem_Create_def mem_Update_def mem_UpdateSubresource_def writeExisting_def mem_Delete_def Let_def
      keepSubresources_def unmarshal_merge split: sum.splits if_splits option.splits prod.splits)

end
