(* ===== verification/VersionedStore.thy ===== *)
theory VersionedStore
  imports BoltDemo MemStore
begin

text \<open>
  The persistence contract of \<^verbatim>\<open>api/storage/storage.go\<close> as an abstract specification: a store is a map from
  Kinds and names to objects and a version counter per Kind. A core write stamps the next version of the Kind,
  a subresource write keeps version, generation and uid, a delete keeps the counter. Both stores implement it
  (locale \<open>versioned_store\<close>, interpreted on the BoltDB store and on the in-memory one), and what follows from the
  contract alone is proved once, in the locale.
\<close>

section \<open>The specification\<close>

record 'j vstore =
  vs_seq :: "string \<Rightarrow> nat"
  vs_obj :: "string \<Rightarrow> string \<Rightarrow> 'j object option"

definition put_obj :: "string \<Rightarrow> string \<Rightarrow> 'j object option \<Rightarrow> 'j vstore \<Rightarrow> 'j vstore" where
  "put_obj b k v a = a\<lparr>vs_obj := (vs_obj a)(b := (vs_obj a b)(k := v))\<rparr>"

definition bump :: "string \<Rightarrow> 'j vstore \<Rightarrow> 'j vstore" where
  "bump b a = a\<lparr>vs_seq := (vs_seq a)(b := vs_seq a b + 1)\<rparr>"

inductive spec_step :: "'j vstore \<Rightarrow> 'j vstore \<Rightarrow> bool" where
  spec_skip: "spec_step a a"
| spec_create: "spec_step a (bump b (put_obj b k (Some out) a))"
    if "vs_obj a b k = None" "o_rv out = show_nat (vs_seq a b + 1)"
| spec_core: "spec_step a (bump b (put_obj b k (Some out) a))"
    if "vs_obj a b k = Some old" "o_rv out = show_nat (vs_seq a b + 1)" "o_uid out = o_uid old"
      "map_of (o_body out) ''status'' = map_of (o_body old) ''status''"
| spec_subresource: "spec_step a (put_obj b k (Some out) a)"
    if "vs_obj a b k = Some old" "o_rv out = o_rv old" "o_uid out = o_uid old"
      "om_generation (o_meta out) = om_generation (o_meta old)"
| spec_delete: "spec_step a (put_obj b k None a)" if "vs_obj a b k = Some old"

text \<open>Every version in use was given out by its Kind's counter.\<close>

definition spec_inv :: "'j vstore \<Rightarrow> bool" where
  "spec_inv a \<longleftrightarrow> (\<forall>b k out. vs_obj a b k = Some out \<longrightarrow> (\<exists>n. o_rv out = show_nat n \<and> n \<le> vs_seq a b))"

text \<open>A version of a Kind is spent at a name when it was given out and is not the version stored there.\<close>

definition spent :: "string \<Rightarrow> string \<Rightarrow> nat \<Rightarrow> 'j vstore \<Rightarrow> bool" where
  "spent b k n a \<longleftrightarrow> n \<le> vs_seq a b \<and> (\<forall>out. vs_obj a b k = Some out \<longrightarrow> o_rv out \<noteq> show_nat n)"

lemma vstore_simps [simp]:
  "vs_obj (put_obj b k v a) b' k' = (if b' = b \<and> k' = k then v else vs_obj a b' k')" "vs_seq (put_obj b k v a) = vs_seq a"
  "vs_obj (bump b a) = vs_obj a" "vs_seq (bump b a) b' = (if b' = b then vs_seq a b + 1 else vs_seq a b')"
  by (auto simp: put_obj_def bump_def)

lemma spec_step_inv: "spec_step a a' \<Longrightarrow> spec_inv a \<Longrightarrow> spec_inv a'"
proof (induction rule: spec_step.induct)
  case (spec_create a b k out)
  then show ?case by (auto simp: spec_inv_def) (metis le_SucI)
next
  case (spec_core a b k old out)
  then show ?case by (auto simp: spec_inv_def) (metis le_SucI)
qed (auto simp: spec_inv_def split: if_splits)

lemma spec_step_spent: "spec_step a a' \<Longrightarrow> spent b k n a \<Longrightarrow> spent b k n a'"
  by (induction rule: spec_step.induct) (auto simp: spent_def split: if_splits)

section \<open>Stores that implement it\<close>

locale versioned_store =
  fixes step :: "'s \<Rightarrow> 's \<Rightarrow> bool" and ok :: "'s \<Rightarrow> bool" and abs :: "'s \<Rightarrow> 'j vstore"
  assumes ok_step: "ok s \<Longrightarrow> step s s' \<Longrightarrow> ok s'"
    and ok_inv: "ok s \<Longrightarrow> spec_inv (abs s)"
    and refines: "ok s \<Longrightarrow> step s s' \<Longrightarrow> spec_step (abs s) (abs s')"
begin

lemma run_ok: "step\<^sup>*\<^sup>* s s' \<Longrightarrow> ok s \<Longrightarrow> ok s'"
  by (induction rule: rtranclp_induct) (auto intro: ok_step)

lemma run_refines: "step\<^sup>*\<^sup>* s s' \<Longrightarrow> ok s \<Longrightarrow> spec_step\<^sup>*\<^sup>* (abs s) (abs s')"
proof (induction rule: rtranclp_induct)
  case (step t u)
  then have "spec_step (abs t) (abs u)" using refines run_ok by blast
  then show ?case using step by auto
qed simp

lemma run_spent: "step\<^sup>*\<^sup>* s s' \<Longrightarrow> ok s \<Longrightarrow> spent b k n (abs s) \<Longrightarrow> spent b k n (abs s')"
proof (induction rule: rtranclp_induct)
  case (step t u)
  then show ?case using refines run_ok spec_step_spent by metis
qed

lemma seq_mono: "step\<^sup>*\<^sup>* s s' \<Longrightarrow> ok s \<Longrightarrow> vs_seq (abs s) b \<le> vs_seq (abs s') b"
proof (induction rule: rtranclp_induct)
  case (step t u)
  then have "spec_step (abs t) (abs u)" using refines run_ok by blast
  then have "vs_seq (abs t) b \<le> vs_seq (abs u) b" by cases auto
  then show ?case using step by simp
qed simp

text \<open>A token that has become stale stays stale, even across a delete and a re-creation of the name.\<close>

lemma stale_for_good:
  assumes "ok s" "vs_obj (abs s) b k = Some seen" "step\<^sup>*\<^sup>* s t" "step\<^sup>*\<^sup>* t u"
    and "\<forall>out. vs_obj (abs t) b k = Some out \<longrightarrow> o_rv out \<noteq> o_rv seen" "vs_obj (abs u) b k = Some now"
  shows "o_rv now \<noteq> o_rv seen"
proof -
  obtain n where n: "o_rv seen = show_nat n" "n \<le> vs_seq (abs s) b"
    using ok_inv[OF assms(1)] assms(2) unfolding spec_inv_def by blast
  have "spent b k n (abs t)" using assms(5) n seq_mono[OF assms(3,1), of b] by (simp add: spent_def)
  from run_spent[OF assms(4) run_ok[OF assms(3,1)] this] show ?thesis using assms(6) n(1) by (auto simp: spent_def)
qed

end

section \<open>The BoltDB store implements it\<close>

definition bolt_abs :: "('b, 'j) bbolt \<Rightarrow> deps \<Rightarrow> ('b, 'j) DB \<Rightarrow> 'j vstore" where
  "bolt_abs ops d s =
     \<lparr>vs_seq = current_rv ops (d_db s), vs_obj = (\<lambda>b k. if kind_bucket b then stored ops d s b k else None)\<rparr>"

definition bolt_ok :: "('b, 'j) bbolt \<Rightarrow> deps \<Rightarrow> ('b, 'j) DB \<Rightarrow> bool" where
  "bolt_ok ops d s \<longleftrightarrow> bolt_inv ops d s \<and> revision_heads ops d s"

lemma bolt_abs_simps [simp]:
  "vs_seq (bolt_abs ops d s) = current_rv ops (d_db s)"
  "vs_obj (bolt_abs ops d s) b k = (if kind_bucket b then stored ops d s b k else None)"
  by (simp_all add: bolt_abs_def)

lemma vstore_eqI: "vs_seq a = vs_seq b \<Longrightarrow> (\<And>x k. vs_obj a x k = vs_obj b x k) \<Longrightarrow> a = (b :: 'j vstore)"
  by (cases a; cases b) (auto simp: fun_eq_iff)

lemma bolt_abs_core:
  assumes "kind_bucket x"
    and "\<And>y k. kind_bucket y \<Longrightarrow> stored ops d s' y k = (if y = x \<and> k = key then Some out else stored ops d s y k)"
    and "\<And>y. current_rv ops (d_db s') y = (if y = x then current_rv ops (d_db s) x + 1 else current_rv ops (d_db s) y)"
  shows "bolt_abs ops d s' = bump x (put_obj x key (Some out) (bolt_abs ops d s))"
  using assms by (intro vstore_eqI) (auto simp: fun_eq_iff)

lemma bolt_abs_same:
  assumes "kind_bucket x"
    and "\<And>y k. kind_bucket y \<Longrightarrow> stored ops d s' y k = (if y = x \<and> k = key then v else stored ops d s y k)"
    and "\<And>y. current_rv ops (d_db s') y = current_rv ops (d_db s) y"
  shows "bolt_abs ops d s' = put_obj x key v (bolt_abs ops d s)"
  using assms by (intro vstore_eqI) (auto simp: fun_eq_iff)

context bbolt_laws
begin

lemma bolt_abs_idle:
  assumes "d_db s' = d_db s" "d_scheme s' = d_scheme s"
  shows "bolt_abs ops d s' = bolt_abs ops d s"
  using assms stored_cong[OF assms(2), of ops _ _ d] by (intro vstore_eqI) auto

lemma bolt_create_refines:
  assumes "bolt_ok ops d s" "Create ops d uid now obj s = (r, s')" "room ops s" "plain_kind d obj"
    and "registered d (d_scheme s) obj" "wf_object obj" "plain uid"
  shows "spec_step (bolt_abs ops d s) (bolt_abs ops d s')"
proof (cases r)
  case (Inl e)
  then have "s' = s" using Create_error assms(2) by blast
  then show ?thesis by (simp add: spec_skip)
next
  case (Inr out)
  then obtain x where x: "bucketKeyForObject d obj = Inr x" using Create_key assms(2) by blast
  note kb = plain_kind_bucket[OF assms(4) x]
  have rm: "current_rv ops (d_db s) x < 2 ^ 64 - 1" using assms(3) by (simp add: room_def)
  note e = Create_effect[OF assms(1)[unfolded bolt_ok_def, THEN conjunct1] x kb rm assms(5,6,7) assms(2)[unfolded Inr]]
  have eq: "bolt_abs ops d s' = bump x (put_obj x (o_key obj) (Some out) (bolt_abs ops d s))"
    by (intro bolt_abs_core kb e(3,7))
  show ?thesis unfolding eq
    by (rule spec_create) (use kb e(1,2) in \<open>simp_all add: created_meta_def\<close>)
qed

lemma bolt_update_refines:
  assumes "bolt_ok ops d s" "Update ops d obj s = (r, s')" "room ops s" "plain_kind d obj" "wf_object obj"
  shows "spec_step (bolt_abs ops d s) (bolt_abs ops d s')"
proof (cases r)
  case (Inl e)
  then have "s' = s" using Update_error assms(2) by blast
  then show ?thesis by (simp add: spec_skip)
next
  case (Inr out)
  then obtain x where x: "bucketKeyForObject d obj = Inr x" using Update_key assms(2) by blast
  note kb = plain_kind_bucket[OF assms(4) x]
  have rm: "current_rv ops (d_db s) x < 2 ^ 64 - 1" using assms(3) by (simp add: room_def)
  have st: "\<not> type_meta_field ''status''" "\<not> coreField ''status''"
    by (simp_all add: type_meta_field_def coreField_def subresourceField_def)
  from assms(1)[unfolded bolt_ok_def, THEN conjunct1] x kb rm assms(5) assms(2)[unfolded Inr] show ?thesis
  proof (rule Update_effect)
    fix old
    assume e: "stored ops d s x (o_key obj) = Some old"
      "\<And>y k. kind_bucket y \<Longrightarrow> stored ops d s' y k = (if y = x \<and> k = o_key obj then Some out else stored ops d s y k)"
      "o_meta out = updated_meta (o_meta old) (current_rv ops (d_db s) x + 1)
         (if same_desired obj old then om_generation (o_meta old) else wrap64 (om_generation (o_meta old) + 1)) (o_meta obj)"
      "\<And>k. \<not> type_meta_field k \<Longrightarrow>
         map_of (o_body out) k = (if coreField k then map_of (o_body obj) k else map_of (o_body old) k)"
      "\<And>y. current_rv ops (d_db s') y = (if y = x then current_rv ops (d_db s) x + 1 else current_rv ops (d_db s) y)"
    have eq: "bolt_abs ops d s' = bump x (put_obj x (o_key obj) (Some out) (bolt_abs ops d s))"
      by (intro bolt_abs_core kb e(2,5))
    show ?thesis unfolding eq
      by (rule spec_core[of _ _ _ old]) (use kb e(1,3) e(4)[OF st(1)] st(2) in \<open>simp_all add: updated_meta_def\<close>)
  qed
qed

lemma bolt_subresource_refines:
  assumes "bolt_ok ops d s" "UpdateSubresource ops d sub obj s = (r, s')" "plain_kind d obj" "subresourceField sub"
  shows "spec_step (bolt_abs ops d s) (bolt_abs ops d s')"
proof (cases r)
  case (Inl e)
  then have "s' = s" using UpdateSubresource_error assms(2) by blast
  then show ?thesis by (simp add: spec_skip)
next
  case (Inr out)
  then obtain x where x: "bucketKeyForObject d obj = Inr x" using UpdateSubresource_key assms(2) by blast
  note kb = plain_kind_bucket[OF assms(3) x]
  have tm: "\<not> type_meta_field sub" using assms(4) subresource_not_type_meta by (auto simp: coreField_def)
  from assms(1)[unfolded bolt_ok_def, THEN conjunct1] x kb tm assms(2)[unfolded Inr] show ?thesis
  proof (rule UpdateSubresource_effect)
    fix old
    assume e: "stored ops d s x (o_key obj) = Some old"
      "\<And>y k. kind_bucket y \<Longrightarrow> stored ops d s' y k = (if y = x \<and> k = o_key obj then Some out else stored ops d s y k)"
      "o_meta out = o_meta old"
      "\<And>y k. y \<noteq> x \<Longrightarrow> bb_get ops (d_db s') y k = bb_get ops (d_db s) y k"
    have "current_rv ops (d_db s') y = current_rv ops (d_db s) y" for y
      using kind_bucket_neq(1)[OF kb] by (intro current_rv_cong e(4)) metis
    then have eq: "bolt_abs ops d s' = put_obj x (o_key obj) (Some out) (bolt_abs ops d s)"
      by (intro bolt_abs_same kb e(2))
    show ?thesis unfolding eq
      by (intro spec_subresource[of _ _ _ old]) (use kb e(1,3) in simp_all)
  qed
qed

lemma bolt_rollback_refines:
  assumes "bolt_ok ops d s" "Rollback ops d m uid n s = (r, s')" "room ops s" "plain_ref d m" "int64 n"
  shows "spec_step (bolt_abs ops d s) (bolt_abs ops d s')"
proof (cases r)
  case (Inl e)
  then have "s' = s" using Rollback_error assms(2) by blast
  then show ?thesis by (simp add: spec_skip)
next
  case (Inr out)
  then obtain x where x: "bucketKeyForMeta d m = Inr x" using Rollback_key assms(2) by blast
  note kb = plain_ref_bucket[OF assms(4) x]
  have rm: "current_rv ops (d_db s) x < 2 ^ 64 - 1" "n < 2 ^ 63" using assms(3,5) by (simp_all add: room_def int64_def)
  have st: "\<not> type_meta_field ''status''" "\<not> coreField ''status''"
    by (simp_all add: type_meta_field_def coreField_def subresourceField_def)
  from assms(1)[unfolded bolt_ok_def, THEN conjunct1] assms(1)[unfolded bolt_ok_def, THEN conjunct2] x kb rm assms(2)[unfolded Inr]
  show ?thesis
  proof (rule Rollback_effect)
    fix revn old
    assume e: "o_uid revn = uid" "stored ops d s x (o_key revn) = Some old" "o_uid old = uid"
      "\<And>y k. kind_bucket y \<Longrightarrow> stored ops d s' y k = (if y = x \<and> k = o_key revn then Some out else stored ops d s y k)"
      "o_meta out = (o_meta revn)\<lparr>om_resource_version := show_nat (current_rv ops (d_db s) x + 1),
         om_generation := (if same_desired out old then om_generation (o_meta old)
                           else wrap64 (om_generation (o_meta old) + 1))\<rparr>"
      "\<And>k. \<not> type_meta_field k \<Longrightarrow>
         map_of (o_body out) k = (if coreField k then map_of (o_body revn) k else map_of (o_body old) k)"
      "\<And>y. current_rv ops (d_db s') y = (if y = x then current_rv ops (d_db s) x + 1 else current_rv ops (d_db s) y)"
    have eq: "bolt_abs ops d s' = bump x (put_obj x (o_key revn) (Some out) (bolt_abs ops d s))"
      by (intro bolt_abs_core kb e(4,7))
    show ?thesis unfolding eq
      by (rule spec_core[of _ _ _ old]) (use kb e(1,2,3,5) e(6)[OF st(1)] st(2) in simp_all)
  qed
qed

lemma bolt_delete_refines:
  assumes "bolt_ok ops d s" "Delete ops d m s = (e, s')" "plain_ref d m"
  shows "spec_step (bolt_abs ops d s) (bolt_abs ops d s')"
proof (cases e)
  case (Some err)
  then have "s' = s" using Delete_error assms(2) by blast
  then show ?thesis by (simp add: spec_skip)
next
  case None
  then obtain x where x: "bucketKeyForMeta d m = Inr x" using Delete_key assms(2) by blast
  note kb = plain_ref_bucket[OF assms(3) x]
  from assms(1)[unfolded bolt_ok_def, THEN conjunct1] assms(1)[unfolded bolt_ok_def, THEN conjunct2] x kb assms(2)[unfolded None]
  show ?thesis
  proof (rule Delete_effect)
    fix old
    let ?key = "recordKey (mr_namespace m) (mr_name m)"
    assume e: "stored ops d s x ?key = Some old"
      "\<And>y k. kind_bucket y \<Longrightarrow> stored ops d s' y k = (if y = x \<and> k = ?key then None else stored ops d s y k)"
      "\<And>y. current_rv ops (d_db s') y = current_rv ops (d_db s) y"
    have eq: "bolt_abs ops d s' = put_obj x ?key None (bolt_abs ops d s)"
      by (intro bolt_abs_same kb e(2,3))
    show ?thesis unfolding eq
      by (rule spec_delete[of _ _ _ old]) (use kb e(1) in simp)
  qed
qed

lemma bolt_step_refines:
  assumes "bolt_ok ops d s" "bolt_step ops d s s'"
  shows "spec_step (bolt_abs ops d s) (bolt_abs ops d s')"
  using assms(2)
proof cases
  case (watch m sel i)
  then show ?thesis using bolt_abs_idle[OF Watch_frame(1,2)[OF watch]] by (simp add: spec_skip)
next
  case (unwatch bkey i)
  then show ?thesis using bolt_abs_idle[of "removeSub bkey i s" s] by (simp add: spec_skip)
next
  case restart
  then have o: "Open ops (d_scheme s) (d_db s) = Inr s'" by (simp add: Close_def)
  have "bolt_abs ops d s' = bolt_abs ops d s"
    using Open_stored[OF o] Open_current_rv[OF o] by (intro vstore_eqI) (auto simp: fun_eq_iff)
  then show ?thesis by (simp add: spec_skip)
qed (rule bolt_create_refines[OF assms(1)] bolt_update_refines[OF assms(1)] bolt_subresource_refines[OF assms(1)]
    bolt_rollback_refines[OF assms(1)] bolt_delete_refines[OF assms(1)], assumption+)+

lemma bolt_ok_inv:
  assumes "bolt_ok ops d s"
  shows "spec_inv (bolt_abs ops d s)"
  unfolding spec_inv_def
proof (intro allI impI)
  fix b k out assume "vs_obj (bolt_abs ops d s) b k = Some out"
  then have kb: "kind_bucket b" and st: "stored ops d s b k = Some out" by (simp_all split: if_splits)
  from assms[unfolded bolt_ok_def, THEN conjunct1] kb st show "\<exists>n. o_rv out = show_nat n \<and> n \<le> vs_seq (bolt_abs ops d s) b"
    by (rule stored_version) (auto simp: bolt_abs_def)
qed

end

sublocale bbolt_laws \<subseteq> bolt: versioned_store "bolt_step ops d" "bolt_ok ops d" "bolt_abs ops d" for d
  by unfold_locales (use step_keeps bolt_ok_inv bolt_step_refines in \<open>auto simp: bolt_ok_def\<close>)

section \<open>The in-memory store implements it\<close>

definition mem_abs :: "'j mem \<Rightarrow> 'j vstore" where
  "mem_abs s = \<lparr>vs_seq = goget 0 (m_seq s), vs_obj = mem_lookup s\<rparr>"

definition mem_ok :: "'j mem \<Rightarrow> bool" where
  "mem_ok s \<longleftrightarrow> spec_inv (mem_abs s) \<and> (\<forall>b k obj. mem_lookup s b k = Some obj \<longrightarrow> wf_object obj)"

definition mem_room :: "'j mem \<Rightarrow> bool" where
  "mem_room s \<longleftrightarrow> (\<forall>b. goget 0 (m_seq s) b < 2 ^ 64 - 1)"

inductive mem_step :: "deps \<Rightarrow> 'j mem \<Rightarrow> 'j mem \<Rightarrow> bool" for d where
  m_create: "mem_step d s s'" if "mem_Create d uid now obj s = (r, s')" "mem_room s" "wf_object obj"
| m_update: "mem_step d s s'" if "mem_Update d obj s = (r, s')" "mem_room s" "wf_object obj"
| m_subresource: "mem_step d s s'" if "mem_UpdateSubresource d sub obj s = (r, s')" "wf_object obj"
| m_rollback: "mem_step d s s'" if "mem_Rollback m uid n s = (r, s')"
| m_delete: "mem_step d s s'" if "mem_Delete d m s = (e, s')"
| m_watch: "mem_step d s s'" if "mem_Watch d m sel s = Inr (i, s')"
| m_unwatch: "mem_step d s (mem_unwatch bkey i s)"
| m_close: "mem_step d s (mem_Close s)"

lemma mem_abs_simps [simp]: "vs_seq (mem_abs s) = goget 0 (m_seq s)" "vs_obj (mem_abs s) = mem_lookup s"
  by (simp_all add: mem_abs_def)

lemma mem_abs_core:
  assumes "\<And>y k. mem_lookup s' y k = (if y = x \<and> k = key then Some out else mem_lookup s y k)"
    and "\<And>y. goget 0 (m_seq s') y = (if y = x then goget 0 (m_seq s) x + 1 else goget 0 (m_seq s) y)"
  shows "mem_abs s' = bump x (put_obj x key (Some out) (mem_abs s))"
  using assms by (intro vstore_eqI) (auto simp: fun_eq_iff)

lemma mem_abs_same:
  assumes "\<And>y k. mem_lookup s' y k = (if y = x \<and> k = key then v else mem_lookup s y k)" "m_seq s' = m_seq s"
  shows "mem_abs s' = put_obj x key v (mem_abs s)"
  using assms by (intro vstore_eqI) (auto simp: fun_eq_iff)

text \<open>One step of the in-memory store is a step of the specification, and stores well-formed objects only.\<close>

definition mem_good :: "'j mem \<Rightarrow> 'j mem \<Rightarrow> bool" where
  "mem_good s s' \<longleftrightarrow> spec_step (mem_abs s) (mem_abs s') \<and>
     ((\<forall>b k obj. mem_lookup s b k = Some obj \<longrightarrow> wf_object obj) \<longrightarrow> (\<forall>b k obj. mem_lookup s' b k = Some obj \<longrightarrow> wf_object obj))"

lemma mem_good_idle:
  assumes "m_data s' = m_data s" "m_seq s' = m_seq s"
  shows "mem_good s s'"
proof -
  have "mem_lookup s' = mem_lookup s" using assms(1) by (simp add: mem_lookup_def fun_eq_iff)
  then show ?thesis using assms(2) by (simp add: mem_good_def mem_abs_def spec_skip)
qed

lemma mem_create_good:
  assumes "mem_Create d uid now obj s = (r, s')" "mem_room s" "wf_object obj"
  shows "mem_good s s'"
proof (cases r)
  case (Inl e)
  then show ?thesis using mem_errors(1) assms(1) mem_good_idle by blast
next
  case (Inr out)
  obtain x where x: "bucketFromGVK (object_group d obj) (o_kind obj) = Inr x"
    using assms(1) Inr by (auto simp: mem_Create_def split: sum.splits)
  have rm: "goget 0 (m_seq s) x < 2 ^ 64 - 1" using assms(2) by (simp add: mem_room_def)
  note e = mem_Create_effect[OF assms(1)[unfolded Inr] rm x]
  have "o_body out = o_body obj"
    using assms(1) x Inr by (auto simp: mem_Create_def Let_def split: if_splits prod.splits)
  then have wf: "wf_object out" using assms(3) by (simp add: wf_object_def)
  have eq: "mem_abs s' = bump x (put_obj x (m_key obj) (Some out) (mem_abs s))" by (intro mem_abs_core e(3,4))
  have "spec_step (mem_abs s) (mem_abs s')" unfolding eq by (rule spec_create) (use e(1,2) in simp_all)
  then show ?thesis unfolding mem_good_def e(3) using wf by (auto split: if_splits)
qed

lemma mem_update_good:
  assumes "mem_ok s" "mem_Update d obj s = (r, s')" "mem_room s" "wf_object obj"
  shows "mem_good s s'"
proof (cases r)
  case (Inl e)
  then show ?thesis using mem_errors(2) assms(2) mem_good_idle by blast
next
  case (Inr out)
  obtain x where x: "bucketFromGVK (object_group d obj) (o_kind obj) = Inr x"
    using assms(2) Inr by (auto simp: mem_Update_def writeExisting_def split: sum.splits)
  have rm: "goget 0 (m_seq s) x < 2 ^ 64 - 1" using assms(3) by (simp add: mem_room_def)
  have st: "\<not> type_meta_field ''status''" "\<not> coreField ''status''"
    by (simp_all add: type_meta_field_def coreField_def subresourceField_def)
  from assms(2)[unfolded Inr] rm x show ?thesis
  proof (rule mem_Update_effect)
    fix cur
    assume e: "mem_lookup s x (m_key obj) = Some cur"
      "o_meta out = (o_meta obj)\<lparr>om_uid := o_uid cur, om_creation_timestamp := om_creation_timestamp (o_meta cur),
         om_generation := wrap64 (om_generation (o_meta cur) + 1),
         om_resource_version := show_nat (goget 0 (m_seq s) x + 1)\<rparr>"
      "\<And>f. \<not> type_meta_field f \<Longrightarrow> wf_object obj \<Longrightarrow> wf_object cur \<Longrightarrow>
         map_of (o_body out) f = (if coreField f then map_of (o_body obj) f else map_of (o_body cur) f)" "wf_object out"
      "\<And>b k. mem_lookup s' b k = (if b = x \<and> k = m_key obj then Some out else mem_lookup s b k)"
      "\<And>b. goget 0 (m_seq s') b = (if b = x then goget 0 (m_seq s) x + 1 else goget 0 (m_seq s) b)"
    have cur: "wf_object cur" using assms(1) e(1) by (auto simp: mem_ok_def)
    have eq: "mem_abs s' = bump x (put_obj x (m_key obj) (Some out) (mem_abs s))" by (intro mem_abs_core e(5,6))
    have "spec_step (mem_abs s) (mem_abs s')" unfolding eq
      by (rule spec_core[of _ _ _ cur]) (use e(1,2) e(3)[OF st(1) assms(4) cur] st(2) in simp_all)
    then show ?thesis unfolding mem_good_def e(5) using e(4) by (auto split: if_splits)
  qed
qed

lemma mem_subresource_good:
  assumes "mem_UpdateSubresource d sub obj s = (r, s')" "wf_object obj"
  shows "mem_good s s'"
proof (cases r)
  case (Inl e)
  then show ?thesis using mem_errors(3) assms(1) mem_good_idle by blast
next
  case (Inr out)
  obtain x where x: "bucketFromGVK (object_group d obj) (o_kind obj) = Inr x"
    using assms(1) Inr by (auto simp: mem_UpdateSubresource_def writeExisting_def split: sum.splits)
  from assms(1)[unfolded Inr] x show ?thesis
  proof (rule mem_UpdateSubresource_effect)
    fix cur
    assume e: "mem_lookup s x (m_key obj) = Some cur" "o_rv out = o_rv cur" "o_uid out = o_uid cur"
      "om_generation (o_meta out) = om_generation (o_meta cur)"
      "\<And>b k. mem_lookup s' b k = (if b = x \<and> k = m_key obj then Some out else mem_lookup s b k)" "m_seq s' = m_seq s"
    have "o_body out = o_body obj \<or> out = cur"
      using assms(1) x Inr e(1)
      by (auto simp: mem_UpdateSubresource_def writeExisting_def Let_def split: if_splits)
    then have wf: "(\<forall>b k obj. mem_lookup s b k = Some obj \<longrightarrow> wf_object obj) \<longrightarrow> wf_object out"
    proof (elim disjE)
      assume "o_body out = o_body obj"
      then have "wf_object out" using assms(2) by (simp add: wf_object_def)
      then show ?thesis by simp
    qed (use e(1) in blast)
    have eq: "mem_abs s' = put_obj x (m_key obj) (Some out) (mem_abs s)" by (intro mem_abs_same e(5,6))
    have "spec_step (mem_abs s) (mem_abs s')" unfolding eq
      by (rule spec_subresource[of _ _ _ cur]) (use e(1-4) in simp_all)
    then show ?thesis unfolding mem_good_def e(5) using wf by auto
  qed
qed

lemma mem_delete_good:
  assumes "mem_Delete d m s = (e, s')"
  shows "mem_good s s'"
proof (cases e)
  case (Some err)
  then show ?thesis using mem_errors(4) assms mem_good_idle by blast
next
  case None
  obtain x where x: "bucketFromMeta d m = Inr x" using assms None by (auto simp: mem_Delete_def split: sum.splits)
  note e = mem_Delete_effect[OF assms[unfolded None] x]
  obtain old where old: "mem_lookup s x (memKey (mr_namespace m) (mr_name m)) = Some old" using e(1) by auto
  have eq: "mem_abs s' = put_obj x (memKey (mr_namespace m) (mr_name m)) None (mem_abs s)" by (intro mem_abs_same e(2,3))
  have "spec_step (mem_abs s) (mem_abs s')" unfolding eq by (rule spec_delete[of _ _ _ old]) (use old in simp)
  then show ?thesis unfolding mem_good_def e(2) by auto
qed

lemma mem_step_good:
  assumes "mem_ok s" "mem_step d s s'"
  shows "mem_good s s'"
  using assms(2)
proof cases
  case (m_rollback m uid n r)
  then show ?thesis by (intro mem_good_idle) (simp_all add: mem_Rollback_def)
next
  case (m_watch m sel i)
  then show ?thesis by (intro mem_good_idle) (auto simp: mem_Watch_def rbind_eq_Inr Let_def)
next
  case (m_unwatch bkey i)
  then show ?thesis by (intro mem_good_idle) (simp_all add: mem_unwatch_def Let_def)
next
  case m_close
  then show ?thesis by (intro mem_good_idle) (simp_all add: mem_Close_def)
qed (rule mem_create_good mem_update_good[OF assms(1)] mem_subresource_good mem_delete_good, assumption+)+

interpretation mem: versioned_store "mem_step d" mem_ok mem_abs for d
proof
  fix s s' :: "'a mem"
  assume "mem_ok s" "mem_step d s s'"
  then have "mem_good s s'" by (rule mem_step_good)
  then show "spec_step (mem_abs s) (mem_abs s')" "mem_ok s'"
    using \<open>mem_ok s\<close> spec_step_inv[of "mem_abs s" "mem_abs s'"] by (auto simp: mem_good_def mem_ok_def)
qed (simp add: mem_ok_def)

end
