(* ===== verification/BoltProps.thy ===== *)
theory BoltProps
  imports BoltDemo
begin

text \<open>
  The properties of the BoltDB store. Each is stated for a state the store can reach, on any database
  that keeps the contract \<open>bbolt_laws\<close>, and has a witness on the association-list database.
\<close>

lemma goget_publish:
  "goget [] (publish bkey et enc ns lbls subs) k =
     (if k = bkey then map (\<lambda>x. if wants ns lbls x then offer (et, enc) x else x) (goget [] subs bkey) else goget [] subs k)"
  by (induction subs) (auto simp: publish_def goget_def)

section \<open>Refused writes\<close>

context bbolt_laws
begin

lemma update_tx_conflict:
  assumes "stored ops d s bkey (o_key obj) = Some cur" "o_rv obj \<noteq> []" "o_rv obj \<noteq> o_rv cur"
  shows "update_tx ops d (d_scheme s) nh bkey obj (d_db s) = Inl ErrConflict"
    "subresource_tx ops d (d_scheme s) bkey sub val obj (d_db s) = Inl ErrConflict"
proof -
  obtain m where m: "find_record ops (d_db s) bkey (o_key obj) = Inr m" "decode d (d_scheme s) m = Inr cur"
    using assms(1) by (rule storedE)
  have "checkResourceVersion (o_meta obj) (o_meta cur) = Inl ErrConflict" using assms(2,3) by (simp add: checkResourceVersion_def)
  then show "update_tx ops d (d_scheme s) nh bkey obj (d_db s) = Inl ErrConflict"
    "subresource_tx ops d (d_scheme s) bkey sub val obj (d_db s) = Inl ErrConflict"
    unfolding update_tx_def subresource_tx_def m rbind_Inr by simp_all
qed

lemma Update_conflict:
  assumes "bucketKeyForObject d obj = Inr bkey" "stored ops d s bkey (o_key obj) = Some cur"
    and "o_rv obj \<noteq> []" "o_rv obj \<noteq> o_rv cur"
  shows "Update ops d obj s = (Inl ErrConflict, s)"
    "sub \<noteq> [] \<Longrightarrow> map_of (marshal obj) sub \<noteq> None \<Longrightarrow> UpdateSubresource ops d sub obj s = (Inl ErrConflict, s)"
  using assms(1) update_tx_conflict[OF assms(2-4)]
  by (auto simp: Update_def UpdateSubresource_def db_Update_error finish_def)

lemma Update_missing:
  assumes "bucketKeyForObject d obj = Inr bkey" "find_record ops (d_db s) bkey (o_key obj) = Inl ErrNotFound"
  shows "Update ops d obj s = (Inl ErrNotFound, s)"
    "sub \<noteq> [] \<Longrightarrow> map_of (marshal obj) sub \<noteq> None \<Longrightarrow> UpdateSubresource ops d sub obj s = (Inl ErrNotFound, s)"
  using assms by (auto simp: Update_def UpdateSubresource_def update_tx_def subresource_tx_def db_Update_error finish_def)

lemma Create_exists:
  assumes "bucketKeyForObject d obj = Inr bkey" "om_name (o_meta obj) \<noteq> []"
    and "stored ops d s bkey (o_key obj) = Some cur"
  shows "Create ops d uid now obj s = (Inl ErrAlreadyExists, s)"
proof -
  have "lookup_blob ops (d_db s) bkey (o_key obj) \<noteq> None"
    using assms(3) by (auto simp: find_record_def split: option.splits elim!: storedE)
  then have "create_tx ops nh uid now bkey obj (d_db s) = Inl ErrAlreadyExists" for nh by (simp add: create_tx_def)
  then show ?thesis using assms(1,2) by (simp add: Create_def db_Update_error finish_def)
qed

lemma Delete_missing:
  assumes "bucketKeyForMeta d m = Inr bkey"
    and "find_record ops (d_db s) bkey (recordKey (mr_namespace m) (mr_name m)) = Inl ErrNotFound"
  shows "Delete ops d m s = (Some ErrNotFound, s)" "Get ops d m s = Inl ErrNotFound"
  using assms by (simp_all add: Delete_def delete_tx_def db_Update_error finish_def Get_def)

lemma Get_stored:
  assumes "bucketKeyForMeta d m = Inr bkey"
    and "stored ops d s bkey (recordKey (mr_namespace m) (mr_name m)) = Some obj"
  shows "Get ops d m s = Inr obj"
  using assms by (auto simp: Get_def elim!: storedE)

end

section \<open>Properties\<close>

text \<open>C11: From a fresh file, or from what an earlier process left, through any sequence of creates, updates,
  subresource writes, rollbacks, deletes, watches and restarts, successful or not, every record and every retained
  revision decodes, lies under its own key in its own Kind's bucket with a resourceVersion its Kind's counter has given
  out, no Kind marked NoHistory has a history bucket, and every revision belongs to an object that still exists
  under the same uid.\<close>

theorem bolt_reachable_ok:
  assumes "bbolt_laws ops" "bolt_reach ops d sch s"
  shows "bolt_inv ops d s \<and> revision_heads ops d s"
  by (rule bbolt_laws.reach_keeps[OF assms])

theorem bolt_reachable_ok_witness:
  "bolt_inv alist_bbolt demo_deps demo_updated \<and> revision_heads alist_bbolt demo_deps demo_updated"
  by (rule bolt_reachable_ok[OF alist.bbolt_laws_axioms demo_reach_updated])

text \<open>C12: Optimistic concurrency. Two writers read the same object; once one of them has updated it, the other's
  update and status write, which carry the version both read, are refused with a conflict and change nothing.\<close>

theorem lost_update_refused:
  assumes "bbolt_laws ops" "bolt_reach ops d sch s" "room ops s" "plain_kind d obj" "wf_object obj"
    and "bucketKeyForObject d obj = Inr bkey" "stored ops d s bkey (o_key obj) = Some old"
    and "Update ops d obj s = (Inr res, s')"
    and "bucketKeyForObject d late = Inr bkey" "o_key late = o_key obj" "o_rv late = o_rv old"
  shows "Update ops d late s' = (Inl ErrConflict, s') \<and>
    (sub \<noteq> [] \<longrightarrow> map_of (marshal late) sub \<noteq> None \<longrightarrow> UpdateSubresource ops d sub late s' = (Inl ErrConflict, s'))"
proof -
  note inv = conjunct1[OF bbolt_laws.reach_keeps[OF assms(1,2)]] and kb = plain_kind_bucket[OF assms(4,6)]
  have rm: "current_rv ops (d_db s) bkey < 2 ^ 64 - 1" using assms(3) by (simp add: room_def)
  from assms(1) inv assms(6) kb rm assms(5,8) have st: "stored ops d s' bkey (o_key late) = Some res" and ne: "o_rv res \<noteq> o_rv old"
    unfolding assms(10) by (rule bbolt_laws.Update_effect, use kb assms(7) in auto)+
  have "o_rv old \<noteq> []"
    by (rule bbolt_laws.stored_version[OF assms(1) inv kb assms(7)]) simp
  then have rv: "o_rv late \<noteq> []" "o_rv late \<noteq> o_rv res" using assms(11) ne by auto
  show ?thesis using bbolt_laws.Update_conflict[OF assms(1,9) st rv] by blast
qed

theorem lost_update_refused_witness:
  "Update alist_bbolt demo_deps (demo_obj ''App'' ''1'' 8 0) demo_updated = (Inl ErrConflict, demo_updated)"
  by (rule conjunct1[OF lost_update_refused[OF alist.bbolt_laws_axioms demo_reach_created demo_room(2) demo_plain(1) demo_app_ok(4)
        demo_keys(6) _ demo_update[of "''1''" 5] demo_keys(6),
        where old = "demo_app ''1'' 1 1 0"]])
    (simp_all add: demo_keys demo_stored del: One_nat_def)

text \<open>C13: A successful update replaces exactly one object. Its core fields are the caller's, its subresources the
  stored ones, uid and creation time never change, the resourceVersion is the next of its Kind, and the generation
  moves by one exactly when the desired state differs from the stored one.\<close>

theorem Update_owns_core:
  assumes "bbolt_laws ops" "bolt_reach ops d sch s" "room ops s" "plain_kind d obj" "wf_object obj"
    and "bucketKeyForObject d obj = Inr bkey" "Update ops d obj s = (Inr res, s')"
  shows "\<exists>old. stored ops d s bkey (o_key obj) = Some old \<and>
    (\<forall>y k. kind_bucket y \<longrightarrow> stored ops d s' y k = (if y = bkey \<and> k = o_key obj then Some res else stored ops d s y k)) \<and>
    (\<forall>k. \<not> type_meta_field k \<longrightarrow>
       map_of (o_body res) k = (if coreField k then map_of (o_body obj) k else map_of (o_body old) k)) \<and>
    o_meta res = (o_meta obj)\<lparr>om_uid := o_uid old, om_creation_timestamp := om_creation_timestamp (o_meta old),
      om_resource_version := show_nat (current_rv ops (d_db s) bkey + 1),
      om_generation := (if same_desired obj old then om_generation (o_meta old)
                        else wrap64 (om_generation (o_meta old) + 1))\<rparr>"
proof -
  note inv = conjunct1[OF bbolt_laws.reach_keeps[OF assms(1,2)]] and kb = plain_kind_bucket[OF assms(4,6)]
  have rm: "current_rv ops (d_db s) bkey < 2 ^ 64 - 1" using assms(3) by (simp add: room_def)
  from assms(1) inv assms(6) kb rm assms(5,7) show ?thesis
    by (rule bbolt_laws.Update_effect) (unfold updated_meta_def, blast)
qed

theorem Update_owns_core_witness:
  "\<exists>old. stored alist_bbolt demo_deps demo_created ''h/App'' ''n/a'' = Some old \<and>
     map_of (o_body (demo_app ''2'' 2 7 0)) ''status'' = map_of (o_body old) ''status''"
  using Update_owns_core[OF alist.bbolt_laws_axioms demo_reach_created demo_room(2) demo_plain(1) demo_app_ok(4) demo_keys(6)
      demo_update[of "''1''" 5]]
  by (auto simp: demo_keys coreField_def subresourceField_def type_meta_field_def)

text \<open>C14: A subresource write changes that one field and nothing else: metadata, with resourceVersion and generation, and
  every other field stay, no other bucket, neither the history nor the version counters, is touched; a write of
  the value already there changes nothing and wakes no watcher.\<close>

theorem UpdateSubresource_only_field:
  assumes "bbolt_laws ops" "bolt_reach ops d sch s" "plain_kind d obj" "subresourceField sub"
    and "bucketKeyForObject d obj = Inr bkey" "UpdateSubresource ops d sub obj s = (Inr res, s')"
  shows "\<exists>old j. stored ops d s bkey (o_key obj) = Some old \<and> map_of (o_body obj) sub = Some j \<and>
    (\<forall>y k. kind_bucket y \<longrightarrow> stored ops d s' y k = (if y = bkey \<and> k = o_key obj then Some res else stored ops d s y k)) \<and>
    o_meta res = o_meta old \<and>
    (\<forall>k. \<not> type_meta_field k \<longrightarrow> map_of (o_body res) k = (if k = sub then Some j else map_of (o_body old) k)) \<and>
    (\<forall>x k. x \<noteq> bkey \<longrightarrow> bb_get ops (d_db s') x k = bb_get ops (d_db s) x k) \<and>
    (map_of (o_body old) sub = Some j \<longrightarrow> d_db s' = d_db s \<and> d_subs s' = d_subs s)"
proof -
  note inv = conjunct1[OF bbolt_laws.reach_keeps[OF assms(1,2)]] and kb = plain_kind_bucket[OF assms(3,5)]
  have sub: "\<not> type_meta_field sub" using assms(4) subresource_not_type_meta by (auto simp: coreField_def)
  from assms(1) inv assms(5) kb sub assms(6) show ?thesis
    by (rule bbolt_laws.UpdateSubresource_effect) blast
qed

theorem UpdateSubresource_only_field_witness:
  "\<exists>old. stored alist_bbolt demo_deps demo_created ''h/App'' ''n/a'' = Some old \<and> o_meta (demo_app ''1'' 1 1 5) = o_meta old \<and>
     map_of (o_body (demo_app ''1'' 1 1 5)) ''spec'' = map_of (o_body old) ''spec''"
  using UpdateSubresource_only_field[OF alist.bbolt_laws_axioms demo_reach_created demo_plain(1) _ demo_keys(6) demo_subresource]
  by (auto simp: demo_keys subresourceField_def type_meta_field_def)

text \<open>C15: A rollback restores the revision's core state under the same uid, keeps the current subresources, takes the
  next resourceVersion, and counts the generation on from the current one.\<close>

theorem Rollback_restores_core:
  assumes "bbolt_laws ops" "bolt_reach ops d sch s" "room ops s" "plain_ref d m" "int64 targetRV"
    and "bucketKeyForMeta d m = Inr bkey" "Rollback ops d m uid targetRV s = (Inr res, s')"
  shows "\<exists>revn old. GetRevision ops d m uid targetRV s = Inr revn \<and> o_uid revn = uid \<and>
    stored ops d s bkey (o_key revn) = Some old \<and> o_uid old = uid \<and>
    (\<forall>y k. kind_bucket y \<longrightarrow> stored ops d s' y k = (if y = bkey \<and> k = o_key revn then Some res else stored ops d s y k)) \<and>
    (\<forall>k. \<not> type_meta_field k \<longrightarrow>
       map_of (o_body res) k = (if coreField k then map_of (o_body revn) k else map_of (o_body old) k)) \<and>
    o_meta res = (o_meta revn)\<lparr>om_resource_version := show_nat (current_rv ops (d_db s) bkey + 1),
       om_generation := (if same_desired res old then om_generation (o_meta old)
                         else wrap64 (om_generation (o_meta old) + 1))\<rparr>"
proof -
  note ok = bbolt_laws.reach_keeps[OF assms(1,2), THEN conjunct1] bbolt_laws.reach_keeps[OF assms(1,2), THEN conjunct2]
  have rm: "current_rv ops (d_db s) bkey < 2 ^ 64 - 1" "targetRV < 2 ^ 63" using assms(3,5) by (simp_all add: room_def int64_def)
  from assms(1) ok assms(6) plain_ref_bucket[OF assms(4,6)] rm assms(7) show ?thesis
    by (rule bbolt_laws.Rollback_effect) blast
qed

theorem Rollback_restores_core_witness:
  "\<exists>revn. GetRevision alist_bbolt demo_deps (demo_ref ''App'') ''u'' 1 demo_updated = Inr revn \<and>
     map_of (o_body (demo_app ''3'' 3 1 0)) ''spec'' = map_of (o_body revn) ''spec''"
  using Rollback_restores_core[OF alist.bbolt_laws_axioms demo_reach_updated demo_room(3) demo_plain(2) _ demo_keys(7) demo_rollback]
  by (auto simp: int64_def coreField_def subresourceField_def type_meta_field_def)

text \<open>C16: A delete removes the object and every revision ever kept under its name, so neither a get nor a
  rollback brings it back; every other object, and every revision under another uid, stays.\<close>

theorem Delete_erases:
  assumes "bbolt_laws ops" "bolt_reach ops d sch s" "plain_ref d m"
    and "bucketKeyForMeta d m = Inr bkey" "Delete ops d m s = (None, s')"
  shows "\<exists>old. Get ops d m s = Inr old \<and> Get ops d m s' = Inl ErrNotFound \<and>
    (\<forall>y k. kind_bucket y \<longrightarrow> stored ops d s' y k =
       (if y = bkey \<and> k = recordKey (mr_namespace m) (mr_name m) then None else stored ops d s y k)) \<and>
    (\<forall>uid n revn. GetRevision ops d m uid n s' = Inr revn \<longrightarrow> o_key revn \<noteq> recordKey (mr_namespace m) (mr_name m)) \<and>
    (\<forall>uid n. plain uid \<longrightarrow> uid \<noteq> o_uid old \<longrightarrow> GetRevision ops d m uid n s' = GetRevision ops d m uid n s)"
proof -
  note ok = bbolt_laws.reach_keeps[OF assms(1,2), THEN conjunct1] bbolt_laws.reach_keeps[OF assms(1,2), THEN conjunct2]
    and kb = plain_ref_bucket[OF assms(3,4)]
  from assms(1) ok assms(4) kb assms(5) show ?thesis
  proof (rule bbolt_laws.Delete_effect)
    fix old
    let ?key = "recordKey (mr_namespace m) (mr_name m)"
    assume e: "stored ops d s bkey ?key = Some old"
      "\<And>y k. kind_bucket y \<Longrightarrow> stored ops d s' y k = (if y = bkey \<and> k = ?key then None else stored ops d s y k)"
      "\<And>k enc revn. bb_get ops (d_db s') (historyBucket bkey) k = Some (Obj enc) \<Longrightarrow>
         decode d (d_scheme s') enc = Inr revn \<Longrightarrow> o_key revn \<noteq> ?key"
      "\<And>uid n. plain uid \<Longrightarrow> uid \<noteq> o_uid old \<Longrightarrow>
         bb_get ops (d_db s') (historyBucket bkey) (historyKey uid n) = bb_get ops (d_db s) (historyBucket bkey) (historyKey uid n)"
      "bolt_inv ops d s'" "d_scheme s' = d_scheme s"
    have get: "Get ops d m s = Inr old" by (rule bbolt_laws.Get_stored[OF assms(1,4) e(1)])
    have "stored ops d s' bkey ?key = None" using e(2)[OF kb] by simp
    then have "find_record ops (d_db s') bkey ?key = Inl ErrNotFound"
      using bbolt_laws.stored_None[OF assms(1) e(5) kb] by simp
    then have none: "Get ops d m s' = Inl ErrNotFound" by (rule bbolt_laws.Delete_missing(2)[OF assms(1,4)])
    have revs: "o_key revn \<noteq> ?key" if "GetRevision ops d m uid n s' = Inr revn" for uid n revn
      using that assms(4) e(3) by (auto simp: GetRevision_def rbind_eq_Inr bbolt_laws.find_record_Inr[OF assms(1)] split: if_splits)
    have other: "GetRevision ops d m uid n s' = GetRevision ops d m uid n s" if "plain uid" "uid \<noteq> o_uid old" for uid n
      unfolding GetRevision_def assms(4) rbind_Inr e(6) bbolt_laws.find_record_cong[OF assms(1) e(4)[OF that]] ..
    show ?thesis using get none e(2) revs other by blast
  qed
qed

theorem Delete_erases_witness:
  "Get alist_bbolt demo_deps (demo_ref ''App'') demo_gone = Inl ErrNotFound"
  using Delete_erases[OF alist.bbolt_laws_axioms demo_reach_updated demo_plain(2) demo_keys(7) demo_delete] by blast

text \<open>C17: Of a Kind that keeps history, the revisions held for an object after an update are the ten newest
  (all of them while there are fewer) of those held before and the new one.\<close>

theorem history_keeps_newest:
  assumes "bbolt_laws ops" "bolt_reach ops d sch s" "room ops s" "plain_kind d obj"
    and "bucketKeyForObject d obj = Inr bkey" "bkey \<notin> set (d_no_history s)"
    and "Update ops d obj s = (Inr res, s')" "stored ops d s bkey (o_key obj) = Some old"
  shows "newest (insert (current_rv ops (d_db s) bkey + 1) (revisions ops (d_db s) bkey (o_uid old)))
           (revisions ops (d_db s') bkey (o_uid old))"
proof -
  note ok = bbolt_laws.reach_keeps[OF assms(1,2), THEN conjunct1] and kb = plain_kind_bucket[OF assms(4,5)]
  note inv = ok[unfolded bolt_inv_def] and ne = kind_bucket_neq[OF kb]
  have rm: "current_rv ops (d_db s) bkey < 2 ^ 64 - 1" using assms(3) by (simp add: room_def)
  have seq: "bb_has ops (d_db s) seqBucket" using inv by (simp add: db_inv_def)
  from assms(5,7) obtain enc mt where
    tx: "update_tx ops d (d_scheme s) (d_no_history s) bkey obj (d_db s) = Inr ((res, enc, mt), d_db s')"
    by (rule bbolt_laws.Update_tx[OF assms(1)])
  obtain cur o' rv b1 where u: "find_record ops (d_db s) bkey (o_key obj) = Inr cur" "decode d (d_scheme s) cur = Inr o'"
    "nextRV ops bkey (d_db s) = Inr (rv, b1)"
    "commit ops (d_no_history s) bkey (o_key obj) (o_uid o') rv enc b1 = Inr (d_db s')"
    using tx by (rule update_txE) blast
  have old: "o' = old" using storedI[OF u(1,2)] assms(8) by simp
  have rv: "rv = current_rv ops (d_db s) bkey + 1" by (rule bbolt_laws.nextRV_step[OF assms(1) u(3) seq rm])
  have plain: "plain (o_uid o')" by (rule bbolt_laws.inv_plain(1)[OF assms(1) inv kb u(1,2)])
  have hist: "bb_get ops b1 (historyBucket bkey) k = bb_get ops (d_db s) (historyBucket bkey) k" for k
    using ne(3) by (simp add: bbolt_laws.nextRV_spec(2)[OF assms(1) u(3) seq])
  have keys: "\<exists>v n. plain v \<and> n < 2 ^ 64 \<and> k = historyKey v n" if "bb_get ops b1 (historyBucket bkey) k \<noteq> None" for k
  proof -
    obtain v where "bb_get ops (d_db s) (historyBucket bkey) k = Some v" using \<open>bb_get ops b1 _ k \<noteq> None\<close> hist by auto
    then have "revision_ok d (d_scheme s) bkey (current_rv ops (d_db s) bkey) k v" using inv kb by (simp add: db_inv_def)
    moreover have "current_rv ops (d_db s) bkey < 2 ^ 64" by (rule bbolt_laws.current_rv_bound[OF assms(1)])
    ultimately show ?thesis unfolding revision_ok_def by (elim exE conjE) (intro exI conjI, assumption, erule (1) le_less_trans, assumption)
  qed
  have "rv < 2 ^ 64" using rv rm by simp
  from bbolt_laws.commit_revisions[OF assms(1) u(4) assms(6) plain this keys]
  show ?thesis unfolding old rv revisions_def hist .
qed

theorem history_keeps_newest_witness:
  "newest (insert 2 (revisions alist_bbolt (d_db demo_created) ''h/App'' ''u'')) (revisions alist_bbolt (d_db demo_updated) ''h/App'' ''u'')"
  using history_keeps_newest[OF alist.bbolt_laws_axioms demo_reach_created demo_room(2) demo_plain(1) demo_keys(6) _
      demo_update[of "''1''" 5], of "demo_app ''1'' 1 1 0"]
  by (simp add: demo_stored demo_keys demo_current_rv del: One_nat_def)





text \<open>C20: A committed update offers its event, which decodes to the object it returns, to exactly the subscriptions of its
  Kind whose namespace and selector match that object, dropping it only where 64 events are already waiting; no other
  subscription sees anything, and a failed update offers nothing to anyone.\<close>

theorem Update_notifies:
  assumes "bbolt_laws ops" "bolt_reach ops d sch s" "plain_kind d obj" "wf_object obj"
    and "bucketKeyForObject d obj = Inr bkey" "Update ops d obj s = (r, s')"
  shows "case r of Inl e \<Rightarrow> d_subs s' = d_subs s
    | Inr res \<Rightarrow> \<exists>enc. decode d (d_scheme s) enc = Inr res \<and>
        (\<forall>k. goget [] (d_subs s') k =
          (if k = bkey then map (\<lambda>sub. if (su_namespace sub = [] \<or> su_namespace sub = om_namespace (o_meta res)) \<and>
                                         su_selector sub (om_labels (o_meta res)) \<and> length (su_ch sub) < watchBuf
                                      then sub\<lparr>su_ch := su_ch sub @ [(Modified, enc)]\<rparr> else sub) (goget [] (d_subs s) bkey)
           else goget [] (d_subs s) k))"
proof (cases r)
  case (Inl e)
  then show ?thesis using Update_error[of ops d obj s e s'] assms(6) by simp
next
  case (Inr res)
  note inv = conjunct1[OF bbolt_laws.reach_keeps[OF assms(1,2)], unfolded bolt_inv_def] and kb = plain_kind_bucket[OF assms(3,5)]
  have "finish bkey Modified (db_Update ops (update_tx ops d (d_scheme s) (d_no_history s) bkey obj) (d_db s)) s = (Inr res, s')"
    using assms(5,6) Inr by (simp add: Update_def)
  then obtain enc mt b where tx: "update_tx ops d (d_scheme s) (d_no_history s) bkey obj (d_db s) = Inr ((res, enc, mt), b)"
    and subs: "d_subs s' = publish bkey Modified enc (om_namespace mt) (om_labels mt) (d_subs s)"
    by (auto simp: finish_def db_Update_Inr split: prod.splits sum.splits)
  obtain cur where u: "find_record ops (d_db s) bkey (o_key obj) = Inr cur" "enc = mergeCore (obj\<lparr>o_meta := mt\<rparr>) cur"
    "decode d (d_scheme s) enc = Inr res"
    using tx by (rule update_txE) blast
  have "wf_encoded cur" by (rule bbolt_laws.inv_record[OF assms(1) inv kb u(1)])
  then have mt: "o_meta res = mt"
    using bbolt_laws.mergeCore_fields(3)[OF assms(1) u(3)[unfolded u(2)]] assms(4) by simp
  have "goget [] (d_subs s') k = (if k = bkey then map (\<lambda>sub. if (su_namespace sub = [] \<or> su_namespace sub = om_namespace mt) \<and>
      su_selector sub (om_labels mt) \<and> length (su_ch sub) < watchBuf
      then sub\<lparr>su_ch := su_ch sub @ [(Modified, enc)]\<rparr> else sub) (goget [] (d_subs s) bkey) else goget [] (d_subs s) k)" for k
    unfolding subs goget_publish by (auto simp: wants_def offer_def)
  then show ?thesis using u(3) Inr mt by auto
qed

theorem Update_notifies_witness:
  "\<exists>enc. decode demo_deps demo_scheme enc = Inr (demo_app ''2'' 2 7 0) \<and> goget [] (d_subs demo_updated) ''h/App'' = []"
  using Update_notifies[OF alist.bbolt_laws_axioms demo_reach_created demo_plain(1) demo_app_ok(4) demo_keys(6)
      demo_update[of "''1''" 5]]
  by auto

end
