(* ===== verification/StoreProps.thy ===== *)
theory StoreProps
  imports VersionedStore BoltProps
begin

text \<open>The properties that hold of both stores because they implement the same contract.\<close>

section \<open>A small in-memory store\<close>

declare One_nat_def [simp del]

definition demo_mem :: "nat mem" where
  "demo_mem = \<lparr>m_seq = [(''h/App'', 1)], m_data = [(''h/App'', [(''n/a'', demo_app ''1'' 1 1 0)])], m_subs = [], m_next_sub = 0\<rparr>"

lemma demo_mem_create:
  "mem_Create demo_deps ''u'' 7000000000 (demo_obj ''App'' [] 1 0) mem_New = (Inr (demo_app ''1'' 1 1 0), demo_mem)"
  by (simp add: mem_Create_def mem_New_def demo_eval zero_object_meta_def bucketFromGVK_def memKey_def mem_lookup_def mem_next_def
      mem_publish_def mem_set_def publish_def demo_mem_def show_small Let_def goget_def)

lemma mem_New_ok: "mem_ok mem_New"
  by (simp add: mem_ok_def spec_inv_def mem_New_def mem_lookup_def)

lemma demo_mem_run: "(mem_step demo_deps)\<^sup>*\<^sup>* mem_New demo_mem"
  by (rule r_into_rtranclp, rule m_create[OF demo_mem_create])
    (simp_all add: mem_room_def mem_New_def demo_app_ok)

lemma demo_mem_update:
  "mem_Update demo_deps (demo_obj ''App'' ''1'' 7 5) demo_mem =
    (Inr (demo_app ''2'' 2 7 0), demo_mem\<lparr>m_seq := [(''h/App'', 2)], m_data := [(''h/App'', [(''n/a'', demo_app ''2'' 2 7 0)])]\<rparr>)"
  by (simp add: mem_Update_def writeExisting_def keepSubresources_def unmarshal_def string_field_def meta_field_def bucketFromGVK_def memKey_def mem_lookup_def
      mem_next_def mem_publish_def mem_set_def publish_def demo_mem_def demo_eval zero_object_meta_def show_small Let_def goget_def
      wrap64_def merge_fields_def marshal_def coreField_def subresourceField_def type_meta_field_def body_fields_def)

declare One_nat_def [simp]

section \<open>Stale tokens\<close>

context bbolt_laws
begin

lemma stale_update:
  assumes ok: "bolt_ok ops d s" and "plain_kind d obj" and key: "bucketKeyForObject d obj = Inr bkey"
    and seen: "stored ops d s bkey (o_key obj) = Some seen" "o_rv obj = o_rv seen"
    and run: "(bolt_step ops d)\<^sup>*\<^sup>* s t" "(bolt_step ops d)\<^sup>*\<^sup>* t u"
    and gone: "\<forall>cur. stored ops d t bkey (o_key obj) = Some cur \<longrightarrow> o_rv cur \<noteq> o_rv seen"
  shows "Update ops d obj u = (Inl ErrConflict, u) \<or> Update ops d obj u = (Inl ErrNotFound, u)"
proof -
  note kb = plain_kind_bucket[OF assms(2) key]
  have inv: "bolt_inv ops d s" "bolt_inv ops d u"
    using ok bolt.run_ok[OF run(2) bolt.run_ok[OF run(1) ok]] by (auto simp: bolt_ok_def)
  have ne: "o_rv obj \<noteq> []" unfolding seen(2) by (rule stored_version[OF inv(1) kb seen(1)]) simp
  show ?thesis
  proof (cases "stored ops d u bkey (o_key obj)")
    case None
    then have "find_record ops (d_db u) bkey (o_key obj) = Inl ErrNotFound" using stored_None[OF inv(2) kb] by simp
    then show ?thesis using Update_missing(1)[OF key] by blast
  next
    case (Some cur)
    have "o_rv cur \<noteq> o_rv seen"
      by (rule bolt.stale_for_good[OF ok _ run, of bkey "o_key obj"]) (use seen(1) gone Some kb in auto)
    then show ?thesis using Update_conflict(1)[OF key Some ne] seen(2) by auto
  qed
qed

end

section \<open>Properties\<close>

text \<open>C21: The BoltDB store implements the storage contract. In every reachable state, each of its steps, a failed write
  and a restart included, is a step of the abstract versioned store: at most one object changes, a core write takes the next
  version of its Kind and keeps uid and status, a subresource write keeps version, generation and uid, and a delete
  keeps the Kind's counter.\<close>

theorem bolt_refines_contract:
  assumes "bbolt_laws ops" "bolt_reach ops d sch s" "bolt_step ops d s s'"
  shows "spec_step (bolt_abs ops d s) (bolt_abs ops d s')"
proof -
  have "bolt_ok ops d s" using bbolt_laws.reach_keeps[OF assms(1,2)] by (simp add: bolt_ok_def)
  from bbolt_laws.bolt_step_refines[OF assms(1) this assms(3)] show ?thesis .
qed

theorem bolt_refines_contract_witness:
  "spec_step (bolt_abs alist_bbolt demo_deps demo_created) (bolt_abs alist_bbolt demo_deps demo_updated)"
  by (rule bolt_refines_contract[OF alist.bbolt_laws_axioms demo_reach_created bolt_step.update[OF demo_update[of "''1''" 5] demo_room(2)]])
    (simp_all add: demo_plain demo_app_ok)

text \<open>C22: The in-memory store implements the same contract, from its empty state on.\<close>

theorem mem_refines_contract:
  assumes "(mem_step d)\<^sup>*\<^sup>* mem_New s" "mem_step d s s'"
  shows "spec_step (mem_abs s) (mem_abs s') \<and> spec_inv (mem_abs s')"
proof -
  have ok: "mem_ok s" by (rule mem.run_ok[OF assms(1) mem_New_ok])
  show ?thesis using mem.refines[OF ok assms(2)] mem.ok_inv[OF mem.ok_step[OF ok assms(2)]] by simp
qed

theorem mem_refines_contract_witness:
  "spec_step (mem_abs demo_mem) (mem_abs (snd (mem_Update demo_deps (demo_obj ''App'' ''1'' 7 5) demo_mem)))"
  using mem_refines_contract[OF demo_mem_run m_update[OF demo_mem_update]]
  by (simp add: demo_mem_update mem_room_def demo_app_ok) (simp add: demo_mem_def goget_def)

text \<open>C23: A stale token stays stale. Once the object under a name no longer carries the resourceVersion a client has
  read, because it was written, or deleted and created again, no later sequence of operations and restarts makes that version
  current again: a write that carries it is refused, with a conflict or because there is no object, and changes nothing.\<close>

theorem stale_token_refused:
  assumes "bbolt_laws ops" "bolt_reach ops d sch s" "plain_kind d obj" "bucketKeyForObject d obj = Inr bkey"
    and "stored ops d s bkey (o_key obj) = Some seen" "o_rv obj = o_rv seen"
    and "(bolt_step ops d)\<^sup>*\<^sup>* s t" "(bolt_step ops d)\<^sup>*\<^sup>* t u"
    and "\<forall>cur. stored ops d t bkey (o_key obj) = Some cur \<longrightarrow> o_rv cur \<noteq> o_rv seen"
  shows "Update ops d obj u = (Inl ErrConflict, u) \<or> Update ops d obj u = (Inl ErrNotFound, u)"
proof -
  have "bolt_ok ops d s" using bbolt_laws.reach_keeps[OF assms(1,2)] by (simp add: bolt_ok_def)
  from bbolt_laws.stale_update[OF assms(1) this assms(3-9)] show ?thesis .
qed

theorem stale_token_refused_witness:
  "Update alist_bbolt demo_deps (demo_obj ''App'' ''1'' 8 0) demo_gone = (Inl ErrConflict, demo_gone) \<or>
   Update alist_bbolt demo_deps (demo_obj ''App'' ''1'' 8 0) demo_gone = (Inl ErrNotFound, demo_gone)"
proof (rule stale_token_refused[OF alist.bbolt_laws_axioms demo_reach_created demo_plain(1) demo_keys(6),
      where seen = "demo_app ''1'' 1 1 0"])
  show "(bolt_step alist_bbolt demo_deps)\<^sup>*\<^sup>* demo_created demo_updated"
    by (rule r_into_rtranclp, rule bolt_step.update[OF demo_update[of "''1''" 5] demo_room(2)]) (simp_all add: demo_plain demo_app_ok)
  show "(bolt_step alist_bbolt demo_deps)\<^sup>*\<^sup>* demo_updated demo_gone"
    by (rule r_into_rtranclp, rule bolt_step.delete[OF demo_delete demo_plain(2)])
qed (simp_all add: demo_keys demo_stored del: One_nat_def)






end
