(* ===== verification/Ids.thy ===== *)
theory Ids
  imports CoreTypes
begin

text \<open>
  Host user and group ids (\<^verbatim>\<open>api/core/v1/uids.go\<close>): the range an id may have, a namespace's block
  of ids, and its annotation form \<open>min/size\<close>. All arithmetic is on \<open>int64\<close> and wraps.
\<close>

section \<open>Strings (packages strings and strconv)\<close>

text \<open>\<open>strings.Cut\<close> at the first occurrence of a one-byte separator.\<close>

fun cut_at :: "char \<Rightarrow> string \<Rightarrow> (string \<times> string) option" where
  "cut_at sep [] = None"
| "cut_at sep (c # cs) =
     (if c = sep then Some ([], cs)
      else case cut_at sep cs of None \<Rightarrow> None | Some (a, b) \<Rightarrow> Some (c # a, b))"

text \<open>
  \<open>strconv.ParseInt(s, 10, 64)\<close>: an optional sign, then a non-empty run of digits, in the
  range of \<open>int64\<close>.
\<close>

definition parse_int64 :: "string \<Rightarrow> int option" where
  "parse_int64 s =
     (let (neg, ds) = (case s of
            [] \<Rightarrow> (False, s)
          | c # cs \<Rightarrow> if c = CHR ''-'' then (True, cs) else if c = CHR ''+'' then (False, cs) else (False, s))
      in case parse_nat ds of
           None \<Rightarrow> None
         | Some n \<Rightarrow> (let v = (if neg then - int n else int n) in if int64 v then Some v else None))"

section \<open>Ids and blocks\<close>

abbreviation MinRunAsID :: int where "MinRunAsID \<equiv> 1"
abbreviation MaxRunAsID :: int where "MaxRunAsID \<equiv> 4294967294"
abbreviation DefaultRunAsID :: int where "DefaultRunAsID \<equiv> 65532"
abbreviation WorkloadUIDBase :: int where "WorkloadUIDBase \<equiv> 1000000000"
abbreviation WorkloadUIDBlock :: int where "WorkloadUIDBlock \<equiv> 65536"
abbreviation UIDRangeAnnotation :: string where "UIDRangeAnnotation \<equiv> ''horchestra.io/uid-range''"

record id_range =
  ir_min :: int
  ir_size :: int

definition IDRange_Contains :: "id_range \<Rightarrow> int \<Rightarrow> bool" where
  "IDRange_Contains r i \<longleftrightarrow> ir_min r \<le> i \<and> i < wrap64 (ir_min r + ir_size r)"

definition IDRange_IsZero :: "id_range \<Rightarrow> bool" where
  "IDRange_IsZero r \<longleftrightarrow> ir_min r = 0 \<and> ir_size r = 0"

definition IDRange_String :: "id_range \<Rightarrow> string" where
  "IDRange_String r = show_int (ir_min r) @ ''/'' @ show_int (ir_size r)"

definition ParseIDRange :: "string \<Rightarrow> (string, id_range) result" where
  "ParseIDRange s =
     (case cut_at (CHR ''/'') s of
        None \<Rightarrow> Inl ''want <min>/<size>''
      | Some (minStr, sizeStr) \<Rightarrow>
          (case parse_int64 minStr of
             None \<Rightarrow> Inl ''bad min''
           | Some lo \<Rightarrow>
               (case parse_int64 sizeStr of
                  None \<Rightarrow> Inl ''bad size''
                | Some sz \<Rightarrow>
                    if sz \<le> 0 then Inl ''size must be positive''
                    else if lo < MinRunAsID \<or> MaxRunAsID < wrap64 (wrap64 (lo + sz) - 1)
                    then Inl ''outside the usable id space''
                    else Inr \<lparr>ir_min = lo, ir_size = sz\<rparr>)))"

definition ValidRunAsID :: "string \<Rightarrow> int \<Rightarrow> (string, unit) result" where
  "ValidRunAsID what i =
     (if i = 0 then Inl (what @ '': the no-root floor forbids id 0'')
      else if i < MinRunAsID \<or> MaxRunAsID < i then Inl (what @ '': out of range'')
      else Inr ())"

section \<open>Facts\<close>

lemma cut_at_append: "sep \<notin> set a \<Longrightarrow> cut_at sep (a @ sep # b) = Some (a, b)"
  by (induction a) auto

lemma digit_val_no_sign: "digit_val (CHR ''-'') = None" "digit_val (CHR ''+'') = None" "digit_val (CHR ''/'') = None"
  by (simp_all add: digit_val_def)

lemma show_nat_sign: "CHR ''-'' \<notin> set (show_nat n)" "CHR ''+'' \<notin> set (show_nat n)" "CHR ''/'' \<notin> set (show_nat n)"
  using show_nat_digits[of _ n] digit_val_no_sign by metis+

lemma show_int_no_slash: "CHR ''/'' \<notin> set (show_int i)"
  using show_nat_sign by (simp add: show_int_def)

lemma parse_show_int64: "int64 i \<Longrightarrow> parse_int64 (show_int i) = Some i"
proof -
  assume i: "int64 i"
  show ?thesis
  proof (cases "i < 0")
    case True
    then show ?thesis using i by (simp add: parse_int64_def show_int_def)
  next
    case False
    obtain c cs where c: "show_nat (nat i) = c # cs" by (cases "show_nat (nat i)") auto
    then have "c \<noteq> CHR ''-''" "c \<noteq> CHR ''+''"
      using show_nat_sign[of "nat i"] by auto
    then show ?thesis using False i parse_show_nat[of "nat i"]
      by (simp add: parse_int64_def show_int_def c)
  qed
qed

lemma parse_int64_range: "parse_int64 s = Some v \<Longrightarrow> int64 v"
  by (auto simp: parse_int64_def Let_def split: option.splits if_splits list.splits prod.splits)

lemma ValidRunAsID_iff: "ValidRunAsID what i = Inr () \<longleftrightarrow> MinRunAsID \<le> i \<and> i \<le> MaxRunAsID"
  by (auto simp: ValidRunAsID_def)

lemma ParseIDRange_ok:
  assumes "ParseIDRange s = Inr r"
  shows "int64 (ir_min r)" "int64 (ir_size r)" "0 < ir_size r" "MinRunAsID \<le> ir_min r"
    "wrap64 (wrap64 (ir_min r + ir_size r) - 1) \<le> MaxRunAsID"
  using assms by (auto simp: ParseIDRange_def parse_int64_range split: option.splits if_splits)

text \<open>
  The sum of a parsed block either does not wrap, or wraps to a negative number and the block
  contains nothing.
\<close>

lemma wrap64_sum_cases:
  assumes "int64 a" "int64 b" "0 < b" "1 \<le> a"
  shows "wrap64 (a + b) = a + b \<and> a + b < 2 ^ 63 \<or> wrap64 (a + b) = a + b - 2 ^ 64 \<and> 2 ^ 63 \<le> a + b"
proof (cases "a + b < 2 ^ 63")
  case True
  then have "int64 (a + b)" using assms by (simp add: int64_def)
  then show ?thesis using True wrap64_id by blast
next
  case False
  then have "wrap64 (a + b) = a + b - 2 ^ 64"
    using assms by (intro wrap64_above) (simp_all add: int64_def)
  then show ?thesis using False by simp
qed

lemma ParseIDRange_Contains_valid:
  assumes r: "ParseIDRange s = Inr r" and c: "IDRange_Contains r i"
  shows "MinRunAsID \<le> i" "i \<le> MaxRunAsID"
proof -
  note ok = ParseIDRange_ok[OF r]
  show "MinRunAsID \<le> i" using c ok(4) by (simp add: IDRange_Contains_def)
  from wrap64_sum_cases[OF ok(1,2,3,4)] show "i \<le> MaxRunAsID"
  proof
    assume w: "wrap64 (ir_min r + ir_size r) = ir_min r + ir_size r \<and> ir_min r + ir_size r < 2 ^ 63"
    then have "int64 (ir_min r + ir_size r - 1)" using ok by (simp add: int64_def)
    then have "ir_min r + ir_size r - 1 \<le> MaxRunAsID" using ok(5) w by (simp add: wrap64_id)
    then show ?thesis using c w by (simp add: IDRange_Contains_def)
  next
    assume "wrap64 (ir_min r + ir_size r) = ir_min r + ir_size r - 2 ^ 64 \<and> 2 ^ 63 \<le> ir_min r + ir_size r"
    then show ?thesis using c ok by (simp add: IDRange_Contains_def int64_def)
  qed
qed

lemma ParseIDRange_String_usable:
  assumes "MinRunAsID \<le> ir_min r" "0 < ir_size r" "ir_min r + ir_size r - 1 \<le> MaxRunAsID"
  shows "ParseIDRange (IDRange_String r) = Inr r"
proof -
  have i: "int64 (ir_min r)" "int64 (ir_size r)" "int64 (ir_min r + ir_size r)" "int64 (ir_min r + ir_size r - 1)"
    using assms by (simp_all add: int64_def)
  have "cut_at (CHR ''/'') (IDRange_String r) = Some (show_int (ir_min r), show_int (ir_size r))"
    using cut_at_append[OF show_int_no_slash] by (simp add: IDRange_String_def)
  then show ?thesis using assms i by (simp add: ParseIDRange_def parse_show_int64 wrap64_id)
qed

lemma ParseIDRange_overflow: "ParseIDRange ''5/9223372036854775807'' = Inr \<lparr>ir_min = 5, ir_size = 9223372036854775807\<rparr>"
  by (simp add: ParseIDRange_def parse_int64_def parse_nat_def digit_val_def int64_def wrap64_def Let_def)

end
