(* ===== verification/ApiText.thy ===== *)
theory ApiText
  imports Ids
begin

text \<open>
  The functions of packages \<^verbatim>\<open>strings\<close> and \<^verbatim>\<open>path\<close> the control plane uses, and the value validators of
  \<^verbatim>\<open>api/core/v1/paths.go\<close>, \<^verbatim>\<open>env.go\<close> and \<^verbatim>\<open>vaultsecret.go\<close> over them. A Go string is a byte string; where
  the source ranges over runes, every byte above 127 fails the same test the rune it belongs to
  fails.
\<close>

section \<open>Strings (packages strings and path)\<close>

fun split_on :: "char \<Rightarrow> string \<Rightarrow> string list" where
  "split_on sep [] = [[]]"
| "split_on sep (c # cs) =
     (if c = sep then [] # split_on sep cs
      else case split_on sep cs of [] \<Rightarrow> [[c]] | s # ss \<Rightarrow> (c # s) # ss)"

fun join_with :: "string \<Rightarrow> string list \<Rightarrow> string" where
  "join_with sep [] = []"
| "join_with sep [s] = s"
| "join_with sep (s # t # ss) = s @ sep @ join_with sep (t # ss)"

definition contains_any :: "string \<Rightarrow> string \<Rightarrow> bool" where
  "contains_any s chars \<longleftrightarrow> list_ex (\<lambda>c. c \<in> set chars) s"

definition starts_with :: "string \<Rightarrow> string \<Rightarrow> bool" where
  "starts_with s p \<longleftrightarrow> take (length p) s = p"

definition ends_with :: "string \<Rightarrow> string \<Rightarrow> bool" where
  "ends_with s p \<longleftrightarrow> starts_with (rev s) (rev p)"

text \<open>\<open>strings.Trim\<close> with a set of one-byte characters.\<close>

definition trim_chars :: "string \<Rightarrow> string \<Rightarrow> string" where
  "trim_chars chars s =
     rev (dropWhile (\<lambda>c. c \<in> set chars) (rev (dropWhile (\<lambda>c. c \<in> set chars) s)))"

text \<open>
  \<open>strings.TrimSpace\<close>: the code points of Unicode's White\_Space property, in UTF-8.
\<close>

definition space_seqs :: "string list" where
  "space_seqs =
     map (\<lambda>n. [char_of n]) [9, 10, 11, 12, 13, 32 :: nat] @
     map (map char_of) ([[0xC2, 0x85], [0xC2, 0xA0], [0xE1, 0x9A, 0x80], [0xE2, 0x80, 0xA8],
        [0xE2, 0x80, 0xA9], [0xE2, 0x80, 0xAF], [0xE2, 0x81, 0x9F], [0xE3, 0x80, 0x80]] :: nat list list) @
     map (\<lambda>n. map char_of [0xE2, 0x80, 0x80 + n]) [0 ..< 11 :: nat]"

function trim_left_seqs :: "string list \<Rightarrow> string \<Rightarrow> string" where
  "trim_left_seqs seqs s =
     (case find (\<lambda>p. p \<noteq> [] \<and> starts_with s p) seqs of
        None \<Rightarrow> s
      | Some p \<Rightarrow> if s = [] then s else trim_left_seqs seqs (drop (length p) s))"
  by pat_completeness auto
termination
  by (relation "measure (\<lambda>(seqs, s). length s)") (auto simp: find_Some_iff)

definition TrimSpace :: "string \<Rightarrow> string" where
  "TrimSpace s = rev (trim_left_seqs (map rev space_seqs) (rev (trim_left_seqs space_seqs s)))"

text \<open>\<open>path.Clean\<close>: lexical processing of the separators, \<open>.\<close> and \<open>..\<close>.\<close>

fun clean_segs :: "bool \<Rightarrow> string list \<Rightarrow> string list \<Rightarrow> string list" where
  "clean_segs rooted out [] = rev out"
| "clean_segs rooted out (s # ss) =
     (if s = [] \<or> s = ''.'' then clean_segs rooted out ss
      else if s = ''..'' then
        (case out of
           [] \<Rightarrow> clean_segs rooted (if rooted then [] else [''..'']) ss
         | t # ts \<Rightarrow> clean_segs rooted (if t = ''..'' then ''..'' # out else ts) ss)
      else clean_segs rooted (s # out) ss)"

definition path_IsAbs :: "string \<Rightarrow> bool" where
  "path_IsAbs p \<longleftrightarrow> starts_with p ''/''"

definition path_Clean :: "string \<Rightarrow> string" where
  "path_Clean p =
     (let out = join_with ''/'' (clean_segs (path_IsAbs p) [] (split_on (CHR ''/'') p))
      in if path_IsAbs p then ''/'' @ out else if out = [] then ''.'' else out)"

section \<open>Paths (paths.go)\<close>

abbreviation path_delims :: string where
  "path_delims \<equiv> [CHR '' '', CHR 0x09, CHR 0x0D, CHR 0x0A, CHR 0x00, CHR '':'', CHR 0x5C]"

definition cleanContainerPath :: "string \<Rightarrow> string \<Rightarrow> (string, unit) result" where
  "cleanContainerPath p what =
     (if p \<noteq> path_Clean p then Inl (what @ '' must be a clean path'')
      else if contains_any p path_delims
      then Inl (what @ '' must not contain whitespace, colon, backslash or control characters'')
      else if ''..'' \<in> set (split_on (CHR ''/'') p) then Inl (what @ '' must not contain a .. component'')
      else Inr ())"

definition ValidMountPath :: "string \<Rightarrow> (string, unit) result" where
  "ValidMountPath p =
     (if p = [] then Inl ''mountPath is required''
      else if \<not> path_IsAbs p then Inl ''mountPath must be absolute''
      else cleanContainerPath p ''mountPath'')"

definition ValidRelPath :: "string \<Rightarrow> (string, unit) result" where
  "ValidRelPath p =
     (if p = [] then Inl ''path is required''
      else if path_IsAbs p then Inl ''path must be relative''
      else cleanContainerPath p ''path'')"

definition ValidBaseName :: "string \<Rightarrow> string \<Rightarrow> (string, unit) result" where
  "ValidBaseName p what =
     (if CHR ''/'' \<in> set p then Inl (what @ '' must be a single path component'')
      else if p = ''.'' \<or> p = ''..'' then Inl (what @ '' must not be . or ..'')
      else if p = [] then Inl (what @ '' is required'')
      else cleanContainerPath p what)"

section \<open>Environment variables (env.go)\<close>

text \<open>The code points of a character range, as the switch cases over runes write them.\<close>

definition char_range :: "nat \<Rightarrow> nat \<Rightarrow> char \<Rightarrow> bool" where
  "char_range lo hi c \<longleftrightarrow> lo \<le> of_char c \<and> of_char c \<le> hi"

abbreviation (input) lower_char :: "char \<Rightarrow> bool" where "lower_char \<equiv> char_range 97 122"
abbreviation (input) upper_char :: "char \<Rightarrow> bool" where "upper_char \<equiv> char_range 65 90"
abbreviation (input) decimal_char :: "char \<Rightarrow> bool" where "decimal_char \<equiv> char_range 48 57"

definition env_name_char :: "bool \<Rightarrow> char \<Rightarrow> bool" where
  "env_name_char first c \<longleftrightarrow>
     lower_char c \<or> upper_char c \<or> c = CHR ''_'' \<or> decimal_char c \<and> \<not> first"

definition ValidEnvName :: "string \<Rightarrow> string \<Rightarrow> (string, unit) result" where
  "ValidEnvName name what =
     (case name of
        [] \<Rightarrow> Inl (what @ '' is required'')
      | c # cs \<Rightarrow>
          if env_name_char True c \<and> list_all (env_name_char False) cs then Inr ()
          else Inl (what @ '' is not a valid environment variable name''))"

definition ValidEnvPrefix :: "string \<Rightarrow> (string, unit) result" where
  "ValidEnvPrefix prefix = (if prefix = [] then Inr () else ValidEnvName prefix ''env prefix'')"

abbreviation line_breaks :: string where
  "line_breaks \<equiv> [CHR 0x0A, CHR 0x0D, CHR 0x00]"

definition ValidEnvValue :: "string \<Rightarrow> string \<Rightarrow> (string, unit) result" where
  "ValidEnvValue name val =
     (if contains_any val line_breaks then Inl (''value of '' @ name @ '' carries a newline or NUL'') else Inr ())"

section \<open>Vault engine roles (vaultsecret.go)\<close>

record engine_role =
  er_mount :: string
  er_role :: string

definition StaticCredsPath :: "engine_role \<Rightarrow> string" where
  "StaticCredsPath r = er_mount r @ ''/static-creds/'' @ er_role r"

definition CredsPath :: "engine_role \<Rightarrow> string" where
  "CredsPath r = er_mount r @ ''/creds/'' @ er_role r"

definition role_segment_ok :: "string \<Rightarrow> bool" where
  "role_segment_ok seg \<longleftrightarrow> seg \<noteq> [] \<and> seg \<noteq> ''.'' \<and> seg \<noteq> ''..''"

definition engine_part :: "string \<Rightarrow> string \<Rightarrow> (string, unit) result" where
  "engine_part name val =
     (if val = [] then Inl (''the '' @ name @ '' is empty'')
      else if \<not> list_all role_segment_ok (split_on (CHR ''/'') val) then Inl (name @ '': not a path segment'')
      else Inr ())"

text \<open>\<open>strings.LastIndex(v, "/")\<close> splits the string at its last slash.\<close>

definition cut_last :: "char \<Rightarrow> string \<Rightarrow> (string \<times> string) option" where
  "cut_last sep s = map_option (\<lambda>(a, b). (rev b, rev a)) (cut_at sep (rev s))"

definition ParseEngineRole :: "string \<Rightarrow> (string, engine_role) result" where
  "ParseEngineRole v0 =
     (let v = trim_chars ''/'' (TrimSpace v0)
      in case cut_last (CHR ''/'') v of
           None \<Rightarrow> Inl ''want <mount>/<role>''
         | Some (mount, role) \<Rightarrow>
             rbind (engine_part ''mount'' mount) (\<lambda>_.
             rbind (engine_part ''role'' role) (\<lambda>_.
             if contains_any v [CHR '' '', CHR 0x09, CHR 0x0D, CHR 0x0A, CHR ''?'', CHR ''#'', CHR ''%'']
             then Inl ''a mount or role may not carry whitespace or URL punctuation''
             else Inr \<lparr>er_mount = mount, er_role = role\<rparr>)))"

end
