(* ===== verification/ApiTypes.thy ===== *)
theory ApiTypes
  imports ApiText Storage
begin

text \<open>
  The API Kinds that \<^theory_text>\<open>CoreTypes\<close> does not hold: ApplicationSet (\<^verbatim>\<open>api/core/v1/applicationset.go\<close>),
  Secret (\<^verbatim>\<open>types.go\<close>), the RBAC Kinds (\<^verbatim>\<open>api/rbac/v1/types.go\<close>) and
  CertificateSigningRequest (\<^verbatim>\<open>api/certificates/v1/types.go\<close>); the feature gates of
  \<^verbatim>\<open>api/features/features.go\<close>; and the identity of \<^verbatim>\<open>controller/authn\<close>. An object of any Kind is an
  \<open>api_object\<close>: its type meta and the typed value. A type assertion is a match on the value.
\<close>

section \<open>Groups\<close>

abbreviation core_group :: string where "core_group \<equiv> ''horchestra.io''"
abbreviation core_gv :: string where "core_gv \<equiv> ''horchestra.io/v1''"
abbreviation rbac_gv :: string where "rbac_gv \<equiv> ''rbac.horchestra.io/v1''"
abbreviation cert_group :: string where "cert_group \<equiv> ''certificates.horchestra.io''"

section \<open>ApplicationSet (applicationset.go)\<close>

abbreviation LabelApplicationSet :: string where "LabelApplicationSet \<equiv> ''horchestra.io/application-set''"
abbreviation LabelComponent :: string where "LabelComponent \<equiv> ''horchestra.io/component''"
abbreviation AnnAppsetSpecHash :: string where "AnnAppsetSpecHash \<equiv> ''horchestra.io/appset-spec-hash''"
abbreviation PlacementSameNode :: string where "PlacementSameNode \<equiv> ''sameNode''"
abbreviation FinalizerChildTeardown :: string where
  "FinalizerChildTeardown \<equiv> ''horchestra.io/child-teardown''"
abbreviation FinalizerNodeTeardown :: string where
  "FinalizerNodeTeardown \<equiv> ''horchestra.io/node-teardown''"
abbreviation FinalizerOrphanDependents :: string where "FinalizerOrphanDependents \<equiv> ''orphan''"

record rollout =
  ro_max_unavailable :: int
  ro_prune :: "bool option"

record node_spread =
  nsp_node_selector :: "(string, string) gomap"

record scale =
  sca_replicas :: "int option"
  sca_node_spread :: "node_spread option"

record child_meta =
  cm_labels :: "(string, string) gomap"
  cm_annotations :: "(string, string) gomap"

record 'q common_meta =
  com_labels :: "(string, string) gomap"
  com_annotations :: "(string, string) gomap"
  com_env :: "env_var list"
  com_volumes :: "'q volume_mount list"

record 'q named_application_spec =
  nas_name :: string
  nas_metadata :: child_meta
  nas_spec :: "'q application_spec"
  nas_scale :: scale

record 'q application_set_spec =
  ass_applications :: "'q named_application_spec list"
  ass_common :: "'q common_meta"
  ass_placement_mode :: string
  ass_rollout :: rollout

record child_status =
  chs_name :: string
  chs_node :: string
  chs_phase :: string

record condition =
  cond_type :: string
  cond_status :: string
  cond_reason :: string
  cond_message :: string

record application_set_status =
  asst_phase :: string
  asst_observed_resource_version :: string
  asst_desired :: int
  asst_current :: int
  asst_scheduled :: int
  asst_running :: int
  asst_children :: "child_status list"
  asst_conditions :: "condition list"

record 'q application_set =
  aset_meta :: object_meta
  aset_spec :: "'q application_set_spec"
  aset_status :: application_set_status

definition appset_owner_ref :: "owner_reference \<Rightarrow> bool" where
  "appset_owner_ref r \<longleftrightarrow>
     or_kind r = ''ApplicationSet'' \<and> or_api_version r = core_gv \<and> or_controller r = Some True"

definition AppsetOwnerOf :: "owner_reference list \<Rightarrow> owner_reference option" where
  "AppsetOwnerOf refs = find appset_owner_ref refs"

definition AppsetOwner :: "'q application \<Rightarrow> owner_reference option" where
  "AppsetOwner a = AppsetOwnerOf (om_owner_references (app_meta a))"

definition ReservedChildLabels :: "string list" where
  "ReservedChildLabels = [LabelApplicationSet, LabelComponent]"

text \<open>
  \<open>ReleaseAppsetMeta\<close> deletes the first owner reference that is a set's, the reserved labels and
  the render digest.
\<close>

definition ReleaseAppsetMeta :: "object_meta \<Rightarrow> object_meta" where
  "ReleaseAppsetMeta m =
     m\<lparr>om_owner_references :=
          (case List.extract appset_owner_ref (om_owner_references m) of
             None \<Rightarrow> om_owner_references m | Some (xs, _, ys) \<Rightarrow> xs @ ys),
       om_labels := fold godel ReservedChildLabels (om_labels m),
       om_annotations := godel AnnAppsetSpecHash (om_annotations m)\<rparr>"

definition ReleaseAppsetChild :: "'q application \<Rightarrow> 'q application" where
  "ReleaseAppsetChild a = a\<lparr>app_meta := ReleaseAppsetMeta (app_meta a)\<rparr>"

definition Set_Deleting :: "'q application_set \<Rightarrow> bool" where
  "Set_Deleting s \<longleftrightarrow> om_deletion_timestamp (aset_meta s) \<noteq> None"

definition SameNode :: "'q application_set_spec \<Rightarrow> bool" where
  "SameNode s \<longleftrightarrow> ass_placement_mode s = PlacementSameNode"

definition RolloutBudget :: "'q application_set_spec \<Rightarrow> int" where
  "RolloutBudget s = (if ro_max_unavailable (ass_rollout s) < 0 then 0 else ro_max_unavailable (ass_rollout s))"

definition Prune :: "'q application_set_spec \<Rightarrow> bool" where
  "Prune s \<longleftrightarrow> ro_prune (ass_rollout s) = None \<or> ro_prune (ass_rollout s) = Some True"

section \<open>Secret (types.go)\<close>

abbreviation SecretTypeOpaque :: string where "SecretTypeOpaque \<equiv> ''Opaque''"
abbreviation SecretTypeVault :: string where "SecretTypeVault \<equiv> ''horchestra.io/vault''"
abbreviation AnnExternalSecretPath :: string where "AnnExternalSecretPath \<equiv> ''secrets.horchestra.io/path''"
abbreviation AnnExternalSecretStaticRole :: string where
  "AnnExternalSecretStaticRole \<equiv> ''secrets.horchestra.io/static-role''"
abbreviation AnnExternalSecretDynamicRole :: string where
  "AnnExternalSecretDynamicRole \<equiv> ''secrets.horchestra.io/dynamic-role''"

record secret =
  sec_meta :: object_meta
  sec_immutable :: "bool option"
  sec_type :: string
  sec_data :: "(string, string) gomap"
  sec_string_data :: "(string, string) gomap"

section \<open>RBAC (api/rbac/v1/types.go)\<close>

record policy_rule =
  pr_api_groups :: "string list"
  pr_resources :: "string list"
  pr_verbs :: "string list"
  pr_non_resource_urls :: "string list"

record subject =
  sub_kind :: string
  sub_name :: string

record role_ref =
  rf_kind :: string
  rf_name :: string

record role =
  role_meta :: object_meta
  role_rules :: "policy_rule list"

record role_binding =
  rb_meta :: object_meta
  rb_subjects :: "subject list"
  rb_role_ref :: role_ref

section \<open>CertificateSigningRequest (api/certificates/v1/types.go)\<close>

abbreviation GroupNodes :: string where "GroupNodes \<equiv> ''system:nodes''"
abbreviation CSRPending :: string where "CSRPending \<equiv> ''Pending''"
abbreviation CSRApproved :: string where "CSRApproved \<equiv> ''Approved''"
abbreviation CSRDenied :: string where "CSRDenied \<equiv> ''Denied''"
abbreviation AnnRequester :: string where "AnnRequester \<equiv> ''certificates.horchestra.io/requester''"
abbreviation AnnRequesterGroups :: string where
  "AnnRequesterGroups \<equiv> ''certificates.horchestra.io/requester-groups''"

record csr_status =
  cst_phase :: string
  cst_certificate :: string
  cst_reason :: string

record csr =
  csr_meta :: object_meta
  csr_request :: string
  csr_groups :: "string list"
  csr_node_name :: string
  csr_stat :: csr_status

section \<open>Secret stores (secrets/v1/types.go)\<close>

abbreviation secrets_gv :: string where "secrets_gv \<equiv> ''secrets.horchestra.io/v1''"
abbreviation AuthMethodCert :: string where "AuthMethodCert \<equiv> ''cert''"
abbreviation AuthMethodKubernetes :: string where "AuthMethodKubernetes \<equiv> ''kubernetes''"

record secret_store_auth =
  sau_method :: string
  sau_path :: string
  sau_role :: string

record secret_store_spec =
  sss_provider :: string
  sss_server :: string
  sss_mount :: string
  sss_kv_version :: int
  sss_vault_namespace :: string
  sss_ca_bundle :: string
  sss_auth :: secret_store_auth

record secret_store =
  sst_meta :: object_meta
  sst_spec :: secret_store_spec

section \<open>Objects of any Kind\<close>

datatype 'q api_value =
    VApplication "'q application"
  | VApplicationSet "'q application_set"
  | VService service
  | VNode "'q node"
  | VNamespace namespace
  | VPersistentVolume "'q persistent_volume"
  | VSecret secret
  | VRole role
  | VClusterRole role
  | VRoleBinding role_binding
  | VClusterRoleBinding role_binding
  | VCSR csr
  | VSecretStore secret_store

record 'q api_object =
  ao_api_version :: string
  ao_kind :: string
  ao_value :: "'q api_value"

text \<open>\<open>meta.Accessor\<close>: every registered Kind embeds its metadata.\<close>

fun value_meta :: "'q api_value \<Rightarrow> object_meta" where
  "value_meta (VApplication x) = app_meta x"
| "value_meta (VApplicationSet x) = aset_meta x"
| "value_meta (VService x) = svc_meta x"
| "value_meta (VNode x) = nd_meta x"
| "value_meta (VNamespace x) = ns_meta x"
| "value_meta (VPersistentVolume x) = pv_meta x"
| "value_meta (VSecret x) = sec_meta x"
| "value_meta (VRole x) = role_meta x"
| "value_meta (VClusterRole x) = role_meta x"
| "value_meta (VRoleBinding x) = rb_meta x"
| "value_meta (VClusterRoleBinding x) = rb_meta x"
| "value_meta (VCSR x) = csr_meta x"
| "value_meta (VSecretStore x) = sst_meta x"

fun map_value_meta :: "(object_meta \<Rightarrow> object_meta) \<Rightarrow> 'q api_value \<Rightarrow> 'q api_value" where
  "map_value_meta f (VApplication x) = VApplication (x\<lparr>app_meta := f (app_meta x)\<rparr>)"
| "map_value_meta f (VApplicationSet x) = VApplicationSet (x\<lparr>aset_meta := f (aset_meta x)\<rparr>)"
| "map_value_meta f (VService x) = VService (x\<lparr>svc_meta := f (svc_meta x)\<rparr>)"
| "map_value_meta f (VNode x) = VNode (x\<lparr>nd_meta := f (nd_meta x)\<rparr>)"
| "map_value_meta f (VNamespace x) = VNamespace (x\<lparr>ns_meta := f (ns_meta x)\<rparr>)"
| "map_value_meta f (VPersistentVolume x) = VPersistentVolume (x\<lparr>pv_meta := f (pv_meta x)\<rparr>)"
| "map_value_meta f (VSecret x) = VSecret (x\<lparr>sec_meta := f (sec_meta x)\<rparr>)"
| "map_value_meta f (VRole x) = VRole (x\<lparr>role_meta := f (role_meta x)\<rparr>)"
| "map_value_meta f (VClusterRole x) = VClusterRole (x\<lparr>role_meta := f (role_meta x)\<rparr>)"
| "map_value_meta f (VRoleBinding x) = VRoleBinding (x\<lparr>rb_meta := f (rb_meta x)\<rparr>)"
| "map_value_meta f (VClusterRoleBinding x) = VClusterRoleBinding (x\<lparr>rb_meta := f (rb_meta x)\<rparr>)"
| "map_value_meta f (VCSR x) = VCSR (x\<lparr>csr_meta := f (csr_meta x)\<rparr>)"
| "map_value_meta f (VSecretStore x) = VSecretStore (x\<lparr>sst_meta := f (sst_meta x)\<rparr>)"

abbreviation ao_meta :: "'q api_object \<Rightarrow> object_meta" where
  "ao_meta ob \<equiv> value_meta (ao_value ob)"

lemma value_meta_map [simp]: "value_meta (map_value_meta f v) = f (value_meta v)"
  by (cases v) simp_all

lemma map_value_meta_cong: "f (value_meta v) = g (value_meta v) \<Longrightarrow> map_value_meta f v = map_value_meta g v"
  by (cases v) simp_all

section \<open>Identity (controller/authn) and feature gates (api/features)\<close>

record identity =
  id_name :: string
  id_groups :: "string list"

type_synonym gates = "(string, bool) gomap"

definition feature_registry :: "(string, bool) gomap" where
  "feature_registry =
     [(''VaultStaticRoles'', False), (''VaultDynamicSecrets'', False),
      (''AutoNodeCertRotation'', False), (''NodeLogs'', False)]"

definition Gates_Enabled :: "gates \<Rightarrow> string \<Rightarrow> bool" where
  "Gates_Enabled g f =
     (case map_of g f of Some v \<Rightarrow> v | None \<Rightarrow> goget False feature_registry f)"

text \<open>\<open>strconv.ParseBool\<close>.\<close>

definition parse_bool :: "string \<Rightarrow> bool option" where
  "parse_bool s =
     (if s \<in> set [''1'', ''t'', ''T'', ''TRUE'', ''true'', ''True''] then Some True
      else if s \<in> set [''0'', ''f'', ''F'', ''FALSE'', ''false'', ''False''] then Some False
      else None)"

definition parse_gate :: "string \<Rightarrow> gates \<Rightarrow> (string, gates) result" where
  "parse_gate part0 g =
     (let part = TrimSpace part0
      in if part = [] then Inr g
         else case cut_at (CHR ''='') part of
                None \<Rightarrow> Inl (''feature gate '' @ part @ '': want Name=true or Name=false'')
              | Some (name, val) \<Rightarrow>
                  (let f = TrimSpace name
                   in if \<not> gohas feature_registry f then Inl (''unknown feature gate '' @ f)
                      else case parse_bool (TrimSpace val) of
                             None \<Rightarrow> Inl (''feature gate '' @ f @ '': not a boolean'')
                           | Some on \<Rightarrow> Inr (goput f on g)))"

definition Gates_Parse :: "string \<Rightarrow> (string, gates) result" where
  "Gates_Parse s0 =
     (let s = TrimSpace s0
      in if s = [] then Inr [] else rfold parse_gate (split_on (CHR '','') s) [])"

definition show_bool :: "bool \<Rightarrow> string" where
  "show_bool b = (if b then ''true'' else ''false'')"

definition Gates_String :: "gates \<Rightarrow> string" where
  "Gates_String g =
     join_with '','' (map (\<lambda>f. f @ ''='' @ show_bool (goget False g f)) (sorted_keys (map fst g)))"

end
