(* ===== verification/AppSetExpand.thy ===== *)
theory AppSetExpand
  imports ApiTypes
begin

text \<open>
  The pure half of the ApplicationSet loop (\<^verbatim>\<open>controller/loops/appset/expand.go\<close>): the child
  Applications and the Services a set renders.

  A child carries a digest of its spec, and an over-long name a digest of itself: SHA-256 over the
  encoded bytes, of which the code uses only that it is a function. The two digests are the fields
  of \<open>digests\<close>. \<open>deepCopySpec\<close> is a JSON round trip of plain data, so in the model it is
  the identity; a nil map and an empty one are the same value. \<open>sanitizeName\<close> lowers and tests
  runes; the names it is given are ASCII (DNS-1123, checked when the objects are written).
\<close>

record 'q digests =
  dg_spec_hash :: "'q application_spec \<Rightarrow> string"
  dg_name_suffix :: "string \<Rightarrow> string"

abbreviation MaxChildren :: nat where "MaxChildren \<equiv> 500"

section \<open>Names\<close>

definition ascii_lower :: "char \<Rightarrow> char" where
  "ascii_lower c = (if upper_char c then char_of ((of_char c :: nat) + 32) else c)"

definition name_char :: "char \<Rightarrow> bool" where
  "name_char c \<longleftrightarrow>
     lower_char c \<or> decimal_char c \<or> c = CHR ''-'' \<or> c = CHR ''.''"

definition sanitizeName :: "'q digests \<Rightarrow> string \<Rightarrow> string" where
  "sanitizeName dg name =
     (let s = trim_chars ''-.'' (map (\<lambda>c. let l = ascii_lower c in if name_char l then l else CHR ''-'') name)
      in if 253 < length s then take 244 s @ ''-'' @ dg_name_suffix dg s else s)"

section \<open>Services\<close>

definition renderedServiceName :: "'q digests \<Rightarrow> 'q application_set \<Rightarrow> 'q named_application_spec \<Rightarrow> string" where
  "renderedServiceName dg set' cmp =
     (if as_ports (nas_spec cmp) = [] \<or> as_service_name (nas_spec cmp) \<noteq> [] \<or>
         lc_restart_policy (as_lifecycle (nas_spec cmp)) = RestartNever
      then []
      else sanitizeName dg (om_name (aset_meta set') @ ''-'' @ nas_name cmp))"

definition serviceFor :: "'q digests \<Rightarrow> 'q application_set \<Rightarrow> 'q named_application_spec \<Rightarrow> string" where
  "serviceFor dg set' cmp =
     (if as_service_name (nas_spec cmp) \<noteq> [] then as_service_name (nas_spec cmp)
      else renderedServiceName dg set' cmp)"

definition set_owner_ref :: "'q application_set \<Rightarrow> owner_reference" where
  "set_owner_ref set' =
     \<lparr>or_api_version = core_gv, or_kind = ''ApplicationSet'', or_name = om_name (aset_meta set'),
      or_uid = om_uid (aset_meta set'), or_controller = Some True\<rparr>"

definition expand_service :: "'q digests \<Rightarrow> 'q application_set \<Rightarrow> 'q named_application_spec \<Rightarrow> service list" where
  "expand_service dg set' cmp =
     (let name = renderedServiceName dg set' cmp
      in if name = [] then []
         else [\<lparr>svc_meta = zero_object_meta
                  \<lparr>om_name := name, om_namespace := om_namespace (aset_meta set'),
                   om_labels := [(LabelApplicationSet, om_name (aset_meta set')), (LabelComponent, nas_name cmp)],
                   om_owner_references := [set_owner_ref set']\<rparr>,
                svc_cluster_ip = [],
                svc_ports = map (\<lambda>p. \<lparr>sp_name = pt_name p, sp_port = wrap32 (pt_port p), sp_target_name = [],
                                      sp_target_port = 0, sp_protocol = []\<rparr>) (as_ports (nas_spec cmp))\<rparr>])"

definition ExpandServices :: "'q digests \<Rightarrow> 'q application_set \<Rightarrow> service list" where
  "ExpandServices dg set' = concat (map (expand_service dg set') (ass_applications (aset_spec set')))"

section \<open>Children\<close>

definition replicaIndexes :: "'q named_application_spec \<Rightarrow> int option list" where
  "replicaIndexes cmp =
     (case sca_replicas (nas_scale cmp) of
        None \<Rightarrow> [None]
      | Some n \<Rightarrow> map (\<lambda>i. Some (int i)) [0 ..< nat n])"

definition mergeStrings :: "(string, string) gomap \<Rightarrow> (string, string) gomap \<Rightarrow> (string, string) gomap" where
  "mergeStrings base over = gocopy (gocopy [] base) over"

definition childLabels :: "'q application_set \<Rightarrow> 'q named_application_spec \<Rightarrow> (string, string) gomap" where
  "childLabels set' cmp =
     goput LabelComponent (nas_name cmp)
       (goput LabelApplicationSet (om_name (aset_meta set'))
          (mergeStrings (com_labels (ass_common (aset_spec set'))) (cm_labels (nas_metadata cmp))))"

definition add_env :: "env_var \<Rightarrow> env_var list \<Rightarrow> env_var list" where
  "add_env e es = (if ev_name e \<in> set (map ev_name es) then es else es @ [e])"

text \<open>
  A common volume is compared with the mount paths the child itself declares; the set of paths is
  not extended by the common volumes already appended.
\<close>

definition projectCommon :: "'q application_spec \<Rightarrow> 'q common_meta \<Rightarrow> 'q application_spec" where
  "projectCommon spec common =
     spec\<lparr>as_env := fold add_env (com_env common) (as_env spec),
          as_volumes := as_volumes spec @
            filter (\<lambda>m. vm_mount_path m \<notin> set (map vm_mount_path (as_volumes spec))) (com_volumes common)\<rparr>"

definition selectorMatches :: "(string, string) gomap \<Rightarrow> (string, string) gomap \<Rightarrow> bool" where
  "selectorMatches selector have = list_all (\<lambda>(k, v). goget [] have k = v) selector"

definition child_spec ::
  "'q digests \<Rightarrow> 'q application_set \<Rightarrow> 'q named_application_spec \<Rightarrow> string \<Rightarrow> 'q application_spec" where
  "child_spec dg set' cmp node =
     (let spec = projectCommon (nas_spec cmp) (ass_common (aset_spec set'));
          svc = serviceFor dg set' cmp;
          spec = (if svc \<noteq> [] then spec\<lparr>as_service_name := svc\<rparr> else spec)
      in if node \<noteq> [] then spec\<lparr>as_placement := (as_placement spec)\<lparr>pl_node_name := node\<rparr>\<rparr> else spec)"

definition child_name :: "'q application_set \<Rightarrow> 'q named_application_spec \<Rightarrow> string \<Rightarrow> int option \<Rightarrow> string" where
  "child_name set' cmp node replica =
     om_name (aset_meta set') @ ''-'' @ nas_name cmp @
     (case replica of None \<Rightarrow> [] | Some i \<Rightarrow> ''-'' @ show_int i) @
     (if node \<noteq> [] then ''-'' @ node else [])"

definition zero_application_status :: application_status where
  "zero_application_status =
     \<lparr>ast_observed_generation = 0, ast_phase = [], ast_message = [], ast_address = [],
      ast_exit_code = None, ast_finished_at = None, ast_attempts = 0\<rparr>"

definition buildChild ::
  "'q digests \<Rightarrow> 'q application_set \<Rightarrow> 'q named_application_spec \<Rightarrow> string \<Rightarrow> int option \<Rightarrow> 'q application" where
  "buildChild dg set' cmp node replica =
     (let spec = child_spec dg set' cmp node
      in \<lparr>app_meta = zero_object_meta
            \<lparr>om_name := sanitizeName dg (child_name set' cmp node replica),
             om_namespace := om_namespace (aset_meta set'),
             om_labels := childLabels set' cmp,
             om_annotations :=
               goput AnnAppsetSpecHash (dg_spec_hash dg spec)
                 (mergeStrings (com_annotations (ass_common (aset_spec set'))) (cm_annotations (nas_metadata cmp))),
             om_owner_references := [set_owner_ref set']\<rparr>,
          app_spec = spec,
          app_status = zero_application_status\<rparr>)"

definition add_child :: "'q application \<Rightarrow> 'q application list \<Rightarrow> (string, 'q application list) result" where
  "add_child child children =
     (if app_name child \<in> set (map app_name children) then Inl (''duplicate child name '' @ app_name child)
      else if MaxChildren \<le> length children then Inl ''more than 500 children''
      else Inr (children @ [child]))"

definition component_children ::
  "'q digests \<Rightarrow> 'q application_set \<Rightarrow> 'q node list \<Rightarrow> 'q named_application_spec \<Rightarrow> 'q application list" where
  "component_children dg set' nodes cmp =
     (case sca_node_spread (nas_scale cmp) of
        None \<Rightarrow> map (buildChild dg set' cmp []) (replicaIndexes cmp)
      | Some sp \<Rightarrow>
          map (\<lambda>n. buildChild dg set' cmp (nd_name n) None)
            (filter (\<lambda>n. selectorMatches (nsp_node_selector sp) (SchedulingLabels n)) nodes))"

definition Expand ::
  "'q digests \<Rightarrow> 'q application_set \<Rightarrow> 'q node list \<Rightarrow> (string, 'q application list) result" where
  "Expand dg set' nodes =
     (if ass_applications (aset_spec set') = [] then Inl ''no applications''
      else rfold (\<lambda>cmp. rfold add_child (component_children dg set' nodes cmp))
             (ass_applications (aset_spec set')) [])"

end
