(* ===== verification/Admission.thy ===== *)
theory Admission
  imports AppSetExpand
begin

text \<open>
  The admission chain of \<^verbatim>\<open>controller/admission\<close>: the attributes of a write, the chain that runs every
  plugin's mutation pass and then every plugin's validation pass (\<^verbatim>\<open>admission.go\<close>), and the plugins that
  guard metadata and identity: \<^verbatim>\<open>finalizers.go\<close>, \<^verbatim>\<open>child_ownership.go\<close>, \<^verbatim>\<open>uid_allocation.go\<close>,
  \<^verbatim>\<open>policy.go\<close>, \<^verbatim>\<open>node_policy.go\<close>, \<^verbatim>\<open>node_restriction.go\<close>, \<^verbatim>\<open>csr_policy.go\<close>.

  A plugin mutates the object under review in place, so its mutation pass returns the attributes
  with the object it leaves. The request context carries the caller's identity, \<open>None\<close> for the
  control loops. A \<open>Lister\<close> is the store's \<open>List\<close>, \<open>None\<close> for nil. Of an error only its class
  (\<open>ForbiddenError\<close> or a plain error) and the head of its text are kept.
\<close>

section \<open>Attributes and chain (admission.go)\<close>

datatype admission_error = Forbidden string | Rejected string

datatype operation = OpCreate | OpUpdate | OpDelete

record 'q attributes =
  at_gvk :: gvk
  at_operation :: operation
  at_object :: "'q api_object"
  at_old :: "'q api_object option"
  at_subresource :: string

abbreviation at_value :: "'q attributes \<Rightarrow> 'q api_value" where
  "at_value a \<equiv> ao_value (at_object a)"

definition set_value :: "'q api_value \<Rightarrow> 'q attributes \<Rightarrow> 'q attributes" where
  "set_value v a = a\<lparr>at_object := (at_object a)\<lparr>ao_value := v\<rparr>\<rparr>"

definition IsSubresource :: "'q attributes \<Rightarrow> bool" where
  "IsSubresource a \<longleftrightarrow> at_subresource a \<noteq> []"

type_synonym request_ctx = "identity option"

record 'q admission_plugin =
  plug_admit :: "request_ctx \<Rightarrow> 'q attributes \<Rightarrow> (admission_error, 'q attributes) result"
  plug_validate :: "request_ctx \<Rightarrow> 'q attributes \<Rightarrow> (admission_error, unit) result"

type_synonym 'q chain = "'q admission_plugin list"

definition Chain_Validate :: "'q chain \<Rightarrow> request_ctx \<Rightarrow> 'q attributes \<Rightarrow> (admission_error, unit) result" where
  "Chain_Validate c ctx a = rfold (\<lambda>p _. plug_validate p ctx a) c ()"

definition Chain_Run :: "'q chain \<Rightarrow> request_ctx \<Rightarrow> 'q attributes \<Rightarrow> (admission_error, 'q attributes) result" where
  "Chain_Run c ctx a =
     rbind (rfold (\<lambda>p. plug_admit p ctx) c a) (\<lambda>a'.
     rbind (Chain_Validate c ctx a') (\<lambda>_. Inr a'))"

definition no_admit :: "request_ctx \<Rightarrow> 'q attributes \<Rightarrow> (admission_error, 'q attributes) result" where
  "no_admit ctx a = Inr a"

definition no_validate :: "request_ctx \<Rightarrow> 'q attributes \<Rightarrow> (admission_error, unit) result" where
  "no_validate ctx a = Inr ()"

section \<open>Reading other objects (plugins.go)\<close>

type_synonym 'q lister = "object_ref \<Rightarrow> (string, 'q api_object list) result"

definition resourceMeta :: "string \<Rightarrow> object_ref" where
  "resourceMeta kind = \<lparr>mr_api_version = core_gv, mr_kind = kind, mr_namespace = [], mr_name = []\<rparr>"

definition list_kind :: "'q lister \<Rightarrow> string \<Rightarrow> (admission_error, 'q api_value list) result" where
  "list_kind l kind = (case l (resourceMeta kind) of Inl e \<Rightarrow> Inl (Rejected e) | Inr obs \<Rightarrow> Inr (map ao_value obs))"

fun as_application :: "'q api_value \<Rightarrow> 'q application option" where
  "as_application (VApplication x) = Some x"
| "as_application _ = None"

fun as_node :: "'q api_value \<Rightarrow> 'q node option" where
  "as_node (VNode x) = Some x"
| "as_node _ = None"

fun as_namespace :: "'q api_value \<Rightarrow> namespace option" where
  "as_namespace (VNamespace x) = Some x"
| "as_namespace _ = None"

fun as_service :: "'q api_value \<Rightarrow> service option" where
  "as_service (VService x) = Some x"
| "as_service _ = None"

fun as_pv :: "'q api_value \<Rightarrow> 'q persistent_volume option" where
  "as_pv (VPersistentVolume x) = Some x"
| "as_pv _ = None"

fun as_secret :: "'q api_value \<Rightarrow> secret option" where
  "as_secret (VSecret x) = Some x"
| "as_secret _ = None"

definition list_as :: "('q api_value \<Rightarrow> 'x option) \<Rightarrow> 'q lister \<Rightarrow> string \<Rightarrow> (admission_error, 'x list) result" where
  "list_as f l kind = rbind (list_kind l kind) (\<lambda>vs. Inr (List.map_filter f vs))"

definition of_string_error :: "(string \<Rightarrow> admission_error) \<Rightarrow> (string, 'a) result \<Rightarrow> (admission_error, 'a) result" where
  "of_string_error f r = (case r of Inl e \<Rightarrow> Inl (f e) | Inr x \<Rightarrow> Inr x)"

section \<open>Type meta (plugins.go)\<close>

definition gv_string :: "gvk \<Rightarrow> string" where
  "gv_string g = (case g of (grp, ver, kind) \<Rightarrow> if grp = [] then ver else grp @ ''/'' @ ver)"

definition defaulting_Admit :: "request_ctx \<Rightarrow> 'q attributes \<Rightarrow> (admission_error, 'q attributes) result" where
  "defaulting_Admit ctx a =
     Inr (a\<lparr>at_object := (at_object a)\<lparr>ao_api_version := gv_string (at_gvk a), ao_kind := snd (snd (at_gvk a))\<rparr>\<rparr>)"

section \<open>Finalizers (finalizers.go)\<close>

definition holdPlacedWorkload :: "'q api_value \<Rightarrow> 'q api_value" where
  "holdPlacedWorkload v =
     (case v of
        VApplication app \<Rightarrow>
          if Deleting app then v
          else let fs = om_finalizers (app_meta app);
                   held = FinalizerNodeTeardown \<in> set fs;
                   placed = app_node_name app \<noteq> []
               in if placed \<and> \<not> held
                  then VApplication (app\<lparr>app_meta := (app_meta app)\<lparr>om_finalizers := fs @ [FinalizerNodeTeardown]\<rparr>\<rparr>)
                  else if \<not> placed \<and> held
                  then VApplication (app\<lparr>app_meta := (app_meta app)
                         \<lparr>om_finalizers := filter (\<lambda>f. f \<noteq> FinalizerNodeTeardown) fs\<rparr>\<rparr>)
                  else v
      | _ \<Rightarrow> v)"

definition holdSetCascade :: "'q api_value \<Rightarrow> 'q api_value" where
  "holdSetCascade v =
     (case v of
        VApplicationSet s \<Rightarrow>
          if Set_Deleting s \<or> FinalizerChildTeardown \<in> set (om_finalizers (aset_meta s)) then v
          else VApplicationSet (s\<lparr>aset_meta := (aset_meta s)
                 \<lparr>om_finalizers := om_finalizers (aset_meta s) @ [FinalizerChildTeardown]\<rparr>\<rparr>)
      | _ \<Rightarrow> v)"

definition stored_finalizers :: "'q attributes \<Rightarrow> string list" where
  "stored_finalizers a = (case at_old a of None \<Rightarrow> [] | Some old \<Rightarrow> om_finalizers (ao_meta old))"

definition finalizerOwnership_Admit :: "request_ctx \<Rightarrow> 'q attributes \<Rightarrow> (admission_error, 'q attributes) result" where
  "finalizerOwnership_Admit ctx a =
     (if at_operation a = OpDelete \<or> IsSubresource a then Inr a
      else let v = (if ctx \<noteq> None
                    then map_value_meta (\<lambda>m. m\<lparr>om_finalizers := stored_finalizers a\<rparr>) (at_value a)
                    else at_value a)
           in Inr (set_value (holdSetCascade (holdPlacedWorkload v)) a))"

definition finalizerOwnership_Validate :: "request_ctx \<Rightarrow> 'q attributes \<Rightarrow> (admission_error, unit) result" where
  "finalizerOwnership_Validate ctx a =
     (if at_operation a = OpDelete \<or> IsSubresource a \<or> ctx = None then Inr ()
      else if om_deletion_timestamp (ao_meta (at_object a)) = None then Inr ()
      else if (case at_old a of None \<Rightarrow> False | Some old \<Rightarrow> om_deletion_timestamp (ao_meta old) \<noteq> None) then Inr ()
      else Inl (Forbidden ''metadata.deletionTimestamp''))"

section \<open>Children of a set (child\_ownership.go)\<close>

definition clientWrittenApp :: "request_ctx \<Rightarrow> 'q attributes \<Rightarrow> 'q application option" where
  "clientWrittenApp ctx a =
     (if at_operation a = OpDelete \<or> IsSubresource a \<or> ctx = None then None else as_application (at_value a))"

definition old_application :: "'q attributes \<Rightarrow> 'q application option" where
  "old_application a = (case at_old a of None \<Rightarrow> None | Some old \<Rightarrow> as_application (ao_value old))"

definition carryOver :: "(string, string) gomap \<Rightarrow> string \<Rightarrow> (string, string) gomap \<Rightarrow> (string, string) gomap" where
  "carryOver old key dst = (case map_of old key of Some v \<Rightarrow> goput key v dst | None \<Rightarrow> godel key dst)"

definition carry_ownership :: "object_meta \<Rightarrow> object_meta \<Rightarrow> object_meta" where
  "carry_ownership old m =
     m\<lparr>om_owner_references := om_owner_references old,
       om_annotations := carryOver (om_annotations old) AnnAppsetSpecHash (om_annotations m),
       om_labels := fold (carryOver (om_labels old)) ReservedChildLabels (om_labels m)\<rparr>"

definition childOwnership_Admit :: "request_ctx \<Rightarrow> 'q attributes \<Rightarrow> (admission_error, 'q attributes) result" where
  "childOwnership_Admit ctx a =
     (case clientWrittenApp ctx a of
        None \<Rightarrow> Inr a
      | Some app \<Rightarrow>
          (case at_operation a of
             OpCreate \<Rightarrow>
               if AppsetOwner app \<noteq> None then Inl (Forbidden ''metadata.ownerReferences'')
               else if gohas (om_annotations (app_meta app)) AnnAppsetSpecHash then Inl (Forbidden ''metadata.annotations'')
               else if list_ex (\<lambda>k. gohas (app_labels app) k) ReservedChildLabels then Inl (Forbidden ''metadata.labels'')
               else Inr a
           | OpUpdate \<Rightarrow>
               (case old_application a of
                  None \<Rightarrow> Inr a
                | Some old \<Rightarrow>
                    Inr (set_value (VApplication (app\<lparr>app_meta := carry_ownership (app_meta old) (app_meta app)\<rparr>)) a))
           | OpDelete \<Rightarrow> Inr a))"

definition childOwnership_Validate :: "request_ctx \<Rightarrow> 'q attributes \<Rightarrow> (admission_error, unit) result" where
  "childOwnership_Validate ctx a =
     (case clientWrittenApp ctx a of
        None \<Rightarrow> Inr ()
      | Some app \<Rightarrow>
          if at_operation a \<noteq> OpUpdate then Inr ()
          else (case old_application a of
                  None \<Rightarrow> Inr ()
                | Some old \<Rightarrow>
                    if AppsetOwner old = None \<or> app_spec app = app_spec old then Inr ()
                    else Inl (Forbidden ''spec: owned by an applicationset'')))"

end
