(* ===== verification/ApiCodec.thy ===== *)
theory ApiCodec
  imports Admission
begin

text \<open>
  The typed objects as the stores see them: every Kind is its type meta, its metadata and its other
  top-level JSON fields, in the order of the struct. A field marked \<open>omitempty\<close> is absent when it is
  empty, and an absent field reads as the zero value.
\<close>

datatype 'q api_field =
    FAppSpec "'q application_spec" | FAppStatus application_status
  | FSetSpec "'q application_set_spec" | FSetStatus application_set_status
  | FServiceSpec string "service_port list"
  | FNodeSpec bool | FNodeStatus "'q node_status"
  | FPVSpec 'q string string string bool
  | FBool bool | FString string | FMap "(string, string) gomap"
  | FRules "policy_rule list" | FBinding "subject list" role_ref
  | FCsrSpec string "string list" string | FCsrStatus csr_status
  | FStoreSpec secret_store_spec

type_synonym 'q jobject = "'q api_field object"

section \<open>Zero values\<close>

definition zero_lifecycle :: lifecycle where
  "zero_lifecycle = \<lparr>lc_restart_policy = [], lc_termination_grace_period_seconds = None,
     lc_active_deadline_seconds = None, lc_backoff_limit = None\<rparr>"

definition zero_application_spec :: "('q::zero) application_spec" where
  "zero_application_spec =
     \<lparr>as_image = [], as_command = [], as_args = [], as_env = [], as_ports = [],
      as_resources = \<lparr>rr_requests = zero_amounts, rr_limits = zero_amounts\<rparr>,
      as_lifecycle = zero_lifecycle,
      as_placement = \<lparr>pl_node_name = [], pl_node_selector = [], pl_affinity = None, pl_priority = None\<rparr>,
      as_host_network = None, as_service_name = [], as_runtime_class_name = [],
      as_security_context = None, as_volumes = []\<rparr>"

definition zero_set_spec :: "'q application_set_spec" where
  "zero_set_spec =
     \<lparr>ass_applications = [], ass_common = \<lparr>com_labels = [], com_annotations = [], com_env = [], com_volumes = []\<rparr>,
      ass_placement_mode = [], ass_rollout = \<lparr>ro_max_unavailable = 0, ro_prune = None\<rparr>\<rparr>"

definition zero_set_status :: application_set_status where
  "zero_set_status =
     \<lparr>asst_phase = [], asst_observed_resource_version = [], asst_desired = 0, asst_current = 0,
      asst_scheduled = 0, asst_running = 0, asst_children = [], asst_conditions = []\<rparr>"

definition zero_node_status :: "('q::zero) node_status" where
  "zero_node_status =
     \<lparr>nst_capacity = zero_amounts, nst_allocated = zero_amounts, nst_os = [], nst_ip = [], nst_ready = False,
      nst_heartbeat = None, nst_runtimes = [], nst_platform = \<lparr>pf_os = [], pf_arch = []\<rparr>,
      nst_routed_network = False, nst_labels = []\<rparr>"

definition zero_csr_status :: csr_status where
  "zero_csr_status = \<lparr>cst_phase = [], cst_certificate = [], cst_reason = []\<rparr>"

definition zero_store_spec :: secret_store_spec where
  "zero_store_spec =
     \<lparr>sss_provider = [], sss_server = [], sss_mount = [], sss_kv_version = 0, sss_vault_namespace = [],
      sss_ca_bundle = [], sss_auth = \<lparr>sau_method = [], sau_path = [], sau_role = []\<rparr>\<rparr>"

section \<open>Encoding\<close>

definition opt_field :: "bool \<Rightarrow> string \<Rightarrow> 'q api_field \<Rightarrow> (string, 'q api_field) gomap" where
  "opt_field present k f = (if present then [(k, f)] else [])"

fun value_body :: "'q api_value \<Rightarrow> (string, 'q api_field) gomap" where
  "value_body (VApplication a) = [(''spec'', FAppSpec (app_spec a)), (''status'', FAppStatus (app_status a))]"
| "value_body (VApplicationSet s) = [(''spec'', FSetSpec (aset_spec s)), (''status'', FSetStatus (aset_status s))]"
| "value_body (VService s) = [(''spec'', FServiceSpec (svc_cluster_ip s) (svc_ports s))]"
| "value_body (VNode n) = [(''spec'', FNodeSpec (nd_unschedulable n)), (''status'', FNodeStatus (nd_status n))]"
| "value_body (VNamespace n) = []"
| "value_body (VPersistentVolume p) =
     [(''spec'', FPVSpec (pv_size p) (pv_node p) (pv_mode p) (pv_reclaim_policy p) (pv_shared p))]"
| "value_body (VSecret s) =
     opt_field (sec_immutable s \<noteq> None) ''immutable'' (FBool (sec_immutable s = Some True)) @
     opt_field (sec_type s \<noteq> []) ''type'' (FString (sec_type s)) @
     opt_field (sec_data s \<noteq> []) ''data'' (FMap (sec_data s)) @
     opt_field (sec_string_data s \<noteq> []) ''stringData'' (FMap (sec_string_data s))"
| "value_body (VRole r) = [(''spec'', FRules (role_rules r))]"
| "value_body (VClusterRole r) = [(''spec'', FRules (role_rules r))]"
| "value_body (VRoleBinding b) = [(''spec'', FBinding (rb_subjects b) (rb_role_ref b))]"
| "value_body (VClusterRoleBinding b) = [(''spec'', FBinding (rb_subjects b) (rb_role_ref b))]"
| "value_body (VCSR c) =
     [(''spec'', FCsrSpec (csr_request c) (csr_groups c) (csr_node_name c)), (''status'', FCsrStatus (csr_stat c))]"
| "value_body (VSecretStore s) = [(''spec'', FStoreSpec (sst_spec s))]"

definition enc_object :: "'q api_object \<Rightarrow> 'q jobject" where
  "enc_object ob =
     \<lparr>o_api_version = ao_api_version ob, o_kind = ao_kind ob, o_meta = ao_meta ob, o_body = value_body (ao_value ob)\<rparr>"

section \<open>Decoding\<close>

definition spec_field :: "'q jobject \<Rightarrow> 'q api_field option" where
  "spec_field ob = map_of (o_body ob) ''spec''"

definition status_field :: "'q jobject \<Rightarrow> 'q api_field option" where
  "status_field ob = map_of (o_body ob) ''status''"

definition map_field :: "'q jobject \<Rightarrow> string \<Rightarrow> (string, string) gomap" where
  "map_field ob k = (case map_of (o_body ob) k of Some (FMap m) \<Rightarrow> m | _ \<Rightarrow> [])"

definition dec_application :: "('q::zero) jobject \<Rightarrow> 'q application" where
  "dec_application ob =
     \<lparr>app_meta = o_meta ob,
      app_spec = (case spec_field ob of Some (FAppSpec s) \<Rightarrow> s | _ \<Rightarrow> zero_application_spec),
      app_status = (case status_field ob of Some (FAppStatus s) \<Rightarrow> s | _ \<Rightarrow> zero_application_status)\<rparr>"

definition dec_application_set :: "'q jobject \<Rightarrow> 'q application_set" where
  "dec_application_set ob =
     \<lparr>aset_meta = o_meta ob,
      aset_spec = (case spec_field ob of Some (FSetSpec s) \<Rightarrow> s | _ \<Rightarrow> zero_set_spec),
      aset_status = (case status_field ob of Some (FSetStatus s) \<Rightarrow> s | _ \<Rightarrow> zero_set_status)\<rparr>"

definition dec_service :: "'q jobject \<Rightarrow> service" where
  "dec_service ob =
     (case spec_field ob of
        Some (FServiceSpec ip ps) \<Rightarrow> \<lparr>svc_meta = o_meta ob, svc_cluster_ip = ip, svc_ports = ps\<rparr>
      | _ \<Rightarrow> \<lparr>svc_meta = o_meta ob, svc_cluster_ip = [], svc_ports = []\<rparr>)"

definition dec_node :: "('q::zero) jobject \<Rightarrow> 'q node" where
  "dec_node ob =
     \<lparr>nd_meta = o_meta ob,
      nd_unschedulable = (case spec_field ob of Some (FNodeSpec b) \<Rightarrow> b | _ \<Rightarrow> False),
      nd_status = (case status_field ob of Some (FNodeStatus s) \<Rightarrow> s | _ \<Rightarrow> zero_node_status)\<rparr>"

definition dec_pv :: "('q::zero) jobject \<Rightarrow> 'q persistent_volume" where
  "dec_pv ob =
     (case spec_field ob of
        Some (FPVSpec sz nd md rp sh) \<Rightarrow>
          \<lparr>pv_meta = o_meta ob, pv_size = sz, pv_node = nd, pv_mode = md, pv_reclaim_policy = rp, pv_shared = sh\<rparr>
      | _ \<Rightarrow> \<lparr>pv_meta = o_meta ob, pv_size = 0, pv_node = [], pv_mode = [], pv_reclaim_policy = [], pv_shared = False\<rparr>)"

definition dec_secret :: "'q jobject \<Rightarrow> secret" where
  "dec_secret ob =
     \<lparr>sec_meta = o_meta ob,
      sec_immutable = (case map_of (o_body ob) ''immutable'' of Some (FBool b) \<Rightarrow> Some b | _ \<Rightarrow> None),
      sec_type = (case map_of (o_body ob) ''type'' of Some (FString s) \<Rightarrow> s | _ \<Rightarrow> []),
      sec_data = map_field ob ''data'', sec_string_data = map_field ob ''stringData''\<rparr>"

definition dec_role :: "'q jobject \<Rightarrow> role" where
  "dec_role ob = \<lparr>role_meta = o_meta ob, role_rules = (case spec_field ob of Some (FRules r) \<Rightarrow> r | _ \<Rightarrow> [])\<rparr>"

definition dec_binding :: "'q jobject \<Rightarrow> role_binding" where
  "dec_binding ob =
     (case spec_field ob of
        Some (FBinding ss r) \<Rightarrow> \<lparr>rb_meta = o_meta ob, rb_subjects = ss, rb_role_ref = r\<rparr>
      | _ \<Rightarrow> \<lparr>rb_meta = o_meta ob, rb_subjects = [], rb_role_ref = \<lparr>rf_kind = [], rf_name = []\<rparr>\<rparr>)"

definition dec_csr :: "'q jobject \<Rightarrow> csr" where
  "dec_csr ob =
     (case spec_field ob of
        Some (FCsrSpec r g n) \<Rightarrow>
          \<lparr>csr_meta = o_meta ob, csr_request = r, csr_groups = g, csr_node_name = n,
           csr_stat = (case status_field ob of Some (FCsrStatus s) \<Rightarrow> s | _ \<Rightarrow> zero_csr_status)\<rparr>
      | _ \<Rightarrow>
          \<lparr>csr_meta = o_meta ob, csr_request = [], csr_groups = [], csr_node_name = [],
           csr_stat = (case status_field ob of Some (FCsrStatus s) \<Rightarrow> s | _ \<Rightarrow> zero_csr_status)\<rparr>)"

definition dec_secret_store :: "'q jobject \<Rightarrow> secret_store" where
  "dec_secret_store ob =
     \<lparr>sst_meta = o_meta ob, sst_spec = (case spec_field ob of Some (FStoreSpec s) \<Rightarrow> s | _ \<Rightarrow> zero_store_spec)\<rparr>"

text \<open>The type the scheme registers for a Kind.\<close>

definition dec_value :: "('q::zero) jobject \<Rightarrow> 'q api_value option" where
  "dec_value ob =
     (if o_api_version ob = core_gv then
        (if o_kind ob = ''Application'' then Some (VApplication (dec_application ob))
         else if o_kind ob = ''ApplicationSet'' then Some (VApplicationSet (dec_application_set ob))
         else if o_kind ob = ''Service'' then Some (VService (dec_service ob))
         else if o_kind ob = ''Node'' then Some (VNode (dec_node ob))
         else if o_kind ob = ''Namespace'' then Some (VNamespace \<lparr>ns_meta = o_meta ob\<rparr>)
         else if o_kind ob = ''PersistentVolume'' then Some (VPersistentVolume (dec_pv ob))
         else if o_kind ob = ''Secret'' then Some (VSecret (dec_secret ob))
         else None)
      else if o_api_version ob = rbac_gv then
        (if o_kind ob = ''Role'' then Some (VRole (dec_role ob))
         else if o_kind ob = ''ClusterRole'' then Some (VClusterRole (dec_role ob))
         else if o_kind ob = ''RoleBinding'' then Some (VRoleBinding (dec_binding ob))
         else if o_kind ob = ''ClusterRoleBinding'' then Some (VClusterRoleBinding (dec_binding ob))
         else None)
      else if o_api_version ob = ''certificates.horchestra.io/v1'' \<and> o_kind ob = ''CertificateSigningRequest''
      then Some (VCSR (dec_csr ob))
      else if o_api_version ob = secrets_gv \<and> o_kind ob = ''SecretStore''
      then Some (VSecretStore (dec_secret_store ob))
      else None)"

definition dec_object :: "('q::zero) jobject \<Rightarrow> 'q api_object option" where
  "dec_object ob =
     map_option (\<lambda>v. \<lparr>ao_api_version = o_api_version ob, ao_kind = o_kind ob, ao_value = v\<rparr>) (dec_value ob)"

section \<open>Round trip\<close>

text \<open>The type meta of a value.\<close>

fun kind_of :: "'q api_value \<Rightarrow> string \<times> string" where
  "kind_of (VApplication _) = (core_gv, ''Application'')"
| "kind_of (VApplicationSet _) = (core_gv, ''ApplicationSet'')"
| "kind_of (VService _) = (core_gv, ''Service'')"
| "kind_of (VNode _) = (core_gv, ''Node'')"
| "kind_of (VNamespace _) = (core_gv, ''Namespace'')"
| "kind_of (VPersistentVolume _) = (core_gv, ''PersistentVolume'')"
| "kind_of (VSecret _) = (core_gv, ''Secret'')"
| "kind_of (VRole _) = (rbac_gv, ''Role'')"
| "kind_of (VClusterRole _) = (rbac_gv, ''ClusterRole'')"
| "kind_of (VRoleBinding _) = (rbac_gv, ''RoleBinding'')"
| "kind_of (VClusterRoleBinding _) = (rbac_gv, ''ClusterRoleBinding'')"
| "kind_of (VCSR _) = (''certificates.horchestra.io/v1'', ''CertificateSigningRequest'')"
| "kind_of (VSecretStore _) = (secrets_gv, ''SecretStore'')"

definition typed :: "'q api_object \<Rightarrow> bool" where
  "typed ob \<longleftrightarrow> (ao_api_version ob, ao_kind ob) = kind_of (ao_value ob)"

lemmas dec_defs = dec_value_def dec_application_def dec_application_set_def dec_service_def dec_node_def
  dec_pv_def dec_secret_def dec_role_def dec_binding_def dec_csr_def dec_secret_store_def spec_field_def status_field_def map_field_def
  opt_field_def

lemma dec_enc_object: "typed ob \<Longrightarrow> dec_object (enc_object ob) = Some ob"
  by (cases ob; cases "ao_value ob") (auto simp: typed_def dec_object_def enc_object_def dec_defs)

lemma wf_enc_object: "wf_object (enc_object ob)"
  by (cases "ao_value ob") (auto simp: wf_object_def enc_object_def opt_field_def type_meta_field_def)

end
