(* ===== verification/AdmissionWorkload.thy ===== *)
theory AdmissionWorkload
  imports Admission
begin

text \<open>
  The admission plugins that decide what a workload may be: its host ids
  (\<^verbatim>\<open>uid_allocation.go\<close>), the no-root floor (\<^verbatim>\<open>policy.go\<close>), its spec (\<^verbatim>\<open>app_policy.go\<close>), the capacity of
  the node it is pinned to (\<^verbatim>\<open>capacity_check.go\<close>) and the sets that render it
  (\<^verbatim>\<open>applicationset.go\<close>).
\<close>

section \<open>Host ids (uid\_allocation.go)\<close>

definition blockOf :: "'q lister \<Rightarrow> string \<Rightarrow> (admission_error, id_range) result" where
  "blockOf l name =
     rbind (list_as as_namespace l ''Namespace'') (\<lambda>nss.
       case find (\<lambda>ns. om_name (ns_meta ns) = name) nss of
         None \<Rightarrow> Inr \<lparr>ir_min = 0, ir_size = 0\<rparr>
       | Some ns \<Rightarrow>
           (let raw = goget [] (om_annotations (ns_meta ns)) UIDRangeAnnotation
            in if raw = [] then Inr \<lparr>ir_min = 0, ir_size = 0\<rparr>
               else of_string_error Forbidden (ParseIDRange raw)))"

definition taken_blocks :: "namespace \<Rightarrow> namespace list \<Rightarrow> int list" where
  "taken_blocks ns others =
     List.map_filter
       (\<lambda>o'. if om_name (ns_meta o') = om_name (ns_meta ns) then None
             else case ParseIDRange (goget [] (om_annotations (ns_meta o')) UIDRangeAnnotation) of
                    Inl _ \<Rightarrow> None | Inr r \<Rightarrow> Some (ir_min r))
       others"

text \<open>The walk over the blocks, from the \<open>i\<close>-th on; \<open>int64\<close> does not overflow below \<open>MaxRunAsID\<close>.\<close>

function free_block :: "int list \<Rightarrow> nat \<Rightarrow> int option" where
  "free_block taken i =
     (let lo = WorkloadUIDBase + int i * WorkloadUIDBlock
      in if MaxRunAsID < lo + WorkloadUIDBlock - 1 then None
         else if lo \<in> set taken then free_block taken (i + 1)
         else Some lo)"
  by pat_completeness auto
termination
  by (relation "measure (\<lambda>(taken, i). nat (MaxRunAsID - int i))") auto

definition assignBlock :: "'q lister \<Rightarrow> namespace \<Rightarrow> (admission_error, namespace) result" where
  "assignBlock l ns =
     (let cur = goget [] (om_annotations (ns_meta ns)) UIDRangeAnnotation
      in if cur \<noteq> []
         then rbind (of_string_error Forbidden (ParseIDRange cur)) (\<lambda>_. Inr ns)
         else rbind (list_as as_namespace l ''Namespace'') (\<lambda>others.
                case free_block (taken_blocks ns others) 0 of
                  None \<Rightarrow> Inl (Forbidden ''no free uid block left'')
                | Some lo \<Rightarrow>
                    Inr (ns\<lparr>ns_meta := (ns_meta ns)
                      \<lparr>om_annotations := goput UIDRangeAnnotation
                          (IDRange_String \<lparr>ir_min = lo, ir_size = WorkloadUIDBlock\<rparr>) (om_annotations (ns_meta ns))\<rparr>\<rparr>)))"

definition app_uid :: "'q application \<Rightarrow> int option" where
  "app_uid app = (case as_security_context (app_spec app) of None \<Rightarrow> None | Some sc \<Rightarrow> sc_run_as_user sc)"

definition app_gid :: "'q application \<Rightarrow> int option" where
  "app_gid app = (case as_security_context (app_spec app) of None \<Rightarrow> None | Some sc \<Rightarrow> sc_run_as_group sc)"

definition taken_ids :: "'q application \<Rightarrow> 'q application list \<Rightarrow> int list" where
  "taken_ids app apps =
     List.map_filter app_uid
       (filter (\<lambda>o'. app_namespace o' = app_namespace app \<and> app_name o' \<noteq> app_name app) apps)"

function free_id :: "int list \<Rightarrow> int \<Rightarrow> int \<Rightarrow> int option" where
  "free_id taken i hi =
     (if \<not> i < hi then None else if i \<in> set taken then free_id taken (i + 1) hi else Some i)"
  by pat_completeness auto
termination
  by (relation "measure (\<lambda>(taken, i, hi). nat (hi - i))") auto

declare free_block.simps [simp del] free_id.simps [simp del]

definition set_security_context :: "security_context \<Rightarrow> 'q application \<Rightarrow> 'q application" where
  "set_security_context sc app = app\<lparr>app_spec := (app_spec app)\<lparr>as_security_context := Some sc\<rparr>\<rparr>"

definition security_context_of :: "'q application \<Rightarrow> security_context" where
  "security_context_of app =
     (case as_security_context (app_spec app) of
        None \<Rightarrow> \<lparr>sc_run_as_user = None, sc_run_as_group = None\<rparr> | Some sc \<Rightarrow> sc)"

definition assignWorkloadID :: "'q lister \<Rightarrow> 'q application \<Rightarrow> (admission_error, 'q application) result" where
  "assignWorkloadID l app =
     rbind (blockOf l (app_namespace app)) (\<lambda>block.
       if IDRange_IsZero block then Inr app
       else let sc0 = security_context_of app;
                sc = (if sc_run_as_group sc0 = None then sc0\<lparr>sc_run_as_group := Some (ir_min block)\<rparr> else sc0)
            in if sc_run_as_user sc \<noteq> None then Inr (set_security_context sc app)
               else rbind (list_as as_application l ''Application'') (\<lambda>apps.
                      case free_id (taken_ids app apps) (ir_min block) (wrap64 (ir_min block + ir_size block)) of
                        None \<Rightarrow> Inl (Forbidden ''no free id left in the block'')
                      | Some i \<Rightarrow> Inr (set_security_context (sc\<lparr>sc_run_as_user := Some i\<rparr>) app)))"

definition uidAllocation_Admit ::
  "'q lister option \<Rightarrow> request_ctx \<Rightarrow> 'q attributes \<Rightarrow> (admission_error, 'q attributes) result" where
  "uidAllocation_Admit lo ctx a =
     (case lo of
        None \<Rightarrow> Inr a
      | Some l \<Rightarrow>
          if at_operation a = OpDelete \<or> IsSubresource a then Inr a
          else (case at_value a of
                  VNamespace ns \<Rightarrow> rbind (assignBlock l ns) (\<lambda>ns'. Inr (set_value (VNamespace ns') a))
                | VApplication app \<Rightarrow> rbind (assignWorkloadID l app) (\<lambda>app'. Inr (set_value (VApplication app') a))
                | _ \<Rightarrow> Inr a))"

definition in_block :: "id_range \<Rightarrow> int option \<Rightarrow> bool" where
  "in_block block i = (case i of None \<Rightarrow> True | Some j \<Rightarrow> IDRange_Contains block j)"

definition uidAllocation_Validate ::
  "'q lister option \<Rightarrow> request_ctx \<Rightarrow> 'q attributes \<Rightarrow> (admission_error, unit) result" where
  "uidAllocation_Validate lo ctx a =
     (case lo of
        None \<Rightarrow> Inr ()
      | Some l \<Rightarrow>
          if at_operation a = OpDelete \<or> IsSubresource a then Inr ()
          else (case as_application (at_value a) of
                  None \<Rightarrow> Inr ()
                | Some app \<Rightarrow>
                    rbind (blockOf l (app_namespace app)) (\<lambda>block.
                      if IDRange_IsZero block then Inr ()
                      else case as_security_context (app_spec app) of
                             None \<Rightarrow> Inr ()
                           | Some sc \<Rightarrow>
                               if \<not> in_block block (sc_run_as_user sc) then Inl (Forbidden ''spec.securityContext.runAsUser'')
                               else if \<not> in_block block (sc_run_as_group sc) then Inl (Forbidden ''spec.securityContext.runAsGroup'')
                               else Inr ())))"

section \<open>The no-root floor (policy.go)\<close>

definition policyEnforcement_Admit :: "request_ctx \<Rightarrow> 'q attributes \<Rightarrow> (admission_error, 'q attributes) result" where
  "policyEnforcement_Admit ctx a =
     (if at_operation a = OpDelete then Inr a
      else case as_application (at_value a) of
             None \<Rightarrow> Inr a
           | Some app \<Rightarrow>
               let sc = security_context_of app;
                   sc = (if sc_run_as_user sc = None then sc\<lparr>sc_run_as_user := Some DefaultRunAsID\<rparr> else sc);
                   sc = (if sc_run_as_group sc = None then sc\<lparr>sc_run_as_group := Some DefaultRunAsID\<rparr> else sc)
               in Inr (set_value (VApplication (set_security_context sc app)) a))"

abbreviation execModifiers :: string where "execModifiers \<equiv> ''@-:+!''"

definition env_clean :: "env_var \<Rightarrow> bool" where
  "env_clean e \<longleftrightarrow> \<not> contains_any (ev_name e) line_breaks \<and> \<not> contains_any (ev_value e) line_breaks"

definition check_exec_env :: "env_var \<Rightarrow> string list \<Rightarrow> (admission_error, string list) result" where
  "check_exec_env e seen =
     (if \<not> env_clean e then Inl (Forbidden ''spec.env: control characters'')
      else if ev_name e \<in> set seen then Inl (Forbidden ''spec.env: duplicate name'')
      else Inr (ev_name e # seen))"

definition validateExecInputs :: "'q application_spec \<Rightarrow> (admission_error, unit) result" where
  "validateExecInputs spec =
     (if (case as_command spec of (m # _) # _ \<Rightarrow> m \<in> set execModifiers | _ \<Rightarrow> False)
      then Inl (Forbidden ''spec.command[0]: ExecStart modifier'')
      else if list_ex (\<lambda>v. contains_any v line_breaks) (as_command spec) then Inl (Forbidden ''spec.command: control characters'')
      else if list_ex (\<lambda>v. contains_any v line_breaks) (as_args spec) then Inl (Forbidden ''spec.args: control characters'')
      else rbind (rfold check_exec_env (as_env spec) []) (\<lambda>_. Inr ()))"

definition policyEnforcement_Validate :: "request_ctx \<Rightarrow> 'q attributes \<Rightarrow> (admission_error, unit) result" where
  "policyEnforcement_Validate ctx a =
     (if at_operation a = OpDelete then Inr ()
      else case as_application (at_value a) of
             None \<Rightarrow> Inr ()
           | Some app \<Rightarrow>
               (case app_uid app of
                  None \<Rightarrow> Inl (Forbidden ''spec.securityContext.runAsUser: the no-root floor forbids running as uid 0'')
                | Some u \<Rightarrow>
                    rbind (of_string_error Forbidden (ValidRunAsID ''spec.securityContext.runAsUser'' u)) (\<lambda>_.
                    rbind (case app_gid app of
                             None \<Rightarrow> Inr ()
                           | Some g \<Rightarrow> of_string_error Forbidden (ValidRunAsID ''spec.securityContext.runAsGroup'' g)) (\<lambda>_.
                    validateExecInputs (app_spec app)))))"

end
