(* ===== verification/AdmissionPolicy.thy ===== *)
theory AdmissionPolicy
  imports AdmissionWorkload
begin

text \<open>
  The remaining admission plugins over one object: the spec of an Application
  (\<^verbatim>\<open>app_policy.go\<close>), the capacity of its node (\<^verbatim>\<open>capacity_check.go\<close>), Secrets
  (\<^verbatim>\<open>secret_policy.go\<close>), certificate requests (\<^verbatim>\<open>csr_policy.go\<close>), RBAC rules
  (\<^verbatim>\<open>rbac_rules.go\<close>) and Nodes (\<^verbatim>\<open>node_policy.go\<close>, \<^verbatim>\<open>node_restriction.go\<close>). Decoding a PEM
  certificate request and checking its signature (\<^verbatim>\<open>encoding/pem\<close>, \<^verbatim>\<open>crypto/x509\<close>) is the parameter
  \<open>csr_cn\<close>: the common name the request carries, or the error.
\<close>

section \<open>Applications (app\_policy.go)\<close>

abbreviation maxVolumesPerApp :: nat where "maxVolumesPerApp \<equiv> 64"
abbreviation maxEnvPerApp :: nat where "maxEnvPerApp \<equiv> 256"

definition jobFieldsAreForJobs :: "lifecycle \<Rightarrow> (admission_error, unit) result" where
  "jobFieldsAreForJobs lc =
     (if RunToCompletion lc then Inr ()
      else if lc_active_deadline_seconds lc \<noteq> None then Inl (Rejected ''spec.lifecycle.activeDeadlineSeconds'')
      else if lc_backoff_limit lc \<noteq> None then Inl (Rejected ''spec.lifecycle.backoffLimit'')
      else Inr ())"

definition check_volume :: "('q::zero) volume_mount \<Rightarrow> (admission_error, unit) result" where
  "check_volume v =
     rbind
       (if IsPV v \<or> IsTmpfs v then Inr ()
        else if IsToken v then
          (if vs_name (vm_volume v) \<noteq> [] then Inl (Rejected ''spec.volumes: a token volume names no object'')
           else if vs_items (vm_volume v) \<noteq> [] then Inl (Rejected ''spec.volumes: a token volume has no keys to select'')
           else if vs_size (vm_volume v) \<noteq> 0 then Inl (Rejected ''spec.volumes: a token volume must not set size'')
           else if vs_audience (vm_volume v) \<noteq> [] \<and>
                   ValidBaseName (vs_audience (vm_volume v)) ''volume.audience'' \<noteq> Inr ()
           then Inl (Rejected ''spec.volumes: not a usable audience'')
           else Inr ())
        else if VolumeMount_IsSecret v then
          (if vs_name (vm_volume v) = [] then Inl (Rejected ''spec.volumes: a secret volume requires volume.name'')
           else if vs_size (vm_volume v) \<noteq> 0 then Inl (Rejected ''spec.volumes: a secret volume must not set size'')
           else rfold (\<lambda>it _. of_string_error Rejected (ValidRelPath (ktp_path it))) (vs_items (vm_volume v)) ())
        else Inl (Rejected ''spec.volumes: unknown volume type''))
       (\<lambda>_. of_string_error Rejected (ValidMountPath (vm_mount_path v)))"

definition check_env :: "env_var \<Rightarrow> string list \<Rightarrow> (admission_error, string list) result" where
  "check_env v claimed =
     (let claim = (if ev_name v \<in> set claimed then Inl (Rejected ''spec.env: declared twice'')
                   else Inr (ev_name v # claimed))
      in case ev_secret_ref v of
           None \<Rightarrow>
             rbind (of_string_error Rejected (ValidEnvName (ev_name v) ''name'')) (\<lambda>_.
             rbind (of_string_error Rejected (ValidEnvValue (ev_name v) (ev_value v))) (\<lambda>_. claim))
         | Some ref \<Rightarrow>
             if ev_value v \<noteq> [] then Inl (Rejected ''spec.env: set either value or secretRef, not both'')
             else if esr_name ref = [] then Inl (Rejected ''spec.env: secretRef requires name'')
             else if esr_key ref = [] then Inl (Rejected ''spec.env: secretRef requires key'')
             else rbind (of_string_error Rejected (ValidEnvPrefix (esr_prefix ref))) (\<lambda>_.
               if EnvSecretRef_IsWildcard ref then
                 (if ev_name v \<noteq> [] then Inl (Rejected ''spec.env: a wildcard secretRef must not set name'')
                  else Inr claimed)
               else
                 rbind (of_string_error Rejected (ValidEnvName (ev_name v) ''name'')) (\<lambda>_.
                 rbind (of_string_error Rejected (ValidBaseName (esr_key ref) ''secretRef.key'')) (\<lambda>_.
                 if esr_prefix ref \<noteq> [] then Inl (Rejected ''spec.env: secretRef.prefix applies only to a wildcard key'')
                 else claim))))"

definition validateEnv :: "env_var list \<Rightarrow> (admission_error, unit) result" where
  "validateEnv env =
     (if maxEnvPerApp < length env then Inl (Rejected ''spec.env: too many entries'')
      else rbind (rfold check_env env []) (\<lambda>_. Inr ()))"

definition check_resources :: "('q::linordered_ab_group_add) resource_requirements \<Rightarrow> (admission_error, unit) result" where
  "check_resources r =
     (if ra_cpu (rr_requests r) < 0 \<or> ra_memory (rr_requests r) < 0 \<or> ra_cpu (rr_limits r) < 0 \<or> ra_memory (rr_limits r) < 0
      then Inl (Rejected ''spec.resources: requests and limits must not be negative'')
      else if ra_cpu (rr_limits r) \<noteq> 0 \<and> ra_cpu (rr_limits r) < ra_cpu (rr_requests r)
      then Inl (Rejected ''spec.resources: cpu request exceeds limit'')
      else if ra_memory (rr_limits r) \<noteq> 0 \<and> ra_memory (rr_limits r) < ra_memory (rr_requests r)
      then Inl (Rejected ''spec.resources: memory request exceeds limit'')
      else Inr ())"

definition appPolicy_Validate ::
  "bool \<Rightarrow> request_ctx \<Rightarrow> ('q::linordered_ab_group_add) attributes \<Rightarrow> (admission_error, unit) result" where
  "appPolicy_Validate routedNetwork ctx a =
     (if at_operation a = OpDelete \<or> IsSubresource a then Inr ()
      else case as_application (at_value a) of
             None \<Rightarrow> Inr ()
           | Some app \<Rightarrow>
               if as_host_network (app_spec app) = Some False \<and> \<not> routedNetwork
               then Inl (Rejected ''spec.hostNetwork: this cluster has no routed network'')
               else rbind (jobFieldsAreForJobs (as_lifecycle (app_spec app))) (\<lambda>_.
                    rbind (check_resources (as_resources (app_spec app))) (\<lambda>_.
                    if maxVolumesPerApp < length (as_volumes (app_spec app)) then Inl (Rejected ''spec.volumes: too many'')
                    else rbind (rfold (\<lambda>v _. check_volume v) (as_volumes (app_spec app)) ()) (\<lambda>_.
                         validateEnv (as_env (app_spec app))))))"

section \<open>Capacity (capacity\_check.go)\<close>

definition totalRequestsOnNode :: "('q::ab_group_add) application \<Rightarrow> 'q application list \<Rightarrow> 'q resource_amounts" where
  "totalRequestsOnNode app apps =
     fold (\<lambda>o' total.
             if app_namespace o' = app_namespace app \<and> app_name o' = app_name app \<or>
                app_node_name o' \<noteq> app_node_name app \<or> Finished o'
             then total else ResourceAmounts_Add total (app_requests o'))
       apps (app_requests app)"

definition nodeCapacity :: "('q::zero) node list \<Rightarrow> string \<Rightarrow> 'q resource_amounts" where
  "nodeCapacity nodes name =
     (case find (\<lambda>n. nd_name n = name) nodes of None \<Rightarrow> zero_amounts | Some n \<Rightarrow> nst_capacity (nd_status n))"

definition capacityCheck_Validate ::
  "('q::linordered_ab_group_add) lister option \<Rightarrow> request_ctx \<Rightarrow> 'q attributes \<Rightarrow> (admission_error, unit) result" where
  "capacityCheck_Validate lo ctx a =
     (case lo of
        None \<Rightarrow> Inr ()
      | Some l \<Rightarrow>
          if at_operation a = OpDelete \<or> IsSubresource a then Inr ()
          else case as_application (at_value a) of
                 None \<Rightarrow> Inr ()
               | Some app \<Rightarrow>
                   if ResourceAmounts_IsZero (app_requests app) \<or> app_node_name app = [] then Inr ()
                   else rbind (list_as as_application l ''Application'') (\<lambda>apps.
                        rbind (list_as as_node l ''Node'') (\<lambda>nodes.
                        if Exceeds (totalRequestsOnNode app apps) (nodeCapacity nodes (app_node_name app)) True \<noteq> []
                        then Inl (Forbidden ''requests exceed capacity of node'')
                        else Inr ())))"

section \<open>Secrets (secret\_policy.go)\<close>

abbreviation maxSecretBytes :: nat where "maxSecretBytes \<equiv> 1048576"

definition secretPolicy_Admit :: "request_ctx \<Rightarrow> 'q attributes \<Rightarrow> (admission_error, 'q attributes) result" where
  "secretPolicy_Admit ctx a =
     (case as_secret (at_value a) of
        None \<Rightarrow> Inr a
      | Some sec \<Rightarrow>
          let sec = (if sec_type sec = [] then sec\<lparr>sec_type := SecretTypeOpaque\<rparr> else sec)
          in Inr (set_value (VSecret (sec\<lparr>sec_data := gocopy (sec_data sec) (sec_string_data sec), sec_string_data := []\<rparr>)) a))"

definition vault_sources :: "secret \<Rightarrow> (string \<times> string \<times> string) list" where
  "vault_sources sec =
     map (\<lambda>(ann, gate). (ann, gate, TrimSpace (goget [] (om_annotations (sec_meta sec)) ann)))
       [(AnnExternalSecretPath, []), (AnnExternalSecretStaticRole, ''VaultStaticRoles''),
        (AnnExternalSecretDynamicRole, ''VaultDynamicSecrets'')]"

definition validateVaultSource :: "gates \<Rightarrow> secret \<Rightarrow> (admission_error, unit) result" where
  "validateVaultSource gates sec =
     (case filter (\<lambda>(ann, gate, val). val \<noteq> []) (vault_sources sec) of
        [] \<Rightarrow> Inl (Rejected ''annotations: a vault secret names its value'')
      | [(ann, gate, val)] \<Rightarrow>
          if gate = [] then Inr ()
          else if \<not> Gates_Enabled gates gate then Inl (Forbidden (''annotation '' @ ann @ '' needs a feature gate''))
          else rbind (of_string_error Rejected (ParseEngineRole val)) (\<lambda>_. Inr ())
      | _ \<Rightarrow> Inl (Rejected ''annotations: mutually exclusive''))"

definition secretDataEqual :: "(string, string) gomap \<Rightarrow> (string, string) gomap \<Rightarrow> bool" where
  "secretDataEqual a b \<longleftrightarrow> length a = length b \<and> list_all (\<lambda>(k, v). map_of b k = Some v) a"

definition data_size :: "(string, string) gomap \<Rightarrow> nat" where
  "data_size m = sum_list (map (\<lambda>(k, v). length k + length v) m)"

definition secret_keys_ok :: "(string, string) gomap \<Rightarrow> (admission_error, unit) result" where
  "secret_keys_ok m = rfold (\<lambda>(k, v) _. of_string_error Rejected (ValidBaseName k ''key'')) m ()"

definition old_secret :: "'q attributes \<Rightarrow> secret option" where
  "old_secret a = (case at_old a of None \<Rightarrow> None | Some old \<Rightarrow> as_secret (ao_value old))"

definition check_immutable :: "secret \<Rightarrow> secret \<Rightarrow> (admission_error, unit) result" where
  "check_immutable old sec =
     (if sec_immutable old \<noteq> Some True then Inr ()
      else if sec_immutable sec \<noteq> Some True then Inl (Rejected ''immutable: the immutable flag may not be cleared'')
      else if \<not> secretDataEqual (sec_data old) (sec_data sec) then Inl (Rejected ''data: secret is immutable'')
      else Inr ())"

definition secretPolicy_Validate :: "gates \<Rightarrow> request_ctx \<Rightarrow> 'q attributes \<Rightarrow> (admission_error, unit) result" where
  "secretPolicy_Validate gates ctx a =
     (if at_operation a = OpDelete \<or> IsSubresource a then Inr ()
      else case as_secret (at_value a) of
             None \<Rightarrow> Inr ()
           | Some sec \<Rightarrow>
               rbind (if sec_type sec \<noteq> SecretTypeVault then Inr ()
                      else if sec_data sec \<noteq> [] then Inl (Rejected ''type vault carries no inline data'')
                      else validateVaultSource gates sec) (\<lambda>_.
               rbind (secret_keys_ok (sec_data sec)) (\<lambda>_.
               if maxSecretBytes < data_size (sec_data sec) then Inl (Rejected ''data: secret size exceeds the limit'')
               else if at_operation a \<noteq> OpUpdate then Inr ()
               else case old_secret a of None \<Rightarrow> Inr () | Some old \<Rightarrow> check_immutable old sec)))"

section \<open>Certificate requests (csr\_policy.go)\<close>

fun as_csr :: "'q api_value \<Rightarrow> csr option" where
  "as_csr (VCSR x) = Some x"
| "as_csr _ = None"

definition preserveRequester :: "csr \<Rightarrow> csr \<Rightarrow> csr" where
  "preserveRequester old c =
     c\<lparr>csr_meta := (csr_meta c)\<lparr>om_annotations :=
         fold (carryOver (om_annotations (csr_meta old))) [AnnRequester, AnnRequesterGroups] (om_annotations (csr_meta c))\<rparr>\<rparr>"

definition stamp_requester :: "identity \<Rightarrow> csr \<Rightarrow> csr" where
  "stamp_requester i c =
     c\<lparr>csr_meta := (csr_meta c)\<lparr>om_annotations :=
         goput AnnRequesterGroups (join_with '','' (id_groups i))
           (goput AnnRequester (id_name i) (om_annotations (csr_meta c)))\<rparr>\<rparr>"

definition csrPolicy_Admit :: "request_ctx \<Rightarrow> 'q attributes \<Rightarrow> (admission_error, 'q attributes) result" where
  "csrPolicy_Admit ctx a =
     (case as_csr (at_value a) of
        None \<Rightarrow> Inr a
      | Some c \<Rightarrow>
          if IsSubresource a then Inr a
          else (case at_operation a of
                  OpUpdate \<Rightarrow>
                    (case (case at_old a of None \<Rightarrow> None | Some old \<Rightarrow> as_csr (ao_value old)) of
                       None \<Rightarrow> Inr a
                     | Some old \<Rightarrow>
                         if csr_request c \<noteq> csr_request old \<or> csr_node_name c \<noteq> csr_node_name old
                         then Inl (Forbidden ''spec.request and spec.nodeName are immutable after creation'')
                         else Inr (set_value (VCSR ((preserveRequester old c)\<lparr>csr_stat := csr_stat old\<rparr>)) a))
                | OpCreate \<Rightarrow>
                    let c' = (case ctx of None \<Rightarrow> c | Some i \<Rightarrow> stamp_requester i c)
                    in Inr (set_value (VCSR (c'\<lparr>csr_stat := \<lparr>cst_phase = CSRPending, cst_certificate = [], cst_reason = []\<rparr>\<rparr>)) a)
                | OpDelete \<Rightarrow> Inr a))"

definition csrPolicy_Validate ::
  "(string \<Rightarrow> (string, string) result) \<Rightarrow> request_ctx \<Rightarrow> 'q attributes \<Rightarrow> (admission_error, unit) result" where
  "csrPolicy_Validate csr_cn ctx a =
     (if at_operation a = OpDelete then Inr ()
      else case as_csr (at_value a) of
             None \<Rightarrow> Inr ()
           | Some c \<Rightarrow>
               rbind (of_string_error Rejected (csr_cn (csr_request c))) (\<lambda>cn.
               if cn = [] then Inl (Rejected ''spec.request: the CSR must carry a common name'') else Inr ()))"

section \<open>RBAC rules (rbac\_rules.go)\<close>

definition check_rule :: "bool \<Rightarrow> policy_rule \<Rightarrow> (admission_error, unit) result" where
  "check_rule namespaced rule =
     (let resources = (pr_api_groups rule \<noteq> [] \<or> pr_resources rule \<noteq> []);
          paths = (pr_non_resource_urls rule \<noteq> [])
      in if resources \<and> paths then Inl (Rejected ''spec.rules: resources or nonResourceURLs, not both'')
         else if \<not> resources \<and> \<not> paths then Inl (Rejected ''spec.rules: names nothing'')
         else if resources \<and> (pr_api_groups rule = [] \<or> pr_resources rule = [])
         then Inl (Rejected ''spec.rules: a resource rule needs both apiGroups and resources'')
         else if pr_verbs rule = [] then Inl (Rejected ''spec.rules.verbs'')
         else if paths \<and> namespaced then Inl (Rejected ''spec.rules.nonResourceURLs: not in any namespace'')
         else if \<not> list_all (\<lambda>u. u = ''*'' \<or> starts_with u ''/'') (pr_non_resource_urls rule)
         then Inl (Rejected ''spec.rules.nonResourceURLs: not a request path'')
         else Inr ())"

definition rbacRules_Validate :: "request_ctx \<Rightarrow> 'q attributes \<Rightarrow> (admission_error, unit) result" where
  "rbacRules_Validate ctx a =
     (if at_operation a = OpDelete \<or> IsSubresource a then Inr ()
      else case at_value a of
             VRole r \<Rightarrow> rfold (\<lambda>rule _. check_rule True rule) (role_rules r) ()
           | VClusterRole r \<Rightarrow> rfold (\<lambda>rule _. check_rule False rule) (role_rules r) ()
           | _ \<Rightarrow> Inr ())"

section \<open>Nodes (node\_policy.go, node\_restriction.go)\<close>

abbreviation LabelDomain :: string where "LabelDomain \<equiv> ''horchestra.io/''"

definition nodePolicy_Validate :: "request_ctx \<Rightarrow> 'q attributes \<Rightarrow> (admission_error, unit) result" where
  "nodePolicy_Validate ctx a =
     (if at_operation a = OpDelete \<or> IsSubresource a then Inr ()
      else case as_node (at_value a) of
             None \<Rightarrow> Inr ()
           | Some n \<Rightarrow>
               if list_ex (\<lambda>(k, v). starts_with k LabelDomain) (om_labels (nd_meta n))
               then Inl (Forbidden ''spec.labels: reserved domain'') else Inr ())"

definition maps_equal :: "('k, 'v) gomap \<Rightarrow> ('k, 'v) gomap \<Rightarrow> bool" where
  "maps_equal a b \<longleftrightarrow> length a = length b \<and> list_all (\<lambda>(k, v). map_of b k = Some v) a"

definition check_own_node :: "('q lister) option \<Rightarrow> identity \<Rightarrow> 'q attributes \<Rightarrow> 'q node \<Rightarrow> (admission_error, unit) result" where
  "check_own_node lo i a incoming =
     (case at_operation a of
        OpCreate \<Rightarrow>
          if nd_unschedulable incoming then Inl (Forbidden ''may not create its own Node with a non-empty spec'')
          else if om_labels (nd_meta incoming) \<noteq> [] then Inl (Forbidden ''may not label its own Node'')
          else Inr ()
      | OpDelete \<Rightarrow> Inr ()
      | OpUpdate \<Rightarrow>
          (case lo of
             None \<Rightarrow> Inr ()
           | Some l \<Rightarrow>
               rbind (list_as as_node l ''Node'') (\<lambda>nodes.
                 case find (\<lambda>n. nd_name n = id_name i) nodes of
                   None \<Rightarrow> Inr ()
                 | Some stored \<Rightarrow>
                     if \<not> maps_equal (om_labels (nd_meta incoming)) (om_labels (nd_meta stored))
                     then Inl (Forbidden ''may not change its own Node's labels'')
                     else if nd_unschedulable incoming \<noteq> nd_unschedulable stored
                     then Inl (Forbidden ''may not update its own Node.spec'')
                     else Inr ())))"

definition nodeRestriction_Validate ::
  "('q lister) option \<Rightarrow> request_ctx \<Rightarrow> 'q attributes \<Rightarrow> (admission_error, unit) result" where
  "nodeRestriction_Validate lo ctx a =
     (case ctx of
        None \<Rightarrow> Inr ()
      | Some i \<Rightarrow>
          if GroupNodes \<notin> set (id_groups i) then Inr ()
          else (case at_gvk a of (grp, ver, kind) \<Rightarrow>
            if grp = cert_group \<and> kind = ''CertificateSigningRequest'' then Inr ()
            else if grp \<noteq> core_group \<or> kind \<noteq> ''Node'' then Inl (Forbidden ''nodes may write only their own Node'')
            else if om_name (ao_meta (at_object a)) \<noteq> id_name i then Inl (Forbidden ''only its own Node'')
            else case as_node (at_value a) of None \<Rightarrow> Inr () | Some incoming \<Rightarrow> check_own_node lo i a incoming))"

end
