(* ===== verification/NetIP.thy ===== *)
theory NetIP
  imports ApiText
begin

text \<open>
  The part of Go's \<^verbatim>\<open>net/netip\<close> the service plugins use: an address is an IPv4 value or an IPv6 value
  with its zone, read from its textual form and printed back; a prefix is an address and a number
  of bits. The invalid address \<open>Addr{}\<close> is \<open>None\<close>.
\<close>

datatype addr = IP4 nat | IP6 nat string

record prefix =
  px_addr :: addr
  px_bits :: nat

section \<open>Reading an address\<close>

definition octet :: "string \<Rightarrow> nat option" where
  "octet s =
     (if 3 < length s \<or> 1 < length s \<and> hd s = CHR ''0'' then None
      else case parse_nat s of None \<Rightarrow> None | Some n \<Rightarrow> if n \<le> 255 then Some n else None)"

definition parse_v4 :: "string \<Rightarrow> nat option" where
  "parse_v4 s =
     (case split_on (CHR ''.'') s of
        [a, b, c, d] \<Rightarrow>
          (case (octet a, octet b, octet c, octet d) of
             (Some a, Some b, Some c, Some d) \<Rightarrow> Some (a * 2 ^ 24 + b * 2 ^ 16 + c * 2 ^ 8 + d)
           | _ \<Rightarrow> None)
      | _ \<Rightarrow> None)"

definition hex_val :: "char \<Rightarrow> nat option" where
  "hex_val c =
     (let n = (of_char c :: nat)
      in if 48 \<le> n \<and> n \<le> 57 then Some (n - 48)
         else if 97 \<le> n \<and> n \<le> 102 then Some (n - 87)
         else if 65 \<le> n \<and> n \<le> 70 then Some (n - 55) else None)"

definition is_hex :: "char \<Rightarrow> bool" where
  "is_hex c \<longleftrightarrow> hex_val c \<noteq> None"

definition hex_num :: "string \<Rightarrow> nat" where
  "hex_num ds = fold (\<lambda>c acc. 16 * acc + the (hex_val c)) ds 0"

text \<open>
  One turn of the loop reads a group of at most four hexadecimal digits; at most eight groups. The
  position of the double colon is the number of groups before it.
\<close>

fun v6_loop :: "nat \<Rightarrow> nat list \<Rightarrow> nat option \<Rightarrow> string \<Rightarrow> (nat list \<times> nat option \<times> string) option" where
  "v6_loop 0 gs el s = Some (gs, el, s)"
| "v6_loop (Suc f) gs el s =
     (let ds = takeWhile is_hex s; gs' = gs @ [hex_num ds]
      in if ds = [] \<or> 4 < length ds then None
         else case dropWhile is_hex s of
                [] \<Rightarrow> Some (gs', el, [])
              | c # cs \<Rightarrow>
                  if c = CHR ''.'' then
                    (if el = None \<and> length gs \<noteq> 6 \<or> 8 < length gs + 2 then None
                     else case parse_v4 s of
                            None \<Rightarrow> None
                          | Some n \<Rightarrow> Some (gs @ [n div 2 ^ 16, n mod 2 ^ 16], el, []))
                  else if c \<noteq> CHR '':'' then None
                  else (case cs of
                          [] \<Rightarrow> None
                        | d # ds' \<Rightarrow>
                            if d \<noteq> CHR '':'' then v6_loop f gs' el cs
                            else if el \<noteq> None then None
                            else if ds' = [] then Some (gs', Some (length gs'), [])
                            else v6_loop f gs' (Some (length gs')) ds'))"

definition groups_val :: "nat list \<Rightarrow> nat" where
  "groups_val gs = fold (\<lambda>g acc. 2 ^ 16 * acc + g) gs 0"

definition parse_v6 :: "string \<Rightarrow> addr option" where
  "parse_v6 s0 =
     (let (s, zone, zone_ok) = (case cut_at (CHR ''%'') s0 of
            None \<Rightarrow> (s0, [], True) | Some (a, z) \<Rightarrow> (a, z, z \<noteq> []));
          dbl = starts_with s ''::'';
          s' = (if dbl then drop 2 s else s)
      in if \<not> zone_ok then None
         else if dbl \<and> s' = [] then Some (IP6 0 zone)
         else case v6_loop 8 [] (if dbl then Some 0 else None) s' of
                None \<Rightarrow> None
              | Some (gs, el, rest) \<Rightarrow>
                  if rest \<noteq> [] then None
                  else if length gs < 8 then
                    (case el of
                       None \<Rightarrow> None
                     | Some e \<Rightarrow> Some (IP6 (groups_val (take e gs @ replicate (8 - length gs) 0 @ drop e gs)) zone))
                  else if el \<noteq> None then None
                  else Some (IP6 (groups_val gs) zone))"

definition ParseAddr :: "string \<Rightarrow> addr option" where
  "ParseAddr s =
     (case find (\<lambda>c. c \<in> set ''.:%'') s of
        None \<Rightarrow> None
      | Some c \<Rightarrow>
          if c = CHR ''.'' then map_option IP4 (parse_v4 s)
          else if c = CHR '':'' then parse_v6 s else None)"

section \<open>Printing an address\<close>

definition show_v4 :: "nat \<Rightarrow> string" where
  "show_v4 n = join_with ''.'' (map (\<lambda>k. show_nat (n div 2 ^ k mod 256)) [24, 16, 8, 0])"

fun show_hex :: "nat \<Rightarrow> string" where
  "show_hex n =
     (let d = (\<lambda>k. if k < 10 then char_of (48 + k) else char_of (87 + k))
      in if n < 16 then [d n] else show_hex (n div 16) @ [d (n mod 16)])"

declare show_hex.simps [simp del]

definition groups_of :: "nat \<Rightarrow> nat list" where
  "groups_of n = map (\<lambda>k. n div 2 ^ (16 * k) mod 2 ^ 16) (rev [0 ..< 8])"

definition zeros_from :: "nat list \<Rightarrow> nat \<Rightarrow> nat" where
  "zeros_from gs i = length (takeWhile (\<lambda>g. g = 0) (drop i gs))"

text \<open>The first of the longest runs of at least two zero groups: its start and its length.\<close>

definition zero_run :: "nat list \<Rightarrow> nat \<times> nat" where
  "zero_run gs =
     fold (\<lambda>i (st, len). let l = zeros_from gs i in if 2 \<le> l \<and> len < l then (i, l) else (st, len)) [0 ..< 8] (0, 0)"

definition show_groups :: "nat list \<Rightarrow> string" where
  "show_groups gs = join_with '':'' (map show_hex gs)"

definition show_v6 :: "nat \<Rightarrow> string" where
  "show_v6 n =
     (let gs = groups_of n; (st, len) = zero_run gs
      in if n div 2 ^ 32 = 0xFFFF then ''::ffff:'' @ show_v4 (n mod 2 ^ 32)
         else if len = 0 then show_groups gs
         else show_groups (take st gs) @ ''::'' @ show_groups (drop (st + len) gs))"

fun Addr_String :: "addr \<Rightarrow> string" where
  "Addr_String (IP4 n) = show_v4 n"
| "Addr_String (IP6 n z) = show_v6 n @ (if z = [] then [] else ''%'' @ z)"

section \<open>Predicates and arithmetic\<close>

fun Unmap :: "addr \<Rightarrow> addr" where
  "Unmap (IP4 n) = IP4 n"
| "Unmap (IP6 n z) = (if n div 2 ^ 32 = 0xFFFF then IP4 (n mod 2 ^ 32) else IP6 n z)"

definition IsUnspecified :: "addr \<Rightarrow> bool" where
  "IsUnspecified a \<longleftrightarrow> a = IP4 0 \<or> a = IP6 0 []"

definition IsMulticast :: "addr \<Rightarrow> bool" where
  "IsMulticast a \<longleftrightarrow>
     (case Unmap a of IP4 n \<Rightarrow> n div 2 ^ 28 = 0xE | IP6 n z \<Rightarrow> n div 2 ^ 120 = 0xFF)"

fun Is4 :: "addr \<Rightarrow> bool" where
  "Is4 (IP4 n) = True"
| "Is4 (IP6 n z) = False"

fun addr_val :: "addr \<Rightarrow> nat" where
  "addr_val (IP4 n) = n"
| "addr_val (IP6 n z) = n"

fun BitLen :: "addr \<Rightarrow> nat" where
  "BitLen (IP4 n) = 32"
| "BitLen (IP6 n z) = 128"

fun with_val :: "addr \<Rightarrow> nat \<Rightarrow> addr" where
  "with_val (IP4 n) m = IP4 m"
| "with_val (IP6 n z) m = IP6 m z"

definition Addr_Next :: "addr \<Rightarrow> addr option" where
  "Addr_Next a = (if addr_val a + 1 < 2 ^ BitLen a then Some (with_val a (addr_val a + 1)) else None)"

definition ParsePrefix :: "string \<Rightarrow> prefix option" where
  "ParsePrefix s =
     (case cut_last (CHR ''/'') s of
        None \<Rightarrow> None
      | Some (ip, bits) \<Rightarrow>
          (case ParseAddr ip of
             None \<Rightarrow> None
           | Some a \<Rightarrow>
               if (case a of IP6 n z \<Rightarrow> z \<noteq> [] | IP4 n \<Rightarrow> False) then None
               else if 1 < length bits \<and> \<not> (CHR ''1'' \<le> hd bits \<and> hd bits \<le> CHR ''9'') then None
               else case parse_nat bits of
                      None \<Rightarrow> None
                    | Some b \<Rightarrow> if b \<le> BitLen a then Some \<lparr>px_addr = a, px_bits = b\<rparr> else None))"

definition host_size :: "prefix \<Rightarrow> nat" where
  "host_size p = 2 ^ (BitLen (px_addr p) - px_bits p)"

definition Masked :: "prefix \<Rightarrow> prefix" where
  "Masked p =
     p\<lparr>px_addr := with_val (px_addr p) (addr_val (px_addr p) div host_size p * host_size p)\<rparr>"

definition Prefix_Contains :: "prefix \<Rightarrow> addr \<Rightarrow> bool" where
  "Prefix_Contains p a \<longleftrightarrow>
     (case a of IP6 n z \<Rightarrow> z = [] | IP4 n \<Rightarrow> True) \<and> BitLen a = BitLen (px_addr p) \<and>
     addr_val a div host_size p = addr_val (px_addr p) div host_size p"

end
