(* ===== verification/AdmissionRefs.thy ===== *)
theory AdmissionRefs
  imports Admission NetIP
begin

text \<open>
  The admission plugins that read the rest of the fleet: the table of reference rules
  (\<^verbatim>\<open>reference_check.go\<close>), and the shape, the allocated address and the uniqueness of the address of
  a Service (\<^verbatim>\<open>service_policy.go\<close>, \<^verbatim>\<open>service_vip.go\<close>, \<^verbatim>\<open>service_address.go\<close>).
\<close>

section \<open>Reference rules (reference\_check.go)\<close>

type_synonym 'q rule_check = "'q attributes \<Rightarrow> 'q lister \<Rightarrow> (admission_error, unit) result"

record 'q reference_rule =
  rule_guards :: "operation \<Rightarrow> bool"
  rule_check :: "'q rule_check"

definition notDelete :: "operation \<Rightarrow> bool" where
  "notDelete op \<longleftrightarrow> op \<noteq> OpDelete"

definition onlyDelete :: "operation \<Rightarrow> bool" where
  "onlyDelete op \<longleftrightarrow> op = OpDelete"

definition checkNamespaceExists :: "'q rule_check" where
  "checkNamespaceExists a l =
     (let ns = om_namespace (ao_meta (at_object a))
      in if ns = [] then Inr ()
         else rbind (list_as as_namespace l ''Namespace'') (\<lambda>nss.
                if list_ex (\<lambda>n. om_name (ns_meta n) = ns) nss then Inr ()
                else Inl (Rejected ''metadata.namespace: does not exist'')))"

definition namespacedKinds :: "object_ref list" where
  "namespacedKinds =
     map resourceMeta [''Application'', ''ApplicationSet'', ''PersistentVolume'', ''Secret'', ''Service''] @
     map (\<lambda>k. (resourceMeta k)\<lparr>mr_api_version := rbac_gv\<rparr>) [''Role'', ''RoleBinding'']"

definition objectNames :: "'q api_object list \<Rightarrow> string \<Rightarrow> string list" where
  "objectNames obs ns =
     (let names = map (\<lambda>ob. om_name (ao_meta ob)) (filter (\<lambda>ob. om_namespace (ao_meta ob) = ns) obs)
      in if length names \<le> 3 then names else take 3 names @ [map char_of [0xE2, 0x80, 0xA6 :: nat]])"

definition remaining_of :: "'q lister \<Rightarrow> string \<Rightarrow> object_ref \<Rightarrow> string list \<Rightarrow> (admission_error, string list) result" where
  "remaining_of l ns kind rem =
     (case l (kind\<lparr>mr_namespace := ns\<rparr>) of
        Inl e \<Rightarrow> Inl (Rejected e)
      | Inr obs \<Rightarrow>
          let names = objectNames obs ns
          in Inr (if names = [] then rem else rem @ [mr_kind kind @ '' '' @ join_with '', '' names]))"

definition checkNamespaceEmpty :: "'q rule_check" where
  "checkNamespaceEmpty a l =
     (case as_namespace (at_value a) of
        None \<Rightarrow> Inr ()
      | Some ns \<Rightarrow>
          rbind (rfold (remaining_of l (om_name (ns_meta ns))) namespacedKinds []) (\<lambda>rem.
          if rem \<noteq> [] then Inl (Forbidden (''namespace is not empty: '' @ join_with ''; '' rem)) else Inr ()))"

definition checkNodeExists :: "'q rule_check" where
  "checkNodeExists a l =
     (case as_application (at_value a) of
        None \<Rightarrow> Inr ()
      | Some app \<Rightarrow>
          if app_node_name app = [] then Inr ()
          else rbind (list_as as_node l ''Node'') (\<lambda>nodes.
                 if list_ex (\<lambda>n. nd_name n = app_node_name app) nodes then Inr ()
                 else Inl (Rejected ''spec.placement.nodeName: does not exist'')))"

definition findService :: "'q lister \<Rightarrow> string \<Rightarrow> string \<Rightarrow> (admission_error, service option) result" where
  "findService l ns name =
     rbind (list_as as_service l ''Service'') (\<lambda>svcs.
       Inr (find (\<lambda>s. om_namespace (svc_meta s) = ns \<and> om_name (svc_meta s) = name) svcs))"

definition checkServiceRef :: "'q rule_check" where
  "checkServiceRef a l =
     (case as_application (at_value a) of
        None \<Rightarrow> Inr ()
      | Some app \<Rightarrow>
          if as_service_name (app_spec app) = [] then Inr ()
          else rbind (findService l (app_namespace app) (as_service_name (app_spec app))) (\<lambda>svc.
                 if svc = None then Inl (Rejected ''spec.serviceName: does not exist'') else Inr ()))"

definition checkServiceProtection :: "'q rule_check" where
  "checkServiceProtection a l =
     (case as_service (at_value a) of
        None \<Rightarrow> Inr ()
      | Some svc \<Rightarrow>
          rbind (list_as as_application l ''Application'') (\<lambda>apps.
            if list_ex (\<lambda>app. app_namespace app = om_namespace (svc_meta svc) \<and>
                               as_service_name (app_spec app) = om_name (svc_meta svc)) apps
            then Inl (Rejected ''service is still declared by an application'') else Inr ()))"

definition mounts_pv :: "string \<Rightarrow> 'q application \<Rightarrow> bool" where
  "mounts_pv name app \<longleftrightarrow> list_ex (\<lambda>m. IsPV m \<and> PVName m (app_name app) = name) (as_volumes (app_spec app))"

definition appsMountingPV ::
  "'q lister \<Rightarrow> string \<Rightarrow> string \<Rightarrow> string \<Rightarrow> (admission_error, string list) result" where
  "appsMountingPV l ns name except =
     rbind (list_as as_application l ''Application'') (\<lambda>apps.
       Inr (map app_name (filter (\<lambda>app. app_namespace app = ns \<and> app_name app \<noteq> except \<and> mounts_pv name app) apps)))"

definition checkPVProtection :: "'q rule_check" where
  "checkPVProtection a l =
     (case as_pv (at_value a) of
        None \<Rightarrow> Inr ()
      | Some pv \<Rightarrow>
          rbind (appsMountingPV l (om_namespace (pv_meta pv)) (om_name (pv_meta pv)) []) (\<lambda>users.
          if users \<noteq> [] then Inl (Forbidden ''persistentvolume is in use'') else Inr ()))"

definition sharedPVs :: "'q lister \<Rightarrow> string \<Rightarrow> (admission_error, string list) result" where
  "sharedPVs l ns =
     rbind (list_as as_pv l ''PersistentVolume'') (\<lambda>pvs.
       Inr (map (\<lambda>pv. om_name (pv_meta pv)) (filter (\<lambda>pv. om_namespace (pv_meta pv) = ns \<and> pv_shared pv) pvs)))"

definition mounted_pvs :: "'q application \<Rightarrow> string list" where
  "mounted_pvs app =
     fold (\<lambda>m acc. if IsPV m \<and> PVName m (app_name app) \<notin> set acc then acc @ [PVName m (app_name app)] else acc)
       (as_volumes (app_spec app)) []"

definition check_mount_exclusive ::
  "'q lister \<Rightarrow> 'q application \<Rightarrow> string list \<Rightarrow> string \<Rightarrow> (admission_error, unit) result" where
  "check_mount_exclusive l app shared name =
     (if name \<in> set shared then Inr ()
      else rbind (appsMountingPV l (app_namespace app) name (app_name app)) (\<lambda>users.
           if users \<noteq> [] then Inl (Forbidden ''persistentvolume is already mounted'') else Inr ()))"

definition checkAppMountsExclusive :: "'q application \<Rightarrow> 'q lister \<Rightarrow> (admission_error, unit) result" where
  "checkAppMountsExclusive app l =
     (let mounted = mounted_pvs app
      in if mounted = [] then Inr ()
         else rbind (sharedPVs l (app_namespace app)) (\<lambda>shared.
              rfold (\<lambda>name _. check_mount_exclusive l app shared name) mounted ()))"

definition checkSharingStillHolds :: "'q persistent_volume \<Rightarrow> 'q lister \<Rightarrow> (admission_error, unit) result" where
  "checkSharingStillHolds pv l =
     (if pv_shared pv then Inr ()
      else rbind (appsMountingPV l (om_namespace (pv_meta pv)) (om_name (pv_meta pv)) []) (\<lambda>users.
           if 1 < length users then Inl (Forbidden ''spec.shared cannot be cleared'') else Inr ()))"

definition checkPVExclusive :: "'q rule_check" where
  "checkPVExclusive a l =
     (case at_value a of
        VApplication app \<Rightarrow> checkAppMountsExclusive app l
      | VPersistentVolume pv \<Rightarrow> checkSharingStillHolds pv l
      | _ \<Rightarrow> Inr ())"

definition checkSecretRef :: "'q rule_check" where
  "checkSecretRef a l =
     (case as_application (at_value a) of
        None \<Rightarrow> Inr ()
      | Some app \<Rightarrow>
          let required = RequiredSecretRefs app
          in if required = [] then Inr ()
             else rbind (list_as as_secret l ''Secret'') (\<lambda>secs.
                  let have = map (\<lambda>s. om_name (sec_meta s)) (filter (\<lambda>s. om_namespace (sec_meta s) = app_namespace app) secs)
                  in if list_all (\<lambda>n. n \<in> set have) required then Inr ()
                     else Inl (Rejected ''secret does not exist'')))"

definition checkSecretProtection :: "'q rule_check" where
  "checkSecretProtection a l =
     (case as_secret (at_value a) of
        None \<Rightarrow> Inr ()
      | Some sec \<Rightarrow>
          rbind (list_as as_application l ''Application'') (\<lambda>apps.
            if filter (\<lambda>app. app_namespace app = om_namespace (sec_meta sec) \<and>
                             om_name (sec_meta sec) \<in> set (SecretRefs app)) apps \<noteq> []
            then Inl (Forbidden ''secret is in use'') else Inr ()))"

definition reference_rules :: "'q reference_rule list" where
  "reference_rules =
     [\<lparr>rule_guards = notDelete, rule_check = checkNamespaceExists\<rparr>,
      \<lparr>rule_guards = onlyDelete, rule_check = checkNamespaceEmpty\<rparr>,
      \<lparr>rule_guards = notDelete, rule_check = checkNodeExists\<rparr>,
      \<lparr>rule_guards = onlyDelete, rule_check = checkPVProtection\<rparr>,
      \<lparr>rule_guards = notDelete, rule_check = checkPVExclusive\<rparr>,
      \<lparr>rule_guards = notDelete, rule_check = checkSecretRef\<rparr>,
      \<lparr>rule_guards = onlyDelete, rule_check = checkSecretProtection\<rparr>,
      \<lparr>rule_guards = notDelete, rule_check = checkServiceRef\<rparr>,
      \<lparr>rule_guards = onlyDelete, rule_check = checkServiceProtection\<rparr>]"

definition referenceCheck_Validate ::
  "'q lister option \<Rightarrow> request_ctx \<Rightarrow> 'q attributes \<Rightarrow> (admission_error, unit) result" where
  "referenceCheck_Validate lo ctx a =
     (if IsSubresource a then Inr ()
      else case lo of
             None \<Rightarrow> Inr ()
           | Some l \<Rightarrow>
               rfold (\<lambda>r _. if rule_guards r (at_operation a) then rule_check r a l else Inr ()) reference_rules ())"

section \<open>Services (service\_policy.go)\<close>

text \<open>\<open>^[a-z0-9]([-a-z0-9]*[a-z0-9])?$\<close>\<close>

definition label_alnum :: "char \<Rightarrow> bool" where
  "label_alnum c \<longleftrightarrow> lower_char c \<or> decimal_char c"

definition dns1123Label :: "string \<Rightarrow> bool" where
  "dns1123Label s \<longleftrightarrow>
     s \<noteq> [] \<and> label_alnum (hd s) \<and> label_alnum (last s) \<and> list_all (\<lambda>c. label_alnum c \<or> c = CHR ''-'') s"

definition serviceUnderReview :: "'q attributes \<Rightarrow> service option" where
  "serviceUnderReview a =
     (if at_operation a = OpDelete \<or> IsSubresource a then None else as_service (at_value a))"

definition notANodeName :: "'q lister option \<Rightarrow> service \<Rightarrow> (admission_error, unit) result" where
  "notANodeName lo svc =
     (case lo of
        None \<Rightarrow> Inr ()
      | Some l \<Rightarrow>
          rbind (list_as as_node l ''Node'') (\<lambda>nodes.
            if list_ex (\<lambda>n. list_ex (\<lambda>p. CatalogName svc p = nd_name n) (svc_ports svc)) nodes
            then Inl (Forbidden ''metadata.name: a node's name'') else Inr ()))"

definition check_port ::
  "bool \<Rightarrow> service_port \<Rightarrow> string list \<times> int list \<Rightarrow> (admission_error, string list \<times> int list) result" where
  "check_port named p seen =
     (case seen of (seenName, seenPort) \<Rightarrow>
        if named \<and> sp_name p = [] then Inl (Rejected ''spec.ports.name: required'')
        else if sp_name p \<noteq> [] \<and> \<not> dns1123Label (sp_name p) then Inl (Rejected ''spec.ports.name: not a label'')
        else if sp_name p \<noteq> [] \<and> sp_name p \<in> set seenName then Inl (Rejected ''spec.ports.name: used twice'')
        else if sp_port p \<in> set seenPort then Inl (Rejected ''spec.ports.port: declared twice'')
        else if sp_target_name p \<noteq> [] \<and> sp_target_port p \<noteq> 0 then Inl (Rejected ''spec.ports: targetName and targetPort'')
        else Inr (sp_name p # seenName, sp_port p # seenPort))"

definition servicePolicy_Validate ::
  "'q lister option \<Rightarrow> request_ctx \<Rightarrow> 'q attributes \<Rightarrow> (admission_error, unit) result" where
  "servicePolicy_Validate lo ctx a =
     (case serviceUnderReview a of
        None \<Rightarrow> Inr ()
      | Some svc \<Rightarrow>
          rbind (notANodeName lo svc) (\<lambda>_.
          if svc_ports svc = [] then Inl (Rejected ''spec.ports: a service with no ports answers nothing'')
          else rbind (rfold (check_port (1 < length (svc_ports svc))) (svc_ports svc) ([], [])) (\<lambda>_. Inr ())))"

section \<open>Allocated addresses (service\_vip.go)\<close>

definition lastAddr :: "prefix \<Rightarrow> addr" where
  "lastAddr p =
     with_val (px_addr p) (addr_val (px_addr p) div host_size p * host_size p + host_size p - 1)"

function free_addr :: "prefix \<Rightarrow> string list \<Rightarrow> addr option \<Rightarrow> string option" where
  "free_addr p used None = None"
| "free_addr p used (Some a) =
     (if \<not> Prefix_Contains p a then None
      else if Is4 a \<and> a = lastAddr p then None
      else if Addr_String a \<notin> set used then Some (Addr_String a)
      else free_addr p used (Addr_Next a))"
  by pat_completeness auto

definition addr_measure :: "addr option \<Rightarrow> nat" where
  "addr_measure ao = (case ao of None \<Rightarrow> 0 | Some a \<Rightarrow> 1 + (2 ^ 128 - addr_val a))"

lemma addr_measure_Next: "addr_measure (Addr_Next a) < addr_measure (Some a)"
proof (cases "Addr_Next a")
  case None
  then show ?thesis by (simp add: addr_measure_def)
next
  case (Some b)
  then have v: "addr_val a + 1 < 2 ^ BitLen a" "b = with_val a (addr_val a + 1)"
    by (simp_all add: Addr_Next_def split: if_splits)
  have "addr_val b = addr_val a + 1" using v(2) by (cases a) simp_all
  moreover have "addr_val a + 1 < 2 ^ 128" using v(1) by (cases a) simp_all
  ultimately show ?thesis by (simp add: addr_measure_def Some)
qed

termination free_addr
  by (relation "measure (\<lambda>(p, used, ao). addr_measure ao)") (simp_all add: addr_measure_Next)

declare free_addr.simps [simp del]

definition firstFree :: "string \<Rightarrow> string list \<Rightarrow> (admission_error, string) result" where
  "firstFree cidr used =
     (case ParsePrefix cidr of
        None \<Rightarrow> Inl (Forbidden ''service range is not a CIDR'')
      | Some p0 \<Rightarrow>
          let p = Masked p0
          in case free_addr p used (Addr_Next (px_addr p)) of
               None \<Rightarrow> Inl (Forbidden ''the service range is exhausted'')
             | Some s \<Rightarrow> Inr s)"

definition inUse :: "'q lister \<Rightarrow> (admission_error, string list) result" where
  "inUse l =
     rbind (list_as as_service l ''Service'') (\<lambda>svcs.
     rbind (list_as as_node l ''Node'') (\<lambda>nodes.
     Inr (filter (\<lambda>s. s \<noteq> []) (map svc_cluster_ip svcs) @
          filter (\<lambda>s. s \<noteq> []) (map (\<lambda>n. nst_ip (nd_status n)) nodes))))"

definition old_service :: "'q attributes \<Rightarrow> service option" where
  "old_service a = (case at_old a of None \<Rightarrow> None | Some old \<Rightarrow> as_service (ao_value old))"

definition serviceVIP_Admit ::
  "'q lister option \<Rightarrow> string \<Rightarrow> request_ctx \<Rightarrow> 'q attributes \<Rightarrow> (admission_error, 'q attributes) result" where
  "serviceVIP_Admit lo cidr ctx a =
     (case (as_service (at_value a), lo) of
        (Some svc, Some l) \<Rightarrow>
          if cidr = [] \<or> svc_cluster_ip svc \<noteq> [] then Inr a
          else (case at_operation a of
                  OpUpdate \<Rightarrow>
                    (case old_service a of
                       None \<Rightarrow> Inr a
                     | Some old \<Rightarrow> Inr (set_value (VService (svc\<lparr>svc_cluster_ip := svc_cluster_ip old\<rparr>)) a))
                | OpCreate \<Rightarrow>
                    rbind (inUse l) (\<lambda>used.
                    rbind (firstFree cidr used) (\<lambda>s.
                    Inr (set_value (VService (svc\<lparr>svc_cluster_ip := s\<rparr>)) a)))
                | OpDelete \<Rightarrow> Inr a)
      | _ \<Rightarrow> Inr a)"

section \<open>Unique addresses (service\_address.go)\<close>

definition same_addr :: "addr \<Rightarrow> string \<Rightarrow> bool" where
  "same_addr a s = (case ParseAddr s of None \<Rightarrow> False | Some b \<Rightarrow> Unmap b = Unmap a)"

definition notANodes :: "'q lister \<Rightarrow> addr \<Rightarrow> (admission_error, unit) result" where
  "notANodes l a =
     rbind (list_as as_node l ''Node'') (\<lambda>nodes.
       if list_ex (\<lambda>n. nst_ip (nd_status n) \<noteq> [] \<and> same_addr a (nst_ip (nd_status n))) nodes
       then Inl (Forbidden ''spec.clusterIP: a node's own address'') else Inr ())"

definition notTaken :: "'q lister \<Rightarrow> service \<Rightarrow> addr \<Rightarrow> (admission_error, unit) result" where
  "notTaken l svc a =
     rbind (list_as as_service l ''Service'') (\<lambda>svcs.
       if list_ex (\<lambda>o'. svc_cluster_ip o' \<noteq> [] \<and>
                        \<not> (om_namespace (svc_meta o') = om_namespace (svc_meta svc) \<and>
                           om_name (svc_meta o') = om_name (svc_meta svc)) \<and>
                        same_addr a (svc_cluster_ip o')) svcs
       then Inl (Forbidden ''spec.clusterIP: already the address of another service'') else Inr ())"

definition serviceAddress_Validate ::
  "'q lister option \<Rightarrow> request_ctx \<Rightarrow> 'q attributes \<Rightarrow> (admission_error, unit) result" where
  "serviceAddress_Validate lo ctx a =
     (case serviceUnderReview a of
        None \<Rightarrow> Inr ()
      | Some svc \<Rightarrow>
          if svc_cluster_ip svc = [] then Inr ()
          else case ParseAddr (svc_cluster_ip svc) of
                 None \<Rightarrow> Inl (Forbidden ''spec.clusterIP: not an IP address'')
               | Some ad \<Rightarrow>
                   if IsUnspecified ad then Inl (Forbidden ''spec.clusterIP: not an address a caller can connect to'')
                   else if IsMulticast ad then Inl (Forbidden ''spec.clusterIP: a multicast address'')
                   else case lo of
                          None \<Rightarrow> Inr ()
                        | Some l \<Rightarrow> rbind (notANodes l ad) (\<lambda>_. notTaken l svc ad))"

end
