(* ===== verification/Authz.thy ===== *)
theory Authz
  imports ApiTypes
begin

text \<open>
  Authorization (\<^verbatim>\<open>controller/authz\<close>): what a request asks for (\<^verbatim>\<open>authz.go\<close>), the policy projected from
  the RBAC objects and the decision over it (\<^verbatim>\<open>casbin.go\<close>, \<^verbatim>\<open>nonresource.go\<close>).

  The Casbin enforcer is third-party: a parameter \<open>enforce\<close> that, given the policy table and a
  request tuple, says whether some line of the table matches. The matcher it evaluates is the text
  \<open>rbacModel\<close> of \<^verbatim>\<open>casbin.go\<close>, which is \<open>rbac_matcher\<close> here; locale \<open>casbin_laws\<close> states
  that the enforcer evaluates it with the effect \<open>some(where (p.eft == allow))\<close>. The store is read
  through its \<open>List\<close> and \<open>Get\<close>.
\<close>

section \<open>Attributes (authz.go)\<close>

abbreviation NodeGroup :: string where "NodeGroup \<equiv> ''system:nodes''"
abbreviation AdminGroup :: string where "AdminGroup \<equiv> ''system:masters''"

record authz_attributes =
  az_user :: "identity option"
  az_verb :: string
  az_group :: string
  az_resource :: string
  az_namespace :: string
  az_name :: string
  az_subresource :: string
  az_resource_request :: bool
  az_path :: string

definition zero_authz :: authz_attributes where
  "zero_authz =
     \<lparr>az_user = None, az_verb = [], az_group = [], az_resource = [], az_namespace = [], az_name = [],
      az_subresource = [], az_resource_request = False, az_path = []\<rparr>"

definition Target :: "authz_attributes \<Rightarrow> string" where
  "Target a = (if az_subresource a = [] then az_resource a else az_resource a @ ''/'' @ az_subresource a)"

definition AllowedNonResourcePath :: "string \<Rightarrow> bool" where
  "AllowedNonResourcePath path \<longleftrightarrow>
     path \<in> set [''/api'', ''/apis'', ''/version'', ''/version/'', ''/openapi'', ''/livez'', ''/readyz''] \<or>
     starts_with path ''/openapi/'' \<or> starts_with path ''/api/'' \<or>
     starts_with path ''/apis/'' \<and> count_list (trim_chars ''/'' path) (CHR ''/'') \<le> 2"

definition nodeAuthorizes :: "authz_attributes \<Rightarrow> bool" where
  "nodeAuthorizes a \<longleftrightarrow>
     (case az_user a of None \<Rightarrow> False | Some i \<Rightarrow> NodeGroup \<in> set (id_groups i)) \<and>
     (az_group a = core_group \<and> Target a = ''nodes'' \<and> az_verb a \<in> set [''create'', ''get'', ''update'', ''patch''] \<or>
      az_group a = cert_group \<and> Target a = ''certificatesigningrequests'' \<and>
        az_verb a \<in> set [''create'', ''get'', ''list''])"

definition isPublicNamespaceRead :: "authz_attributes \<Rightarrow> bool" where
  "isPublicNamespaceRead a \<longleftrightarrow>
     az_group a = core_group \<and> az_resource a = ''namespaces'' \<and> (az_verb a = ''list'' \<or> az_verb a = ''watch'')"

definition isAdmin :: "string list \<Rightarrow> bool" where
  "isAdmin groups \<longleftrightarrow> AdminGroup \<in> set groups"

section \<open>Attributes of an HTTP request\<close>

definition method_verb :: "string \<Rightarrow> bool \<Rightarrow> string \<Rightarrow> string" where
  "method_verb http_method watch name =
     (if http_method = ''POST'' then ''create''
      else if http_method = ''PUT'' \<or> http_method = ''PATCH'' then ''update''
      else if http_method = ''DELETE'' then ''delete''
      else if watch then ''watch'' else if name = [] then ''list'' else ''get'')"

definition ascii_lowercase :: "string \<Rightarrow> string" where
  "ascii_lowercase = map (\<lambda>c. if CHR ''A'' \<le> c \<and> c \<le> CHR ''Z'' then char_of ((of_char c :: nat) + 32) else c)"

text \<open>
  \<open>watch\<close> is whether the query asks for one. A segment a path does not have is the empty string.
\<close>

definition AttributesFromRequest :: "string \<Rightarrow> string \<Rightarrow> bool \<Rightarrow> identity option \<Rightarrow> authz_attributes" where
  "AttributesFromRequest http_method path watch user =
     (let parts = split_on (CHR ''/'') (trim_chars ''/'' path)
      in if length parts < 4 \<or> hd parts \<noteq> ''apis''
         then zero_authz\<lparr>az_user := user, az_path := path, az_verb := ascii_lowercase http_method\<rparr>
         else let rest0 = drop 3 parts;
                  nsd = (3 \<le> length rest0 \<and> hd rest0 = ''namespaces'');
                  rest = (if nsd then drop 2 rest0 else rest0);
                  seg = (\<lambda>i. if i < length rest then rest ! i else [])
              in zero_authz\<lparr>az_user := user, az_path := path, az_resource_request := True,
                   az_group := parts ! 1, az_namespace := (if nsd then rest0 ! 1 else []),
                   az_resource := seg 0, az_name := seg 1, az_subresource := seg 2,
                   az_verb := method_verb http_method watch (seg 1)\<rparr>)"

section \<open>Subjects (casbin.go)\<close>

definition userSubject :: "string \<Rightarrow> string" where
  "userSubject name = ''user:'' @ name"

definition groupSubject :: "string \<Rightarrow> string" where
  "groupSubject name = ''group:'' @ name"

definition subjectString :: "subject \<Rightarrow> string" where
  "subjectString s =
     (if sub_kind s = ''User'' then userSubject (sub_name s)
      else if sub_kind s = ''Group'' then groupSubject (sub_name s) else [])"

definition subjectsOf :: "identity \<Rightarrow> string list" where
  "subjectsOf i = userSubject (id_name i) # map groupSubject (id_groups i)"

definition subjectMatches :: "subject list \<Rightarrow> identity \<Rightarrow> bool" where
  "subjectMatches subjects i =
     list_ex (\<lambda>s. if sub_kind s = ''User'' then sub_name s = id_name i
                  else sub_kind s = ''Group'' \<and> sub_name s \<in> set (id_groups i)) subjects"

section \<open>Paths (nonresource.go)\<close>

record non_resource_grant =
  nrg_verbs :: "string list"
  nrg_urls :: "string list"

definition matchesPath :: "string \<Rightarrow> string \<Rightarrow> bool" where
  "matchesPath pattern path =
     (if pattern \<noteq> [] \<and> last pattern = CHR ''*'' then starts_with path (butlast pattern) else pattern = path)"

definition grant_allows :: "non_resource_grant \<Rightarrow> string \<Rightarrow> string \<Rightarrow> bool" where
  "grant_allows g verb path \<longleftrightarrow>
     (verb \<in> set (nrg_verbs g) \<or> ''*'' \<in> set (nrg_verbs g)) \<and> list_ex (\<lambda>u. matchesPath u path) (nrg_urls g)"

section \<open>Policy (casbin.go)\<close>

type_synonym line = "string \<times> string \<times> string \<times> string \<times> string"

record policy =
  pol_rules :: "line list"
  pol_paths :: "(string, non_resource_grant list) gomap"

definition rbac_matcher :: "line \<Rightarrow> line \<Rightarrow> bool" where
  "rbac_matcher r p =
     (case (r, p) of ((rsub, rns, rgrp, rres, ract), (psub, pns, pgrp, pres, pact)) \<Rightarrow>
        rsub = psub \<and> (pns = ''*'' \<or> rns = pns) \<and> (pgrp = ''*'' \<or> rgrp = pgrp) \<and>
        (pres = ''*'' \<or> rres = pres) \<and> (pact = ''*'' \<or> ract = pact))"

type_synonym enforcer = "line list \<Rightarrow> line \<Rightarrow> (string, bool) result"

text \<open>The policy in construction carries the keys of the lines already emitted.\<close>

definition line_key :: "line \<Rightarrow> string" where
  "line_key ln =
     (case ln of (sub, ns, g, res, verb) \<Rightarrow>
        sub @ [CHR 0x00] @ ns @ [CHR 0x00] @ g @ [CHR 0x00] @ res @ [CHR 0x00] @ verb)"

definition emit_line :: "line \<Rightarrow> string list \<times> policy \<Rightarrow> string list \<times> policy" where
  "emit_line ln st =
     (case st of (seen, p) \<Rightarrow>
        if line_key ln \<in> set seen then st
        else (line_key ln # seen, p\<lparr>pol_rules := pol_rules p @ [ln]\<rparr>))"

definition rule_lines :: "string \<Rightarrow> string \<Rightarrow> policy_rule \<Rightarrow> line list" where
  "rule_lines sub ns rule =
     concat (map (\<lambda>g. concat (map (\<lambda>res. map (\<lambda>verb. (sub, ns, g, res, verb)) (pr_verbs rule)) (pr_resources rule)))
       (pr_api_groups rule))"

definition emit_rule :: "string \<Rightarrow> string \<Rightarrow> policy_rule \<Rightarrow> string list \<times> policy \<Rightarrow> string list \<times> policy" where
  "emit_rule sub ns rule st =
     (case st of (seen, p) \<Rightarrow>
        let p' = (if pr_non_resource_urls rule \<noteq> [] \<and> ns = ''*''
                  then p\<lparr>pol_paths := goput sub (goget [] (pol_paths p) sub @
                           [\<lparr>nrg_verbs = pr_verbs rule, nrg_urls = pr_non_resource_urls rule\<rparr>]) (pol_paths p)\<rparr>
                  else p)
        in fold emit_line (rule_lines sub ns rule) (seen, p'))"

definition emit :: "subject list \<Rightarrow> string \<Rightarrow> policy_rule list \<Rightarrow> string list \<times> policy \<Rightarrow> string list \<times> policy" where
  "emit subjects ns rules st =
     fold (\<lambda>subj st. let sub = subjectString subj in if sub = [] then st else fold (emit_rule sub ns) rules st)
       subjects st"

record 'q rbac_store =
  rst_list :: "object_ref \<Rightarrow> (string, 'q api_object list) result"
  rst_get :: "object_ref \<Rightarrow> 'q api_object option"

definition rbacMeta :: "string \<Rightarrow> string \<Rightarrow> string \<Rightarrow> object_ref" where
  "rbacMeta kind ns name = \<lparr>mr_api_version = rbac_gv, mr_kind = kind, mr_namespace = ns, mr_name = name\<rparr>"

fun as_role_binding :: "'q api_value \<Rightarrow> role_binding option" where
  "as_role_binding (VRoleBinding x) = Some x"
| "as_role_binding _ = None"

fun as_cluster_role_binding :: "'q api_value \<Rightarrow> role_binding option" where
  "as_cluster_role_binding (VClusterRoleBinding x) = Some x"
| "as_cluster_role_binding _ = None"

definition existingNamespaces :: "'q rbac_store \<Rightarrow> (string, string list) result" where
  "existingNamespaces st =
     rbind (rst_list st \<lparr>mr_api_version = core_gv, mr_kind = ''Namespace'', mr_namespace = [], mr_name = []\<rparr>) (\<lambda>obs.
       Inr (List.map_filter (\<lambda>ob. case ao_value ob of VNamespace ns \<Rightarrow> Some (om_name (ns_meta ns)) | _ \<Rightarrow> None) obs))"

definition roleRefRules :: "'q rbac_store \<Rightarrow> role_ref \<Rightarrow> string \<Rightarrow> policy_rule list" where
  "roleRefRules st ref ns =
     (if rf_kind ref = ''Role'' then
        (case rst_get st (rbacMeta ''Role'' ns (rf_name ref)) of
           Some ob \<Rightarrow> (case ao_value ob of VRole r \<Rightarrow> role_rules r | _ \<Rightarrow> []) | None \<Rightarrow> [])
      else if rf_kind ref = ''ClusterRole'' then
        (case rst_get st (rbacMeta ''ClusterRole'' [] (rf_name ref)) of
           Some ob \<Rightarrow> (case ao_value ob of VClusterRole r \<Rightarrow> role_rules r | _ \<Rightarrow> []) | None \<Rightarrow> [])
      else [])"

definition emit_binding ::
  "'q rbac_store \<Rightarrow> string list \<Rightarrow> role_binding \<Rightarrow> string list \<times> policy \<Rightarrow> string list \<times> policy" where
  "emit_binding st live rb acc =
     (let ns = om_namespace (rb_meta rb)
      in if ns \<noteq> [] \<and> ns \<notin> set live then acc
         else emit (rb_subjects rb) ns (roleRefRules st (rb_role_ref rb) ns) acc)"

definition emit_cluster_binding ::
  "'q rbac_store \<Rightarrow> role_binding \<Rightarrow> string list \<times> policy \<Rightarrow> string list \<times> policy" where
  "emit_cluster_binding st crb acc =
     (if rf_kind (rb_role_ref crb) = ''ClusterRole''
      then emit (rb_subjects crb) ''*'' (roleRefRules st (rb_role_ref crb) []) acc else acc)"

definition rulesFromStore :: "'q rbac_store \<Rightarrow> (string, policy) result" where
  "rulesFromStore st =
     rbind (rst_list st (rbacMeta ''RoleBinding'' [] [])) (\<lambda>rbs.
     rbind (existingNamespaces st) (\<lambda>live.
     rbind (rst_list st (rbacMeta ''ClusterRoleBinding'' [] [])) (\<lambda>crbs.
     Inr (snd (fold (emit_cluster_binding st) (List.map_filter (as_cluster_role_binding \<circ> ao_value) crbs)
            (fold (emit_binding st live) (List.map_filter (as_role_binding \<circ> ao_value) rbs)
               ([], \<lparr>pol_rules = [], pol_paths = []\<rparr>)))))))"

section \<open>Decision (casbin.go)\<close>

text \<open>The state of the authorizer: the enforcer's policy table and the path grants.\<close>

type_synonym casbin = policy

definition allowsPath :: "casbin \<Rightarrow> identity \<Rightarrow> authz_attributes \<Rightarrow> bool" where
  "allowsPath c i a =
     list_ex (\<lambda>sub. list_ex (\<lambda>g. grant_allows g (az_verb a) (az_path a)) (goget [] (pol_paths c) sub)) (subjectsOf i)"

fun enforce_any :: "enforcer \<Rightarrow> casbin \<Rightarrow> authz_attributes \<Rightarrow> string list \<Rightarrow> (string, bool) result" where
  "enforce_any enforce c a [] = Inr False"
| "enforce_any enforce c a (sub # subs) =
     rbind (enforce (pol_rules c) (sub, az_namespace a, az_group a, Target a, az_verb a)) (\<lambda>ok.
     if ok then Inr True else enforce_any enforce c a subs)"

definition Authorize :: "enforcer \<Rightarrow> casbin \<Rightarrow> authz_attributes \<Rightarrow> (string, bool) result" where
  "Authorize enforce c a =
     (case az_user a of
        None \<Rightarrow> Inr False
      | Some i \<Rightarrow>
          if isAdmin (id_groups i) then Inr True
          else if \<not> az_resource_request a then Inr (AllowedNonResourcePath (az_path a) \<or> allowsPath c i a)
          else if nodeAuthorizes a \<or> isPublicNamespaceRead a then Inr True
          else enforce_any enforce c a (subjectsOf i))"

definition LoadFromStore :: "'q rbac_store \<Rightarrow> casbin \<Rightarrow> (string, unit) result \<times> casbin" where
  "LoadFromStore st c = (case rulesFromStore st of Inl e \<Rightarrow> (Inl e, c) | Inr p \<Rightarrow> (Inr (), p))"

section \<open>Accessible namespaces (authz.go)\<close>

definition isReadVerb :: "string \<Rightarrow> bool" where
  "isReadVerb v \<longleftrightarrow> v \<in> set [''*'', ''get'', ''list'', ''watch'']"

text \<open>The scheme's resources: group, plural and whether the Kind is namespaced.\<close>

type_synonym resource_scopes = "(string \<times> string \<times> bool) list"

definition selectsNamespaced :: "resource_scopes \<Rightarrow> string list \<Rightarrow> string list \<Rightarrow> bool" where
  "selectsNamespaced sch groups resources =
     list_ex (\<lambda>res. res = ''*'' \<or>
        (let plural = (case cut_at (CHR ''/'') res of None \<Rightarrow> res | Some (a, b) \<Rightarrow> a)
         in list_ex (\<lambda>(g, p, nsd). p = plural \<and> nsd \<and> (''*'' \<in> set groups \<or> g \<in> set groups)) sch)) resources"

definition grantsClusterRead :: "resource_scopes option \<Rightarrow> policy_rule list \<Rightarrow> bool" where
  "grantsClusterRead so rules =
     (case so of
        None \<Rightarrow> False
      | Some sch \<Rightarrow>
          list_ex (\<lambda>r. pr_api_groups r \<noteq> [] \<and> pr_resources r \<noteq> [] \<and> list_ex isReadVerb (pr_verbs r) \<and>
                       selectsNamespaced sch (pr_api_groups r) (pr_resources r)) rules)"

text \<open>\<open>Inr (names, seesAll)\<close>.\<close>

definition AccessibleNamespaces ::
  "'q rbac_store \<Rightarrow> resource_scopes option \<Rightarrow> identity option \<Rightarrow> (string, string list \<times> bool) result" where
  "AccessibleNamespaces st sch io =
     (case io of
        None \<Rightarrow> Inr ([], False)
      | Some i \<Rightarrow>
          if isAdmin (id_groups i) then Inr ([], True)
          else rbind (rst_list st (rbacMeta ''ClusterRoleBinding'' [] [])) (\<lambda>crbs.
            if list_ex (\<lambda>crb. rf_kind (rb_role_ref crb) = ''ClusterRole'' \<and> subjectMatches (rb_subjects crb) i \<and>
                              grantsClusterRead sch (roleRefRules st (rb_role_ref crb) []))
                 (List.map_filter (as_cluster_role_binding \<circ> ao_value) crbs)
            then Inr ([], True)
            else rbind (rst_list st (rbacMeta ''RoleBinding'' [] [])) (\<lambda>rbs.
                 rbind (existingNamespaces st) (\<lambda>live.
                 Inr (map (\<lambda>rb. om_namespace (rb_meta rb))
                        (filter (\<lambda>rb. (om_namespace (rb_meta rb) = [] \<or> om_namespace (rb_meta rb) \<in> set live) \<and>
                                      subjectMatches (rb_subjects rb) i)
                           (List.map_filter (as_role_binding \<circ> ao_value) rbs)), False)))))"

end
