(* ===== verification/AdmissionAuthz.thy ===== *)
theory AdmissionAuthz
  imports AdmissionPolicy AdmissionRefs Authz
begin

text \<open>
  The admission plugins that ask the authorizer about the requester (\<^verbatim>\<open>rbac_escalation.go\<close>,
  \<^verbatim>\<open>secret_access.go\<close>, \<^verbatim>\<open>service_join.go\<close>), the validation of a set over the children and Services it
  renders (\<^verbatim>\<open>applicationset.go\<close>), and the chain the controller runs (\<^verbatim>\<open>plugins.go\<close>).

  The authorizer is the function \<open>authz_attributes \<Rightarrow> (string, bool) result\<close>, \<open>None\<close> for nil.
\<close>

type_synonym authorizer = "authz_attributes \<Rightarrow> (string, bool) result"

section \<open>Escalation (rbac\_escalation.go)\<close>

abbreviation maxEscalationTuples :: nat where "maxEscalationTuples \<equiv> 10000"

definition rule_tuples :: "policy_rule \<Rightarrow> nat" where
  "rule_tuples r =
     max (length (pr_api_groups r)) 1 * max (length (pr_resources r)) 1 * max (length (pr_verbs r)) 1 +
     length (pr_non_resource_urls r) * max (length (pr_verbs r)) 1"

definition ask :: "authorizer \<Rightarrow> authz_attributes \<Rightarrow> string \<Rightarrow> (admission_error, unit) result" where
  "ask auth at reason =
     rbind (of_string_error Rejected (auth at)) (\<lambda>ok. if ok then Inr () else Inl (Forbidden reason))"

definition check_path_grant :: "authorizer \<Rightarrow> identity \<Rightarrow> string \<times> string \<Rightarrow> (admission_error, unit) result" where
  "check_path_grant auth i uv =
     (case uv of (url, verb) \<Rightarrow>
        if verb = ''*'' \<or> ends_with url ''*'' then Inl (Forbidden ''rbac: wildcard non-resource permission'')
        else ask auth (zero_authz\<lparr>az_user := Some i, az_verb := verb, az_path := url\<rparr>) ''rbac: may not grant path'')"

definition check_resource_grant ::
  "authorizer \<Rightarrow> identity \<Rightarrow> string \<Rightarrow> string \<times> string \<times> string \<Rightarrow> (admission_error, unit) result" where
  "check_resource_grant auth i ns t =
     (case t of (g, res, verb) \<Rightarrow>
        if g = ''*'' \<or> res = ''*'' \<or> verb = ''*'' then Inl (Forbidden ''rbac: wildcard permission'')
        else ask auth (zero_authz\<lparr>az_user := Some i, az_verb := verb, az_group := g, az_resource := res,
                                  az_namespace := ns, az_resource_request := True\<rparr>) ''rbac: may not grant'')"

definition path_tuples :: "policy_rule \<Rightarrow> (string \<times> string) list" where
  "path_tuples r = concat (map (\<lambda>u. map (\<lambda>v. (u, v)) (pr_verbs r)) (pr_non_resource_urls r))"

definition resource_tuples :: "policy_rule \<Rightarrow> (string \<times> string \<times> string) list" where
  "resource_tuples r =
     concat (map (\<lambda>g. concat (map (\<lambda>res. map (\<lambda>v. (g, res, v)) (pr_verbs r)) (pr_resources r))) (pr_api_groups r))"

definition check_grants :: "authorizer \<Rightarrow> identity \<Rightarrow> string \<Rightarrow> policy_rule list \<Rightarrow> (admission_error, unit) result" where
  "check_grants auth i ns rules =
     (if maxEscalationTuples < sum_list (map rule_tuples rules) then Inl (Forbidden ''rbac: too many combinations'')
      else rfold (\<lambda>r _. rbind (rfold (\<lambda>t _. check_path_grant auth i t) (path_tuples r) ()) (\<lambda>_.
                        rfold (\<lambda>t _. check_resource_grant auth i ns t) (resource_tuples r) ())) rules ())"

definition list_or_empty :: "'q lister \<Rightarrow> object_ref \<Rightarrow> 'q api_object list" where
  "list_or_empty l m = (case l m of Inl _ \<Rightarrow> [] | Inr obs \<Rightarrow> obs)"

definition referencedRules :: "'q lister option \<Rightarrow> role_ref \<Rightarrow> string \<Rightarrow> policy_rule list" where
  "referencedRules lo ref ns =
     (case lo of
        None \<Rightarrow> []
      | Some l \<Rightarrow>
          if rf_kind ref = ''Role'' then
            (case find (\<lambda>r. om_name (role_meta r) = rf_name ref \<and> om_namespace (role_meta r) = ns)
                    (List.map_filter (\<lambda>ob. case ao_value ob of VRole r \<Rightarrow> Some r | _ \<Rightarrow> None)
                       (list_or_empty l (rbacMeta ''Role'' [] []))) of
               None \<Rightarrow> [] | Some r \<Rightarrow> role_rules r)
          else if rf_kind ref = ''ClusterRole'' then
            (case find (\<lambda>r. om_name (role_meta r) = rf_name ref)
                    (List.map_filter (\<lambda>ob. case ao_value ob of VClusterRole r \<Rightarrow> Some r | _ \<Rightarrow> None)
                       (list_or_empty l (rbacMeta ''ClusterRole'' [] []))) of
               None \<Rightarrow> [] | Some r \<Rightarrow> role_rules r)
          else [])"

text \<open>\<open>None\<close> when the write is not the plugin's business: the three plugins share this guard.\<close>

definition asked_requester :: "authorizer option \<Rightarrow> request_ctx \<Rightarrow> 'q attributes \<Rightarrow> (authorizer \<times> identity) option" where
  "asked_requester ao ctx a =
     (case (ao, ctx) of
        (Some auth, Some i) \<Rightarrow>
          if at_operation a = OpDelete \<or> IsSubresource a \<or> AdminGroup \<in> set (id_groups i) then None
          else Some (auth, i)
      | _ \<Rightarrow> None)"

definition rbacEscalation_Validate ::
  "authorizer option \<Rightarrow> 'q lister option \<Rightarrow> request_ctx \<Rightarrow> 'q attributes \<Rightarrow> (admission_error, unit) result" where
  "rbacEscalation_Validate ao lo ctx a =
     (case asked_requester ao ctx a of
        None \<Rightarrow> Inr ()
      | Some (auth, i) \<Rightarrow>
          (case at_value a of
             VRole r \<Rightarrow> check_grants auth i (om_namespace (role_meta r)) (role_rules r)
           | VClusterRole r \<Rightarrow> check_grants auth i [] (role_rules r)
           | VRoleBinding rb \<Rightarrow>
               check_grants auth i (om_namespace (rb_meta rb)) (referencedRules lo (rb_role_ref rb) (om_namespace (rb_meta rb)))
           | VClusterRoleBinding rb \<Rightarrow> check_grants auth i [] (referencedRules lo (rb_role_ref rb) [])
           | _ \<Rightarrow> Inr ()))"

section \<open>Secrets (secret\_access.go)\<close>

abbreviation maxSecretRefs :: nat where "maxSecretRefs \<equiv> 64"

definition secret_names :: "env_var list \<Rightarrow> 'q volume_mount list \<Rightarrow> string list" where
  "secret_names env volumes =
     map (\<lambda>e. esr_name (the (ev_secret_ref e)))
       (filter (\<lambda>e. case ev_secret_ref e of None \<Rightarrow> False | Some r \<Rightarrow> esr_name r \<noteq> []) env) @
     map SecretName (filter (\<lambda>v. VolumeMount_IsSecret v \<and> SecretName v \<noteq> []) volumes)"

definition check_named ::
  "authorizer \<Rightarrow> identity \<Rightarrow> string \<Rightarrow> string \<Rightarrow> string \<Rightarrow> (admission_error, unit) result" where
  "check_named auth i resource ns name =
     ask auth (zero_authz\<lparr>az_user := Some i, az_verb := ''get'', az_group := core_group, az_resource := resource,
                          az_namespace := ns, az_name := name, az_resource_request := True\<rparr>) (resource @ '': may not reference'')"

definition check_secret_refs :: "authorizer \<Rightarrow> identity \<Rightarrow> string \<Rightarrow> string list \<Rightarrow> (admission_error, unit) result" where
  "check_secret_refs auth i ns names0 =
     (let names = sorted_keys names0
      in if maxSecretRefs < length names then Inl (Forbidden ''spec: too many secrets are referenced'')
         else rfold (\<lambda>n _. check_named auth i ''secrets'' ns n) names ())"

definition secretAccess_Validate ::
  "authorizer option \<Rightarrow> request_ctx \<Rightarrow> 'q attributes \<Rightarrow> (admission_error, unit) result" where
  "secretAccess_Validate ao ctx a =
     (case asked_requester ao ctx a of
        None \<Rightarrow> Inr ()
      | Some (auth, i) \<Rightarrow>
          (case at_value a of
             VApplication app \<Rightarrow>
               check_secret_refs auth i (app_namespace app) (secret_names (as_env (app_spec app)) (as_volumes (app_spec app)))
           | VApplicationSet s \<Rightarrow>
               check_secret_refs auth i (om_namespace (aset_meta s))
                 (secret_names (com_env (ass_common (aset_spec s))) (com_volumes (ass_common (aset_spec s))) @
                  concat (map (\<lambda>c. secret_names (as_env (nas_spec c)) (as_volumes (nas_spec c)))
                            (ass_applications (aset_spec s))))
           | _ \<Rightarrow> Inr ()))"

section \<open>Joining a service (service\_join.go)\<close>

definition check_join :: "authorizer \<Rightarrow> identity \<Rightarrow> string \<Rightarrow> string \<Rightarrow> (admission_error, unit) result" where
  "check_join auth i ns svc = (if svc = [] then Inr () else check_named auth i ''services'' ns svc)"

definition serviceJoin_Validate ::
  "authorizer option \<Rightarrow> request_ctx \<Rightarrow> 'q attributes \<Rightarrow> (admission_error, unit) result" where
  "serviceJoin_Validate ao ctx a =
     (case asked_requester ao ctx a of
        None \<Rightarrow> Inr ()
      | Some (auth, i) \<Rightarrow>
          (case at_value a of
             VApplication app \<Rightarrow> check_join auth i (app_namespace app) (as_service_name (app_spec app))
           | VApplicationSet s \<Rightarrow>
               rfold (\<lambda>c _. check_join auth i (om_namespace (aset_meta s)) (as_service_name (nas_spec c)))
                 (ass_applications (aset_spec s)) ()
           | _ \<Rightarrow> Inr ()))"

section \<open>Sets (applicationset.go)\<close>

definition validateReplicas :: "'q named_application_spec \<Rightarrow> (admission_error, unit) result" where
  "validateReplicas c =
     (case sca_replicas (nas_scale c) of
        None \<Rightarrow> Inr ()
      | Some n \<Rightarrow>
          if n < 1 then Inl (Rejected ''scale.replicas: must be at least 1'')
          else if sca_node_spread (nas_scale c) \<noteq> None
          then Inl (Rejected ''scale.replicas and scale.nodeSpread are mutually exclusive'')
          else Inr ())"

definition check_component :: "'q named_application_spec \<Rightarrow> string list \<Rightarrow> (admission_error, string list) result" where
  "check_component c seen =
     (if \<not> dns1123Label (nas_name c) then Inl (Rejected ''spec.applications.name: not a valid DNS-1123 name'')
      else if nas_name c \<in> set seen then Inl (Rejected ''spec.applications: duplicate component name'')
      else if sca_node_spread (nas_scale c) \<noteq> None \<and> pl_node_name (as_placement (nas_spec c)) \<noteq> []
      then Inl (Rejected ''spec.applications: a nodeSpread component must not set spec.placement.nodeName'')
      else rbind (validateReplicas c) (\<lambda>_. Inr (nas_name c # seen)))"

definition validatePlacement :: "'q application_set \<Rightarrow> (admission_error, unit) result" where
  "validatePlacement s =
     (if ass_placement_mode (aset_spec s) \<noteq> [] \<and> ass_placement_mode (aset_spec s) \<noteq> PlacementSameNode
      then Inl (Rejected ''spec.placement.mode: not a known mode'')
      else if SameNode (aset_spec s) \<and>
              list_ex (\<lambda>c. sca_node_spread (nas_scale c) \<noteq> None) (ass_applications (aset_spec s))
      then Inl (Rejected ''nodeSpread contradicts placement.mode=sameNode'')
      else Inr ())"

definition create_attrs :: "string \<Rightarrow> 'q api_value \<Rightarrow> 'q attributes" where
  "create_attrs kind v =
     \<lparr>at_gvk = (core_group, ''v1'', kind), at_operation = OpCreate,
      at_object = \<lparr>ao_api_version = core_gv, ao_kind = kind, ao_value = v\<rparr>, at_old = None, at_subresource = []\<rparr>"

definition check_child ::
  "bool \<Rightarrow> request_ctx \<Rightarrow> ('q::linordered_ab_group_add) application \<Rightarrow> (admission_error, unit) result" where
  "check_child routedNetwork ctx child =
     rbind (policyEnforcement_Admit ctx (create_attrs ''Application'' (VApplication child))) (\<lambda>a.
     rbind (appPolicy_Validate routedNetwork ctx a) (\<lambda>_. policyEnforcement_Validate ctx a))"

definition applicationSet_Validate ::
  "('q::linordered_ab_group_add) digests \<Rightarrow> 'q lister option \<Rightarrow> bool \<Rightarrow> request_ctx \<Rightarrow> 'q attributes \<Rightarrow>
   (admission_error, unit) result" where
  "applicationSet_Validate dg lo routedNetwork ctx a =
     (if at_operation a = OpDelete \<or> IsSubresource a then Inr ()
      else case at_value a of
             VApplicationSet s \<Rightarrow>
               if ass_applications (aset_spec s) = [] then Inl (Rejected ''spec.applications: at least one application is required'')
               else
                 rbind (rfold check_component (ass_applications (aset_spec s)) []) (\<lambda>_.
                 rbind (validatePlacement s) (\<lambda>_.
                 if ro_max_unavailable (ass_rollout (aset_spec s)) < 0
                 then Inl (Rejected ''spec.rollout.maxUnavailable: must not be negative'')
                 else
                   rbind (case lo of None \<Rightarrow> Inr [] | Some l \<Rightarrow> list_as as_node l ''Node'') (\<lambda>nodes.
                   rbind (of_string_error Rejected (Expand dg s nodes)) (\<lambda>children.
                   rbind (rfold (\<lambda>c _. check_child routedNetwork ctx c) children ()) (\<lambda>_.
                   rfold (\<lambda>svc _. servicePolicy_Validate lo ctx (create_attrs ''Service'' (VService svc)))
                     (ExpandServices dg s) ())))))
           | _ \<Rightarrow> Inr ())"

section \<open>The chain (plugins.go)\<close>

text \<open>
  What the deployment configures, and the code outside the module the chain calls: the digests of a
  rendered set and the reading of a certificate request.
\<close>

record 'q chain_config =
  cc_service_cidr :: string
  cc_routed_network :: bool
  cc_gates :: gates
  cc_digests :: "'q digests"
  cc_csr_cn :: "string \<Rightarrow> (string, string) result"

definition DefaultChain :: "('q::linordered_ab_group_add) lister option \<Rightarrow> 'q chain_config \<Rightarrow> 'q chain" where
  "DefaultChain lo cfg =
     [\<lparr>plug_admit = defaulting_Admit, plug_validate = no_validate\<rparr>,
      \<lparr>plug_admit = secretPolicy_Admit, plug_validate = secretPolicy_Validate (cc_gates cfg)\<rparr>,
      \<lparr>plug_admit = csrPolicy_Admit, plug_validate = csrPolicy_Validate (cc_csr_cn cfg)\<rparr>,
      \<lparr>plug_admit = no_admit, plug_validate = rbacRules_Validate\<rparr>,
      \<lparr>plug_admit = no_admit, plug_validate = applicationSet_Validate (cc_digests cfg) lo (cc_routed_network cfg)\<rparr>,
      \<lparr>plug_admit = childOwnership_Admit, plug_validate = childOwnership_Validate\<rparr>,
      \<lparr>plug_admit = finalizerOwnership_Admit, plug_validate = finalizerOwnership_Validate\<rparr>,
      \<lparr>plug_admit = uidAllocation_Admit lo, plug_validate = uidAllocation_Validate lo\<rparr>,
      \<lparr>plug_admit = serviceVIP_Admit lo (cc_service_cidr cfg), plug_validate = no_validate\<rparr>,
      \<lparr>plug_admit = policyEnforcement_Admit, plug_validate = policyEnforcement_Validate\<rparr>,
      \<lparr>plug_admit = no_admit, plug_validate = appPolicy_Validate (cc_routed_network cfg)\<rparr>,
      \<lparr>plug_admit = no_admit, plug_validate = servicePolicy_Validate lo\<rparr>,
      \<lparr>plug_admit = no_admit, plug_validate = serviceAddress_Validate lo\<rparr>,
      \<lparr>plug_admit = no_admit, plug_validate = nodePolicy_Validate\<rparr>,
      \<lparr>plug_admit = no_admit, plug_validate = nodeRestriction_Validate lo\<rparr>,
      \<lparr>plug_admit = no_admit, plug_validate = referenceCheck_Validate lo\<rparr>,
      \<lparr>plug_admit = no_admit, plug_validate = capacityCheck_Validate lo\<rparr>]"

definition WithEscalationCheck :: "'q chain \<Rightarrow> authorizer option \<Rightarrow> 'q lister option \<Rightarrow> 'q chain" where
  "WithEscalationCheck c ao lo =
     (if ao = None then c
      else c @ [\<lparr>plug_admit = no_admit, plug_validate = rbacEscalation_Validate ao lo\<rparr>,
                \<lparr>plug_admit = no_admit, plug_validate = secretAccess_Validate ao\<rparr>,
                \<lparr>plug_admit = no_admit, plug_validate = serviceJoin_Validate ao\<rparr>])"

end
