(* ===== verification/ServiceLayer.thy ===== *)
theory ServiceLayer
  imports ApiCodec AdmissionAuthz
begin

text \<open>
  The business-logic layer (\<^verbatim>\<open>controller/service/service.go\<close>): every write is decoded, bound to the
  namespace of the request, admitted by the chain and handed to the store; storage errors become
  API errors.

  The store is the interface \<open>storage.Storage\<close> of \<^verbatim>\<open>api/storage/storage.go\<close>, a record of its operations
  over a state \<open>'s\<close>; the uid and the time a create stamps are arguments. An operation of the service that reads the store, admits, and then writes is
  given as its reading part, which yields the admitted object, and the whole operation, which runs
  both on one state; another request may write in between, and the reading part is what such runs
  are made of.

  Parameters (record \<open>service_env\<close>): the four calls of \<open>Service.decode\<close> on the bytes of a request
  (\<open>scheme.New\<close>, \<open>scheme.Default\<close>, \<open>scheme.Validate\<close>, which run a JSON-schema library, and
  \<open>json.Unmarshal\<close>), the patch library (how many
  operations a JSON patch has, and what applying a patch gives), the DNS-1123 validators of apimachinery, the clock, and the admission chain, which reads the store it is
  handed. Of an API error its reason is kept.
\<close>

section \<open>The store's interface (api/storage/storage.go)\<close>

record ('s, 'j) storage =
  sto_create :: "string \<Rightarrow> int \<Rightarrow> 'j object \<Rightarrow> 's \<Rightarrow> (storage_error, 'j object) result \<times> 's"
  sto_update :: "'j object \<Rightarrow> 's \<Rightarrow> (storage_error, 'j object) result \<times> 's"
  sto_subresource :: "string \<Rightarrow> 'j object \<Rightarrow> 's \<Rightarrow> (storage_error, 'j object) result \<times> 's"
  sto_rollback :: "object_ref \<Rightarrow> string \<Rightarrow> int \<Rightarrow> 's \<Rightarrow> (storage_error, 'j object) result \<times> 's"
  sto_get_revision :: "object_ref \<Rightarrow> string \<Rightarrow> int \<Rightarrow> 's \<Rightarrow> (storage_error, 'j object) result"
  sto_delete :: "object_ref \<Rightarrow> 's \<Rightarrow> storage_error option \<times> 's"
  sto_get :: "object_ref \<Rightarrow> 's \<Rightarrow> (storage_error, 'j object) result"
  sto_list :: "object_ref \<Rightarrow> 's \<Rightarrow> (storage_error, 'j object list) result"

section \<open>Errors\<close>

datatype api_error =
    ApiNotFound | ApiAlreadyExists | ApiConflict | ApiInternal
  | ApiInvalid string | ApiForbidden string | ApiBadRequest string | ApiTooLarge | ApiUnsupportedMediaType

definition apiError :: "storage_error \<Rightarrow> api_error" where
  "apiError e =
     (case e of
        ErrNotFound \<Rightarrow> ApiNotFound | ErrAlreadyExists \<Rightarrow> ApiAlreadyExists
      | ErrConflict \<Rightarrow> ApiConflict | ErrOther _ \<Rightarrow> ApiInternal)"

definition admissionError :: "admission_error \<Rightarrow> api_error" where
  "admissionError e = (case e of Forbidden r \<Rightarrow> ApiForbidden r | Rejected r \<Rightarrow> ApiInvalid r)"

definition map_error :: "('e \<Rightarrow> 'f) \<Rightarrow> ('e, 'a) result \<Rightarrow> ('f, 'a) result" where
  "map_error f r = (case r of Inl e \<Rightarrow> Inl (f e) | Inr x \<Rightarrow> Inr x)"

section \<open>The service\<close>

datatype patch_type = MergePatch | JSONPatch | OtherPatch

record ('s, 'q, 'd) service_env =
  sv_store :: "('s, 'q api_field) storage"
  sv_known :: "gvk \<Rightarrow> bool"
  sv_default :: "gvk \<Rightarrow> 'd \<Rightarrow> 'd option"
  sv_validate :: "gvk \<Rightarrow> 'd \<Rightarrow> bool"
  sv_unmarshal :: "gvk \<Rightarrow> 'd \<Rightarrow> 'q api_object option"
  sv_patch_ops :: "'d \<Rightarrow> nat option"
  sv_patch :: "patch_type \<Rightarrow> 'q api_object \<Rightarrow> 'd \<Rightarrow> 'd option"
  sv_dns_subdomain :: "string \<Rightarrow> bool"
  sv_dns_label :: "string \<Rightarrow> bool"
  sv_parse_gv :: "string \<Rightarrow> (string, string \<times> string) result"
  sv_admission :: "'s \<Rightarrow> 'q chain"

text \<open>
  The body is defaulted, judged by the schema of its Kind and decoded into the type of its Kind; the
  verdict of the schema is reported before the error of the decoder.
\<close>

definition Service_decode :: "('s, 'q, 'd) service_env \<Rightarrow> gvk \<Rightarrow> 'd \<Rightarrow> (api_error, 'q api_object) result" where
  "Service_decode env g data =
     (if \<not> sv_known env g then Inl ApiInternal
      else case sv_default env g data of
             None \<Rightarrow> Inl ApiInternal
           | Some d \<Rightarrow>
               (let decoded = sv_unmarshal env g d
                in if \<not> sv_validate env g d then Inl (ApiInvalid ''schema'')
                   else case decoded of None \<Rightarrow> Inl (ApiInvalid ''body'') | Some ob \<Rightarrow> Inr ob))"

text \<open>
  The objects of a store: the scheme that wrote them decodes them, so a stored object of a Kind no
  type is registered for is an internal error.
\<close>

definition typed_result :: "(storage_error, ('q::zero) jobject) result \<Rightarrow> (storage_error, 'q api_object) result" where
  "typed_result r =
     rbind r (\<lambda>ob. case dec_object ob of None \<Rightarrow> Inl (ErrOther ''no type is registered'') | Some o' \<Rightarrow> Inr o')"

definition gvkOf :: "('s, 'q, 'd) service_env \<Rightarrow> object_ref \<Rightarrow> gvk" where
  "gvkOf env m =
     (case sv_parse_gv env (mr_api_version m) of
        Inl _ \<Rightarrow> ([], [], mr_kind m) | Inr (g, v) \<Rightarrow> (g, v, mr_kind m))"

definition metaOf :: "gvk \<Rightarrow> 'q api_object \<Rightarrow> object_ref" where
  "metaOf g ob =
     \<lparr>mr_api_version = gv_string g, mr_kind = snd (snd g), mr_namespace = om_namespace (ao_meta ob),
      mr_name = om_name (ao_meta ob)\<rparr>"

abbreviation nameOf :: "'q api_object \<Rightarrow> string" where
  "nameOf ob \<equiv> om_name (ao_meta ob)"

definition map_meta :: "(object_meta \<Rightarrow> object_meta) \<Rightarrow> 'q api_object \<Rightarrow> 'q api_object" where
  "map_meta f ob = ob\<lparr>ao_value := map_value_meta f (ao_value ob)\<rparr>"

definition validIdentity :: "('s, 'q, 'd) service_env \<Rightarrow> 'q api_object \<Rightarrow> (api_error, unit) result" where
  "validIdentity env ob =
     (if \<not> sv_dns_subdomain env (nameOf ob) then Inl (ApiInvalid ''metadata.name'')
      else if om_namespace (ao_meta ob) \<noteq> [] \<and> \<not> sv_dns_label env (om_namespace (ao_meta ob))
      then Inl (ApiInvalid ''metadata.namespace'')
      else Inr ())"

definition bindNamespace :: "'q api_object \<Rightarrow> string \<Rightarrow> (api_error, 'q api_object) result" where
  "bindNamespace ob ns =
     (let got = om_namespace (ao_meta ob)
      in if got \<noteq> [] \<and> got \<noteq> ns then Inl (ApiBadRequest ''namespace'')
         else Inr (map_meta (\<lambda>m. m\<lparr>om_namespace := ns\<rparr>) ob))"

definition rebindIdentity :: "'q api_object \<Rightarrow> 'q api_object \<Rightarrow> 'q api_object" where
  "rebindIdentity ref ob =
     map_meta (\<lambda>m. m\<lparr>om_namespace := om_namespace (ao_meta ref), om_name := om_name (ao_meta ref),
                     om_uid := om_uid (ao_meta ref), om_resource_version := om_resource_version (ao_meta ref)\<rparr>) ob"

definition admit ::
  "('s, 'q, 'd) service_env \<Rightarrow> 's \<Rightarrow> request_ctx \<Rightarrow> gvk \<Rightarrow> 'q api_object \<Rightarrow> 'q api_object option \<Rightarrow> operation \<Rightarrow>
   string \<Rightarrow> (api_error, 'q api_object) result" where
  "admit env s ctx g ob old op sub =
     map_error admissionError
       (rbind (Chain_Run (sv_admission env s) ctx
                 \<lparr>at_gvk = g, at_operation = op, at_object = ob, at_old = old, at_subresource = sub\<rparr>)
          (\<lambda>a. Inr (at_object a)))"

text \<open>The chain the controller builds: \<open>admission.DefaultChain\<close> over the store's own \<open>List\<close>, with the
  checks that ask the authorizer.\<close>

definition store_lister :: "('s, ('q::zero) api_field) storage \<Rightarrow> 's \<Rightarrow> 'q lister" where
  "store_lister st s m =
     (case sto_list st m s of Inl _ \<Rightarrow> Inl ''list'' | Inr obs \<Rightarrow> Inr (List.map_filter dec_object obs))"

definition controller_chain ::
  "('s, ('q::linordered_ab_group_add) api_field) storage \<Rightarrow> 'q chain_config \<Rightarrow> authorizer option \<Rightarrow> 's \<Rightarrow> 'q chain" where
  "controller_chain st cfg ao s =
     WithEscalationCheck (DefaultChain (Some (store_lister st s)) cfg) ao (Some (store_lister st s))"

section \<open>Reading\<close>

definition Service_Get ::
  "('s, 'q::zero, 'd) service_env \<Rightarrow> object_ref \<Rightarrow> 's \<Rightarrow> (api_error, 'q api_object) result" where
  "Service_Get env m s = map_error apiError (typed_result (sto_get (sv_store env) m s))"

definition Service_List ::
  "('s, 'q::zero, 'd) service_env \<Rightarrow> object_ref \<Rightarrow> 's \<Rightarrow> (api_error, 'q api_object list) result" where
  "Service_List env m s =
     map_error apiError (rbind (sto_list (sv_store env) m s) (\<lambda>obs. Inr (List.map_filter dec_object obs)))"

section \<open>Writing\<close>

definition write_result :: "(storage_error, ('q::zero) jobject) result \<times> 's \<Rightarrow> (api_error, 'q api_object) result \<times> 's" where
  "write_result rs = (map_error apiError (typed_result (fst rs)), snd rs)"

definition Create_admit ::
  "('s, 'q, 'd) service_env \<Rightarrow> request_ctx \<Rightarrow> gvk \<Rightarrow> 'd \<Rightarrow> string \<Rightarrow> 's \<Rightarrow> (api_error, 'q api_object) result" where
  "Create_admit env ctx g data ns s =
     rbind (Service_decode env g data) (\<lambda>ob0.
     rbind (bindNamespace ob0 ns) (\<lambda>ob.
     if nameOf ob = [] then Inl (ApiInvalid ''metadata.name is required'')
     else rbind (validIdentity env ob) (\<lambda>_. admit env s ctx g ob None OpCreate [])))"

definition Service_Create ::
  "('s, 'q::zero, 'd) service_env \<Rightarrow> string \<Rightarrow> int \<Rightarrow> request_ctx \<Rightarrow> gvk \<Rightarrow> 'd \<Rightarrow> string \<Rightarrow> 's \<Rightarrow> (api_error, 'q api_object) result \<times> 's" where
  "Service_Create env uid now ctx g data ns s =
     (case Create_admit env ctx g data ns s of
        Inl e \<Rightarrow> (Inl e, s)
      | Inr ob \<Rightarrow> write_result (sto_create (sv_store env) uid now (enc_object ob) s))"

definition checkUpdate ::
  "('s, 'q::zero, 'd) service_env \<Rightarrow> request_ctx \<Rightarrow> gvk \<Rightarrow> 'd \<Rightarrow> string \<Rightarrow> string \<Rightarrow> string \<Rightarrow> 's \<Rightarrow>
   (api_error, 'q api_object) result" where
  "checkUpdate env ctx g data sub ns name s =
     rbind (Service_decode env g data) (\<lambda>ob0.
     rbind (bindNamespace ob0 ns) (\<lambda>ob.
     if name \<noteq> [] \<and> nameOf ob \<noteq> [] \<and> nameOf ob \<noteq> name then Inl (ApiBadRequest ''name'')
     else rbind (map_error apiError (typed_result (sto_get (sv_store env) (metaOf g ob) s))) (\<lambda>old.
          admit env s ctx g ob (Some old) OpUpdate sub)))"

definition Service_Update ::
  "('s, 'q::zero, 'd) service_env \<Rightarrow> request_ctx \<Rightarrow> gvk \<Rightarrow> 'd \<Rightarrow> string \<Rightarrow> string \<Rightarrow> 's \<Rightarrow>
   (api_error, 'q api_object) result \<times> 's" where
  "Service_Update env ctx g data ns name s =
     (case checkUpdate env ctx g data [] ns name s of
        Inl e \<Rightarrow> (Inl e, s)
      | Inr ob \<Rightarrow> write_result (sto_update (sv_store env) (enc_object ob) s))"

definition Service_UpdateSubresource ::
  "('s, 'q::zero, 'd) service_env \<Rightarrow> request_ctx \<Rightarrow> gvk \<Rightarrow> string \<Rightarrow> 'd \<Rightarrow> string \<Rightarrow> 's \<Rightarrow>
   (api_error, 'q api_object) result \<times> 's" where
  "Service_UpdateSubresource env ctx g sub data ns s =
     (case checkUpdate env ctx g data sub ns [] s of
        Inl e \<Rightarrow> (Inl e, s)
      | Inr ob \<Rightarrow> write_result (sto_subresource (sv_store env) sub (enc_object ob) s))"

abbreviation maxJSONPatchOperations :: nat where "maxJSONPatchOperations \<equiv> 10000"

definition apply_patch ::
  "('s, 'q, 'd) service_env \<Rightarrow> patch_type \<Rightarrow> 'q api_object \<Rightarrow> 'd \<Rightarrow> (api_error, 'd) result" where
  "apply_patch env pt cur data =
     (let patched = (case sv_patch env pt cur data of None \<Rightarrow> Inl (ApiBadRequest ''patch'') | Some x \<Rightarrow> Inr x)
      in case pt of
           OtherPatch \<Rightarrow> Inl ApiUnsupportedMediaType
         | MergePatch \<Rightarrow> patched
         | JSONPatch \<Rightarrow>
             (case sv_patch_ops env data of
                None \<Rightarrow> Inl (ApiBadRequest ''patch'')
              | Some n \<Rightarrow> if maxJSONPatchOperations < n then Inl ApiTooLarge else patched))"

definition Patch_admit ::
  "('s, 'q::zero, 'd) service_env \<Rightarrow> request_ctx \<Rightarrow> object_ref \<Rightarrow> patch_type \<Rightarrow> 'd \<Rightarrow> 's \<Rightarrow>
   (api_error, 'q api_object) result" where
  "Patch_admit env ctx m pt data s =
     rbind (map_error apiError (typed_result (sto_get (sv_store env) m s))) (\<lambda>cur.
     rbind (apply_patch env pt cur data) (\<lambda>patched.
     rbind (Service_decode env (gvkOf env m) patched) (\<lambda>ob.
     admit env s ctx (gvkOf env m) (rebindIdentity cur ob) (Some cur) OpUpdate [])))"

definition Service_Patch ::
  "('s, 'q::zero, 'd) service_env \<Rightarrow> request_ctx \<Rightarrow> object_ref \<Rightarrow> patch_type \<Rightarrow> 'd \<Rightarrow> 's \<Rightarrow>
   (api_error, 'q api_object) result \<times> 's" where
  "Service_Patch env ctx m pt data s =
     (case Patch_admit env ctx m pt data s of
        Inl e \<Rightarrow> (Inl e, s)
      | Inr ob \<Rightarrow> write_result (sto_update (sv_store env) (enc_object ob) s))"

section \<open>Deleting\<close>

definition hasDependents :: "gvk \<Rightarrow> bool" where
  "hasDependents g \<longleftrightarrow> fst g = core_group \<and> snd (snd g) = ''ApplicationSet''"

text \<open>
  \<open>markDeleting\<close>: whether the object is held, and the store after the write it makes. \<open>now\<close> is the
  time of the call.
\<close>

definition orphan_stamped :: "bool \<Rightarrow> object_meta \<Rightarrow> bool" where
  "orphan_stamped orphan m \<longleftrightarrow> orphan \<and> FinalizerOrphanDependents \<notin> set (om_finalizers m)"

definition stamp_orphan :: "bool \<Rightarrow> object_meta \<Rightarrow> object_meta" where
  "stamp_orphan orphan m =
     (if orphan_stamped orphan m then m\<lparr>om_finalizers := om_finalizers m @ [FinalizerOrphanDependents]\<rparr> else m)"

definition markDeleting ::
  "('s, 'q, 'd) service_env \<Rightarrow> int \<Rightarrow> 'q api_object \<Rightarrow> bool \<Rightarrow> 's \<Rightarrow> (storage_error, bool) result \<times> 's" where
  "markDeleting env now cur orphan s =
     (let mt = ao_meta cur; cur' = map_meta (stamp_orphan orphan) cur
      in if om_finalizers mt = [] then (Inr False, s)
         else if om_deletion_timestamp mt \<noteq> None \<and> \<not> orphan_stamped orphan mt then (Inr True, s)
         else let new = (if om_deletion_timestamp mt \<noteq> None then cur'
                         else map_meta (\<lambda>m. m\<lparr>om_deletion_timestamp := Some now\<rparr>) cur');
                  (r, s') = sto_update (sv_store env) (enc_object new) s
              in (rbind r (\<lambda>_. Inr True), s'))"

definition Delete_admit ::
  "('s, 'q::zero, 'd) service_env \<Rightarrow> request_ctx \<Rightarrow> object_ref \<Rightarrow> bool \<Rightarrow> 's \<Rightarrow> (api_error, 'q api_object) result" where
  "Delete_admit env ctx m orphan s =
     rbind (map_error apiError (typed_result (sto_get (sv_store env) m s))) (\<lambda>cur.
     if orphan \<and> \<not> hasDependents (gvkOf env m) then Inl (ApiBadRequest ''propagationPolicy'')
     else rbind (map_error admissionError
                   (Chain_Validate (sv_admission env s) ctx
                      \<lparr>at_gvk = gvkOf env m, at_operation = OpDelete, at_object = cur, at_old = Some cur,
                       at_subresource = []\<rparr>)) (\<lambda>_. Inr cur))"

definition Service_Delete ::
  "('s, 'q::zero, 'd) service_env \<Rightarrow> request_ctx \<Rightarrow> int \<Rightarrow> object_ref \<Rightarrow> bool \<Rightarrow> 's \<Rightarrow> api_error option \<times> 's" where
  "Service_Delete env ctx now m orphan s =
     (case Delete_admit env ctx m orphan s of
        Inl e \<Rightarrow> (Some e, s)
      | Inr cur \<Rightarrow>
          (case markDeleting env now cur orphan s of
             (Inl e, s') \<Rightarrow> (Some (apiError e), s')
           | (Inr True, s') \<Rightarrow> (None, s')
           | (Inr False, s') \<Rightarrow>
               (case sto_delete (sv_store env) m s' of
                  (Some e, s'') \<Rightarrow> (Some (apiError e), s'') | (None, s'') \<Rightarrow> (None, s''))))"

section \<open>Rollback\<close>

definition Rollback_admit ::
  "('s, 'q::zero, 'd) service_env \<Rightarrow> request_ctx \<Rightarrow> object_ref \<Rightarrow> string \<Rightarrow> int \<Rightarrow> 's \<Rightarrow> (api_error, 'q api_object) result" where
  "Rollback_admit env ctx m uid targetRV s =
     rbind (map_error apiError (typed_result (sto_get_revision (sv_store env) m uid targetRV s))) (\<lambda>target.
     rbind (map_error apiError (typed_result (sto_get (sv_store env) m s))) (\<lambda>cur.
     rbind (map_error admissionError
              (Chain_Validate (sv_admission env s) ctx
                 \<lparr>at_gvk = gvkOf env m, at_operation = OpUpdate, at_object = target, at_old = Some cur,
                  at_subresource = []\<rparr>)) (\<lambda>_. Inr target)))"

definition Service_Rollback ::
  "('s, 'q::zero, 'd) service_env \<Rightarrow> request_ctx \<Rightarrow> object_ref \<Rightarrow> string \<Rightarrow> int \<Rightarrow> 's \<Rightarrow>
   (api_error, 'q api_object) result \<times> 's" where
  "Service_Rollback env ctx m uid targetRV s =
     (case Rollback_admit env ctx m uid targetRV s of
        Inl e \<Rightarrow> (Inl e, s)
      | Inr _ \<Rightarrow> write_result (sto_rollback (sv_store env) m uid targetRV s))"

end
