(* ===== verification/ServiceRuns.thy ===== *)
theory ServiceRuns
  imports ServiceLayer VersionedStore
begin

text \<open>
  Requests in flight. The service admits a write against the store it reads and commits it later, so
  between the two another request may commit; a run is a sequence of such halves over a store and
  the writes admitted so far. The store is any store that keeps the contract \<open>object_store\<close>: what
  each operation of \<open>storage.Storage\<close> does to the objects it holds.
\<close>

section \<open>The contract of a store\<close>

text \<open>Two objects with the same Kind and the same core fields, metadata apart.\<close>

definition core_eq :: "'j object \<Rightarrow> 'j object \<Rightarrow> bool" where
  "core_eq a b \<longleftrightarrow> o_api_version a = o_api_version b \<and> o_kind a = o_kind b \<and>
     (\<forall>k. coreField k \<longrightarrow> map_of (o_body a) k = map_of (o_body b) k)"

lemma core_eq_refl [simp]: "core_eq a a"
  by (simp add: core_eq_def)

text \<open>The part of the metadata a deletion in two phases rests on.\<close>

definition lifecycle_eq :: "'j object \<Rightarrow> 'j object \<Rightarrow> bool" where
  "lifecycle_eq a b \<longleftrightarrow> om_finalizers (o_meta a) = om_finalizers (o_meta b) \<and>
     om_deletion_timestamp (o_meta a) = om_deletion_timestamp (o_meta b)"

definition core_determined :: "('j object \<Rightarrow> bool) \<Rightarrow> bool" where
  "core_determined P \<longleftrightarrow> (\<forall>a b. core_eq a b \<longrightarrow> P a = P b)"

lemma core_determinedD: "core_determined P \<Longrightarrow> core_eq a b \<Longrightarrow> P b \<Longrightarrow> P a"
  by (auto simp: core_determined_def)

definition put_look ::
  "(string \<Rightarrow> string \<Rightarrow> 'j object option) \<Rightarrow> string \<Rightarrow> string \<Rightarrow> 'j object option \<Rightarrow> string \<Rightarrow> string \<Rightarrow> 'j object option" where
  "put_look f b k v = f(b := (f b)(k := v))"

lemma put_look_apply: "put_look f b k v b' k' = (if b' = b \<and> k' = k then v else f b' k')"
  by (auto simp: put_look_def)

text \<open>Every stored object satisfies a predicate.\<close>

definition all_objects :: "(string \<Rightarrow> string \<Rightarrow> 'j object option) \<Rightarrow> ('j object \<Rightarrow> bool) \<Rightarrow> bool" where
  "all_objects f P \<longleftrightarrow> (\<forall>b k ob. f b k = Some ob \<longrightarrow> P ob)"

locale object_store =
  fixes st :: "('s, 'j) storage"
    and ok :: "'s \<Rightarrow> bool"
    and look :: "'s \<Rightarrow> string \<Rightarrow> string \<Rightarrow> 'j object option"
    and fit_obj :: "'j object \<Rightarrow> 's \<Rightarrow> bool"
    and fit_ref :: "object_ref \<Rightarrow> 's \<Rightarrow> bool"
    and fit_uid :: "string \<Rightarrow> bool"
  assumes create_law: "ok s \<Longrightarrow> fit_obj ob s \<Longrightarrow> fit_uid uid \<Longrightarrow> sto_create st uid now ob s = (Inr res, s') \<Longrightarrow>
      ok s' \<and> core_eq res ob \<and> (\<exists>b. look s b (o_key ob) = None \<and> look s' = put_look (look s) b (o_key ob) (Some res))"
    and update_law: "ok s \<Longrightarrow> fit_obj ob s \<Longrightarrow> sto_update st ob s = (Inr res, s') \<Longrightarrow>
      ok s' \<and> core_eq res ob \<and> lifecycle_eq res ob \<and>
      (\<exists>b old. look s b (o_key ob) = Some old \<and> look s' = put_look (look s) b (o_key ob) (Some res))"
    and subresource_law: "ok s \<Longrightarrow> fit_obj ob s \<Longrightarrow> subresourceField sub \<Longrightarrow> sto_subresource st sub ob s = (Inr res, s') \<Longrightarrow>
      ok s' \<and> (\<exists>b old. look s b (o_key ob) = Some old \<and> core_eq res old \<and> o_meta res = o_meta old \<and>
                 look s' = put_look (look s) b (o_key ob) (Some res))"
    and rollback_law: "ok s \<Longrightarrow> fit_ref m s \<Longrightarrow> int64 n \<Longrightarrow> sto_rollback st m uid n s = (Inr res, s') \<Longrightarrow>
      ok s' \<and> (\<exists>revn b k old. sto_get_revision st m uid n s = Inr revn \<and> core_eq res revn \<and>
                 look s b k = Some old \<and> look s' = put_look (look s) b k (Some res))"
    and delete_law: "ok s \<Longrightarrow> fit_ref m s \<Longrightarrow> sto_delete st m s = (None, s') \<Longrightarrow>
      ok s' \<and> (\<exists>b old. sto_get st m s = Inr old \<and> look s b (recordKey (mr_namespace m) (mr_name m)) = Some old \<and>
                 look s' = put_look (look s) b (recordKey (mr_namespace m) (mr_name m)) None)"
    and get_law: "ok s \<Longrightarrow> fit_ref m s \<Longrightarrow> sto_get st m s = Inr ob \<Longrightarrow>
      o_key ob = recordKey (mr_namespace m) (mr_name m) \<and> (\<exists>b. look s b (recordKey (mr_namespace m) (mr_name m)) = Some ob)"
    and error_laws: "sto_create st uid now ob s = (Inl e, s') \<Longrightarrow> s' = s" "sto_update st ob s = (Inl e, s') \<Longrightarrow> s' = s"
      "sto_subresource st sub ob s = (Inl e, s') \<Longrightarrow> s' = s" "sto_rollback st m uid n s = (Inl e, s') \<Longrightarrow> s' = s"
      "sto_delete st m s = (Some e, s') \<Longrightarrow> s' = s"
begin

lemma all_objects_put: "all_objects (look s) P \<Longrightarrow> P res \<Longrightarrow> look s' = put_look (look s) b k (Some res) \<Longrightarrow> all_objects (look s') P"
  by (auto simp: all_objects_def put_look_apply split: if_splits)

lemma create_keeps:
  assumes "core_determined P" "ok s" "all_objects (look s) P" "fit_obj ob s" "fit_uid uid" "P ob" "sto_create st uid now ob s = (r, s')"
  shows "ok s' \<and> all_objects (look s') P"
proof (cases r)
  case (Inl e)
  then show ?thesis using error_laws(1) assms by metis
next
  case (Inr res)
  have law: "ok s'" "core_eq res ob" "\<exists>b. look s' = put_look (look s) b (o_key ob) (Some res)"
    using create_law[OF assms(2,4,5)] assms(7) Inr by blast+
  then show ?thesis using all_objects_put[OF assms(3) core_determinedD[OF assms(1) law(2) assms(6)]] by blast
qed

lemma update_keeps:
  assumes "core_determined P" "ok s" "all_objects (look s) P" "fit_obj ob s" "P ob" "sto_update st ob s = (r, s')"
  shows "ok s' \<and> all_objects (look s') P"
proof (cases r)
  case (Inl e)
  then show ?thesis using error_laws(2) assms by metis
next
  case (Inr res)
  have law: "ok s'" "core_eq res ob" "\<exists>b. look s' = put_look (look s) b (o_key ob) (Some res)"
    using update_law[OF assms(2,4)] assms(6) Inr by blast+
  then show ?thesis using all_objects_put[OF assms(3) core_determinedD[OF assms(1) law(2) assms(5)]] by blast
qed

lemma subresource_keeps:
  assumes "core_determined P" "ok s" "all_objects (look s) P" "fit_obj ob s" "subresourceField sub"
    and "sto_subresource st sub ob s = (r, s')"
  shows "ok s' \<and> all_objects (look s') P"
proof (cases r)
  case (Inl e)
  then show ?thesis using error_laws(3) assms by metis
next
  case (Inr res)
  obtain b old where law: "ok s'" "look s b (o_key ob) = Some old" "core_eq res old"
    "look s' = put_look (look s) b (o_key ob) (Some res)"
    using subresource_law[OF assms(2,4,5)] assms(6) Inr by blast
  have "P old" using law(2) assms(3) by (auto simp: all_objects_def)
  then show ?thesis using all_objects_put[OF assms(3) core_determinedD[OF assms(1) law(3)] law(4)] law(1) by blast
qed

lemma rollback_keeps:
  assumes "core_determined P" "ok s" "all_objects (look s) P" "fit_ref m s" "int64 n"
    and "\<And>revn. sto_get_revision st m uid n s = Inr revn \<Longrightarrow> P revn" "sto_rollback st m uid n s = (r, s')"
  shows "ok s' \<and> all_objects (look s') P"
proof (cases r)
  case (Inl e)
  then show ?thesis using error_laws(4) assms by metis
next
  case (Inr res)
  obtain revn b k where law: "ok s'" "sto_get_revision st m uid n s = Inr revn" "core_eq res revn"
    "look s' = put_look (look s) b k (Some res)"
    using rollback_law[OF assms(2,4,5)] assms(7) Inr by blast
  then show ?thesis using all_objects_put[OF assms(3) core_determinedD[OF assms(1) law(3) assms(6)[OF law(2)]]] by blast
qed

lemma delete_keeps:
  assumes "ok s" "all_objects (look s) P" "fit_ref m s" "sto_delete st m s = (r, s')"
  shows "ok s' \<and> all_objects (look s') P"
proof (cases r)
  case (Some e)
  then show ?thesis using error_laws(5) assms by metis
next
  case None
  then show ?thesis using delete_law[OF assms(1,3)] assms(2,4)
    by (fastforce simp: all_objects_def put_look_apply split: if_splits)
qed

lemma get_stored: "ok s \<Longrightarrow> all_objects (look s) P \<Longrightarrow> fit_ref m s \<Longrightarrow> sto_get st m s = Inr ob \<Longrightarrow> P ob"
  using get_law by (fastforce simp: all_objects_def)

end

section \<open>The BoltDB store keeps it\<close>

definition bolt_storage :: "('b, 'j) bbolt \<Rightarrow> deps \<Rightarrow> (('b, 'j) DB, 'j) storage" where
  "bolt_storage ops d =
     \<lparr>sto_create = Create ops d, sto_update = Update ops d, sto_subresource = UpdateSubresource ops d,
      sto_rollback = Rollback ops d, sto_get_revision = GetRevision ops d, sto_delete = Delete ops d,
      sto_get = Get ops d, sto_list = (\<lambda>m. List_objects ops d m [])\<rparr>"

definition bolt_fit_obj :: "('b, 'j) bbolt \<Rightarrow> deps \<Rightarrow> 'j object \<Rightarrow> ('b, 'j) DB \<Rightarrow> bool" where
  "bolt_fit_obj ops d ob s \<longleftrightarrow> room ops s \<and> plain_kind d ob \<and> registered d (d_scheme s) ob \<and> wf_object ob"

definition bolt_fit_ref :: "('b, 'j) bbolt \<Rightarrow> deps \<Rightarrow> object_ref \<Rightarrow> ('b, 'j) DB \<Rightarrow> bool" where
  "bolt_fit_ref ops d m s \<longleftrightarrow> room ops s \<and> plain_ref d m"

definition bolt_look :: "('b, 'j) bbolt \<Rightarrow> deps \<Rightarrow> ('b, 'j) DB \<Rightarrow> string \<Rightarrow> string \<Rightarrow> 'j object option" where
  "bolt_look ops d s = vs_obj (bolt_abs ops d s)"

lemma bolt_look_kind: "kind_bucket b \<Longrightarrow> bolt_look ops d s b k = stored ops d s b k"
  by (simp add: bolt_look_def bolt_abs_def)

lemma wf_core_body:
  assumes "wf_object a" "wf_object b" "\<And>k. \<not> type_meta_field k \<Longrightarrow> coreField k \<Longrightarrow> map_of (o_body a) k = map_of (o_body b) k"
  shows "coreField k \<Longrightarrow> map_of (o_body a) k = map_of (o_body b) k"
  by (cases "type_meta_field k") (simp_all add: assms wf_object_type_meta)

context bbolt_laws
begin

lemma bolt_look_put:
  assumes "kind_bucket bkey"
    and "\<And>y k. kind_bucket y \<Longrightarrow> stored ops d s' y k = (if y = bkey \<and> k = key then v else stored ops d s y k)"
  shows "bolt_look ops d s' = put_look (bolt_look ops d s) bkey key v"
  using assms by (auto simp: bolt_look_def bolt_abs_def put_look_apply fun_eq_iff)

lemma stored_wf: "stored ops d s b k = Some ob \<Longrightarrow> wf_object ob"
  by (elim storedE) (rule decode_wf)

lemma bolt_create_law:
  assumes "bolt_ok ops d s" "bolt_fit_obj ops d ob s" "plain uid" "Create ops d uid now ob s = (Inr res, s')"
  shows "bolt_ok ops d s' \<and> core_eq res ob \<and>
    (\<exists>b. bolt_look ops d s b (o_key ob) = None \<and> bolt_look ops d s' = put_look (bolt_look ops d s) b (o_key ob) (Some res))"
proof -
  obtain bkey where b: "bucketKeyForObject d ob = Inr bkey" using Create_key[OF assms(4)] by blast
  have fit: "current_rv ops (d_db s) bkey < 2 ^ 64 - 1" "plain_kind d ob" "registered d (d_scheme s) ob" "wf_object ob"
    using assms(2) by (simp_all add: bolt_fit_obj_def room_def)
  note kb = plain_kind_bucket[OF fit(2) b]
  have ok: "bolt_inv ops d s" "revision_heads ops d s" using assms(1) by (simp_all add: bolt_ok_def)
  note e = Create_effect[OF ok(1) b kb fit(1,3,4) assms(3,4)]
  have "bolt_look ops d s bkey (o_key ob) = None" using e(1) kb by (simp add: bolt_look_kind)
  moreover have "core_eq res ob" using e(2) by (simp add: core_eq_def)
  ultimately show ?thesis using e(4) e(6)[OF ok(2)] bolt_look_put[OF kb e(3)] unfolding bolt_ok_def by blast
qed

lemma bolt_update_law:
  assumes "bolt_ok ops d s" "bolt_fit_obj ops d ob s" "Update ops d ob s = (Inr res, s')"
  shows "bolt_ok ops d s' \<and> core_eq res ob \<and> lifecycle_eq res ob \<and>
    (\<exists>b old. bolt_look ops d s b (o_key ob) = Some old \<and> bolt_look ops d s' = put_look (bolt_look ops d s) b (o_key ob) (Some res))"
proof -
  obtain bkey where b: "bucketKeyForObject d ob = Inr bkey" using Update_key[OF assms(3)] by blast
  have fit: "current_rv ops (d_db s) bkey < 2 ^ 64 - 1" "plain_kind d ob" "wf_object ob"
    using assms(2) by (simp_all add: bolt_fit_obj_def room_def)
  note kb = plain_kind_bucket[OF fit(2) b]
  have ok: "bolt_inv ops d s" "revision_heads ops d s" using assms(1) by (simp_all add: bolt_ok_def)
  from ok(1) b kb fit(1,3) assms(3) show ?thesis
  proof (rule Update_effect)
    fix old
    assume e: "stored ops d s bkey (o_key ob) = Some old"
      "\<And>y k. kind_bucket y \<Longrightarrow> stored ops d s' y k = (if y = bkey \<and> k = o_key ob then Some res else stored ops d s y k)"
      "o_api_version res = o_api_version ob" "o_kind res = o_kind ob"
      "o_meta res = updated_meta (o_meta old) (current_rv ops (d_db s) bkey + 1)
         (if same_desired ob old then om_generation (o_meta old) else wrap64 (om_generation (o_meta old) + 1)) (o_meta ob)"
      "\<And>k. \<not> type_meta_field k \<Longrightarrow>
         map_of (o_body res) k = (if coreField k then map_of (o_body ob) k else map_of (o_body old) k)"
      "bolt_inv ops d s'" "revision_heads ops d s \<Longrightarrow> revision_heads ops d s'"
    have "stored ops d s' bkey (o_key ob) = Some res" using e(2)[OF kb] by simp
    then have "wf_object res" by (rule stored_wf)
    then have "core_eq res ob" using e(3,4) wf_core_body[OF _ fit(3)] e(6) unfolding core_eq_def by presburger
    moreover have "bolt_look ops d s bkey (o_key ob) = Some old" using e(1) kb by (simp add: bolt_look_kind)
    moreover have "lifecycle_eq res ob" unfolding lifecycle_eq_def e(5) by (simp add: updated_meta_def)
    ultimately show ?thesis using e(7) e(8)[OF ok(2)] bolt_look_put[OF kb e(2)] unfolding bolt_ok_def by blast
  qed
qed

lemma bolt_subresource_law:
  assumes "bolt_ok ops d s" "bolt_fit_obj ops d ob s" "subresourceField sub" "UpdateSubresource ops d sub ob s = (Inr res, s')"
  shows "bolt_ok ops d s' \<and> (\<exists>b old. bolt_look ops d s b (o_key ob) = Some old \<and> core_eq res old \<and> o_meta res = o_meta old \<and>
    bolt_look ops d s' = put_look (bolt_look ops d s) b (o_key ob) (Some res))"
proof -
  obtain bkey where b: "bucketKeyForObject d ob = Inr bkey" using UpdateSubresource_key[OF assms(4)] by blast
  have "plain_kind d ob" using assms(2) by (simp add: bolt_fit_obj_def)
  note kb = plain_kind_bucket[OF this b]
  have ok: "bolt_inv ops d s" "revision_heads ops d s" using assms(1) by (simp_all add: bolt_ok_def)
  have sub: "\<not> type_meta_field sub" "\<not> coreField sub" using assms(3) subresource_not_type_meta by (auto simp: coreField_def)
  from ok(1) b kb sub(1) assms(4) show ?thesis
  proof (rule UpdateSubresource_effect)
    fix old j
    assume e: "stored ops d s bkey (o_key ob) = Some old"
      "\<And>y k. kind_bucket y \<Longrightarrow> stored ops d s' y k = (if y = bkey \<and> k = o_key ob then Some res else stored ops d s y k)"
      "o_api_version res = o_api_version old" "o_kind res = o_kind old" "o_meta res = o_meta old"
      "\<And>k. \<not> type_meta_field k \<Longrightarrow> map_of (o_body res) k = (if k = sub then Some j else map_of (o_body old) k)"
      "bolt_inv ops d s'" "revision_heads ops d s \<Longrightarrow> revision_heads ops d s'"
    have "stored ops d s' bkey (o_key ob) = Some res" using e(2)[OF kb] by simp
    then have "wf_object res" "wf_object old" using e(1) stored_wf by blast+
    then have "core_eq res old" using e(3,4) wf_core_body e(6) sub(2) unfolding core_eq_def by metis
    moreover have "bolt_look ops d s bkey (o_key ob) = Some old" using e(1) kb by (simp add: bolt_look_kind)
    ultimately show ?thesis using e(5,7) e(8)[OF ok(2)] bolt_look_put[OF kb e(2)] unfolding bolt_ok_def by blast
  qed
qed

lemma bolt_rollback_law:
  assumes "bolt_ok ops d s" "bolt_fit_ref ops d m s" "int64 n" "Rollback ops d m uid n s = (Inr res, s')"
  shows "bolt_ok ops d s' \<and> (\<exists>revn b k old. GetRevision ops d m uid n s = Inr revn \<and> core_eq res revn \<and>
    bolt_look ops d s b k = Some old \<and> bolt_look ops d s' = put_look (bolt_look ops d s) b k (Some res))"
proof -
  obtain bkey where b: "bucketKeyForMeta d m = Inr bkey" using Rollback_key[OF assms(4)] by blast
  have fit: "current_rv ops (d_db s) bkey < 2 ^ 64 - 1" "plain_ref d m" "n < 2 ^ 63"
    using assms(2,3) by (simp_all add: bolt_fit_ref_def room_def int64_def)
  note kb = plain_ref_bucket[OF fit(2) b]
  have ok: "bolt_inv ops d s" "revision_heads ops d s" using assms(1) by (simp_all add: bolt_ok_def)
  from ok b kb fit(1,3) assms(4) show ?thesis
  proof (rule Rollback_effect)
    fix revn old
    assume e: "GetRevision ops d m uid n s = Inr revn" "stored ops d s bkey (o_key revn) = Some old"
      "\<And>y k. kind_bucket y \<Longrightarrow> stored ops d s' y k = (if y = bkey \<and> k = o_key revn then Some res else stored ops d s y k)"
      "o_api_version res = o_api_version revn" "o_kind res = o_kind revn"
      "\<And>k. \<not> type_meta_field k \<Longrightarrow>
         map_of (o_body res) k = (if coreField k then map_of (o_body revn) k else map_of (o_body old) k)"
      "bolt_inv ops d s'" "revision_heads ops d s'"
    have "stored ops d s' bkey (o_key revn) = Some res" using e(3)[OF kb] by simp
    then have wf: "wf_object res" by (rule stored_wf)
    have "wf_object revn" using e(1) decode_wf b by (auto simp: GetRevision_def rbind_eq_Inr split: if_splits)
    then have "core_eq res revn" using e(4,5) wf_core_body[OF wf] e(6) unfolding core_eq_def by metis
    moreover have "bolt_look ops d s bkey (o_key revn) = Some old" using e(2) kb by (simp add: bolt_look_kind)
    ultimately show ?thesis using e(1,7,8) bolt_look_put[OF kb e(3)] unfolding bolt_ok_def by blast
  qed
qed

lemma bolt_get_law:
  assumes "bolt_ok ops d s" "bolt_fit_ref ops d m s" "Get ops d m s = Inr ob"
  shows "o_key ob = recordKey (mr_namespace m) (mr_name m) \<and>
    (\<exists>b. bolt_look ops d s b (recordKey (mr_namespace m) (mr_name m)) = Some ob)"
proof -
  let ?key = "recordKey (mr_namespace m) (mr_name m)"
  obtain bkey rec where b: "bucketKeyForMeta d m = Inr bkey" "find_record ops (d_db s) bkey ?key = Inr rec"
    "decode d (d_scheme s) rec = Inr ob" using assms(3) by (auto simp: Get_def rbind_eq_Inr)
  have "plain_ref d m" using assms(2) by (simp add: bolt_fit_ref_def)
  note kb = plain_ref_bucket[OF this b(1)]
  have "stored ops d s bkey ?key = Some ob" using b(2,3) by (rule storedI)
  moreover have "bolt_inv ops d s" using assms(1) by (simp add: bolt_ok_def)
  from this kb b(2) have "o_key ob = ?key" by (rule stored_record) (use b(3) in simp)
  ultimately show ?thesis using bolt_look_kind[OF kb] by metis
qed

lemma bolt_delete_law:
  assumes "bolt_ok ops d s" "bolt_fit_ref ops d m s" "Delete ops d m s = (None, s')"
  shows "bolt_ok ops d s' \<and> (\<exists>b old. Get ops d m s = Inr old \<and>
    bolt_look ops d s b (recordKey (mr_namespace m) (mr_name m)) = Some old \<and>
    bolt_look ops d s' = put_look (bolt_look ops d s) b (recordKey (mr_namespace m) (mr_name m)) None)"
proof -
  obtain bkey where b: "bucketKeyForMeta d m = Inr bkey" using Delete_key[OF assms(3)] by blast
  have "plain_ref d m" using assms(2) by (simp add: bolt_fit_ref_def)
  note kb = plain_ref_bucket[OF this b]
  have ok: "bolt_inv ops d s" "revision_heads ops d s" using assms(1) by (simp_all add: bolt_ok_def)
  from ok b kb assms(3) show ?thesis
  proof (rule Delete_effect)
    fix old
    let ?key = "recordKey (mr_namespace m) (mr_name m)"
    assume e: "stored ops d s bkey ?key = Some old"
      "\<And>y k. kind_bucket y \<Longrightarrow> stored ops d s' y k = (if y = bkey \<and> k = ?key then None else stored ops d s y k)"
      "bolt_inv ops d s'" "revision_heads ops d s'"
    have "Get ops d m s = Inr old" using e(1) b by (auto simp: Get_def elim!: storedE)
    then show ?thesis using e(1,3,4) bolt_look_kind[OF kb] bolt_look_put[OF kb e(2)] unfolding bolt_ok_def by metis
  qed
qed

end

sublocale bbolt_laws \<subseteq> obs: object_store "bolt_storage ops d" "bolt_ok ops d" "bolt_look ops d"
  "bolt_fit_obj ops d" "bolt_fit_ref ops d" plain for d
  by (unfold_locales; unfold bolt_storage_def storage.select_convs)
    (rule bolt_create_law bolt_update_law bolt_subresource_law bolt_rollback_law bolt_delete_law bolt_get_law
      Create_error Update_error UpdateSubresource_error Rollback_error Delete_error; assumption)+

context bbolt_laws
begin

lemma bolt_object_store:
  "object_store (bolt_storage ops d) (bolt_ok ops d) (bolt_look ops d) (bolt_fit_obj ops d) (bolt_fit_ref ops d) plain"
  by (rule obs.object_store_axioms)

end

end
