(* ===== verification/ChainFacts.thy ===== *)
theory ChainFacts
  imports ServiceLayer
begin

text \<open>
  What the admission chain leaves alone and what an admitted object satisfies, whatever the request:
  a plugin's mutation pass touches nothing but the object, keeps its Kind, and the chain stamps the
  type meta of the request; every plugin of the chain has validated the object that is returned.
\<close>

section \<open>Chains\<close>

lemma Chain_Validate_elem: "Chain_Validate c ctx a = Inr () \<Longrightarrow> p \<in> set c \<Longrightarrow> plug_validate p ctx a = Inr ()"
  unfolding Chain_Validate_def by (rule rfold_unit_elem)

lemma Chain_RunE:
  assumes "Chain_Run c ctx a = Inr a'"
  obtains "rfold (\<lambda>p. plug_admit p ctx) c a = Inr a'" "Chain_Validate c ctx a' = Inr ()"
  using assms by (auto simp: Chain_Run_def result_simps)

text \<open>The parts of the attributes a plugin does not touch.\<close>

definition same_request :: "'q attributes \<Rightarrow> 'q attributes \<Rightarrow> bool" where
  "same_request a a' \<longleftrightarrow> at_gvk a' = at_gvk a \<and> at_operation a' = at_operation a \<and> at_old a' = at_old a \<and>
     at_subresource a' = at_subresource a \<and> kind_of (at_value a') = kind_of (at_value a)"

definition stamped :: "'q attributes \<Rightarrow> bool" where
  "stamped a \<longleftrightarrow> ao_api_version (at_object a) = gv_string (at_gvk a) \<and> ao_kind (at_object a) = snd (snd (at_gvk a))"

definition frames :: "'q admission_plugin \<Rightarrow> bool" where
  "frames p \<longleftrightarrow> (\<forall>ctx a a'. plug_admit p ctx a = Inr a' \<longrightarrow> same_request a a' \<and> (stamped a \<longrightarrow> stamped a'))"

lemma same_request_refl [simp]: "same_request a a"
  by (simp add: same_request_def)

lemma same_request_trans: "same_request a b \<Longrightarrow> same_request b c \<Longrightarrow> same_request a c"
  by (simp add: same_request_def)

lemma same_request_set_value [simp]: "same_request a (set_value v a) \<longleftrightarrow> kind_of v = kind_of (at_value a)"
  by (simp add: same_request_def set_value_def)

lemma stamped_set_value [simp]: "stamped (set_value v a) \<longleftrightarrow> stamped a"
  by (simp add: stamped_def set_value_def)

lemma set_value_simps [simp]:
  "at_value (set_value v a) = v" "at_operation (set_value v a) = at_operation a"
  "at_subresource (set_value v a) = at_subresource a" "at_old (set_value v a) = at_old a"
  "IsSubresource (set_value v a) = IsSubresource a" "set_value v (set_value w a) = set_value v a"
  by (simp_all add: set_value_def IsSubresource_def)

lemma frames_chain:
  assumes "\<forall>p \<in> set c. frames p" "rfold (\<lambda>p. plug_admit p ctx) c a = Inr a'"
  shows "same_request a a' \<and> (stamped a \<longrightarrow> stamped a')"
proof (rule rfold_invariant[OF assms(2)])
  fix x s t
  assume "x \<in> set c" "plug_admit x ctx s = Inr t" "same_request a s \<and> (stamped a \<longrightarrow> stamped s)"
  moreover from this assms(1) have "same_request s t" "stamped s \<longrightarrow> stamped t" by (auto simp: frames_def)
  ultimately show "same_request a t \<and> (stamped a \<longrightarrow> stamped t)" using same_request_trans by blast
qed simp

lemma frames_no_admit: "frames \<lparr>plug_admit = no_admit, plug_validate = v\<rparr>"
  by (simp add: frames_def no_admit_def)

lemma kind_of_map_meta [simp]: "kind_of (map_value_meta f v) = kind_of v"
  by (cases v) simp_all

lemma kind_of_holds [simp]: "kind_of (holdPlacedWorkload v) = kind_of v" "kind_of (holdSetCascade v) = kind_of v"
  by (cases v; simp add: holdPlacedWorkload_def holdSetCascade_def Let_def)+

lemma as_value_Some [simp]:
  "as_application v = Some x1 \<longleftrightarrow> v = VApplication x1" "as_secret v = Some x2 \<longleftrightarrow> v = VSecret x2"
  "as_csr v = Some x3 \<longleftrightarrow> v = VCSR x3" "as_service v = Some x4 \<longleftrightarrow> v = VService x4"
  "as_node v = Some x5 \<longleftrightarrow> v = VNode x5" "as_namespace v = Some x6 \<longleftrightarrow> v = VNamespace x6"
  "as_pv v = Some x7 \<longleftrightarrow> v = VPersistentVolume x7"
  by (cases v; auto)+

lemma frames_secret: "frames \<lparr>plug_admit = secretPolicy_Admit, plug_validate = v\<rparr>"
  by (auto simp: frames_def secretPolicy_Admit_def Let_def split: option.splits)

lemma frames_csr: "frames \<lparr>plug_admit = csrPolicy_Admit, plug_validate = v\<rparr>"
  by (auto simp: frames_def csrPolicy_Admit_def Let_def split: option.splits operation.splits if_splits)

lemma clientWrittenApp_Some: "clientWrittenApp ctx a = Some app \<Longrightarrow> at_value a = VApplication app"
  by (simp add: clientWrittenApp_def split: if_splits)

lemma frames_child: "frames \<lparr>plug_admit = childOwnership_Admit, plug_validate = v\<rparr>"
  by (auto simp: frames_def childOwnership_Admit_def split: option.splits operation.splits if_splits dest!: clientWrittenApp_Some)

lemma frames_finalizer: "frames \<lparr>plug_admit = finalizerOwnership_Admit, plug_validate = v\<rparr>"
  by (auto simp: frames_def finalizerOwnership_Admit_def Let_def split: if_splits)

lemma frames_uid: "frames \<lparr>plug_admit = uidAllocation_Admit lo, plug_validate = v\<rparr>"
  by (auto simp: frames_def uidAllocation_Admit_def result_simps split: option.splits if_splits api_value.splits)

lemma frames_vip: "frames \<lparr>plug_admit = serviceVIP_Admit lo cidr, plug_validate = v\<rparr>"
  by (auto simp: frames_def serviceVIP_Admit_def result_simps split: option.splits if_splits operation.splits)

lemma frames_policy: "frames \<lparr>plug_admit = policyEnforcement_Admit, plug_validate = v\<rparr>"
  by (auto simp: frames_def policyEnforcement_Admit_def Let_def split: option.splits if_splits)

lemma defaulting_effect:
  "defaulting_Admit ctx a = Inr a' \<Longrightarrow> same_request a a' \<and> stamped a' \<and> at_value a' = at_value a"
  by (auto simp: defaulting_Admit_def same_request_def stamped_def)

lemma frames_defaulting: "frames \<lparr>plug_admit = defaulting_Admit, plug_validate = v\<rparr>"
  using defaulting_effect by (auto simp: frames_def)

lemmas frames_intros = frames_no_admit frames_secret frames_csr frames_child frames_finalizer frames_uid frames_vip
  frames_policy frames_defaulting

lemma frames_DefaultChain: "\<forall>p \<in> set (DefaultChain lo cfg). frames p"
  unfolding DefaultChain_def by (simp add: frames_intros)

lemma frames_WithEscalation: "\<forall>p \<in> set c. frames p \<Longrightarrow> \<forall>p \<in> set (WithEscalationCheck c ao lo). frames p"
  by (auto simp: WithEscalationCheck_def frames_no_admit)

lemma frames_controller_chain: "\<forall>p \<in> set (controller_chain st cfg ao s). frames p"
  unfolding controller_chain_def by (rule frames_WithEscalation[OF frames_DefaultChain])

text \<open>The chain stamps the type meta first.\<close>

lemma DefaultChain_Cons:
  "\<exists>c. DefaultChain lo cfg = \<lparr>plug_admit = defaulting_Admit, plug_validate = no_validate\<rparr> # c"
  by (simp add: DefaultChain_def)

lemma controller_chain_Cons:
  "\<exists>c. controller_chain st cfg ao s = \<lparr>plug_admit = defaulting_Admit, plug_validate = no_validate\<rparr> # c"
  using DefaultChain_Cons[of "Some (store_lister st s)" cfg] by (auto simp: controller_chain_def WithEscalationCheck_def)

lemma controller_chain_admit:
  assumes "rfold (\<lambda>p. plug_admit p ctx) (controller_chain st cfg ao s) a = Inr a'"
  shows "same_request a a' \<and> stamped a'"
proof -
  obtain c where c: "controller_chain st cfg ao s = \<lparr>plug_admit = defaulting_Admit, plug_validate = no_validate\<rparr> # c"
    using controller_chain_Cons[of st cfg ao s] ..
  obtain b where b: "defaulting_Admit ctx a = Inr b" "rfold (\<lambda>p. plug_admit p ctx) c b = Inr a'"
    using assms by (auto simp: c result_simps)
  have "\<forall>p \<in> set c. frames p" using frames_controller_chain[of st cfg ao s] by (simp add: c)
  from frames_chain[OF this b(2)] defaulting_effect[OF b(1)] show ?thesis using same_request_trans by blast
qed

section \<open>Admitted objects\<close>

definition typed_decode :: "('s, 'q, 'd) service_env \<Rightarrow> bool" where
  "typed_decode env \<longleftrightarrow>
     (\<forall>g data ob. sv_unmarshal env g data = Some ob \<longrightarrow> kind_of (ao_value ob) = (gv_string g, snd (snd g)))"

lemma Service_decode_kind:
  assumes "typed_decode env" "Service_decode env g data = Inr ob"
  shows "kind_of (ao_value ob) = (gv_string g, snd (snd g))"
proof -
  obtain d where "sv_unmarshal env g d = Some ob"
    using assms(2) by (auto simp: Service_decode_def Let_def split: if_splits option.splits)
  then show ?thesis using assms(1) unfolding typed_decode_def by blast
qed

lemma admitE:
  assumes "admit env s ctx g ob old op sub = Inr ob'"
  obtains a' where "rfold (\<lambda>p. plug_admit p ctx) (sv_admission env s)
        \<lparr>at_gvk = g, at_operation = op, at_object = ob, at_old = old, at_subresource = sub\<rparr> = Inr a'"
    "Chain_Validate (sv_admission env s) ctx a' = Inr ()" "at_object a' = ob'"
proof -
  let ?a = "\<lparr>at_gvk = g, at_operation = op, at_object = ob, at_old = old, at_subresource = sub\<rparr>"
  obtain a' where "Chain_Run (sv_admission env s) ctx ?a = Inr a'" "at_object a' = ob'"
    using assms by (auto simp: admit_def map_error_def result_simps split: sum.splits)
  then show thesis using Chain_RunE that by metis
qed

lemma admit_chain:
  assumes "admit env s ctx g ob old op sub = Inr ob'"
    and "sv_admission env = controller_chain (sv_store env) cfg ao"
    and "kind_of (ao_value ob) = (gv_string g, snd (snd g))"
  obtains a' where "Chain_Validate (controller_chain (sv_store env) cfg ao s) ctx a' = Inr ()" "at_object a' = ob'"
    "at_operation a' = op" "at_old a' = old" "at_subresource a' = sub" "at_gvk a' = g" "typed ob'"
proof -
  obtain a' where a: "rfold (\<lambda>p. plug_admit p ctx) (controller_chain (sv_store env) cfg ao s)
        \<lparr>at_gvk = g, at_operation = op, at_object = ob, at_old = old, at_subresource = sub\<rparr> = Inr a'"
    "Chain_Validate (controller_chain (sv_store env) cfg ao s) ctx a' = Inr ()" "at_object a' = ob'"
    using admitE[OF assms(1)] assms(2) by metis
  from controller_chain_admit[OF a(1)] show thesis
    using that[OF a(2,3)] assms(3) a(3) by (auto simp: same_request_def stamped_def typed_def)
qed

section \<open>The floor\<close>

definition no_root :: "'q application_spec \<Rightarrow> bool" where
  "no_root spec \<longleftrightarrow>
     (\<exists>sc u. as_security_context spec = Some sc \<and> sc_run_as_user sc = Some u \<and> MinRunAsID \<le> u \<and> u \<le> MaxRunAsID \<and>
        (\<forall>g. sc_run_as_group sc = Some g \<longrightarrow> MinRunAsID \<le> g \<and> g \<le> MaxRunAsID)) \<and>
     validateExecInputs spec = Inr ()"

lemma policyEnforcement_no_root:
  assumes "policyEnforcement_Validate ctx a = Inr ()" "at_operation a \<noteq> OpDelete" "at_value a = VApplication app"
  shows "no_root (app_spec app)"
proof -
  obtain u where u: "app_uid app = Some u" "ValidRunAsID ''spec.securityContext.runAsUser'' u = Inr ()"
    "validateExecInputs (app_spec app) = Inr ()"
    "\<And>g. app_gid app = Some g \<Longrightarrow> ValidRunAsID ''spec.securityContext.runAsGroup'' g = Inr ()"
    using assms by (auto simp: policyEnforcement_Validate_def of_string_error_def result_simps split: option.splits sum.splits)
  then show ?thesis
    by (auto simp: no_root_def app_uid_def app_gid_def ValidRunAsID_iff split: option.splits)
qed

lemma floor_in_chain:
  "\<lparr>plug_admit = policyEnforcement_Admit, plug_validate = policyEnforcement_Validate\<rparr> \<in> set (controller_chain st cfg ao s)"
  by (simp add: controller_chain_def WithEscalationCheck_def DefaultChain_def)

lemma chain_no_root:
  assumes "Chain_Validate (controller_chain st cfg ao s) ctx a = Inr ()" "at_operation a \<noteq> OpDelete"
    and "at_value a = VApplication app"
  shows "no_root (app_spec app)"
  using Chain_Validate_elem[OF assms(1) floor_in_chain] assms(2,3) by (auto intro: policyEnforcement_no_root)

end
