(* ===== verification/ServiceSafety.thy ===== *)
theory ServiceSafety
  imports ServiceRuns ChainFacts
begin

text \<open>
  Runs of the service over a store: a request is admitted against the store it reads and committed
  later, with any number of other requests admitted and committed in between. A property that the
  admission chain establishes for every object a client writes, and that metadata and subresources do
  not affect, holds for every object of the store in every such run.
\<close>

section \<open>Runs\<close>

datatype 'q pending =
    WCreate "'q api_object" | WUpdate "'q api_object" | WSubresource string "'q api_object"
  | WDelete object_ref "'q api_object" bool

text \<open>The object \<open>markDeleting\<close> writes.\<close>

definition marked :: "int \<Rightarrow> bool \<Rightarrow> 'q api_object \<Rightarrow> 'q api_object" where
  "marked now orphan cur =
     (if om_deletion_timestamp (ao_meta cur) \<noteq> None then map_meta (stamp_orphan orphan) cur
      else map_meta (\<lambda>m. m\<lparr>om_deletion_timestamp := Some now\<rparr>) (map_meta (stamp_orphan orphan) cur))"

text \<open>
  \<open>fo\<close>, \<open>fr\<close> and \<open>fu\<close> are what the store needs of an object, a reference and a uid (names without a
  separator, a counter that has not run out). A rollback reads the revision and writes it on one
  state. A write stays admitted after it is committed, so a run may commit it again.
\<close>

inductive service_step ::
  "('s, 'q::zero, 'd) service_env \<Rightarrow> ('q jobject \<Rightarrow> 's \<Rightarrow> bool) \<Rightarrow> (object_ref \<Rightarrow> 's \<Rightarrow> bool) \<Rightarrow> (string \<Rightarrow> bool) \<Rightarrow>
   's \<times> 'q pending set \<Rightarrow> 's \<times> 'q pending set \<Rightarrow> bool"
  for env fo fr fu where
  admit_create: "Create_admit env ctx g data ns s = Inr ob \<Longrightarrow> service_step env fo fr fu (s, W) (s, insert (WCreate ob) W)"
| admit_update: "checkUpdate env ctx g data [] ns name s = Inr ob \<Longrightarrow>
    service_step env fo fr fu (s, W) (s, insert (WUpdate ob) W)"
| admit_patch: "Patch_admit env ctx m pt data s = Inr ob \<Longrightarrow> service_step env fo fr fu (s, W) (s, insert (WUpdate ob) W)"
| admit_subresource: "checkUpdate env ctx g data sub ns [] s = Inr ob \<Longrightarrow> subresourceField sub \<Longrightarrow>
    service_step env fo fr fu (s, W) (s, insert (WSubresource sub ob) W)"
| admit_delete: "Delete_admit env ctx m orphan s = Inr cur \<Longrightarrow> fr m s \<Longrightarrow>
    service_step env fo fr fu (s, W) (s, insert (WDelete m cur orphan) W)"
| commit_create: "WCreate ob \<in> W \<Longrightarrow> fo (enc_object ob) s \<Longrightarrow> fu uid \<Longrightarrow>
    sto_create (sv_store env) uid now (enc_object ob) s = (r, s') \<Longrightarrow> service_step env fo fr fu (s, W) (s', W)"
| commit_update: "WUpdate ob \<in> W \<Longrightarrow> fo (enc_object ob) s \<Longrightarrow>
    sto_update (sv_store env) (enc_object ob) s = (r, s') \<Longrightarrow> service_step env fo fr fu (s, W) (s', W)"
| commit_subresource: "WSubresource sub ob \<in> W \<Longrightarrow> fo (enc_object ob) s \<Longrightarrow> subresourceField sub \<Longrightarrow>
    sto_subresource (sv_store env) sub (enc_object ob) s = (r, s') \<Longrightarrow> service_step env fo fr fu (s, W) (s', W)"
| commit_mark: "WDelete m cur orphan \<in> W \<Longrightarrow> fo (enc_object (marked now orphan cur)) s \<Longrightarrow>
    markDeleting env now cur orphan s = (r, s') \<Longrightarrow> service_step env fo fr fu (s, W) (s', W)"
| commit_erase: "WDelete m cur orphan \<in> W \<Longrightarrow> markDeleting env now cur orphan s = (Inr False, s) \<Longrightarrow> fr m s \<Longrightarrow>
    sto_delete (sv_store env) m s = (e, s') \<Longrightarrow> service_step env fo fr fu (s, W) (s', W)"
| rollback: "fr m s \<Longrightarrow> int64 n \<Longrightarrow> Rollback_admit env ctx m uid n s = Inr target \<Longrightarrow>
    sto_rollback (sv_store env) m uid n s = (r, s') \<Longrightarrow> service_step env fo fr fu (s, W) (s', W)"

inductive service_reach ::
  "('s, 'q::zero, 'd) service_env \<Rightarrow> ('q jobject \<Rightarrow> 's \<Rightarrow> bool) \<Rightarrow> (object_ref \<Rightarrow> 's \<Rightarrow> bool) \<Rightarrow> (string \<Rightarrow> bool) \<Rightarrow>
   's \<Rightarrow> 's \<times> 'q pending set \<Rightarrow> bool"
  for env fo fr fu s0 where
  reach_start: "service_reach env fo fr fu s0 (s0, {})"
| reach_step: "service_reach env fo fr fu s0 c \<Longrightarrow> service_step env fo fr fu c c' \<Longrightarrow> service_reach env fo fr fu s0 c'"

section \<open>Properties of values that metadata and status do not affect\<close>

text \<open>The Kind and the encoded fields of a value that are neither its metadata nor a subresource.\<close>

definition core_of :: "'q api_value \<Rightarrow> (string \<times> string) \<times> (string, 'q api_field) gomap" where
  "core_of v = (kind_of v, filter (\<lambda>(k, f). coreField k) (value_body v))"

definition core_value :: "('q api_value \<Rightarrow> bool) \<Rightarrow> bool" where
  "core_value Q \<longleftrightarrow> (\<forall>v w. core_of v = core_of w \<longrightarrow> Q v = Q w)"

lemma core_of_meta [simp]: "core_of (map_value_meta f v) = core_of v"
  by (cases v) (simp_all add: core_of_def)

text \<open>The object decodes to the type of its Kind, and the value has the property.\<close>

definition holds_of :: "('q::zero api_value \<Rightarrow> bool) \<Rightarrow> 'q jobject \<Rightarrow> bool" where
  "holds_of Q ob \<longleftrightarrow> (case dec_value ob of Some v \<Rightarrow> Q v | None \<Rightarrow> False)"

lemma dec_typed: "dec_object ob = Some ob' \<Longrightarrow> typed ob' \<and> dec_value ob = Some (ao_value ob')"
  by (auto simp: dec_object_def typed_def dec_value_def split: if_splits)

lemma holds_of_enc: "typed ob \<Longrightarrow> holds_of Q (enc_object ob) = Q (ao_value ob)"
  using dec_typed[OF dec_enc_object[of ob]] by (simp add: holds_of_def)

lemma typed_map_meta [simp]: "typed (map_meta f ob) = typed ob"
  by (simp add: typed_def map_meta_def)

lemma ao_value_map_meta [simp]: "ao_value (map_meta f ob) = map_value_meta f (ao_value ob)"
  by (simp add: map_meta_def)

lemma typed_marked [simp]: "typed (marked now orphan cur) = typed cur"
  by (simp add: marked_def)

lemma core_value_meta: "core_value Q \<Longrightarrow> Q (map_value_meta f v) = Q v"
  using core_of_meta unfolding core_value_def by blast

lemma core_value_marked: "core_value Q \<Longrightarrow> Q (ao_value (marked now orphan cur)) = Q (ao_value cur)"
  by (simp add: marked_def core_value_meta)

lemma typed_resultE:
  assumes "typed_result r = Inr ob" obtains j where "r = Inr j" "dec_object j = Some ob"
  using assms by (auto simp: typed_result_def result_simps split: option.splits)

lemma core_spec: "core_eq a b \<Longrightarrow> spec_field a = spec_field b"
  by (simp add: core_eq_def spec_field_def coreField_def subresourceField_def)

lemma core_secret_fields:
  "core_eq a b \<Longrightarrow> k \<in> {''immutable'', ''type'', ''data'', ''stringData''} \<Longrightarrow> map_of (o_body a) k = map_of (o_body b) k"
  by (auto simp: core_eq_def coreField_def subresourceField_def)

lemmas core_of_simps = core_of_def coreField_def subresourceField_def

lemma core_of_spec_kinds:
  assumes "spec_field a = spec_field b"
  shows "core_of (VApplication (dec_application a)) = core_of (VApplication (dec_application b))"
    "core_of (VApplicationSet (dec_application_set a)) = core_of (VApplicationSet (dec_application_set b))"
    "core_of (VNode (dec_node a)) = core_of (VNode (dec_node b))"
    "core_of (VRole (dec_role a)) = core_of (VRole (dec_role b))"
    "core_of (VClusterRole (dec_role a)) = core_of (VClusterRole (dec_role b))"
    "core_of (VSecretStore (dec_secret_store a)) = core_of (VSecretStore (dec_secret_store b))"
  by (simp_all add: core_of_simps dec_secret_store_def dec_application_def dec_application_set_def dec_node_def dec_role_def assms)

lemma core_of_service: "spec_field a = spec_field b \<Longrightarrow> core_of (VService (dec_service a)) = core_of (VService (dec_service b))"
  by (cases "spec_field b"; cases "the (spec_field b)") (simp_all add: core_of_simps dec_service_def)

lemma core_of_pv: "spec_field a = spec_field b \<Longrightarrow> core_of (VPersistentVolume (dec_pv a)) = core_of (VPersistentVolume (dec_pv b))"
  by (cases "spec_field b"; cases "the (spec_field b)") (simp_all add: core_of_simps dec_pv_def)

lemma core_of_binding:
  "spec_field a = spec_field b \<Longrightarrow> core_of (VRoleBinding (dec_binding a)) = core_of (VRoleBinding (dec_binding b))"
  "spec_field a = spec_field b \<Longrightarrow> core_of (VClusterRoleBinding (dec_binding a)) = core_of (VClusterRoleBinding (dec_binding b))"
  by (cases "spec_field b"; cases "the (spec_field b)"; simp add: core_of_simps dec_binding_def)+

lemma core_of_csr: "spec_field a = spec_field b \<Longrightarrow> core_of (VCSR (dec_csr a)) = core_of (VCSR (dec_csr b))"
  by (cases "spec_field b"; cases "the (spec_field b)") (simp_all add: core_of_simps dec_csr_def)

lemma core_of_secret:
  assumes "core_eq a b" shows "core_of (VSecret (dec_secret a)) = core_of (VSecret (dec_secret b))"
proof -
  have "map_of (o_body a) k = map_of (o_body b) k" if "k \<in> {''immutable'', ''type'', ''data'', ''stringData''}" for k
    using core_secret_fields[OF assms that] .
  then show ?thesis by (simp add: core_of_def dec_secret_def map_field_def)
qed

lemma core_of_dec:
  assumes "core_eq a b" shows "map_option core_of (dec_value a) = map_option core_of (dec_value b)"
proof -
  have e: "o_api_version a = o_api_version b" "o_kind a = o_kind b" using assms by (simp_all add: core_eq_def)
  have ns: "core_of (VNamespace m) = core_of (VNamespace m')" for m m' by (simp add: core_of_def)
  note s = core_spec[OF assms]
  show ?thesis
    unfolding dec_value_def e if_distrib[where f = "map_option core_of"] option.map
      core_of_spec_kinds[OF s] core_of_service[OF s] core_of_pv[OF s] core_of_binding[OF s] core_of_csr[OF s]
      core_of_secret[OF assms] ns[of "\<lparr>ns_meta = o_meta a\<rparr>" "\<lparr>ns_meta = o_meta b\<rparr>"] ..
qed

lemma core_valueD: "core_value Q \<Longrightarrow> core_of v = core_of w \<Longrightarrow> Q v = Q w"
  unfolding core_value_def by blast

lemma holds_of_core: "core_value Q \<Longrightarrow> core_determined (holds_of Q)"
  unfolding core_determined_def
proof (intro allI impI)
  fix a b :: "'a jobject"
  assume "core_value Q" "core_eq a b"
  show "holds_of Q a = holds_of Q b"
  proof (cases "dec_value b")
    case None
    then show ?thesis using core_of_dec[OF \<open>core_eq a b\<close>] by (simp add: holds_of_def)
  next
    case (Some w)
    then obtain v where v: "dec_value a = Some v" "core_of v = core_of w" using core_of_dec[OF \<open>core_eq a b\<close>] by auto
    show ?thesis using Some v(1) core_valueD[OF \<open>core_value Q\<close> v(2)] by (simp add: holds_of_def)
  qed
qed

end
