(* ===== verification/GuardedService.thy ===== *)
theory GuardedService
  imports ServiceSafety
begin

text \<open>
  The contract between the service and its admission chain: a property of values that the chain
  validates on every create and update holds for everything the store ever holds, under any
  interleaving of requests.
\<close>

section \<open>A service whose admission chain guards a property\<close>

fun pending_ok :: "('q api_value \<Rightarrow> bool) \<Rightarrow> 'q pending \<Rightarrow> bool" where
  "pending_ok Q (WCreate ob) \<longleftrightarrow> typed ob \<and> Q (ao_value ob)"
| "pending_ok Q (WUpdate ob) \<longleftrightarrow> typed ob \<and> Q (ao_value ob)"
| "pending_ok Q (WSubresource sub ob) \<longleftrightarrow> True"
| "pending_ok Q (WDelete m cur orphan) \<longleftrightarrow> typed cur \<and> Q (ao_value cur)"

text \<open>What the reading half of a request has done when it succeeds.\<close>

lemma map_error_Inr: "map_error f r = Inr x \<longleftrightarrow> r = Inr x"
  by (simp add: map_error_def split: sum.splits)

lemma bindNamespaceE:
  assumes "bindNamespace ob0 ns = Inr ob" obtains f where "ob = map_meta f ob0"
  using assms by (auto simp: bindNamespace_def Let_def split: if_splits)

lemma Create_admitE:
  assumes "Create_admit env ctx g data ns s = Inr ob"
  obtains ob0 f where "Service_decode env g data = Inr ob0" "admit env s ctx g (map_meta f ob0) None OpCreate [] = Inr ob"
  using assms unfolding Create_admit_def by (auto simp: rbind_eq_Inr split: if_splits elim!: bindNamespaceE)

lemma checkUpdateE:
  assumes "checkUpdate env ctx g data sub ns name s = Inr ob"
  obtains ob0 f old where "Service_decode env g data = Inr ob0" "admit env s ctx g (map_meta f ob0) (Some old) OpUpdate sub = Inr ob"
  using assms unfolding checkUpdate_def by (auto simp: rbind_eq_Inr split: if_splits elim!: bindNamespaceE)

lemma Patch_admitE:
  assumes "Patch_admit env ctx m pt data s = Inr ob"
  obtains d ob0 f old where "Service_decode env (gvkOf env m) d = Inr ob0"
    "admit env s ctx (gvkOf env m) (map_meta f ob0) (Some old) OpUpdate [] = Inr ob"
  using assms unfolding Patch_admit_def rebindIdentity_def by (auto simp: rbind_eq_Inr)

locale guarded_service = object_store "sv_store env" ok look fit_obj fit_ref fit_uid
  for env :: "('s, 'q::zero, 'd) service_env"
    and ok :: "'s \<Rightarrow> bool"
    and look :: "'s \<Rightarrow> string \<Rightarrow> string \<Rightarrow> 'q jobject option"
    and fit_obj :: "'q jobject \<Rightarrow> 's \<Rightarrow> bool"
    and fit_ref :: "object_ref \<Rightarrow> 's \<Rightarrow> bool"
    and fit_uid :: "string \<Rightarrow> bool" +
  fixes Q :: "'q api_value \<Rightarrow> bool"
  assumes core: "core_value Q"
    and decodes: "typed_decode env"
    and stamps: "kind_of (ao_value ob) = (gv_string g, snd (snd g)) \<Longrightarrow> admit env s ctx g ob old op sub = Inr ob' \<Longrightarrow> typed ob'"
    and validates: "Chain_Validate (sv_admission env s) ctx a = Inr () \<Longrightarrow> at_operation a = OpCreate \<or> at_operation a = OpUpdate \<Longrightarrow>
      at_subresource a = [] \<Longrightarrow> Q (at_value a)"
    and keeps_request: "rfold (\<lambda>p. plug_admit p ctx) (sv_admission env s) a = Inr a' \<Longrightarrow> same_request a a'"
begin

lemma admitted:
  assumes "kind_of (ao_value ob) = (gv_string g, snd (snd g))" "admit env s ctx g ob old op [] = Inr ob'"
    and "op = OpCreate \<or> op = OpUpdate"
  shows "typed ob' \<and> Q (ao_value ob')"
proof -
  obtain a' where "rfold (\<lambda>p. plug_admit p ctx) (sv_admission env s)
        \<lparr>at_gvk = g, at_operation = op, at_object = ob, at_old = old, at_subresource = []\<rparr> = Inr a'"
    and v: "Chain_Validate (sv_admission env s) ctx a' = Inr ()" "at_object a' = ob'"
    using admitE[OF assms(2)] by blast
  from keeps_request[OF this(1)] have "at_operation a' = op" "at_subresource a' = []" by (simp_all add: same_request_def)
  then show ?thesis using validates[OF v(1)] assms(3) v(2) stamps[OF assms(1,2)] by auto
qed

lemma admitted_decoded:
  assumes "Service_decode env g data = Inr ob0" "admit env s ctx g (map_meta f ob0) old op [] = Inr ob" "op = OpCreate \<or> op = OpUpdate"
  shows "typed ob \<and> Q (ao_value ob)"
proof (rule admitted[OF _ assms(2,3)])
  show "kind_of (ao_value (map_meta f ob0)) = (gv_string g, snd (snd g))"
    using Service_decode_kind[OF decodes assms(1)] unfolding ao_value_map_meta kind_of_map_meta .
qed

lemma create_admitted: "Create_admit env ctx g data ns s = Inr ob \<Longrightarrow> typed ob \<and> Q (ao_value ob)"
  by (elim Create_admitE) (rule admitted_decoded, assumption, assumption, simp)

lemma update_admitted: "checkUpdate env ctx g data [] ns name s = Inr ob \<Longrightarrow> typed ob \<and> Q (ao_value ob)"
  by (elim checkUpdateE) (rule admitted_decoded, assumption, assumption, simp)

lemma patch_admitted: "Patch_admit env ctx m pt data s = Inr ob \<Longrightarrow> typed ob \<and> Q (ao_value ob)"
  by (elim Patch_admitE) (rule admitted_decoded, assumption, assumption, simp)

lemma stored_value:
  assumes "ok s" "all_objects (look s) (holds_of Q)" "fit_ref m s" "typed_result (sto_get (sv_store env) m s) = Inr cur"
  shows "typed cur \<and> Q (ao_value cur)"
proof -
  obtain j where j: "sto_get (sv_store env) m s = Inr j" "dec_object j = Some cur" using typed_resultE[OF assms(4)] .
  then show ?thesis using get_stored[OF assms(1-3) j(1)] dec_typed[OF j(2)] by (simp add: holds_of_def)
qed

lemma delete_admitted:
  assumes "ok s" "all_objects (look s) (holds_of Q)" "fit_ref m s" "Delete_admit env ctx m orphan s = Inr cur"
  shows "typed cur \<and> Q (ao_value cur)"
proof (rule stored_value[OF assms(1-3)])
  show "typed_result (sto_get (sv_store env) m s) = Inr cur"
    using assms(4) by (auto simp: Delete_admit_def rbind_eq_Inr map_error_Inr split: if_splits)
qed

lemma rollback_admitted:
  assumes "Rollback_admit env ctx m uid n s = Inr target" "sto_get_revision (sv_store env) m uid n s = Inr revn"
  shows "holds_of Q revn"
proof -
  obtain cur where t: "typed_result (Inr revn) = Inr target" and v: "Chain_Validate (sv_admission env s) ctx
      \<lparr>at_gvk = gvkOf env m, at_operation = OpUpdate, at_object = target, at_old = Some cur, at_subresource = []\<rparr> = Inr ()"
    using assms by (auto simp: Rollback_admit_def rbind_eq_Inr map_error_Inr)
  from t have "dec_value revn = Some (ao_value target)" using dec_typed by (blast elim: typed_resultE)
  with validates[OF v] show ?thesis by (simp add: holds_of_def)
qed

lemma mark_keeps:
  assumes "ok s" "all_objects (look s) (holds_of Q)" "typed cur" "Q (ao_value cur)"
    and "fit_obj (enc_object (marked now orphan cur)) s" "markDeleting env now cur orphan s = (r, s')"
  shows "ok s' \<and> all_objects (look s') (holds_of Q)"
proof -
  have "s' = s \<or> (\<exists>r'. sto_update (sv_store env) (enc_object (marked now orphan cur)) s = (r', s'))"
    using assms(6) unfolding markDeleting_def marked_def Let_def
    by (cases "sto_update (sv_store env) (enc_object (marked now orphan cur)) s")
      (simp add: marked_def split: if_splits prod.splits; blast)
  moreover have "holds_of Q (enc_object (marked now orphan cur))"
    using assms(3,4) core_value_marked[OF core] by (simp add: holds_of_enc)
  ultimately show ?thesis using update_keeps[OF holds_of_core[OF core] assms(1,2,5)] assms(1,2) by blast
qed

lemma pending_holds: "pending_ok Q (WCreate ob) \<or> pending_ok Q (WUpdate ob) \<Longrightarrow> holds_of Q (enc_object ob)"
  by (auto simp: holds_of_enc)

lemma step_keeps:
  assumes "service_step env fit_obj fit_ref fit_uid (s, W) (s', W')"
    and "ok s" "all_objects (look s) (holds_of Q)" "\<forall>w \<in> W. pending_ok Q w"
  shows "ok s' \<and> all_objects (look s') (holds_of Q) \<and> (\<forall>w \<in> W'. pending_ok Q w)"
  using assms(1)
proof cases
  case (admit_create ctx g data ns ob)
  have "pending_ok Q (WCreate ob)" using create_admitted[OF admit_create(3)] by simp
  then show ?thesis using assms(2-4) by (simp add: admit_create(1,2) del: pending_ok.simps)
next
  case (admit_update ctx g data ns name ob)
  have "pending_ok Q (WUpdate ob)" using update_admitted[OF admit_update(3)] by simp
  then show ?thesis using assms(2-4) by (simp add: admit_update(1,2) del: pending_ok.simps)
next
  case (admit_patch ctx m pt data ob)
  have "pending_ok Q (WUpdate ob)" using patch_admitted[OF admit_patch(3)] by simp
  then show ?thesis using assms(2-4) by (simp add: admit_patch(1,2) del: pending_ok.simps)
next
  case (admit_subresource ctx g data sub ns ob)
  have "pending_ok Q (WSubresource sub ob)" by simp
  then show ?thesis using assms(2-4) by (simp add: admit_subresource(1,2) del: pending_ok.simps)
next
  case (admit_delete ctx m orphan cur)
  have "pending_ok Q (WDelete m cur orphan)" using delete_admitted[OF assms(2,3) admit_delete(4,3)] by simp
  then show ?thesis using assms(2-4) by (simp add: admit_delete(1,2) del: pending_ok.simps)
next
  case (commit_create ob uid now r)
  have "holds_of Q (enc_object ob)" by (rule pending_holds[OF disjI1[OF bspec[OF assms(4) commit_create(2)]]])
  from create_keeps[OF holds_of_core[OF core] assms(2,3) commit_create(3,4) this commit_create(5)]
  show ?thesis using assms(4) by (simp add: commit_create(1))
next
  case (commit_update ob r)
  have "holds_of Q (enc_object ob)" by (rule pending_holds[OF disjI2[OF bspec[OF assms(4) commit_update(2)]]])
  from update_keeps[OF holds_of_core[OF core] assms(2,3) commit_update(3) this commit_update(4)]
  show ?thesis using assms(4) by (simp add: commit_update(1))
next
  case (commit_subresource sub ob r)
  from subresource_keeps[OF holds_of_core[OF core] assms(2,3) commit_subresource(3,4,5)]
  show ?thesis using assms(4) by (simp add: commit_subresource(1))
next
  case (commit_mark m cur orphan now r)
  have "typed cur" "Q (ao_value cur)" using bspec[OF assms(4) commit_mark(2)] by simp_all
  from mark_keeps[OF assms(2,3) this commit_mark(3,4)] show ?thesis using assms(4) by (simp add: commit_mark(1))
next
  case (commit_erase m cur orphan now e)
  from delete_keeps[OF assms(2,3) commit_erase(4,5)] show ?thesis using assms(4) by (simp add: commit_erase(1))
next
  case (rollback m n ctx uid target r)
  from rollback_keeps[OF holds_of_core[OF core] assms(2,3) rollback(2,3) rollback_admitted[OF rollback(4)] rollback(5)]
  show ?thesis using assms(4) by (simp add: rollback(1))
qed

lemma reach_keeps:
  assumes "service_reach env fit_obj fit_ref fit_uid s0 c" "ok s0" "all_objects (look s0) (holds_of Q)"
  shows "ok (fst c) \<and> all_objects (look (fst c)) (holds_of Q) \<and> (\<forall>w \<in> snd c. pending_ok Q w)"
  using assms(1)
proof induction
  case reach_start
  then show ?case using assms(2,3) by simp
next
  case (reach_step c c')
  have "service_step env fit_obj fit_ref fit_uid (fst c, snd c) (fst c', snd c')" using reach_step(2) by simp
  from step_keeps[OF this] reach_step(3) show ?case by (elim conjE) assumption
qed

end

end
