(* ===== verification/ServicePolicy.thy ===== *)
theory ServicePolicy
  imports GuardedService BoltDemo
begin

text \<open>
  The controller's service (the admission chain of \<^verbatim>\<open>cmd/controller\<close> over the BoltDB store) keeps its
  policy for everything it stores: no workload runs as root, every volume, variable and resource of a
  workload is well-formed, and every role's rules are.
\<close>

section \<open>The policy\<close>

definition workload_policy :: "bool \<Rightarrow> ('q::linordered_ab_group_add) application_spec \<Rightarrow> bool" where
  "workload_policy routed spec \<longleftrightarrow>
     no_root spec \<and> (as_host_network spec = Some False \<longrightarrow> routed) \<and>
     jobFieldsAreForJobs (as_lifecycle spec) = Inr () \<and> check_resources (as_resources spec) = Inr () \<and>
     length (as_volumes spec) \<le> maxVolumesPerApp \<and> (\<forall>v \<in> set (as_volumes spec). check_volume v = Inr ()) \<and>
     validateEnv (as_env spec) = Inr ()"

definition policed :: "bool \<Rightarrow> ('q::linordered_ab_group_add) api_value \<Rightarrow> bool" where
  "policed routed v =
     (case v of
        VApplication a \<Rightarrow> workload_policy routed (app_spec a)
      | VRole r \<Rightarrow> list_all (\<lambda>x. check_rule True x = Inr ()) (role_rules r)
      | VClusterRole r \<Rightarrow> list_all (\<lambda>x. check_rule False x = Inr ()) (role_rules r)
      | _ \<Rightarrow> True)"

lemma core_of_eq_cases:
  assumes "core_of v = core_of w"
  shows "(\<exists>a b. v = VApplication a \<and> w = VApplication b \<and> app_spec a = app_spec b) \<or>
    (\<exists>a b. v = VRole a \<and> w = VRole b \<and> role_rules a = role_rules b) \<or>
    (\<exists>a b. v = VClusterRole a \<and> w = VClusterRole b \<and> role_rules a = role_rules b) \<or>
    (policed routed v \<and> policed routed w)"
  using assms by (cases v; cases w) (simp_all add: core_of_simps policed_def)

lemma core_value_policed: "core_value (policed routed)"
  unfolding core_value_def
proof (intro allI impI)
  fix v w :: "'a api_value"
  assume "core_of v = core_of w"
  from core_of_eq_cases[OF this, of routed] show "policed routed v = policed routed w"
    by (elim disjE exE conjE) (simp_all add: policed_def)
qed

lemma plugins_in_chain:
  "\<lparr>plug_admit = no_admit, plug_validate = appPolicy_Validate (cc_routed_network cfg)\<rparr> \<in> set (controller_chain st cfg ao s)"
  "\<lparr>plug_admit = no_admit, plug_validate = rbacRules_Validate\<rparr> \<in> set (controller_chain st cfg ao s)"
  by (simp_all add: controller_chain_def WithEscalationCheck_def DefaultChain_def)

lemma appPolicy_admitted:
  assumes "appPolicy_Validate routed ctx a = Inr ()" "at_operation a \<noteq> OpDelete" "at_subresource a = []"
    and "at_value a = VApplication app" "no_root (app_spec app)"
  shows "workload_policy routed (app_spec app)"
  using assms rfold_unit_elem[of check_volume "as_volumes (app_spec app)"]
  by (auto simp: appPolicy_Validate_def workload_policy_def IsSubresource_def rbind_eq_Inr split: if_splits)

lemma chain_policed:
  assumes "Chain_Validate (controller_chain st cfg ao s) ctx a = Inr ()" "at_operation a = OpCreate \<or> at_operation a = OpUpdate"
    and "at_subresource a = []"
  shows "policed (cc_routed_network cfg) (at_value a)"
proof -
  have op: "at_operation a \<noteq> OpDelete" using assms(2) by auto
  have v: "appPolicy_Validate (cc_routed_network cfg) ctx a = Inr ()" "rbacRules_Validate ctx a = Inr ()"
    using Chain_Validate_elem[OF assms(1) plugins_in_chain(1)] Chain_Validate_elem[OF assms(1) plugins_in_chain(2)] by simp_all
  show ?thesis
  proof (cases "at_value a")
    case (VApplication app)
    then show ?thesis
      using appPolicy_admitted[OF v(1) op assms(3) VApplication chain_no_root[OF assms(1) op VApplication]]
      by (simp add: policed_def)
  qed (use v(2) op assms(3) in \<open>auto simp: policed_def rbacRules_Validate_def IsSubresource_def list_all_iff
          dest: rfold_unit_elem\<close>)
qed

section \<open>The controller's service\<close>

locale controller_service = bbolt_laws ops for ops :: "('b, ('q::linordered_ab_group_add) api_field) bbolt" +
  fixes d :: deps
    and env :: "(('b, 'q api_field) DB, 'q, 'd) service_env"
    and cfg :: "'q chain_config"
    and ao :: "authorizer option"
  assumes store: "sv_store env = bolt_storage ops d"
    and chain: "sv_admission env = controller_chain (sv_store env) cfg ao"
    and decode_kind: "typed_decode env"

sublocale controller_service \<subseteq> pol: guarded_service env "bolt_ok ops d" "bolt_look ops d" "bolt_fit_obj ops d"
  "bolt_fit_ref ops d" plain "policed (cc_routed_network cfg)"
proof -
  show "guarded_service env (bolt_ok ops d) (bolt_look ops d) (bolt_fit_obj ops d) (bolt_fit_ref ops d) plain
    (policed (cc_routed_network cfg))"
  proof (intro guarded_service.intro guarded_service_axioms.intro)
    show "object_store (sv_store env) (bolt_ok ops d) (bolt_look ops d) (bolt_fit_obj ops d) (bolt_fit_ref ops d) plain"
      unfolding store by (rule bolt_object_store)
    show "core_value (policed (cc_routed_network cfg))" by (rule core_value_policed)
    show "typed_decode env" by (rule decode_kind)
    show "typed ob'" if "kind_of (ao_value ob) = (gv_string g, snd (snd g))" "admit env s ctx g ob old op sub = Inr ob'"
      for ob g s ctx old op sub ob'
      using admit_chain[OF that(2) chain that(1)] .
    show "policed (cc_routed_network cfg) (at_value a)" if "Chain_Validate (sv_admission env s) ctx a = Inr ()"
      "at_operation a = OpCreate \<or> at_operation a = OpUpdate" "at_subresource a = []" for s ctx a
      by (rule chain_policed[OF that(1)[unfolded chain] that(2,3)])
    show "same_request a a'" if "rfold (\<lambda>p. plug_admit p ctx) (sv_admission env s) a = Inr a'" for ctx s a a'
      by (rule conjunct1[OF controller_chain_admit[OF that[unfolded chain]]])
  qed
qed

context controller_service
begin

lemma policy_reach:
  assumes "service_reach env (bolt_fit_obj ops d) (bolt_fit_ref ops d) plain s0 (s, W)" "bolt_ok ops d s0"
    and "all_objects (bolt_look ops d s0) (holds_of (policed (cc_routed_network cfg)))"
  shows "bolt_ok ops d s \<and> all_objects (bolt_look ops d s) (holds_of (policed (cc_routed_network cfg)))"
  using pol.reach_keeps[OF assms] by simp

lemma policy_guard:
  "guarded_service env (bolt_ok ops d) (bolt_look ops d) (bolt_fit_obj ops d) (bolt_fit_ref ops d) plain
     (policed (cc_routed_network cfg))"
  by (rule pol.guarded_service_axioms)

lemma policy_get:
  assumes "bolt_ok ops d s" "all_objects (bolt_look ops d s) (holds_of (policed (cc_routed_network cfg)))"
    and "bolt_fit_ref ops d m s" "Service_Get env m s = Inr ob"
  shows "policed (cc_routed_network cfg) (ao_value ob)"
  using pol.stored_value[OF assms(1-3)] assms(4) by (simp add: Service_Get_def map_error_Inr)

end

section \<open>A concrete service\<close>

text \<open>Requests carry the decoded object; the decoder refuses an object of another Kind.\<close>

definition demo_decode_request :: "gvk \<Rightarrow> int api_object \<Rightarrow> int api_object option" where
  "demo_decode_request g ob =
     (if kind_of (ao_value ob) = (gv_string g, snd (snd g)) then Some ob else None)"

definition split_gv :: "string \<Rightarrow> (string, string \<times> string) result" where
  "split_gv v = (case cut_at CHR ''/'' v of Some gv \<Rightarrow> Inr gv | None \<Rightarrow> Inr ([], v))"

definition role_deps :: deps where
  "role_deps = \<lparr>dp_parse_gv = split_gv, dp_parse_selector = (\<lambda>_. Inl ''unsupported selector'')\<rparr>"

definition role_scheme :: scheme where
  "role_scheme =
     \<lparr>sc_known = [(''rbac.horchestra.io'', ''v1'', ''ClusterRole'')],
      sc_res = [((''rbac.horchestra.io'', ''v1'', ''ClusterRole''), demo_resource False)]\<rparr>"

definition role_start :: "(int api_field alist_db, int api_field) DB" where
  "role_start = \<lparr>d_db = [(seqBucket, [])], d_scheme = role_scheme, d_no_history = [], d_subs = [], d_next_sub = 0\<rparr>"

definition role_cfg :: "int chain_config" where
  "role_cfg =
     \<lparr>cc_service_cidr = [], cc_routed_network = False, cc_gates = [],
      cc_digests = \<lparr>dg_spec_hash = (\<lambda>_. []), dg_name_suffix = id\<rparr>, cc_csr_cn = (\<lambda>_. Inl [])\<rparr>"

definition role_env :: "((int api_field alist_db, int api_field) DB, int, int api_object) service_env" where
  "role_env =
     \<lparr>sv_store = bolt_storage alist_bbolt role_deps, sv_known = (\<lambda>_. True), sv_default = (\<lambda>_. Some),
      sv_validate = (\<lambda>_ _. True), sv_unmarshal = demo_decode_request, sv_patch_ops = (\<lambda>_. None),
      sv_patch = (\<lambda>_ _ _. None), sv_dns_subdomain = (\<lambda>s. s \<noteq> []), sv_dns_label = (\<lambda>s. s \<noteq> []),
      sv_parse_gv = split_gv, sv_admission = controller_chain (bolt_storage alist_bbolt role_deps) role_cfg None\<rparr>"

definition role_gvk :: gvk where "role_gvk = (''rbac.horchestra.io'', ''v1'', ''ClusterRole'')"

definition role_object :: "int api_object" where
  "role_object =
     \<lparr>ao_api_version = rbac_gv, ao_kind = ''ClusterRole'',
      ao_value = VClusterRole \<lparr>role_meta = zero_object_meta\<lparr>om_name := ''viewer''\<rparr>,
        role_rules = [\<lparr>pr_api_groups = [''*''], pr_resources = [''nodes''], pr_verbs = [''get''],
          pr_non_resource_urls = []\<rparr>]\<rparr>\<rparr>"

lemma role_decode: "typed_decode role_env"
  by (auto simp: typed_decode_def role_env_def demo_decode_request_def split: if_splits)

interpretation roles: controller_service alist_bbolt role_deps role_env role_cfg None
  by unfold_locales (simp_all add: role_decode, simp_all add: role_env_def)

lemma role_open: "Open alist_bbolt role_scheme [] = Inr role_start"
  by (simp add: role_start_def role_scheme_def demo_resource_def Open_def db_Update_def drop_history_def bb_res_def historyBucket_def)

lemma role_start_ok: "bolt_ok alist_bbolt role_deps role_start"
proof -
  have "left_behind alist_bbolt role_deps role_scheme []" by (simp add: left_behind_def stored_def lookup_blob_def)
  from bolt_reach.opened[OF role_open this] show ?thesis using alist.reach_keeps by (simp add: bolt_ok_def)
qed

lemma role_start_empty: "all_objects (bolt_look alist_bbolt role_deps role_start) P"
  by (simp add: all_objects_def bolt_look_def bolt_abs_def stored_def find_record_def role_start_def lookup_blob_def goget_def as_json_def)

lemmas plugin_defs = secretPolicy_Admit_def csrPolicy_Admit_def childOwnership_Admit_def clientWrittenApp_def
  finalizerOwnership_Admit_def stored_finalizers_def uidAllocation_Admit_def serviceVIP_Admit_def policyEnforcement_Admit_def
  no_admit_def no_validate_def secretPolicy_Validate_def csrPolicy_Validate_def rbacRules_Validate_def
  applicationSet_Validate_def childOwnership_Validate_def finalizerOwnership_Validate_def uidAllocation_Validate_def
  policyEnforcement_Validate_def appPolicy_Validate_def servicePolicy_Validate_def serviceAddress_Validate_def
  nodePolicy_Validate_def nodeRestriction_Validate_def referenceCheck_Validate_def capacityCheck_Validate_def

lemma role_admit: "Create_admit role_env (Some \<lparr>id_name = ''root'', id_groups = []\<rparr>) role_gvk role_object [] role_start = Inr role_object"
  unfolding Create_admit_def admit_def
  by (simp add: role_env_def Service_decode_def demo_decode_request_def role_object_def role_gvk_def gv_string_def bindNamespace_def map_meta_def
   validIdentity_def Chain_Run_def controller_chain_def WithEscalationCheck_def DefaultChain_def Chain_Validate_def
   defaulting_Admit_def plugin_defs zero_object_meta_def set_value_def IsSubresource_def Let_def
   holdPlacedWorkload_def holdSetCascade_def check_rule_def map_error_def serviceUnderReview_def reference_rules_def
   notDelete_def onlyDelete_def checkNamespaceExists_def checkNodeExists_def checkPVExclusive_def checkSecretRef_def checkServiceRef_def)

lemma role_fit: "bolt_fit_obj alist_bbolt role_deps (enc_object role_object) role_start" "plain ''u''"
  by (simp_all add: bolt_fit_obj_def wf_object_def type_meta_field_def room_def plain_kind_def plain_def registered_def object_group_def
      role_deps_def role_start_def role_scheme_def role_object_def enc_object_def split_gv_def current_rv_def goget_def)

definition role_created :: "(int api_field alist_db, int api_field) DB" where
  "role_created = snd (Create alist_bbolt role_deps ''u'' 7000000000 (enc_object role_object) role_start)"

lemma role_run:
  "service_reach role_env (bolt_fit_obj alist_bbolt role_deps) (bolt_fit_ref alist_bbolt role_deps) plain role_start
     (role_created, {WCreate role_object})"
proof (rule service_reach.reach_step)
  show "service_reach role_env (bolt_fit_obj alist_bbolt role_deps) (bolt_fit_ref alist_bbolt role_deps) plain role_start
     (role_start, {WCreate role_object})"
    by (rule service_reach.reach_step[OF service_reach.reach_start service_step.admit_create[OF role_admit]])
  have c: "sto_create (sv_store role_env) ''u'' 7000000000 (enc_object role_object) role_start =
      (fst (Create alist_bbolt role_deps ''u'' 7000000000 (enc_object role_object) role_start), role_created)"
    by (simp add: role_env_def bolt_storage_def role_created_def)
  show "service_step role_env (bolt_fit_obj alist_bbolt role_deps) (bolt_fit_ref alist_bbolt role_deps) plain
     (role_start, {WCreate role_object}) (role_created, {WCreate role_object})"
    by (rule service_step.commit_create[OF _ _ _ c]) (simp, rule role_fit(1), rule role_fit(2))
qed

end
