(* ===== verification/ServiceDelete.thy ===== *)
theory ServiceDelete
  imports GuardedService
begin

text \<open>
  Deletion in two phases, and what a request that fails leaves behind, over any store that keeps the
  contract \<open>object_store\<close>.
\<close>

lemma dec_value_meta: "dec_value ob = Some v \<Longrightarrow> value_meta v = o_meta ob"
  by (auto simp: dec_value_def dec_application_def dec_application_set_def dec_node_def dec_secret_def dec_role_def dec_secret_store_def
      split: if_splits) (simp_all add: dec_service_def dec_pv_def dec_binding_def dec_csr_def
      split: option.splits api_field.splits)

lemma enc_meta [simp]: "o_meta (enc_object ob) = ao_meta ob"
  by (simp add: enc_object_def)

text \<open>When the object is to be deleted, if it is not yet.\<close>

definition deletion_time :: "int \<Rightarrow> object_meta \<Rightarrow> int" where
  "deletion_time now m = (case om_deletion_timestamp m of Some t \<Rightarrow> t | None \<Rightarrow> now)"

lemma marked_meta:
  "om_deletion_timestamp (ao_meta (marked now orphan cur)) = Some (deletion_time now (ao_meta cur))"
  "om_finalizers (ao_meta (marked now orphan cur)) = om_finalizers (stamp_orphan orphan (ao_meta cur))"
  "om_name (ao_meta (marked now orphan cur)) = om_name (ao_meta cur)"
  "om_namespace (ao_meta (marked now orphan cur)) = om_namespace (ao_meta cur)"
  by (auto simp: marked_def deletion_time_def stamp_orphan_def)

lemma stamp_orphan_finalizers:
  "set (om_finalizers m) \<subseteq> set (om_finalizers (stamp_orphan orphan m))"
  "orphan \<Longrightarrow> FinalizerOrphanDependents \<in> set (om_finalizers (stamp_orphan orphan m))"
  by (auto simp: stamp_orphan_def orphan_stamped_def)

lemma markDeleting_held:
  assumes "om_finalizers (ao_meta cur) \<noteq> []" "markDeleting env now cur orphan s = (r, s')"
  shows "(r = Inr True \<and> s' = s \<and> om_deletion_timestamp (ao_meta cur) \<noteq> None \<and> \<not> orphan_stamped orphan (ao_meta cur)) \<or>
    (\<exists>u. sto_update (sv_store env) (enc_object (marked now orphan cur)) s = (u, s') \<and> r = rbind u (\<lambda>_. Inr True))"
  using assms unfolding markDeleting_def Let_def
  by (cases "sto_update (sv_store env) (enc_object (marked now orphan cur)) s") (simp add: marked_def split: if_splits prod.splits)

lemma o_key_marked: "o_key (enc_object (marked now orphan cur)) = recordKey (om_namespace (ao_meta cur)) (om_name (ao_meta cur))"
  by (simp add: marked_meta)

lemma dec_object_meta: "dec_object j = Some ob \<Longrightarrow> ao_meta ob = o_meta j"
  using dec_typed dec_value_meta by metis

context guarded_service
begin

text \<open>An object with finalizers survives its deletion, marked.\<close>

lemma delete_held:
  assumes "ok s" "fit_ref m s" "Service_Get env m s = Inr cur" "om_finalizers (ao_meta cur) \<noteq> []"
    and "fit_obj (enc_object (marked now orphan cur)) s" "Service_Delete env ctx now m orphan s = (None, s')"
  shows "\<exists>b j. look s' = put_look (look s) b (recordKey (mr_namespace m) (mr_name m)) (Some j) \<and>
    om_deletion_timestamp (o_meta j) = Some (deletion_time now (ao_meta cur)) \<and>
    om_finalizers (o_meta j) = om_finalizers (stamp_orphan orphan (ao_meta cur))"
proof -
  let ?key = "recordKey (mr_namespace m) (mr_name m)"
  obtain j where j: "sto_get (sv_store env) m s = Inr j" "dec_object j = Some cur"
    using assms(3) by (auto simp: Service_Get_def map_error_Inr elim: typed_resultE)
  have mt: "ao_meta cur = o_meta j" by (rule dec_object_meta[OF j(2)])
  obtain b where b: "o_key j = ?key" "look s b ?key = Some j" using get_law[OF assms(1,2) j(1)] by blast
  have admit: "Delete_admit env ctx m orphan s = Inr cur"
    using assms(6) assms(3) by (auto simp: Service_Delete_def Delete_admit_def Service_Get_def map_error_Inr rbind_eq_Inr
        split: sum.splits if_splits prod.splits bool.splits)
  obtain r s1 where r: "markDeleting env now cur orphan s = (r, s1)" by fastforce
  from markDeleting_held[OF assms(4) r] show ?thesis
  proof (elim disjE exE conjE)
    assume h: "r = Inr True" "s1 = s" "om_deletion_timestamp (ao_meta cur) \<noteq> None" "\<not> orphan_stamped orphan (ao_meta cur)"
    then have "s' = s" using assms(6) admit r by (simp add: Service_Delete_def)
    moreover have "look s = put_look (look s) b ?key (Some j)" using b(2) by (auto simp: put_look_apply fun_eq_iff)
    ultimately show ?thesis using h(3,4) mt by (auto simp: deletion_time_def stamp_orphan_def intro!: exI[of _ b] exI[of _ j])
  next
    fix u
    assume u: "sto_update (sv_store env) (enc_object (marked now orphan cur)) s = (u, s1)" "r = rbind u (\<lambda>_. Inr True)"
    obtain res where res: "u = Inr res" "s' = s1" using assms(6) admit r u(2) by (cases u) (auto simp: Service_Delete_def)
    have key: "o_key (enc_object (marked now orphan cur)) = ?key" using b(1) mt by (simp add: marked_meta)
    from update_law[OF assms(1,5), of res s'] u(1) res have "lifecycle_eq res (enc_object (marked now orphan cur))"
      "\<exists>b. look s' = put_look (look s) b ?key (Some res)" unfolding key by auto
    then show ?thesis by (auto simp: lifecycle_eq_def marked_meta)
  qed
qed

text \<open>A second deletion changes nothing.\<close>

lemma delete_again:
  assumes "Service_Get env m s = Inr cur" "om_finalizers (ao_meta cur) \<noteq> []"
    and "om_deletion_timestamp (ao_meta cur) \<noteq> None" "\<not> orphan_stamped orphan (ao_meta cur)"
  shows "snd (Service_Delete env ctx now m orphan s) = s"
  using assms by (auto simp: Service_Delete_def Delete_admit_def markDeleting_def Service_Get_def Let_def rbind_def split: sum.splits if_splits)

text \<open>An answer that carries an error has written nothing.\<close>

lemma core_eq_decodes: "core_eq res j \<Longrightarrow> dec_object j \<noteq> None \<Longrightarrow> dec_object res \<noteq> None"
  using core_of_dec[of res j] by (auto simp: dec_object_def)

lemma typed_answer: "dec_object res \<noteq> None \<Longrightarrow> map_error apiError (typed_result (Inr res)) \<noteq> Inl e"
  by (auto simp: typed_result_def map_error_def)

lemma create_answer:
  assumes "ok s" "fit_uid uid" "\<And>ob. Create_admit env ctx g data ns s = Inr ob \<Longrightarrow> fit_obj (enc_object ob) s"
    and "Service_Create env uid now ctx g data ns s = (Inl e, s')"
  shows "s' = s"
proof (cases "Create_admit env ctx g data ns s")
  case (Inr ob)
  obtain r where r: "sto_create (sv_store env) uid now (enc_object ob) s = (r, s')" "map_error apiError (typed_result r) = Inl e"
    using assms(4) Inr by (cases "sto_create (sv_store env) uid now (enc_object ob) s") (auto simp: Service_Create_def write_result_def)
  show ?thesis
  proof (cases r)
    case (Inr res)
    have "core_eq res (enc_object ob)" using create_law[OF assms(1) assms(3)[OF \<open>_ = Inr ob\<close>] assms(2)] r(1) Inr by blast
    then have "dec_object res \<noteq> None"
      using core_eq_decodes dec_enc_object create_admitted[OF \<open>_ = Inr ob\<close>] by blast
    from typed_answer[OF this] r(2) Inr show ?thesis by blast
  qed (use r(1) error_laws(1) in blast)
qed (use assms(4) in \<open>simp add: Service_Create_def\<close>)

lemma update_answer:
  assumes "ok s" "typed ob" "fit_obj (enc_object ob) s" "write_result (sto_update (sv_store env) (enc_object ob) s) = (Inl e, s')"
  shows "s' = s"
proof -
  obtain r where r: "sto_update (sv_store env) (enc_object ob) s = (r, s')" "map_error apiError (typed_result r) = Inl e"
    using assms(4) by (cases "sto_update (sv_store env) (enc_object ob) s") (auto simp: write_result_def)
  show ?thesis
  proof (cases r)
    case (Inr res)
    have "core_eq res (enc_object ob)" using update_law[OF assms(1,3)] r(1) Inr by blast
    then have "dec_object res \<noteq> None" using core_eq_decodes dec_enc_object[OF assms(2)] by blast
    from typed_answer[OF this] r(2) Inr show ?thesis by blast
  qed (use r(1) error_laws(2) in blast)
qed

lemma put_answer:
  assumes "ok s" "\<And>ob. checkUpdate env ctx g data [] ns name s = Inr ob \<Longrightarrow> fit_obj (enc_object ob) s"
    and "Service_Update env ctx g data ns name s = (Inl e, s')"
  shows "s' = s"
proof (cases "checkUpdate env ctx g data [] ns name s")
  case (Inr ob)
  show ?thesis
    by (rule update_answer[OF assms(1) conjunct1[OF update_admitted[OF Inr]] assms(2)[OF Inr]])
      (use assms(3) Inr in \<open>simp add: Service_Update_def\<close>)
qed (use assms(3) in \<open>simp add: Service_Update_def\<close>)

lemma patch_answer:
  assumes "ok s" "\<And>ob. Patch_admit env ctx m pt data s = Inr ob \<Longrightarrow> fit_obj (enc_object ob) s"
    and "Service_Patch env ctx m pt data s = (Inl e, s')"
  shows "s' = s"
proof (cases "Patch_admit env ctx m pt data s")
  case (Inr ob)
  show ?thesis
    by (rule update_answer[OF assms(1) conjunct1[OF patch_admitted[OF Inr]] assms(2)[OF Inr]])
      (use assms(3) Inr in \<open>simp add: Service_Patch_def\<close>)
qed (use assms(3) in \<open>simp add: Service_Patch_def\<close>)

lemma delete_answer: "Service_Delete env ctx now m orphan s = (Some e, s') \<Longrightarrow> s' = s"
  using error_laws(2,5) unfolding Service_Delete_def markDeleting_def Let_def
  by (auto split: sum.splits if_splits prod.splits bool.splits option.splits simp: rbind_def)

end

end
