(* ===== verification/ServiceDemo.thy ===== *)
theory ServiceDemo
  imports ServicePolicy ServiceDelete
begin

text \<open>
  Concrete stores for the witnesses: one that holds a ClusterRole, as the run of
  \<open>role_run\<close> leaves it and as one whose deletion has been asked for.
\<close>

declare One_nat_def [simp del]

definition crole :: "policy_rule list \<Rightarrow> object_meta \<Rightarrow> int api_object" where
  "crole rs m =
     \<lparr>ao_api_version = rbac_gv, ao_kind = ''ClusterRole'', ao_value = VClusterRole \<lparr>role_meta = m, role_rules = rs\<rparr>\<rparr>"

definition named_viewer :: "object_meta \<Rightarrow> bool" where
  "named_viewer m \<longleftrightarrow> om_name m = ''viewer'' \<and> om_namespace m = []"

definition held_ref :: object_ref where
  "held_ref = \<lparr>mr_api_version = rbac_gv, mr_kind = ''ClusterRole'', mr_namespace = [], mr_name = ''viewer''\<rparr>"

abbreviation crole_bucket :: string where "crole_bucket \<equiv> ''rbac.horchestra.io/ClusterRole''"

definition crole_db :: "policy_rule list \<Rightarrow> object_meta \<Rightarrow> (int api_field alist_db, int api_field) DB" where
  "crole_db rs m = role_start\<lparr>d_db := [(seqBucket, [(crole_bucket, Text ''1'')]),
       (crole_bucket, [(''/viewer'', Obj (marshal (enc_object (crole rs m))))]),
       (historyBucket crole_bucket, [(historyKey ''u'' 1, Obj (marshal (enc_object (crole rs m))))])]\<rparr>"

abbreviation first_meta :: "object_meta \<Rightarrow> object_meta" where
  "first_meta m \<equiv> created_meta ''u'' 1 7000000000 m"

lemma crole_key:
  "named_viewer m \<Longrightarrow> o_key (enc_object (crole rs m)) = ''/viewer''"
  "bucketKeyForObject role_deps (enc_object (crole rs m)) = Inr crole_bucket"
  "bucketKeyForMeta role_deps held_ref = Inr crole_bucket"
  by (simp_all add: crole_def named_viewer_def enc_object_def recordKey_def bucketKeyForObject_def
      object_group_def bucketKeyForMeta_def held_ref_def role_deps_def split_gv_def bucketKeyFor_def)

lemma crole_create:
  assumes "named_viewer m"
  shows "Create alist_bbolt role_deps ''u'' 7000000000 (enc_object (crole rs m)) role_start =
    (Inr (enc_object (crole rs (first_meta m))), crole_db rs (first_meta m))"
proof -
  let ?b = crole_bucket
  have mt: "o_meta (enc_object (crole rs m)) = m" for m by (simp add: crole_def)
  have out: "enc_object (crole rs m)\<lparr>o_meta := m'\<rparr> = enc_object (crole rs m')" for m'
    by (simp add: enc_object_def crole_def)
  have rv: "nextRV alist_bbolt ?b [(seqBucket, [])] = Inr (1, [(seqBucket, [(?b, Text ''1'')])])"
    by (simp add: nextRV_def current_rv_def goget_def bb_res_def Let_def show_small)
  have cm: "commit alist_bbolt [] ?b ''/viewer'' ''u'' 1 enc [(seqBucket, [(?b, Text ''1'')])] =
      Inr [(seqBucket, [(?b, Text ''1'')]), (?b, [(''/viewer'', Obj enc)]), (historyBucket ?b, [(historyKey ''u'' 1, Obj enc)])]" for enc
    by (simp add: commit_def putHead_def bb_res_def goget_def historyBucket_def pruneHistory_def seek_prefix_def delete_keys_def Let_def)
  have "create_tx alist_bbolt [] ''u'' 7000000000 ?b (enc_object (crole rs m)) [(seqBucket, [])] =
    Inr ((enc_object (crole rs (first_meta m)), marshal (enc_object (crole rs (first_meta m))), first_meta m), d_db (crole_db rs (first_meta m)))"
    unfolding create_tx_def crole_key(1)[OF assms]
    by (simp add: mt lookup_blob_def goget_def rv out cm Let_def crole_db_def del: enc_meta)
  moreover have "om_name (o_meta (enc_object (crole rs m))) \<noteq> []" using assms by (simp add: crole_def named_viewer_def)
  moreover have "d_scheme role_start = role_scheme" "d_no_history role_start = []" "d_subs role_start = []"
    "d_db role_start = [(seqBucket, [])]" by (simp_all add: role_start_def)
  ultimately show ?thesis
    unfolding Create_def
    by (simp add: crole_key(2) db_Update_def finish_def publish_def) (simp add: crole_db_def)
qed

lemma crole_fit: "bolt_fit_obj alist_bbolt role_deps (enc_object (crole rs m)) role_start"
  by (simp add: bolt_fit_obj_def wf_object_def type_meta_field_def room_def plain_kind_def plain_def registered_def object_group_def
      role_deps_def role_start_def role_scheme_def crole_def enc_object_def split_gv_def current_rv_def goget_def)

lemma crole_ok: "named_viewer m \<Longrightarrow> bolt_ok alist_bbolt role_deps (crole_db rs (first_meta m))"
  using alist.bolt_create_law[OF role_start_ok crole_fit role_fit(2) crole_create] by blast

lemma crole_room: "room alist_bbolt (crole_db rs m)"
  by (auto simp: room_def current_rv_def crole_db_def role_start_def goget_def parse_uint64_def simp flip: show_small)

lemma crole_fit_ref: "bolt_fit_ref alist_bbolt role_deps held_ref (crole_db rs m)"
  using crole_room by (simp add: bolt_fit_ref_def plain_ref_def plain_def held_ref_def role_deps_def split_gv_def)

lemma crole_fit_obj: "bolt_fit_obj alist_bbolt role_deps (enc_object (crole rs m)) (crole_db rs' m')"
  using crole_fit[of rs m] crole_room by (simp add: bolt_fit_obj_def crole_db_def)

lemma crole_get: "Get alist_bbolt role_deps held_ref (crole_db rs m) = Inr (enc_object (crole rs m))"
proof -
  have "decode role_deps role_scheme (marshal (enc_object (crole rs m))) = Inr (enc_object (crole rs m))"
    by (rule decode_marshal_eq)
      (simp_all add: registered_def wf_object_def type_meta_field_def crole_def enc_object_def role_deps_def role_scheme_def split_gv_def)
  moreover have "recordKey (mr_namespace held_ref) (mr_name held_ref) = ''/viewer''" by (simp add: held_ref_def recordKey_def)
  ultimately show ?thesis
    unfolding Get_def crole_key(3)
    by (simp add: find_record_def lookup_blob_def as_json_def crole_db_def role_start_def goget_def)
qed

lemma crole_typed: "typed (crole rs m)"
  by (simp add: typed_def crole_def)

lemma crole_meta [simp]: "ao_meta (crole rs m) = m"
  by (simp add: crole_def)

lemma crole_service_get: "Service_Get role_env held_ref (crole_db rs m) = Inr (crole rs m)"
  by (simp add: Service_Get_def role_env_def bolt_storage_def crole_get typed_result_def dec_enc_object[OF crole_typed] map_error_def)

text \<open>The run of \<open>role_run\<close> ends in such a store.\<close>

lemma role_object_crole: "role_object = crole [\<lparr>pr_api_groups = [''*''], pr_resources = [''nodes''], pr_verbs = [''get''],
          pr_non_resource_urls = []\<rparr>] (zero_object_meta\<lparr>om_name := ''viewer''\<rparr>)"
  by (simp add: role_object_def crole_def)

definition role_stored :: "int api_object" where
  "role_stored = crole (case ao_value role_object of VClusterRole r \<Rightarrow> role_rules r | _ \<Rightarrow> []) (first_meta (ao_meta role_object))"

lemma role_created_get: "Service_Get role_env held_ref role_created = Inr role_stored"
  "Get alist_bbolt role_deps held_ref role_created = Inr (enc_object role_stored)"
  "bolt_fit_ref alist_bbolt role_deps held_ref role_created"
proof -
  have n: "named_viewer (zero_object_meta\<lparr>om_name := ''viewer''\<rparr>)" by (simp add: named_viewer_def zero_object_meta_def)
  have st: "role_stored = crole [\<lparr>pr_api_groups = [''*''], pr_resources = [''nodes''], pr_verbs = [''get''],
          pr_non_resource_urls = []\<rparr>] (first_meta (zero_object_meta\<lparr>om_name := ''viewer''\<rparr>))"
    unfolding role_stored_def role_object_crole crole_meta by (simp add: crole_def)
  have c: "role_created = crole_db [\<lparr>pr_api_groups = [''*''], pr_resources = [''nodes''], pr_verbs = [''get''],
          pr_non_resource_urls = []\<rparr>] (first_meta (zero_object_meta\<lparr>om_name := ''viewer''\<rparr>))"
    unfolding role_created_def role_object_crole by (simp only: crole_create[OF n] snd_conv)
  show "Service_Get role_env held_ref role_created = Inr role_stored"
    "Get alist_bbolt role_deps held_ref role_created = Inr (enc_object role_stored)"
    "bolt_fit_ref alist_bbolt role_deps held_ref role_created"
    unfolding c st by (rule crole_service_get crole_get crole_fit_ref)+
qed

section \<open>A role whose deletion has been asked for\<close>

definition held_meta :: object_meta where
  "held_meta = first_meta (zero_object_meta\<lparr>om_name := ''viewer'', om_finalizers := [''hold''],
     om_deletion_timestamp := Some 6000000000\<rparr>)"

definition held_role :: "int api_object" where "held_role = crole [] held_meta"

definition held_db :: "(int api_field alist_db, int api_field) DB" where "held_db = crole_db [] held_meta"

lemma held_ok: "bolt_ok alist_bbolt role_deps held_db"
  unfolding held_db_def held_meta_def by (rule crole_ok) (simp add: named_viewer_def zero_object_meta_def)

lemma held_meta_simps: "ao_meta held_role = held_meta" "om_finalizers held_meta = [''hold'']"
  "om_deletion_timestamp held_meta = Some 6000000000"
  by (simp_all add: held_role_def held_meta_def created_meta_def)

lemma held_marked: "marked now False held_role = held_role"
  by (simp add: marked_def held_meta_simps map_meta_def)
    (simp add: held_role_def crole_def stamp_orphan_def orphan_stamped_def)

definition demo_operator :: identity where "demo_operator = \<lparr>id_name = ''root'', id_groups = []\<rparr>"

lemma held_delete_admit: "Delete_admit role_env (Some demo_operator) held_ref False held_db = Inr held_role"
proof -
  have "Chain_Validate (sv_admission role_env held_db) (Some demo_operator)
     \<lparr>at_gvk = role_gvk, at_operation = OpDelete, at_object = held_role, at_old = Some held_role,
      at_subresource = []\<rparr> = Inr ()"
    by (simp add: role_env_def controller_chain_def WithEscalationCheck_def DefaultChain_def Chain_Validate_def plugin_defs
        reference_rules_def notDelete_def onlyDelete_def checkNamespaceEmpty_def checkPVProtection_def checkSecretProtection_def
        checkServiceProtection_def held_role_def crole_def role_gvk_def IsSubresource_def serviceUnderReview_def demo_operator_def)
  moreover have "gvkOf role_env held_ref = role_gvk"
    by (simp add: gvkOf_def role_env_def held_ref_def split_gv_def role_gvk_def)
  ultimately show ?thesis using crole_service_get[of "[]" held_meta] by (simp add: Delete_admit_def Service_Get_def map_error_def held_db_def held_role_def)
qed

lemma held_delete: "Service_Delete role_env (Some demo_operator) now held_ref False held_db = (None, held_db)"
  by (simp add: Service_Delete_def held_delete_admit markDeleting_def held_meta_simps orphan_stamped_def)

end
