(* ===== verification/FinalizerFacts.thy ===== *)
theory FinalizerFacts
  imports ChainFacts
begin

text \<open>
  Finalizers through the chain: what a client sends for them is replaced by what is stored, the hold
  of a placed workload follows its placement, and no later plugin touches either.
\<close>

text \<open>The parts of an object the plugins after \<open>finalizerOwnership\<close> do not touch.\<close>

definition placed_on :: "'q api_value \<Rightarrow> string option" where
  "placed_on v = (case v of VApplication a \<Rightarrow> Some (app_node_name a) | _ \<Rightarrow> None)"

definition same_hold :: "'q attributes \<Rightarrow> 'q attributes \<Rightarrow> bool" where
  "same_hold a a' \<longleftrightarrow> om_finalizers (value_meta (at_value a')) = om_finalizers (value_meta (at_value a)) \<and>
     om_deletion_timestamp (value_meta (at_value a')) = om_deletion_timestamp (value_meta (at_value a)) \<and>
     placed_on (at_value a') = placed_on (at_value a)"

definition keeps_hold :: "'q admission_plugin \<Rightarrow> bool" where
  "keeps_hold p \<longleftrightarrow> (\<forall>ctx a a'. plug_admit p ctx a = Inr a' \<longrightarrow> same_hold a a')"

lemma same_hold_refl [simp]: "same_hold a a"
  by (simp add: same_hold_def)

lemma same_hold_trans: "same_hold a b \<Longrightarrow> same_hold b c \<Longrightarrow> same_hold a c"
  by (simp add: same_hold_def)

lemma keeps_hold_chain:
  assumes "\<forall>p \<in> set c. keeps_hold p" "rfold (\<lambda>p. plug_admit p ctx) c a = Inr a'" shows "same_hold a a'"
proof (rule rfold_invariant[OF assms(2)])
  fix x s t
  assume "x \<in> set c" "plug_admit x ctx s = Inr t" "same_hold a s"
  moreover from this assms(1) have "same_hold s t" by (auto simp: keeps_hold_def)
  ultimately show "same_hold a t" using same_hold_trans by blast
qed simp

lemma keeps_hold_no_admit: "keeps_hold \<lparr>plug_admit = no_admit, plug_validate = v\<rparr>"
  by (simp add: keeps_hold_def no_admit_def)

lemma set_security_context_hold [simp]:
  "app_meta (set_security_context sc app) = app_meta app" "app_node_name (set_security_context sc app) = app_node_name app"
  by (simp_all add: set_security_context_def)

lemma assignWorkloadID_hold:
  "assignWorkloadID l app = Inr app' \<Longrightarrow> app_meta app' = app_meta app \<and> app_node_name app' = app_node_name app"
  by (auto simp: assignWorkloadID_def rbind_eq_Inr Let_def split: if_splits option.splits)

lemma assignBlock_hold:
  "assignBlock l ns = Inr ns' \<Longrightarrow> om_finalizers (ns_meta ns') = om_finalizers (ns_meta ns) \<and>
     om_deletion_timestamp (ns_meta ns') = om_deletion_timestamp (ns_meta ns)"
  by (auto simp: assignBlock_def rbind_eq_Inr Let_def split: if_splits option.splits)

lemma keeps_hold_uid: "keeps_hold \<lparr>plug_admit = uidAllocation_Admit lo, plug_validate = v\<rparr>"
  by (auto simp: keeps_hold_def same_hold_def uidAllocation_Admit_def rbind_eq_Inr placed_on_def
      dest!: assignWorkloadID_hold assignBlock_hold split: option.splits if_splits api_value.splits)

lemma keeps_hold_vip: "keeps_hold \<lparr>plug_admit = serviceVIP_Admit lo cidr, plug_validate = v\<rparr>"
  by (auto simp: keeps_hold_def same_hold_def serviceVIP_Admit_def rbind_eq_Inr placed_on_def
      split: option.splits if_splits operation.splits)

lemma keeps_hold_policy: "keeps_hold \<lparr>plug_admit = policyEnforcement_Admit, plug_validate = v\<rparr>"
  by (auto simp: keeps_hold_def same_hold_def policyEnforcement_Admit_def Let_def placed_on_def split: option.splits if_splits)

section \<open>The plugin\<close>

text \<open>The finalizers an object leaves the plugin with, given those it had.\<close>

definition held_as :: "string list \<Rightarrow> 'q api_value \<Rightarrow> bool" where
  "held_as fs v \<longleftrightarrow>
     (\<forall>f. f \<noteq> FinalizerNodeTeardown \<longrightarrow> f \<noteq> FinalizerChildTeardown \<longrightarrow> (f \<in> set (om_finalizers (value_meta v)) \<longleftrightarrow> f \<in> set fs)) \<and>
     (om_deletion_timestamp (value_meta v) \<noteq> None \<longrightarrow> om_finalizers (value_meta v) = fs) \<and>
     (\<forall>n. placed_on v = Some n \<longrightarrow> om_deletion_timestamp (value_meta v) = None \<longrightarrow>
        (FinalizerNodeTeardown \<in> set (om_finalizers (value_meta v)) \<longleftrightarrow> n \<noteq> []))"

lemma held_as_hold:
  "om_finalizers (value_meta v) = fs \<Longrightarrow> held_as fs (holdSetCascade (holdPlacedWorkload v))"
  by (cases v) (auto simp: held_as_def holdSetCascade_def holdPlacedWorkload_def placed_on_def Let_def Deleting_def Set_Deleting_def)

lemma held_as_same: "same_hold a a' \<Longrightarrow> held_as fs (at_value a) \<Longrightarrow> held_as fs (at_value a')"
  by (simp add: same_hold_def held_as_def)

lemma finalizer_plugin_held:
  assumes "finalizerOwnership_Admit (Some i) a = Inr a'" "at_operation a \<noteq> OpDelete" "at_subresource a = []"
  shows "held_as (stored_finalizers a) (at_value a')"
  using assms held_as_hold[of "map_value_meta (\<lambda>m. m\<lparr>om_finalizers := stored_finalizers a\<rparr>) (at_value a)"]
  by (auto simp: finalizerOwnership_Admit_def IsSubresource_def)

text \<open>The chain around the plugin.\<close>

definition chain_before :: "('q::linordered_ab_group_add) lister option \<Rightarrow> 'q chain_config \<Rightarrow> 'q chain" where
  "chain_before lo cfg = take 6 (DefaultChain lo cfg)"

definition chain_after :: "('q::linordered_ab_group_add) lister option \<Rightarrow> 'q chain_config \<Rightarrow> 'q chain" where
  "chain_after lo cfg = drop 7 (DefaultChain lo cfg)"

lemma DefaultChain_split:
  "DefaultChain lo cfg = chain_before lo cfg @
     \<lparr>plug_admit = finalizerOwnership_Admit, plug_validate = finalizerOwnership_Validate\<rparr> # chain_after lo cfg"
  by (simp add: chain_before_def chain_after_def DefaultChain_def)

lemma keeps_hold_after: "\<forall>p \<in> set (chain_after lo cfg). keeps_hold p"
  by (simp add: chain_after_def DefaultChain_def keeps_hold_no_admit keeps_hold_uid keeps_hold_vip keeps_hold_policy)

lemma chain_held:
  assumes "rfold (\<lambda>p. plug_admit p (Some i)) (controller_chain st cfg ao s) a = Inr a'" "at_operation a \<noteq> OpDelete" "at_subresource a = []"
  shows "held_as (stored_finalizers a) (at_value a')"
proof -
  let ?lo = "Some (store_lister st s)"
  obtain esc where esc: "controller_chain st cfg ao s = DefaultChain ?lo cfg @ esc" "\<forall>p \<in> set esc. keeps_hold p"
    unfolding controller_chain_def WithEscalationCheck_def
    by (cases "ao = None") (use that[of "[]"] keeps_hold_no_admit in auto)
  have "frames p" if "p \<in> set (chain_before ?lo cfg)" for p
    using that frames_DefaultChain[of ?lo cfg] DefaultChain_split[of ?lo cfg] by simp
  obtain b c where b: "rfold (\<lambda>p. plug_admit p (Some i)) (chain_before ?lo cfg) a = Inr b" "finalizerOwnership_Admit (Some i) b = Inr c"
    "rfold (\<lambda>p. plug_admit p (Some i)) (chain_after ?lo cfg @ esc) c = Inr a'"
    using assms(1) by (auto simp: esc DefaultChain_split rfold_append rbind_eq_Inr)
  have "same_request a b" using frames_chain[OF _ b(1)] \<open>\<And>p. p \<in> set (chain_before ?lo cfg) \<Longrightarrow> frames p\<close> by blast
  then have e: "at_operation b \<noteq> OpDelete" "at_subresource b = []" "stored_finalizers b = stored_finalizers a"
    using assms(2,3) by (simp_all add: same_request_def stored_finalizers_def)
  have "same_hold c a'" by (rule keeps_hold_chain[OF _ b(3)]) (use esc(2) keeps_hold_after in auto)
  then show ?thesis using held_as_same finalizer_plugin_held[OF b(2) e(1,2)] e(3) by metis
qed

lemma finalizer_validated:
  assumes "Chain_Validate (controller_chain st cfg ao s) (Some i) a = Inr ()" "at_operation a = OpUpdate" "at_subresource a = []"
    and "at_old a = Some old" "om_deletion_timestamp (value_meta (at_value a)) \<noteq> None"
  shows "om_deletion_timestamp (ao_meta old) \<noteq> None"
proof -
  have "\<lparr>plug_admit = finalizerOwnership_Admit, plug_validate = finalizerOwnership_Validate\<rparr> \<in> set (controller_chain st cfg ao s)"
    by (simp add: controller_chain_def WithEscalationCheck_def DefaultChain_def)
  from Chain_Validate_elem[OF assms(1) this] show ?thesis
    using assms(2-5) by (auto simp: finalizerOwnership_Validate_def IsSubresource_def split: if_splits)
qed

end
