(* ===== verification/ServiceProps.thy ===== *)
theory ServiceProps
  imports ServiceDemo FinalizerFacts
begin

text \<open>
  Properties of the service with the controller's admission chain over the BoltDB store, whatever the
  requests and however they interleave.
\<close>

lemma controller_serviceI:
  assumes "bbolt_laws ops" "sv_store env = bolt_storage ops d" "sv_admission env = controller_chain (sv_store env) cfg ao"
    and "typed_decode env"
  shows "controller_service ops d env cfg ao"
  using assms by (simp add: controller_service_def controller_service_axioms_def)

text \<open>C25: Everything stored keeps the policy. From a database in good order, under any interleaving of admitted and
  committed creates, updates, patches, status writes, deletions and rollbacks, every workload the service returns runs
  as a usable non-root user and has well-formed volumes, variables, resources and lifecycle, and every role it returns
  has only well-formed rules.\<close>

theorem service_policy_invariant:
  assumes "bbolt_laws ops" "sv_store env = bolt_storage ops d" "sv_admission env = controller_chain (sv_store env) cfg ao"
    and "typed_decode env" "bolt_ok ops d s0" "all_objects (bolt_look ops d s0) (holds_of (policed (cc_routed_network cfg)))"
    and "service_reach env (bolt_fit_obj ops d) (bolt_fit_ref ops d) plain s0 (s, W)"
    and "bolt_fit_ref ops d m s" "Service_Get env m s = Inr ob"
  shows "policed (cc_routed_network cfg) (ao_value ob)"
proof -
  note c = controller_serviceI[OF assms(1-4)]
  from controller_service.policy_reach[OF c assms(7,5,6)] have "bolt_ok ops d s"
    "all_objects (bolt_look ops d s) (holds_of (policed (cc_routed_network cfg)))" by blast+
  from controller_service.policy_get[OF c this assms(8,9)] show ?thesis .
qed

lemma role_env_chain: "sv_store role_env = bolt_storage alist_bbolt role_deps"
  "sv_admission role_env = controller_chain (sv_store role_env) role_cfg None"
  by (simp_all add: role_env_def)

theorem service_policy_invariant_witness:
  "Service_Get role_env held_ref role_created = Inr role_stored \<and> policed (cc_routed_network role_cfg) (ao_value role_stored)"
  using service_policy_invariant[OF alist.bbolt_laws_axioms role_env_chain role_decode role_start_ok role_start_empty role_run
      role_created_get(3,1)] role_created_get(1) by simp

text \<open>C26: Every stored object reads back. In every such run, whatever the store returns for a reference decodes to the
  Go type of its Kind, so a read of the service never fails on an object that is there.\<close>

theorem service_store_typed:
  assumes "bbolt_laws ops" "sv_store env = bolt_storage ops d" "sv_admission env = controller_chain (sv_store env) cfg ao"
    and "typed_decode env" "bolt_ok ops d s0" "all_objects (bolt_look ops d s0) (holds_of (policed (cc_routed_network cfg)))"
    and "service_reach env (bolt_fit_obj ops d) (bolt_fit_ref ops d) plain s0 (s, W)"
    and "bolt_fit_ref ops d m s" "Get ops d m s = Inr j"
  shows "\<exists>ob. Service_Get env m s = Inr ob \<and> typed ob \<and> ao_meta ob = o_meta j"
proof -
  note c = controller_serviceI[OF assms(1-4)]
  from controller_service.policy_reach[OF c assms(7,5,6)] have ok: "bolt_ok ops d s"
    "all_objects (bolt_look ops d s) (holds_of (policed (cc_routed_network cfg)))" by blast+
  obtain b where "bolt_look ops d s b (recordKey (mr_namespace m) (mr_name m)) = Some j"
    using bbolt_laws.bolt_get_law[OF assms(1) ok(1) assms(8,9)] by blast
  then have "holds_of (policed (cc_routed_network cfg)) j" using ok(2) by (auto simp: all_objects_def)
  then obtain v where "dec_value j = Some v" by (auto simp: holds_of_def split: option.splits)
  then obtain ob where ob: "dec_object j = Some ob" by (simp add: dec_object_def)
  then have "Service_Get env m s = Inr ob"
    using assms(2,9) by (simp add: Service_Get_def bolt_storage_def typed_result_def map_error_def)
  then show ?thesis using dec_typed[OF ob] dec_object_meta[OF ob] by blast
qed

theorem service_store_typed_witness:
  "\<exists>ob. Service_Get role_env held_ref role_created = Inr ob \<and> typed ob \<and> ao_meta ob = o_meta (enc_object role_stored)"
  by (rule service_store_typed[OF alist.bbolt_laws_axioms role_env_chain role_decode role_start_ok role_start_empty role_run
      role_created_get(3,2)])

text \<open>C27: Deletion in two phases. An object that carries finalizers is not erased by a deletion: it stays in the store
  with all of them, with the first deletion's time as its deletionTimestamp, and with the finalizer that keeps its
  dependents if that was asked for; no other object is touched.\<close>

theorem delete_two_phase:
  assumes "bbolt_laws ops" "sv_store env = bolt_storage ops d" "sv_admission env = controller_chain (sv_store env) cfg ao"
    and "typed_decode env" "bolt_ok ops d s" "bolt_fit_ref ops d m s" "Service_Get env m s = Inr cur"
    and "om_finalizers (ao_meta cur) \<noteq> []" "bolt_fit_obj ops d (enc_object (marked now orphan cur)) s"
    and "Service_Delete env ctx now m orphan s = (None, s')"
  shows "\<exists>b j. bolt_look ops d s' = put_look (bolt_look ops d s) b (recordKey (mr_namespace m) (mr_name m)) (Some j) \<and>
    om_deletion_timestamp (o_meta j) = Some (deletion_time now (ao_meta cur)) \<and>
    set (om_finalizers (ao_meta cur)) \<subseteq> set (om_finalizers (o_meta j)) \<and>
    (orphan \<longrightarrow> FinalizerOrphanDependents \<in> set (om_finalizers (o_meta j)))"
proof -
  note c = controller_serviceI[OF assms(1-4)]
  from guarded_service.delete_held[OF controller_service.policy_guard[OF c] assms(5-10)] show ?thesis
    using stamp_orphan_finalizers by metis
qed

theorem delete_two_phase_witness:
  "\<exists>b j. bolt_look alist_bbolt role_deps held_db b (recordKey (mr_namespace held_ref) (mr_name held_ref)) = Some j \<and>
     om_deletion_timestamp (o_meta j) = Some 6000000000 \<and> ''hold'' \<in> set (om_finalizers (o_meta j))"
proof -
  have f: "om_finalizers (ao_meta held_role) \<noteq> []" by (simp add: held_meta_simps)
  have g: "Service_Get role_env held_ref held_db = Inr held_role" unfolding held_db_def held_role_def by (rule crole_service_get)
  have r: "bolt_fit_ref alist_bbolt role_deps held_ref held_db" unfolding held_db_def by (rule crole_fit_ref)
  have o: "bolt_fit_obj alist_bbolt role_deps (enc_object (marked 9000000000 False held_role)) held_db"
    unfolding held_marked unfolding held_db_def held_role_def by (rule crole_fit_obj)
  from delete_two_phase[OF alist.bbolt_laws_axioms role_env_chain role_decode held_ok r g f o held_delete]
  obtain b j where "bolt_look alist_bbolt role_deps held_db =
      put_look (bolt_look alist_bbolt role_deps held_db) b (recordKey (mr_namespace held_ref) (mr_name held_ref)) (Some j)"
    and j: "om_deletion_timestamp (o_meta j) = Some (deletion_time 9000000000 (ao_meta held_role))"
      "set (om_finalizers (ao_meta held_role)) \<subseteq> set (om_finalizers (o_meta j))" by blast
  from this(1) have "bolt_look alist_bbolt role_deps held_db b (recordKey (mr_namespace held_ref) (mr_name held_ref)) = Some j"
    by (metis put_look_apply)
  then show ?thesis using j by (auto simp: held_meta_simps deletion_time_def)
qed

text \<open>C28: An answered error has written nothing. When a create, an update, a patch or a deletion is answered with an error,
  from admission, from the store, or from reading back what was written, the database is the one the request found.\<close>

theorem service_errors_unchanged:
  assumes "bbolt_laws ops" "sv_store env = bolt_storage ops d" "sv_admission env = controller_chain (sv_store env) cfg ao"
    and "typed_decode env" "bolt_ok ops d s" "plain uid"
    and "\<forall>ob. Create_admit env ctx g data ns s = Inr ob \<longrightarrow> bolt_fit_obj ops d (enc_object ob) s"
    and "\<forall>ob. checkUpdate env ctx g data [] ns name s = Inr ob \<longrightarrow> bolt_fit_obj ops d (enc_object ob) s"
    and "\<forall>ob. Patch_admit env ctx m pt data s = Inr ob \<longrightarrow> bolt_fit_obj ops d (enc_object ob) s"
  shows "(\<forall>e s'. Service_Create env uid now ctx g data ns s = (Inl e, s') \<longrightarrow> s' = s) \<and>
    (\<forall>e s'. Service_Update env ctx g data ns name s = (Inl e, s') \<longrightarrow> s' = s) \<and>
    (\<forall>e s'. Service_Patch env ctx m pt data s = (Inl e, s') \<longrightarrow> s' = s) \<and>
    (\<forall>e s'. Service_Delete env ctx now m orphan s = (Some e, s') \<longrightarrow> s' = s)"
proof -
  note gs = controller_service.policy_guard[OF controller_serviceI[OF assms(1-4)]]
  have "s' = s" if "Service_Create env uid now ctx g data ns s = (Inl e, s')" for e s'
    by (rule guarded_service.create_answer[OF gs assms(5,6) _ that]) (use assms(7) in simp)
  moreover have "s' = s" if "Service_Update env ctx g data ns name s = (Inl e, s')" for e s'
    by (rule guarded_service.put_answer[OF gs assms(5) _ that]) (use assms(8) in simp)
  moreover have "s' = s" if "Service_Patch env ctx m pt data s = (Inl e, s')" for e s'
    by (rule guarded_service.patch_answer[OF gs assms(5) _ that]) (use assms(9) in simp)
  moreover have "s' = s" if "Service_Delete env ctx now m orphan s = (Some e, s')" for e s'
    by (rule guarded_service.delete_answer[OF gs that])
  ultimately show ?thesis by blast
qed

lemma role_missing: "Get alist_bbolt role_deps held_ref role_start = Inl ErrNotFound"
  unfolding Get_def crole_key(3)
  by (simp add: find_record_def lookup_blob_def as_json_def role_start_def goget_def)

lemma role_update_missing:
  "checkUpdate role_env (Some demo_operator) role_gvk role_object [] [] ''viewer'' role_start = Inl ApiNotFound"
proof -
  have "metaOf role_gvk (map_meta (\<lambda>m. m\<lparr>om_namespace := []\<rparr>) role_object) = held_ref" "nameOf role_object = ''viewer''"
    "om_namespace (ao_meta role_object) = []"
    by (simp_all add: metaOf_def role_gvk_def gv_string_def held_ref_def map_meta_def role_object_def zero_object_meta_def)
  moreover have "Service_decode role_env role_gvk role_object = Inr role_object"
    by (simp add: role_env_def Service_decode_def demo_decode_request_def role_object_def role_gvk_def gv_string_def)
  moreover have "nameOf (map_meta (\<lambda>m. m\<lparr>om_namespace := []\<rparr>) role_object) = ''viewer''" by (simp add: map_meta_def role_object_def)
  ultimately show ?thesis
    by (simp add: checkUpdate_def bindNamespace_def Let_def role_env_chain bolt_storage_def role_missing typed_result_def
        map_error_def apiError_def)
qed

theorem service_errors_unchanged_witness:
  "fst (Service_Update role_env (Some demo_operator) role_gvk role_object [] ''viewer'' role_start) = Inl ApiNotFound \<and>
   snd (Service_Update role_env (Some demo_operator) role_gvk role_object [] ''viewer'' role_start) = role_start"
proof -
  have "Patch_admit role_env (Some demo_operator) held_ref MergePatch role_object role_start = Inl ApiNotFound"
    by (simp add: Patch_admit_def role_env_chain bolt_storage_def role_missing typed_result_def map_error_def apiError_def)
  moreover have "bolt_fit_obj alist_bbolt role_deps (enc_object ob) role_start"
    if "Create_admit role_env (Some demo_operator) role_gvk role_object [] role_start = Inr ob" for ob
    using role_admit that role_fit(1) by (simp add: demo_operator_def)
  ultimately have "(\<forall>e s'. Service_Update role_env (Some demo_operator) role_gvk role_object [] ''viewer'' role_start = (Inl e, s') \<longrightarrow> s' = role_start)"
    using service_errors_unchanged[OF alist.bbolt_laws_axioms role_env_chain role_decode role_start_ok role_fit(2),
        of "Some demo_operator" role_gvk role_object "[]" "''viewer''" held_ref MergePatch] role_update_missing by simp
  moreover have "fst (Service_Update role_env (Some demo_operator) role_gvk role_object [] ''viewer'' role_start) = Inl ApiNotFound"
    by (simp add: Service_Update_def role_update_missing)
  ultimately show ?thesis by (metis prod.collapse)
qed

text \<open>C29: Finalizers are not the client's. On an update an identified client sends, every finalizer of the admitted object
  but the two holds the controller manages is one the stored object has, and none is lost; a placed workload that is not
  being deleted is held for its node's teardown and an unplaced one is not; and a deletionTimestamp appears only on an
  object that already had one, in which case the finalizers are exactly the stored ones.\<close>

theorem client_finalizers:
  assumes "sv_admission env = controller_chain (sv_store env) cfg ao"
    and "admit env s (Some i) g ob (Some old) OpUpdate [] = Inr ob'"
  shows "held_as (om_finalizers (ao_meta old)) (ao_value ob') \<and>
    (om_deletion_timestamp (ao_meta ob') \<noteq> None \<longrightarrow> om_deletion_timestamp (ao_meta old) \<noteq> None)"
proof -
  let ?a = "\<lparr>at_gvk = g, at_operation = OpUpdate, at_object = ob, at_old = Some old, at_subresource = []\<rparr>"
  obtain a' where a: "rfold (\<lambda>p. plug_admit p (Some i)) (controller_chain (sv_store env) cfg ao s) ?a = Inr a'"
    "Chain_Validate (controller_chain (sv_store env) cfg ao s) (Some i) a' = Inr ()" "at_object a' = ob'"
    using admitE[OF assms(2)] assms(1) by metis
  have "same_request ?a a'" using controller_chain_admit[OF a(1)] ..
  then have r: "at_operation a' = OpUpdate" "at_subresource a' = []" "at_old a' = Some old" by (simp_all add: same_request_def)
  have "held_as (om_finalizers (ao_meta old)) (at_value a')" using chain_held[OF a(1)] by (simp add: stored_finalizers_def)
  then show ?thesis using finalizer_validated[OF a(2) r] a(3) by blast
qed

lemma held_update:
  "admit role_env held_db (Some demo_operator) role_gvk (crole [] (zero_object_meta\<lparr>om_name := ''viewer'', om_finalizers := [''evil'']\<rparr>))
     (Some held_role) OpUpdate [] = Inr (crole [] (zero_object_meta\<lparr>om_name := ''viewer'', om_finalizers := [''hold'']\<rparr>))"
  unfolding admit_def
  by (simp add: role_env_def crole_def role_gvk_def gv_string_def
   Chain_Run_def controller_chain_def WithEscalationCheck_def DefaultChain_def Chain_Validate_def
   defaulting_Admit_def plugin_defs zero_object_meta_def set_value_def IsSubresource_def Let_def held_meta_simps demo_operator_def
   holdPlacedWorkload_def holdSetCascade_def check_rule_def map_error_def serviceUnderReview_def reference_rules_def
   notDelete_def onlyDelete_def checkNamespaceExists_def checkNodeExists_def checkPVExclusive_def checkSecretRef_def checkServiceRef_def)

theorem client_finalizers_witness:
  "held_as (om_finalizers (ao_meta held_role)) (ao_value (crole [] (zero_object_meta\<lparr>om_name := ''viewer'', om_finalizers := [''hold'']\<rparr>)))"
  using client_finalizers[OF role_env_chain(2) held_update] by blast

end
