(* ===== verification/AuthzFacts.thy ===== *)
theory AuthzFacts
  imports AdmissionAuthz
begin

text \<open>
  The decision of the authorizer against the RBAC objects of the store: the projected policy grants
  exactly what the bindings grant, and the decision is exactly that, the built-in allowances apart.
  The enforcer is any function with the contract \<open>casbin_laws\<close>.
\<close>

section \<open>The enforcer\<close>

text \<open>The policy effect \<open>some(where (p.eft == allow))\<close> over the matcher of \<open>rbacModel\<close>.\<close>

locale casbin_laws =
  fixes enforce :: enforcer
  assumes enforce_spec: "enforce rules r = Inr (list_ex (rbac_matcher r) rules)"
begin

lemma enforce_any_spec:
  "enforce_any enforce c a subs =
     Inr (\<exists>sub \<in> set subs. \<exists>p \<in> set (pol_rules c). rbac_matcher (sub, az_namespace a, az_group a, Target a, az_verb a) p)"
  by (induction subs) (auto simp: enforce_spec list_ex_iff)

end

definition model_enforce :: enforcer where
  "model_enforce rules r = Inr (list_ex (rbac_matcher r) rules)"

interpretation model: casbin_laws model_enforce
  by unfold_locales (simp add: model_enforce_def)

section \<open>What the bindings grant\<close>

text \<open>The tuple \<open>(sub, ns, g, res, verb)\<close> is granted to a subject by a rule held in a namespace, or everywhere (\<open>*\<close>).\<close>

definition granted_lines :: "subject list \<Rightarrow> string \<Rightarrow> policy_rule list \<Rightarrow> line set" where
  "granted_lines subjects ns rules =
     {(sub, ns, g, res, verb) | sub g res verb.
        \<exists>s \<in> set subjects. \<exists>r \<in> set rules. sub = subjectString s \<and> sub \<noteq> [] \<and>
          g \<in> set (pr_api_groups r) \<and> res \<in> set (pr_resources r) \<and> verb \<in> set (pr_verbs r)}"

definition binding_lines :: "'q rbac_store \<Rightarrow> string list \<Rightarrow> role_binding \<Rightarrow> line set" where
  "binding_lines st live rb =
     (let ns = om_namespace (rb_meta rb)
      in if ns \<noteq> [] \<and> ns \<notin> set live then {}
         else granted_lines (rb_subjects rb) ns (roleRefRules st (rb_role_ref rb) ns))"

definition cluster_lines :: "'q rbac_store \<Rightarrow> role_binding \<Rightarrow> line set" where
  "cluster_lines st crb =
     (if rf_kind (rb_role_ref crb) = ''ClusterRole''
      then granted_lines (rb_subjects crb) ''*'' (roleRefRules st (rb_role_ref crb) []) else {})"

definition store_lines :: "'q rbac_store \<Rightarrow> role_binding list \<Rightarrow> string list \<Rightarrow> role_binding list \<Rightarrow> line set" where
  "store_lines st rbs live crbs = (\<Union>rb \<in> set rbs. binding_lines st live rb) \<union> (\<Union>crb \<in> set crbs. cluster_lines st crb)"

section \<open>Projection\<close>

text \<open>No component of a line carries the byte the keys are joined with.\<close>

definition nul_free :: "line \<Rightarrow> bool" where
  "nul_free ln =
     (case ln of (sub, ns, g, res, verb) \<Rightarrow>
        CHR 0x00 \<notin> set sub \<union> set ns \<union> set g \<union> set res \<union> set verb)"

lemma append_sep_eq: "x \<notin> set a \<Longrightarrow> x \<notin> set b \<Longrightarrow> a @ x # c = b @ x # d \<longleftrightarrow> a = b \<and> c = d"
  by (induction a arbitrary: b; case_tac b) auto

lemma line_key_inj: "nul_free l1 \<Longrightarrow> nul_free l2 \<Longrightarrow> line_key l1 = line_key l2 \<Longrightarrow> l1 = l2"
  by (auto simp: nul_free_def line_key_def append_sep_eq split: prod.splits)

text \<open>The projection in construction: the keys are those of the lines.\<close>

definition keyed :: "string list \<times> policy \<Rightarrow> bool" where
  "keyed st \<longleftrightarrow> set (fst st) = line_key ` set (pol_rules (snd st))"

definition lines_of :: "string list \<times> policy \<Rightarrow> line set" where
  "lines_of st = set (pol_rules (snd st))"

lemma emit_line_keyed: "keyed st \<Longrightarrow> keyed (emit_line ln st)"
  by (auto simp: keyed_def emit_line_def split: prod.splits)

lemma emit_line_sub: "lines_of (emit_line ln st) \<subseteq> insert ln (lines_of st)" "lines_of st \<subseteq> lines_of (emit_line ln st)"
  by (auto simp: lines_of_def emit_line_def split: prod.splits)

lemma emit_line_eq:
  assumes "keyed st" "\<forall>l \<in> insert ln (lines_of st). nul_free l"
  shows "lines_of (emit_line ln st) = insert ln (lines_of st)"
proof (cases "line_key ln \<in> set (fst st)")
  case True
  then obtain l where "l \<in> lines_of st" "line_key l = line_key ln" using assms(1) by (auto simp: keyed_def lines_of_def)
  then have "ln \<in> lines_of st" using line_key_inj assms(2) by (metis insertCI)
  then show ?thesis using True by (auto simp: emit_line_def lines_of_def split: prod.splits)
qed (auto simp: emit_line_def lines_of_def split: prod.splits)

text \<open>A step of the projection adds the lines \<open>L\<close>; without the assumption on the separator byte it adds at most those.\<close>

definition projects :: "(string list \<times> policy \<Rightarrow> string list \<times> policy) \<Rightarrow> line set \<Rightarrow> bool" where
  "projects f L \<longleftrightarrow> (\<forall>st. lines_of (f st) \<subseteq> L \<union> lines_of st \<and>
     (keyed st \<longrightarrow> keyed (f st) \<and> ((\<forall>l \<in> L \<union> lines_of st. nul_free l) \<longrightarrow> lines_of (f st) = L \<union> lines_of st)))"

lemma projectsD:
  assumes "projects f L"
  shows "lines_of (f st) \<subseteq> L \<union> lines_of st" "keyed st \<Longrightarrow> keyed (f st)"
    "keyed st \<Longrightarrow> \<forall>l \<in> L \<union> lines_of st. nul_free l \<Longrightarrow> lines_of (f st) = L \<union> lines_of st"
  using assms unfolding projects_def by blast+

lemma projects_line: "projects (emit_line ln) {ln}"
  using emit_line_sub emit_line_keyed emit_line_eq unfolding projects_def by simp

lemma projects_id: "projects (\<lambda>st. st) {}"
  by (simp add: projects_def)

lemma projects_comp:
  assumes "projects f L" "projects g M" shows "projects (\<lambda>st. g (f st)) (L \<union> M)"
  unfolding projects_def
proof (intro allI conjI impI)
  fix st
  show "lines_of (g (f st)) \<subseteq> L \<union> M \<union> lines_of st" using projectsD(1)[OF assms(1)] projectsD(1)[OF assms(2)] by blast
  assume k: "keyed st"
  show "keyed (g (f st))" by (rule projectsD(2)[OF assms(2) projectsD(2)[OF assms(1) k]])
  assume n: "\<forall>l \<in> L \<union> M \<union> lines_of st. nul_free l"
  then have f: "lines_of (f st) = L \<union> lines_of st" using projectsD(3)[OF assms(1) k] by blast
  have "lines_of (g (f st)) = M \<union> lines_of (f st)"
    by (rule projectsD(3)[OF assms(2) projectsD(2)[OF assms(1) k]]) (use n f in blast)
  then show "lines_of (g (f st)) = L \<union> M \<union> lines_of st" using f by blast
qed

lemma projects_fold:
  assumes "\<And>x. x \<in> set xs \<Longrightarrow> projects (f x) (L x)" shows "projects (fold f xs) (\<Union>x \<in> set xs. L x)"
  using assms
proof (induction xs)
  case (Cons x xs)
  then have "projects (\<lambda>st. fold f xs (f x st)) (L x \<union> (\<Union>x \<in> set xs. L x))" by (intro projects_comp) auto
  then show ?case by (simp add: comp_def)
qed (simp add: projects_def)

lemma projects_fold_lines: "projects (fold emit_line lns) (set lns)"
  using projects_fold[of lns emit_line "\<lambda>l. {l}"] projects_line by simp

lemma rule_lines_set:
  "set (rule_lines sub ns r) =
     {(sub, ns, g, res, verb) | g res verb. g \<in> set (pr_api_groups r) \<and> res \<in> set (pr_resources r) \<and> verb \<in> set (pr_verbs r)}"
  by (auto simp: rule_lines_def)

lemma projects_rule: "projects (emit_rule sub ns r) (set (rule_lines sub ns r))"
proof -
  have paths: "projects (\<lambda>st. (fst st, snd st\<lparr>pol_paths := h (snd st)\<rparr>)) {}" for h
    by (simp add: projects_def lines_of_def keyed_def)
  have "emit_rule sub ns r = (\<lambda>st. fold emit_line (rule_lines sub ns r)
     (fst st, snd st\<lparr>pol_paths := (if pr_non_resource_urls r \<noteq> [] \<and> ns = ''*''
        then goput sub (goget [] (pol_paths (snd st)) sub @ [\<lparr>nrg_verbs = pr_verbs r, nrg_urls = pr_non_resource_urls r\<rparr>]) (pol_paths (snd st))
        else pol_paths (snd st))\<rparr>))"
    by (auto simp: emit_rule_def Let_def fun_eq_iff)
  then show ?thesis using projects_comp[OF paths projects_fold_lines] by simp
qed

lemma projects_emit: "projects (emit subjects ns rules) (granted_lines subjects ns rules)"
proof -
  let ?f = "\<lambda>subj st. let sub = subjectString subj in if sub = [] then st else fold (emit_rule sub ns) rules st"
  let ?L = "\<lambda>subj. if subjectString subj = [] then {} else (\<Union>r \<in> set rules. set (rule_lines (subjectString subj) ns r))"
  have "projects (?f subj) (?L subj)" for subj
    using projects_id projects_fold[of rules "emit_rule (subjectString subj) ns" "\<lambda>r. set (rule_lines (subjectString subj) ns r)"]
      projects_rule by (simp add: Let_def)
  then have "projects (fold ?f subjects) (\<Union>subj \<in> set subjects. ?L subj)" by (intro projects_fold)
  then have "projects (emit subjects ns rules) (\<Union>subj \<in> set subjects. ?L subj)"
    by (simp add: emit_def[abs_def])
  moreover have "(\<Union>subj \<in> set subjects. ?L subj) = granted_lines subjects ns rules"
    by (auto simp: granted_lines_def rule_lines_set split: if_splits)
  ultimately show ?thesis by simp
qed

lemma projects_binding: "projects (emit_binding st live rb) (binding_lines st live rb)"
  using projects_emit projects_id by (simp add: emit_binding_def[abs_def] binding_lines_def Let_def)

lemma projects_cluster: "projects (emit_cluster_binding st crb) (cluster_lines st crb)"
  using projects_emit projects_id by (simp add: emit_cluster_binding_def[abs_def] cluster_lines_def)

text \<open>The whole projection.\<close>

lemma rulesFromStore_lines:
  assumes "rulesFromStore st = Inr c"
  obtains rbs live crbs where "rst_list st (rbacMeta ''RoleBinding'' [] []) = Inr rbs" "existingNamespaces st = Inr live"
    "rst_list st (rbacMeta ''ClusterRoleBinding'' [] []) = Inr crbs"
    "set (pol_rules c) \<subseteq> store_lines st (List.map_filter (as_role_binding \<circ> ao_value) rbs) live
       (List.map_filter (as_cluster_role_binding \<circ> ao_value) crbs)"
    "(\<forall>l \<in> store_lines st (List.map_filter (as_role_binding \<circ> ao_value) rbs) live
       (List.map_filter (as_cluster_role_binding \<circ> ao_value) crbs). nul_free l) \<Longrightarrow>
     set (pol_rules c) = store_lines st (List.map_filter (as_role_binding \<circ> ao_value) rbs) live
       (List.map_filter (as_cluster_role_binding \<circ> ao_value) crbs)"
proof -
  from assms obtain rbs live crbs where l: "rst_list st (rbacMeta ''RoleBinding'' [] []) = Inr rbs" "existingNamespaces st = Inr live"
    "rst_list st (rbacMeta ''ClusterRoleBinding'' [] []) = Inr crbs" by (auto simp: rulesFromStore_def rbind_eq_Inr)
  let ?rbs = "List.map_filter (as_role_binding \<circ> ao_value) rbs" and ?crbs = "List.map_filter (as_cluster_role_binding \<circ> ao_value) crbs"
  let ?f = "\<lambda>acc. fold (emit_cluster_binding st) ?crbs (fold (emit_binding st live) ?rbs acc)"
  let ?e = "([], \<lparr>pol_rules = [], pol_paths = []\<rparr>) :: string list \<times> policy"
  have c: "c = snd (?f ?e)" using assms l by (simp add: rulesFromStore_def)
  have p: "projects ?f (store_lines st ?rbs live ?crbs)"
    unfolding store_lines_def by (intro projects_comp projects_fold projects_binding projects_cluster)
  have e: "lines_of ?e = {}" "keyed ?e" by (simp_all add: lines_of_def keyed_def)
  show thesis
  proof (rule that[OF l])
    show "set (pol_rules c) \<subseteq> store_lines st ?rbs live ?crbs" using projectsD(1)[OF p, of ?e] e by (simp add: c lines_of_def)
    show "set (pol_rules c) = store_lines st ?rbs live ?crbs" if "\<forall>l \<in> store_lines st ?rbs live ?crbs. nul_free l"
      using projectsD(3)[OF p e(2)] that e(1) by (simp add: c lines_of_def)
  qed
qed

end
