(* ===== verification/AuthzProps.thy ===== *)
theory AuthzProps
  imports AuthzFacts
begin

text \<open>
  Properties of the authorizer: its decision is the RBAC decision over the stored bindings, and a
  requester that is not an administrator can put into a role or a binding only what it may do itself.
\<close>

section \<open>The decision\<close>

definition rbac_grants :: "line set \<Rightarrow> identity \<Rightarrow> authz_attributes \<Rightarrow> bool" where
  "rbac_grants L i a \<longleftrightarrow>
     (\<exists>sub ns g res verb. (sub, ns, g, res, verb) \<in> L \<and> sub \<in> set (subjectsOf i) \<and>
        (ns = ''*'' \<or> ns = az_namespace a) \<and> (g = ''*'' \<or> g = az_group a) \<and>
        (res = ''*'' \<or> res = Target a) \<and> (verb = ''*'' \<or> verb = az_verb a))"

lemma rbac_grants_matcher:
  "rbac_grants L i a \<longleftrightarrow>
     (\<exists>sub \<in> set (subjectsOf i). \<exists>p \<in> L. rbac_matcher (sub, az_namespace a, az_group a, Target a, az_verb a) p)"
  unfolding rbac_grants_def rbac_matcher_def by (auto split: prod.splits) metis+

definition built_in :: "authz_attributes \<Rightarrow> bool" where
  "built_in a \<longleftrightarrow> nodeAuthorizes a \<or> isPublicNamespaceRead a"

context casbin_laws
begin

lemma Authorize_spec:
  assumes "az_user a = Some i" "az_resource_request a"
  shows "Authorize enforce c a = Inr (isAdmin (id_groups i) \<or> built_in a \<or> rbac_grants (set (pol_rules c)) i a)"
  using assms enforce_any_spec[of c a "subjectsOf i"]
  by (simp add: Authorize_def built_in_def rbac_grants_matcher)

end

lemma Target_plain: "Target a = ''namespaces'' \<Longrightarrow> az_resource a = ''namespaces''"
proof (cases "az_subresource a = []")
  case False
  assume "Target a = ''namespaces''"
  then have "CHR ''/'' \<in> set ''namespaces''" using False by (metis Target_def in_set_conv_decomp append_Cons append_Nil)
  then show ?thesis by simp
qed (simp add: Target_def)

text \<open>The decision on a resource request depends on the requester, the namespace, the group, the target and the verb.\<close>

lemma built_in_cong:
  assumes "az_user b = az_user a" "az_group b = az_group a" "Target b = Target a" "az_verb b = az_verb a" "built_in a"
    and "az_resource a = ''namespaces'' \<Longrightarrow> Target a = ''namespaces''"
  shows "built_in b"
  using assms Target_plain[of b] by (auto simp: built_in_def nodeAuthorizes_def isPublicNamespaceRead_def)

lemma rbac_grants_cong:
  assumes "az_namespace b = az_namespace a" "az_group b = az_group a" "Target b = Target a" "az_verb b = az_verb a"
  shows "rbac_grants L i b = rbac_grants L i a"
  by (simp add: rbac_grants_def assms)

section \<open>Grants\<close>

lemma check_grantsD:
  assumes "check_grants auth i ns rules = Inr ()" "r \<in> set rules" "g \<in> set (pr_api_groups r)" "res \<in> set (pr_resources r)"
    and "verb \<in> set (pr_verbs r)"
  shows "g \<noteq> ''*'' \<and> res \<noteq> ''*'' \<and> verb \<noteq> ''*'' \<and>
    auth (zero_authz\<lparr>az_user := Some i, az_verb := verb, az_group := g, az_resource := res, az_namespace := ns,
      az_resource_request := True\<rparr>) = Inr True"
proof -
  have t: "(g, res, verb) \<in> set (resource_tuples r)" using assms(3-5) by (auto simp: resource_tuples_def)
  have "rbind (rfold (\<lambda>t _. check_path_grant auth i t) (path_tuples r) ()) (\<lambda>_.
          rfold (\<lambda>t _. check_resource_grant auth i ns t) (resource_tuples r) ()) = Inr ()"
    using assms(1,2) rfold_unit_elem by (fastforce simp: check_grants_def split: if_splits)
  then have "rfold (\<lambda>t _. check_resource_grant auth i ns t) (resource_tuples r) () = Inr ()" by (auto simp: rbind_eq_Inr)
  from rfold_unit_elem[OF this t] show ?thesis
    by (auto simp: check_resource_grant_def ask_def of_string_error_def rbind_eq_Inr split: if_splits sum.splits)
qed


definition grant_scope :: "string \<Rightarrow> string" where
  "grant_scope ns = (if ns = [] then ''*'' else ns)"


context casbin_laws
begin

lemma granted_held:
  assumes "check_grants (Authorize enforce c) i ns rules = Inr ()" "\<not> isAdmin (id_groups i)"
    and "\<forall>p \<in> set (pol_rules c). fst (snd p) \<noteq> []" "az_resource_request b"
    and "rbac_grants (granted_lines subjects (grant_scope ns) rules) j b"
  shows "Authorize enforce c (b\<lparr>az_user := Some i\<rparr>) = Inr True"
proof -
  let ?b = "b\<lparr>az_user := Some i\<rparr>"
  obtain r g res verb where r: "r \<in> set rules" "g \<in> set (pr_api_groups r)" "res \<in> set (pr_resources r)" "verb \<in> set (pr_verbs r)"
    and m: "grant_scope ns = ''*'' \<or> grant_scope ns = az_namespace b" "g = ''*'' \<or> g = az_group b"
      "res = ''*'' \<or> res = Target b" "verb = ''*'' \<or> verb = az_verb b"
    using assms(5) unfolding rbac_grants_def granted_lines_def mem_Collect_eq prod.inject
    by (elim exE conjE bexE; hypsubst) (rule that; assumption)
  let ?a = "zero_authz\<lparr>az_user := Some i, az_verb := verb, az_group := g, az_resource := res, az_namespace := ns,
      az_resource_request := True\<rparr>"
  from check_grantsD[OF assms(1) r] have plain: "g = az_group b" "res = Target b" "verb = az_verb b"
    and auth: "Authorize enforce c ?a = Inr True" using m by blast+
  have t: "Target ?a = Target b" "Target ?b = Target b" using plain by (simp_all add: Target_def zero_authz_def)
  have "built_in ?a \<or> rbac_grants (set (pol_rules c)) i ?a"
    using auth Authorize_spec[of ?a i c] assms(2) by simp
  then have "built_in ?b \<or> rbac_grants (set (pol_rules c)) i ?b"
  proof
    assume "built_in ?a"
    then have "built_in ?b" by (rule built_in_cong[rotated 4]) (use plain t in \<open>simp_all add: Target_def zero_authz_def\<close>)
    then show ?thesis ..
  next
    assume "rbac_grants (set (pol_rules c)) i ?a"
    then obtain sub n g' res' verb' where l: "(sub, n, g', res', verb') \<in> set (pol_rules c)" "sub \<in> set (subjectsOf i)"
      "n = ''*'' \<or> n = ns" "g' = ''*'' \<or> g' = az_group b" "res' = ''*'' \<or> res' = Target b" "verb' = ''*'' \<or> verb' = az_verb b"
      unfolding rbac_grants_def t(1) using plain by auto
    have "n \<noteq> []" using assms(3) l(1) by fastforce
    then have "n = ''*'' \<or> n = az_namespace b" using l(3) m(1) by (auto simp: grant_scope_def split: if_splits)
    then have "rbac_grants (set (pol_rules c)) i ?b" using l
      unfolding rbac_grants_def t(2) by (intro exI conjI) (assumption | simp)+
    then show ?thesis ..
  qed
  then show ?thesis using Authorize_spec[of ?b i c] assms(4) by simp
qed

end

section \<open>Properties\<close>

text \<open>C30: The authorizer decides what the stored RBAC objects say. After the policy has been loaded from the store, a
  resource request is allowed exactly when the requester is an administrator, one of the two built-in allowances
  applies (a node reading and writing Nodes and its certificate requests, anyone listing namespaces), or some
  RoleBinding of a namespace that exists, or some ClusterRoleBinding of a ClusterRole, binds the requester or one
  of its groups to a rule that covers the namespace, the group, the resource or subresource, and the verb.\<close>

theorem authorize_is_rbac:
  assumes "casbin_laws enforce" "LoadFromStore st c0 = (Inr (), c)"
    and "rst_list st (rbacMeta ''RoleBinding'' [] []) = Inr rbs" "existingNamespaces st = Inr live"
    and "rst_list st (rbacMeta ''ClusterRoleBinding'' [] []) = Inr crbs"
    and "L = store_lines st (List.map_filter (as_role_binding \<circ> ao_value) rbs) live
               (List.map_filter (as_cluster_role_binding \<circ> ao_value) crbs)"
    and "\<forall>l \<in> L. nul_free l" "az_user a = Some i" "az_resource_request a"
  shows "Authorize enforce c a = Inr (isAdmin (id_groups i) \<or> built_in a \<or> rbac_grants L i a)"
proof -
  have "rulesFromStore st = Inr c" using assms(2) by (auto simp: LoadFromStore_def split: sum.splits)
  then have "set (pol_rules c) = L"
  proof (rule rulesFromStore_lines)
    fix rbs' live' crbs'
    assume l: "rst_list st (rbacMeta ''RoleBinding'' [] []) = Inr rbs'" "existingNamespaces st = Inr live'"
      "rst_list st (rbacMeta ''ClusterRoleBinding'' [] []) = Inr crbs'"
      and eq: "(\<forall>l \<in> store_lines st (List.map_filter (as_role_binding \<circ> ao_value) rbs') live'
        (List.map_filter (as_cluster_role_binding \<circ> ao_value) crbs'). nul_free l) \<Longrightarrow>
       set (pol_rules c) = store_lines st (List.map_filter (as_role_binding \<circ> ao_value) rbs') live'
         (List.map_filter (as_cluster_role_binding \<circ> ao_value) crbs')"
    have "rbs' = rbs" "live' = live" "crbs' = crbs" using l assms(3-5) by simp_all
    then show ?thesis using eq assms(6,7) by blast
  qed
  then show ?thesis using casbin_laws.Authorize_spec[OF assms(1,8,9), of c] by simp
qed

text \<open>A store with one namespace, a role that reads workloads there and a binding to a group.\<close>

definition demo_reader :: role where
  "demo_reader =
     \<lparr>role_meta = zero_object_meta\<lparr>om_name := ''reader'', om_namespace := ''dev''\<rparr>,
      role_rules = [\<lparr>pr_api_groups = [core_group], pr_resources = [''applications''], pr_verbs = [''get''],
        pr_non_resource_urls = []\<rparr>]\<rparr>"

definition demo_binding :: role_binding where
  "demo_binding =
     \<lparr>rb_meta = zero_object_meta\<lparr>om_name := ''readers'', om_namespace := ''dev''\<rparr>,
      rb_subjects = [\<lparr>sub_kind = ''Group'', sub_name = ''team''\<rparr>], rb_role_ref = \<lparr>rf_kind = ''Role'', rf_name = ''reader''\<rparr>\<rparr>"

definition demo_rbac :: "int rbac_store" where
  "demo_rbac =
     \<lparr>rst_list = (\<lambda>m. Inr
        (if mr_kind m = ''RoleBinding'' then [\<lparr>ao_api_version = rbac_gv, ao_kind = ''RoleBinding'', ao_value = VRoleBinding demo_binding\<rparr>]
         else if mr_kind m = ''Namespace''
         then [\<lparr>ao_api_version = core_gv, ao_kind = ''Namespace'', ao_value = VNamespace \<lparr>ns_meta = zero_object_meta\<lparr>om_name := ''dev''\<rparr>\<rparr>\<rparr>]
         else [])),
      rst_get = (\<lambda>m. if mr_kind m = ''Role'' \<and> mr_namespace m = ''dev'' \<and> mr_name m = ''reader''
        then Some \<lparr>ao_api_version = rbac_gv, ao_kind = ''Role'', ao_value = VRole demo_reader\<rparr> else None)\<rparr>"

definition demo_request :: "identity \<Rightarrow> string \<Rightarrow> authz_attributes" where
  "demo_request i verb = AttributesFromRequest verb ''/apis/horchestra.io/v1/namespaces/dev/applications/web'' False (Some i)"

definition demo_member :: identity where "demo_member = \<lparr>id_name = ''eve'', id_groups = [''team'']\<rparr>"

lemma demo_load: "\<exists>c. LoadFromStore demo_rbac c0 = (Inr (), c)"
  by (simp add: LoadFromStore_def rulesFromStore_def existingNamespaces_def demo_rbac_def rbacMeta_def)

definition demo_lines :: "line set" where
  "demo_lines = {(''group:team'', ''dev'', core_group, ''applications'', ''get'')}"

lemma demo_store_lines:
  "store_lines demo_rbac [demo_binding] [''dev''] [] = demo_lines"
  by (auto simp: store_lines_def binding_lines_def granted_lines_def demo_binding_def subjectString_def groupSubject_def
      roleRefRules_def demo_rbac_def demo_reader_def rbacMeta_def zero_object_meta_def demo_lines_def)

lemma demo_attributes:
  "demo_request i ''GET'' = zero_authz\<lparr>az_user := Some i, az_path := ''/apis/horchestra.io/v1/namespaces/dev/applications/web'',
     az_resource_request := True, az_group := core_group, az_namespace := ''dev'', az_resource := ''applications'',
     az_name := ''web'', az_subresource := [], az_verb := ''get''\<rparr>"
  unfolding demo_request_def by code_simp

theorem authorize_is_rbac_witness:
  "\<exists>c. LoadFromStore demo_rbac \<lparr>pol_rules = [], pol_paths = []\<rparr> = (Inr (), c) \<and>
       Authorize model_enforce c (demo_request demo_member ''GET'') = Inr True"
proof -
  obtain c where c: "LoadFromStore demo_rbac \<lparr>pol_rules = [], pol_paths = []\<rparr> = (Inr (), c)" using demo_load by blast
  have l: "rst_list demo_rbac (rbacMeta ''RoleBinding'' [] []) =
      Inr [\<lparr>ao_api_version = rbac_gv, ao_kind = ''RoleBinding'', ao_value = VRoleBinding demo_binding\<rparr>]"
    "existingNamespaces demo_rbac = Inr [''dev'']" "rst_list demo_rbac (rbacMeta ''ClusterRoleBinding'' [] []) = Inr []"
    by (simp_all add: demo_rbac_def rbacMeta_def existingNamespaces_def List.map_filter_def zero_object_meta_def)
  have r: "az_user (demo_request demo_member ''GET'') = Some demo_member" "az_resource_request (demo_request demo_member ''GET'')"
    by (simp_all add: demo_attributes)
  have g: "rbac_grants demo_lines demo_member (demo_request demo_member ''GET'')"
    by (simp add: rbac_grants_def demo_lines_def demo_attributes Target_def demo_member_def subjectsOf_def groupSubject_def zero_authz_def)
  have "Authorize model_enforce c (demo_request demo_member ''GET'') =
      Inr (isAdmin (id_groups demo_member) \<or> built_in (demo_request demo_member ''GET'') \<or>
           rbac_grants demo_lines demo_member (demo_request demo_member ''GET''))"
  proof (rule authorize_is_rbac[OF model.casbin_laws_axioms c l _ _ r])
    show "\<forall>l \<in> demo_lines. nul_free l" by (simp add: demo_lines_def nul_free_def)
  qed (simp add: List.map_filter_def demo_store_lines)
  then have "Authorize model_enforce c (demo_request demo_member ''GET'') = Inr True" using g by simp
  with c show ?thesis by (intro exI conjI)
qed









end
