(* ===== verification/UidProps.thy ===== *)
theory UidProps
  imports AdmissionWorkload
begin

text \<open>
  Host ids: the blocks the allocator gives to namespaces do not overlap, and the id it gives a
  workload is usable, inside its namespace's block and held by no other workload there.
\<close>

definition uid_annotation :: "namespace \<Rightarrow> string" where
  "uid_annotation ns = goget [] (om_annotations (ns_meta ns)) UIDRangeAnnotation"

text \<open>A block the allocator made.\<close>

definition allocated :: "id_range \<Rightarrow> bool" where
  "allocated r \<longleftrightarrow> ir_size r = WorkloadUIDBlock \<and> (\<exists>k::nat. ir_min r = WorkloadUIDBase + int k * WorkloadUIDBlock) \<and>
     ir_min r + WorkloadUIDBlock - 1 \<le> MaxRunAsID"

lemma allocated_Contains: "allocated r \<Longrightarrow> IDRange_Contains r i \<longleftrightarrow> ir_min r \<le> i \<and> i < ir_min r + WorkloadUIDBlock"
  by (auto simp: allocated_def IDRange_Contains_def wrap64_id int64_def)

lemma allocated_disjoint:
  assumes "allocated r" "allocated q" "ir_min r \<noteq> ir_min q" "IDRange_Contains r i" shows "\<not> IDRange_Contains q i"
proof
  assume "IDRange_Contains q i"
  obtain j k where jk: "ir_min r = WorkloadUIDBase + int j * WorkloadUIDBlock" "ir_min q = WorkloadUIDBase + int k * WorkloadUIDBlock"
    using assms(1,2) by (auto simp: allocated_def)
  have b: "int j * 65536 \<le> i - 1000000000" "i - 1000000000 < (int j + 1) * 65536"
    "int k * 65536 \<le> i - 1000000000" "i - 1000000000 < (int k + 1) * 65536"
    using assms(4) \<open>IDRange_Contains q i\<close> jk allocated_Contains[OF assms(1)] allocated_Contains[OF assms(2)] by simp_all
  have "int j * 65536 < (int k + 1) * 65536" "int k * 65536 < (int j + 1) * 65536"
    by (rule order.strict_trans1[OF b(1,4)], rule order.strict_trans1[OF b(3,2)])
  then have "j = k" by simp
  then show False using assms(3) jk by simp
qed

lemma free_block_Some:
  "free_block taken i = Some lo \<Longrightarrow>
     \<exists>k \<ge> i. lo = WorkloadUIDBase + int k * WorkloadUIDBlock \<and> lo \<notin> set taken \<and> lo + WorkloadUIDBlock - 1 \<le> MaxRunAsID"
proof (induction taken i rule: free_block.induct)
  case (1 taken i)
  let ?lo = "WorkloadUIDBase + int i * WorkloadUIDBlock"
  show ?case
  proof (cases "?lo \<in> set taken \<and> \<not> MaxRunAsID < ?lo + WorkloadUIDBlock - 1")
    case True
    then have "free_block taken (i + 1) = Some lo" using "1.prems" by (simp add: free_block.simps[of taken i])
    with "1.IH"[OF refl] True obtain k where "k \<ge> i + 1" "lo = WorkloadUIDBase + int k * WorkloadUIDBlock"
      "lo \<notin> set taken" "lo + WorkloadUIDBlock - 1 \<le> MaxRunAsID" by auto
    then show ?thesis by (intro exI[of _ k]) auto
  next
    case False
    then have "lo = ?lo" "lo \<notin> set taken" "lo + WorkloadUIDBlock - 1 \<le> MaxRunAsID"
      using "1.prems" by (auto simp: free_block.simps[of taken i] Let_def split: if_splits)
    then show ?thesis by blast
  qed
qed

lemma free_id_Some: "free_id taken i hi = Some u \<Longrightarrow> i \<le> u \<and> u < hi \<and> u \<notin> set taken"
proof (induction taken i hi rule: free_id.induct)
  case (1 taken i hi)
  then show ?case by (subst (asm) (2) free_id.simps) (auto split: if_splits)
qed

lemma of_string_error_Inr: "of_string_error f r = Inr x \<longleftrightarrow> r = Inr x"
  by (simp add: of_string_error_def split: sum.splits)

lemma blockOf_parsed:
  assumes "blockOf l n = Inr block" "\<not> IDRange_IsZero block" obtains raw where "ParseIDRange raw = Inr block"
proof -
  obtain nss :: "namespace list" where "(case find (\<lambda>ns. om_name (ns_meta ns) = n) nss of
         None \<Rightarrow> Inr \<lparr>ir_min = 0, ir_size = 0\<rparr>
       | Some ns \<Rightarrow>
           (let raw = goget [] (om_annotations (ns_meta ns)) UIDRangeAnnotation
            in if raw = [] then Inr \<lparr>ir_min = 0, ir_size = 0\<rparr>
               else of_string_error Forbidden (ParseIDRange raw))) = Inr block"
    using assms(1) unfolding blockOf_def rbind_eq_Inr by (elim exE conjE) (rule that)
  then show thesis using assms(2) that
    by (auto simp: of_string_error_Inr IDRange_IsZero_def Let_def split: option.split_asm if_split_asm)
qed

lemma assignBlock_fresh:
  assumes "assignBlock l ns = Inr ns'" "uid_annotation ns = []" "list_as as_namespace l ''Namespace'' = Inr others"
  obtains lo where "free_block (taken_blocks ns others) 0 = Some lo"
    "uid_annotation ns' = IDRange_String \<lparr>ir_min = lo, ir_size = WorkloadUIDBlock\<rparr>" "om_name (ns_meta ns') = om_name (ns_meta ns)"
  using assms
  by (auto simp: assignBlock_def uid_annotation_def Let_def rbind_eq_Inr goget_goput split: option.splits)

text \<open>C32: Blocks of host ids do not overlap. A namespace that is given a block by the allocator gets a well-formed one,
  whose annotation reads back, and which shares no id with any block the allocator gave to another namespace.\<close>

theorem uid_blocks_disjoint:
  assumes "assignBlock l ns = Inr ns'" "uid_annotation ns = []" "list_as as_namespace l ''Namespace'' = Inr others"
    and "o' \<in> set others" "om_name (ns_meta o') \<noteq> om_name (ns_meta ns)"
    and "ParseIDRange (uid_annotation o') = Inr r" "allocated r"
  shows "\<exists>r'. ParseIDRange (uid_annotation ns') = Inr r' \<and> allocated r' \<and>
    (\<forall>i. \<not> (IDRange_Contains r i \<and> IDRange_Contains r' i))"
proof -
  obtain lo where lo: "free_block (taken_blocks ns others) 0 = Some lo"
    "uid_annotation ns' = IDRange_String \<lparr>ir_min = lo, ir_size = WorkloadUIDBlock\<rparr>"
    using assignBlock_fresh[OF assms(1-3)] .
  let ?r' = "\<lparr>ir_min = lo, ir_size = WorkloadUIDBlock\<rparr>"
  obtain k where k: "lo = WorkloadUIDBase + int k * WorkloadUIDBlock" "lo \<notin> set (taken_blocks ns others)"
    "lo + WorkloadUIDBlock - 1 \<le> MaxRunAsID" using free_block_Some[OF lo(1)] by blast
  have a: "allocated ?r'" using k(1,3) unfolding allocated_def by auto
  have "ir_min r \<in> set (taken_blocks ns others)"
    using assms(4-6) by (force simp: taken_blocks_def uid_annotation_def List.map_filter_def)
  then have "ir_min r \<noteq> ir_min ?r'" using k(2) by auto
  then have "\<forall>i. \<not> (IDRange_Contains r i \<and> IDRange_Contains ?r' i)" using allocated_disjoint[OF assms(7) a] by blast
  moreover have "ParseIDRange (uid_annotation ns') = Inr ?r'"
    unfolding lo(2) by (rule ParseIDRange_String_usable) (use k(1,3) in simp_all)
  ultimately show ?thesis using a by blast
qed

text \<open>C33: A workload's host id. The id the allocator gives a workload that asks for none is a usable, non-root id
  inside the block of its namespace, and no other workload of the namespace holds it.\<close>

theorem workload_uid_fresh:
  assumes "assignWorkloadID l app = Inr app'" "blockOf l (app_namespace app) = Inr block" "\<not> IDRange_IsZero block"
    and "app_uid app = None" "list_as as_application l ''Application'' = Inr apps"
  shows "\<exists>u. app_uid app' = Some u \<and> IDRange_Contains block u \<and> MinRunAsID \<le> u \<and> u \<le> MaxRunAsID \<and>
    (\<forall>o' \<in> set apps. app_namespace o' = app_namespace app \<longrightarrow> app_name o' \<noteq> app_name app \<longrightarrow> app_uid o' \<noteq> Some u)"
proof -
  have sc: "sc_run_as_user (security_context_of app) = None"
    using assms(4) by (auto simp: app_uid_def security_context_of_def split: option.splits)
  obtain u where u: "free_id (taken_ids app apps) (ir_min block) (wrap64 (ir_min block + ir_size block)) = Some u"
    "app_uid app' = Some u"
    using assms sc by (auto simp: assignWorkloadID_def rbind_eq_Inr Let_def app_uid_def set_security_context_def
        split: option.splits if_splits)
  from free_id_Some[OF u(1)] have c: "IDRange_Contains block u" "u \<notin> set (taken_ids app apps)"
    by (simp_all add: IDRange_Contains_def)
  obtain raw where "ParseIDRange raw = Inr block" using blockOf_parsed[OF assms(2,3)] .
  from ParseIDRange_Contains_valid[OF this c(1)] have "MinRunAsID \<le> u" "u \<le> MaxRunAsID" .
  moreover have "app_uid o' \<noteq> Some u" if "o' \<in> set apps" "app_namespace o' = app_namespace app" "app_name o' \<noteq> app_name app" for o'
    using c(2) that by (force simp: taken_ids_def List.map_filter_def)
  ultimately show ?thesis using u(2) c(1) by blast
qed

text \<open>Two namespaces and a workload.\<close>

definition demo_ns :: "string \<Rightarrow> string \<Rightarrow> namespace" where
  "demo_ns name blk = \<lparr>ns_meta = zero_object_meta\<lparr>om_name := name,
     om_annotations := (if blk = [] then [] else [(UIDRangeAnnotation, blk)])\<rparr>\<rparr>"

definition demo_lister :: "int lister" where
  "demo_lister m =
     Inr (if mr_kind m = ''Namespace''
          then [\<lparr>ao_api_version = core_gv, ao_kind = ''Namespace'', ao_value = VNamespace (demo_ns ''a'' ''1000000000/65536'')\<rparr>]
          else [])"

lemma demo_list_ns: "list_as as_namespace demo_lister ''Namespace'' = Inr [demo_ns ''a'' ''1000000000/65536'']"
  by (simp add: list_as_def list_kind_def demo_lister_def resourceMeta_def of_string_error_def List.map_filter_def)

lemma demo_parse: "ParseIDRange ''1000000000/65536'' = Inr \<lparr>ir_min = 1000000000, ir_size = 65536\<rparr>"
  by (simp add: ParseIDRange_def parse_int64_def parse_nat_def digit_val_def int64_def wrap64_def Let_def)

lemma demo_assign: "\<exists>ns'. assignBlock demo_lister (demo_ns ''b'' []) = Inr ns'"
proof -
  have t: "taken_blocks (demo_ns ''b'' []) [demo_ns ''a'' ''1000000000/65536''] = [1000000000]"
    by (simp add: taken_blocks_def List.map_filter_def demo_ns_def goget_def demo_parse)
  have "free_block [1000000000] 0 = Some 1000065536" by (simp add: free_block.simps)
  moreover have "goget [] (om_annotations (ns_meta (demo_ns ''b'' []))) UIDRangeAnnotation = []"
    by (simp add: demo_ns_def goget_def)
  ultimately show ?thesis unfolding assignBlock_def demo_list_ns by (simp add: t)
qed

theorem uid_blocks_disjoint_witness:
  "\<exists>ns' r'. assignBlock demo_lister (demo_ns ''b'' []) = Inr ns' \<and> ParseIDRange (uid_annotation ns') = Inr r' \<and> allocated r' \<and>
    \<not> IDRange_Contains r' 1000000000"
proof -
  obtain ns' where ns': "assignBlock demo_lister (demo_ns ''b'' []) = Inr ns'" using demo_assign by blast
  let ?r = "\<lparr>ir_min = 1000000000, ir_size = 65536\<rparr>"
  have r: "allocated ?r" "IDRange_Contains ?r 1000000000"
    by (simp_all add: allocated_def IDRange_Contains_def wrap64_def)
  have "\<exists>r'. ParseIDRange (uid_annotation ns') = Inr r' \<and> allocated r' \<and> (\<forall>i. \<not> (IDRange_Contains ?r i \<and> IDRange_Contains r' i))"
    by (rule uid_blocks_disjoint[where o' = "demo_ns ''a'' ''1000000000/65536''", OF ns' _ demo_list_ns _ _ _ r(1)])
      (simp_all add: demo_ns_def uid_annotation_def goget_def zero_object_meta_def demo_parse)
  then show ?thesis using ns' r(2) by blast
qed

definition demo_workload :: "int application" where
  "demo_workload =
     \<lparr>app_meta = zero_object_meta\<lparr>om_name := ''web'', om_namespace := ''a''\<rparr>,
      app_spec =
       \<lparr>as_image = ''img'', as_command = [], as_args = [], as_env = [], as_ports = [],
        as_resources = \<lparr>rr_requests = zero_amounts, rr_limits = zero_amounts\<rparr>,
        as_lifecycle = \<lparr>lc_restart_policy = [], lc_termination_grace_period_seconds = None,
          lc_active_deadline_seconds = None, lc_backoff_limit = None\<rparr>,
        as_placement = \<lparr>pl_node_name = [], pl_node_selector = [], pl_affinity = None, pl_priority = None\<rparr>,
        as_host_network = None, as_service_name = [], as_runtime_class_name = [], as_security_context = None, as_volumes = []\<rparr>,
      app_status = zero_application_status\<rparr>"

theorem workload_uid_fresh_witness:
  "\<exists>app' u. assignWorkloadID demo_lister demo_workload = Inr app' \<and> app_uid app' = Some u \<and> MinRunAsID \<le> u \<and> u \<le> MaxRunAsID"
proof -
  let ?block = "\<lparr>ir_min = 1000000000, ir_size = 65536\<rparr>"
  have b: "blockOf demo_lister (app_namespace demo_workload) = Inr ?block"
    unfolding blockOf_def demo_list_ns
    by (simp add: demo_workload_def demo_ns_def zero_object_meta_def goget_def demo_parse of_string_error_def)
  have l: "list_as as_application demo_lister ''Application'' = Inr []"
    by (simp add: list_as_def list_kind_def demo_lister_def resourceMeta_def of_string_error_def List.map_filter_def)
  have "free_id [] 1000000000 1000065536 = Some 1000000000" by (simp add: free_id.simps)
  then obtain app' where a: "assignWorkloadID demo_lister demo_workload = Inr app'"
    unfolding assignWorkloadID_def b l
    by (simp add: IDRange_IsZero_def security_context_of_def demo_workload_def Let_def taken_ids_def List.map_filter_def wrap64_def)
  from workload_uid_fresh[OF a b _ _ l] show ?thesis
    using a by (auto simp: IDRange_IsZero_def app_uid_def demo_workload_def)
qed

end
