(* ===== verification/AppSetLoop.thy ===== *)
theory AppSetLoop
  imports AdmissionPolicy ApiCodec
begin

text \<open>
  The ApplicationSet loop (\<^verbatim>\<open>controller/loops/appset/controller.go\<close> and \<^verbatim>\<open>init.go\<close>): one pass reads the
  sets, the nodes and the applications, deletes the children whose set is gone, and converges every
  set.

  The interface \<open>Cluster\<close> is the record \<open>set_cluster\<close> over a world \<open>'w\<close>; a write returns its error
  and the world after it. A map of applications is a \<open>gomap\<close>, iterated in the order of its list. What
  a failed write changes is a log line, so the loop goes on.
\<close>

section \<open>The cluster\<close>

record ('q, 'w) set_cluster =
  cl_sets :: "'w \<Rightarrow> (string, 'q application_set list) result"
  cl_nodes :: "'w \<Rightarrow> (string, 'q node list) result"
  cl_applications :: "'w \<Rightarrow> (string, 'q application list) result"
  cl_create_application :: "'q application \<Rightarrow> 'w \<Rightarrow> string option \<times> 'w"
  cl_update_application :: "'q application \<Rightarrow> 'w \<Rightarrow> string option \<times> 'w"
  cl_delete_application :: "string \<Rightarrow> string \<Rightarrow> 'w \<Rightarrow> string option \<times> 'w"
  cl_services :: "'w \<Rightarrow> (string, service list) result"
  cl_create_service :: "service \<Rightarrow> 'w \<Rightarrow> string option \<times> 'w"
  cl_update_service :: "service \<Rightarrow> 'w \<Rightarrow> string option \<times> 'w"
  cl_delete_service :: "string \<Rightarrow> string \<Rightarrow> 'w \<Rightarrow> string option \<times> 'w"
  cl_update_set_status :: "'q application_set \<Rightarrow> 'w \<Rightarrow> string option \<times> 'w"
  cl_update_set :: "'q application_set \<Rightarrow> 'w \<Rightarrow> string option \<times> 'w"
  cl_delete_set :: "string \<Rightarrow> string \<Rightarrow> 'w \<Rightarrow> string option \<times> 'w"

type_synonym 'q app_map = "(string, 'q application) gomap"

text \<open>The entries of a map in the order of \<open>slices.Sorted(maps.Keys(m))\<close>, and those of a list of keys.\<close>

definition entries_of :: "(string, 'v) gomap \<Rightarrow> string list \<Rightarrow> (string, 'v) gomap" where
  "entries_of m ks = List.map_filter (\<lambda>k. map_option (Pair k) (map_of m k)) ks"

definition sorted_entries :: "(string, 'v) gomap \<Rightarrow> (string, 'v) gomap" where
  "sorted_entries m = entries_of m (sorted_keys (map fst m))"

definition zero_application :: "('q::zero) application" where
  "zero_application =
     \<lparr>app_meta = zero_object_meta, app_spec = zero_application_spec, app_status = zero_application_status\<rparr>"

section \<open>Ownership\<close>

definition ownedRefs :: "owner_reference list \<Rightarrow> string \<Rightarrow> 'q application_set \<Rightarrow> bool" where
  "ownedRefs refs namespace set' =
     (case AppsetOwnerOf refs of
        None \<Rightarrow> False
      | Some ref \<Rightarrow> namespace = om_namespace (aset_meta set') \<and> or_name ref = om_name (aset_meta set') \<and>
                    or_uid ref = om_uid (aset_meta set'))"

definition ownedBySet :: "'q application \<Rightarrow> 'q application_set \<Rightarrow> bool" where
  "ownedBySet app set' = ownedRefs (om_owner_references (app_meta app)) (app_namespace app) set'"

definition ownedChildren :: "'q application_set \<Rightarrow> 'q application list \<Rightarrow> 'q app_map" where
  "ownedChildren set' apps = fold (\<lambda>a m. if ownedBySet a set' then goput (app_name a) a m else m) apps []"

definition serviceHasMembers :: "'q application list \<Rightarrow> service \<Rightarrow> bool" where
  "serviceHasMembers apps svc =
     list_ex (\<lambda>a. app_namespace a = om_namespace (svc_meta svc) \<and> as_service_name (app_spec a) = om_name (svc_meta svc)) apps"

section \<open>Init steps (init.go)\<close>

definition initComponents :: "'q application_set \<Rightarrow> (string, bool) gomap" where
  "initComponents set' =
     fold (\<lambda>cmp. goput (nas_name cmp) (lc_restart_policy (as_lifecycle (nas_spec cmp)) = RestartNever))
       (ass_applications (aset_spec set')) []"

definition componentOf :: "'q application \<Rightarrow> string" where
  "componentOf app = goget [] (app_labels app) LabelComponent"

definition childrenOf :: "'q app_map \<Rightarrow> string \<Rightarrow> string list" where
  "childrenOf desired cmp = sort (map fst (filter (\<lambda>(name, app). componentOf app = cmp) desired))"

definition anchorChild :: "'q application_set \<Rightarrow> 'q app_map \<Rightarrow> string" where
  "anchorChild set' desired =
     (let isInit = initComponents set';
          steps = filter (\<lambda>cmp. goget False isInit (nas_name cmp)) (ass_applications (aset_spec set'))
      in case find (\<lambda>names. names \<noteq> []) (map (\<lambda>cmp. childrenOf desired (nas_name cmp)) steps) of
           Some names \<Rightarrow> hd names
         | None \<Rightarrow> (case sorted_keys (map fst desired) of [] \<Rightarrow> [] | name # _ \<Rightarrow> name))"

abbreviation quoted :: "string \<Rightarrow> string" where "quoted s \<equiv> CHR 0x22 # s @ [CHR 0x22]"

definition exitDetail :: "'q application \<Rightarrow> string" where
  "exitDetail app =
     (case ast_exit_code (app_status app) of
        None \<Rightarrow> ''the node reported no exit status'' | Some c \<Rightarrow> ''exit '' @ show_int c)"

definition initializing :: "string \<Rightarrow> string \<Rightarrow> condition" where
  "initializing cmp detail =
     \<lparr>cond_type = ''Initialized'', cond_status = ''False'', cond_reason = ''Initializing'',
      cond_message = ''init step '' @ quoted cmp @ '' has not completed: '' @ detail\<rparr>"

fun stepHold :: "string \<Rightarrow> string list \<Rightarrow> 'q app_map \<Rightarrow> condition option" where
  "stepHold cmp [] existing = None"
| "stepHold cmp (name # names) existing =
     (case map_of existing name of
        None \<Rightarrow> Some (initializing cmp (''child '' @ quoted name @ '' has not been created yet''))
      | Some cur \<Rightarrow>
          if ast_phase (app_status cur) = AppPhaseFailed
          then Some \<lparr>cond_type = ''Initialized'', cond_status = ''False'', cond_reason = ''InitFailed'',
                     cond_message = ''init step '' @ quoted cmp @ '' failed: '' @ exitDetail cur\<rparr>
          else if \<not> Finished cur
          then Some (initializing cmp (''child '' @ quoted name @ '' is still running''))
          else stepHold cmp names existing)"

text \<open>The steps in the order of the set; the first that is not done ends the loop.\<close>

fun init_steps ::
  "(string, bool) gomap \<Rightarrow> 'q app_map \<Rightarrow> 'q app_map \<Rightarrow> 'q named_application_spec list \<Rightarrow> 'q app_map \<Rightarrow>
   'q app_map \<times> condition option" where
  "init_steps isInit desired existing [] allowed =
     (gocopy allowed (filter (\<lambda>(name, app). \<not> goget False isInit (componentOf app)) desired), None)"
| "init_steps isInit desired existing (cmp # cmps) allowed =
     (if \<not> goget False isInit (nas_name cmp) then init_steps isInit desired existing cmps allowed
      else let names = childrenOf desired (nas_name cmp);
               allowed' = gocopy allowed (entries_of desired names)
           in case stepHold (nas_name cmp) names existing of
                Some cond \<Rightarrow> (allowed', Some cond)
              | None \<Rightarrow> init_steps isInit desired existing cmps allowed')"

definition initGate :: "'q application_set \<Rightarrow> 'q app_map \<Rightarrow> 'q app_map \<Rightarrow> 'q app_map \<times> condition option" where
  "initGate set' desired existing =
     init_steps (initComponents set') desired existing (ass_applications (aset_spec set')) []"

definition initChildCount :: "'q application_set \<Rightarrow> 'q application list \<Rightarrow> int" where
  "initChildCount set' rendered =
     (let isInit = initComponents set' in int (length (filter (\<lambda>app. goget False isInit (componentOf app)) rendered)))"

section \<open>Placement and readiness\<close>

definition set_node :: "string \<Rightarrow> 'q application \<Rightarrow> 'q application" where
  "set_node node app =
     app\<lparr>app_spec := (app_spec app)\<lparr>as_placement := (as_placement (app_spec app))\<lparr>pl_node_name := node\<rparr>\<rparr>\<rparr>"

definition pinSameNode :: "('q::zero) app_map \<Rightarrow> 'q app_map \<Rightarrow> string \<Rightarrow> 'q app_map \<times> bool" where
  "pinSameNode desired existing anchor =
     (if desired = [] \<or> anchor = [] then (desired, False)
      else let node = (case map_of existing anchor of None \<Rightarrow> [] | Some cur \<Rightarrow> app_node_name cur)
           in if node = [] then ([(anchor, goget zero_application desired anchor)], True)
              else (map (\<lambda>(name, child).
                       (name, if name \<noteq> anchor \<and> app_node_name child = [] then set_node node child else child))
                     (sorted_entries desired), False))"

definition readyNodes :: "'q node list \<Rightarrow> (string, bool) gomap" where
  "readyNodes nodes = fold (\<lambda>n. goput (nd_name n) (nst_ready (nd_status n))) nodes []"

definition childRunning :: "'q application \<Rightarrow> (string, bool) gomap \<Rightarrow> bool" where
  "childRunning app readyNode \<longleftrightarrow>
     app_node_name app \<noteq> [] \<and> goget False readyNode (app_node_name app) \<and>
     ast_phase (app_status app) = AppPhaseRunning \<and>
     ast_observed_generation (app_status app) = om_generation (app_meta app)"

definition mergeManaged :: "'q application \<Rightarrow> 'q application \<Rightarrow> 'q application \<times> bool" where
  "mergeManaged cur desired =
     (let placed = (if app_node_name desired = [] then set_node (app_node_name cur) desired else desired);
          changed =
            (goget [] (om_annotations (app_meta cur)) AnnAppsetSpecHash \<noteq>
               goget [] (om_annotations (app_meta desired)) AnnAppsetSpecHash \<or>
             \<not> maps_equal (app_labels cur) (app_labels desired) \<or>
             app_node_name desired \<noteq> [] \<and> app_node_name cur \<noteq> app_node_name desired)
      in (cur\<lparr>app_spec := app_spec placed,
              app_meta := (app_meta cur)\<lparr>om_labels := app_labels desired,
                om_annotations := om_annotations (app_meta desired),
                om_owner_references := om_owner_references (app_meta desired)\<rparr>\<rparr>, changed))"

section \<open>Status\<close>

definition child_status_of :: "(string, bool) gomap \<Rightarrow> (string, bool) gomap \<Rightarrow> string \<times> 'q application \<Rightarrow> child_status" where
  "child_status_of ready isInit e =
     (let (name, a) = e
      in \<lparr>chs_name = name, chs_node = app_node_name a,
          chs_phase =
            (if goget False isInit (componentOf a)
             then (if ast_phase (app_status a) = [] then ''Pending'' else ast_phase (app_status a))
             else if app_node_name a = [] then ''Pending''
             else if childRunning a ready then ''Running'' else ''Scheduled'')\<rparr>)"

definition rollupPhase :: "application_set_status \<Rightarrow> condition list \<Rightarrow> string" where
  "rollupPhase st conds =
     (case find (\<lambda>c. cond_status c = ''False'' \<and> cond_reason c \<noteq> []) conds of
        Some c \<Rightarrow> cond_reason c
      | None \<Rightarrow> if asst_desired st = asst_current st \<and> asst_desired st = asst_running st
                then ''Ready'' else ''Progressing'')"

definition buildStatus ::
  "'q application_set \<Rightarrow> 'q app_map \<Rightarrow> int \<Rightarrow> 'q node list \<Rightarrow> condition list \<Rightarrow> application_set_status" where
  "buildStatus set' existing desired nodes conds =
     (let ready = readyNodes nodes; isInit = initComponents set';
          services = filter (\<lambda>(name, a). \<not> goget False isInit (componentOf a)) existing;
          placed = filter (\<lambda>(name, a). app_node_name a \<noteq> []) services;
          st = \<lparr>asst_phase = [], asst_observed_resource_version = [], asst_desired = desired,
                asst_current = int (length services), asst_scheduled = int (length placed),
                asst_running = int (length (filter (\<lambda>(name, a). childRunning a ready) placed)),
                asst_children = map (child_status_of ready isInit) existing, asst_conditions = conds\<rparr>
      in st\<lparr>asst_phase := rollupPhase st conds\<rparr>)"

definition terminatingPhase :: "application_set_status \<Rightarrow> application_set_status" where
  "terminatingPhase st = st\<lparr>asst_phase := ''Terminating''\<rparr>"

definition childSetEqual :: "child_status list \<Rightarrow> child_status list \<Rightarrow> bool" where
  "childSetEqual a b \<longleftrightarrow>
     length a = length b \<and>
     (let index = fold (\<lambda>c. goput (chs_name c) c) a []
      in list_all (\<lambda>c. goget \<lparr>chs_name = [], chs_node = [], chs_phase = []\<rparr> index (chs_name c) = c) b)"

definition statusEqual :: "application_set_status \<Rightarrow> application_set_status \<Rightarrow> bool" where
  "statusEqual a b \<longleftrightarrow>
     asst_phase a = asst_phase b \<and> asst_desired a = asst_desired b \<and> asst_current a = asst_current b \<and>
     asst_scheduled a = asst_scheduled b \<and> asst_running a = asst_running b \<and>
     asst_conditions a = asst_conditions b \<and> childSetEqual (asst_children a) (asst_children b)"

definition put_status :: "('q, 'w) set_cluster \<Rightarrow> 'q application_set \<Rightarrow> application_set_status \<Rightarrow> 'w \<Rightarrow> 'w" where
  "put_status cl set' status w =
     (if statusEqual (aset_status set') status then w else snd (cl_update_set_status cl (set'\<lparr>aset_status := status\<rparr>) w))"

definition writeStatus ::
  "('q, 'w) set_cluster \<Rightarrow> 'q application_set \<Rightarrow> 'q app_map \<Rightarrow> int \<Rightarrow> 'q node list \<Rightarrow> condition list \<Rightarrow> 'w \<Rightarrow> 'w" where
  "writeStatus cl set' existing desired nodes conds w =
     put_status cl set' (buildStatus set' existing desired nodes conds) w"

definition holdTerminating :: "('q, 'w) set_cluster \<Rightarrow> 'q application_set \<Rightarrow> 'q app_map \<Rightarrow> 'w \<Rightarrow> 'w" where
  "holdTerminating cl set' existing w =
     put_status cl set' (terminatingPhase (buildStatus set' existing (asst_desired (aset_status set')) [] [])) w"

section \<open>Deletion of a set\<close>

definition orphanRequested :: "'q application_set \<Rightarrow> bool" where
  "orphanRequested set' \<longleftrightarrow> FinalizerOrphanDependents \<in> set (om_finalizers (aset_meta set'))"

definition ownedServices :: "('q, 'w) set_cluster \<Rightarrow> 'q application_set \<Rightarrow> 'w \<Rightarrow> (string, service list) result" where
  "ownedServices cl set' w =
     rbind (cl_services cl w) (\<lambda>all.
       Inr (filter (\<lambda>s. ownedRefs (om_owner_references (svc_meta s)) (om_namespace (svc_meta s)) set') all))"

text \<open>A write for every element, and whether all of them went through.\<close>

fun write_all :: "('a \<Rightarrow> 'w \<Rightarrow> string option \<times> 'w) \<Rightarrow> 'a list \<Rightarrow> 'w \<Rightarrow> bool \<times> 'w" where
  "write_all f [] w = (True, w)"
| "write_all f (x # xs) w =
     (let (e, w) = f x w; (ok, w) = write_all f xs w in (e = None \<and> ok, w))"

definition releaseServices :: "('q, 'w) set_cluster \<Rightarrow> 'q application_set \<Rightarrow> 'w \<Rightarrow> bool \<times> 'w" where
  "releaseServices cl set' w =
     (case ownedServices cl set' w of
        Inl _ \<Rightarrow> (False, w)
      | Inr owned \<Rightarrow> write_all (\<lambda>s. cl_update_service cl (s\<lparr>svc_meta := ReleaseAppsetMeta (svc_meta s)\<rparr>)) owned w)"

definition release :: "('q, 'w) set_cluster \<Rightarrow> 'q app_map \<Rightarrow> 'w \<Rightarrow> bool \<times> 'w" where
  "release cl existing w = write_all (\<lambda>(name, child). cl_update_application cl (ReleaseAppsetChild child)) existing w"

text \<open>The deletions of the rendered services stop at the first that fails.\<close>

fun delete_services :: "('q, 'w) set_cluster \<Rightarrow> service list \<Rightarrow> 'w \<Rightarrow> bool \<times> 'w" where
  "delete_services cl [] w = (True, w)"
| "delete_services cl (s # ss) w =
     (case cl_delete_service cl (om_namespace (svc_meta s)) (om_name (svc_meta s)) w of
        (Some e, w') \<Rightarrow> (False, w') | (None, w') \<Rightarrow> delete_services cl ss w')"

definition release_hold :: "('q, 'w) set_cluster \<Rightarrow> 'q application_set \<Rightarrow> 'w \<Rightarrow> 'w" where
  "release_hold cl set' w =
     (let kept = filter (\<lambda>f. \<not> (f = FinalizerChildTeardown \<or> f = FinalizerOrphanDependents)) (om_finalizers (aset_meta set'));
          (e, w) = (if length kept < length (om_finalizers (aset_meta set'))
                    then cl_update_set cl (set'\<lparr>aset_meta := (aset_meta set')\<lparr>om_finalizers := kept\<rparr>\<rparr>) w
                    else (None, w))
      in if e \<noteq> None then w
         else if kept \<noteq> [] then w
         else snd (cl_delete_set cl (om_namespace (aset_meta set')) (om_name (aset_meta set')) w))"

definition finishCascade :: "('q, 'w) set_cluster \<Rightarrow> 'q application_set \<Rightarrow> 'w \<Rightarrow> 'w" where
  "finishCascade cl set' w =
     (if orphanRequested set' then release_hold cl set' w
      else case ownedServices cl set' w of
             Inl _ \<Rightarrow> w
           | Inr owned \<Rightarrow> let (ok, w) = delete_services cl owned w in if ok then release_hold cl set' w else w)"

definition delete_children :: "('q, 'w) set_cluster \<Rightarrow> 'q app_map \<Rightarrow> 'w \<Rightarrow> 'w" where
  "delete_children cl existing w =
     fold (\<lambda>(name, child) w. if Deleting child then w else snd (cl_delete_application cl (app_namespace child) (app_name child) w))
       existing w"

definition cascade :: "('q, 'w) set_cluster \<Rightarrow> 'q application_set \<Rightarrow> 'q app_map \<Rightarrow> 'w \<Rightarrow> 'w" where
  "cascade cl set' existing w =
     (if orphanRequested set'
      then let (services, w) = releaseServices cl set' w;
               (released, w) = (if services then release cl existing w else (False, w))
           in if released then finishCascade cl set' w else holdTerminating cl set' existing w
      else let w = delete_children cl existing w
           in if existing \<noteq> [] then holdTerminating cl set' existing w else finishCascade cl set' w)"

section \<open>Convergence of a set\<close>

definition converge_service ::
  "('q, 'w) set_cluster \<Rightarrow> (string, service) gomap \<Rightarrow> (string, service) gomap \<Rightarrow> string \<times> service \<Rightarrow> 'w \<Rightarrow> 'w" where
  "converge_service cl byName owned e w =
     (let (name, want) = e
      in case map_of byName name of
           None \<Rightarrow> snd (cl_create_service cl want w)
         | Some cur \<Rightarrow>
             if map_of owned name = None then w
             else if svc_ports cur = svc_ports want then w
             else snd (cl_update_service cl (cur\<lparr>svc_ports := svc_ports want\<rparr>) w))"

definition convergeServices ::
  "'q digests \<Rightarrow> ('q, 'w) set_cluster \<Rightarrow> 'q application_set \<Rightarrow> 'q application list \<Rightarrow> 'w \<Rightarrow> 'w" where
  "convergeServices dg cl set' apps w =
     (case cl_services cl w of
        Inl _ \<Rightarrow> w
      | Inr all \<Rightarrow>
          let here = filter (\<lambda>s. om_namespace (svc_meta s) = om_namespace (aset_meta set')) all;
              byName = fold (\<lambda>s. goput (om_name (svc_meta s)) s) here [];
              owned = fold (\<lambda>s. goput (om_name (svc_meta s)) s)
                        (filter (\<lambda>s. ownedRefs (om_owner_references (svc_meta s)) (om_namespace (svc_meta s)) set') here) [];
              desired = fold (\<lambda>s. goput (om_name (svc_meta s)) s) (ExpandServices dg set') [];
              w = fold (converge_service cl byName owned) (sorted_entries desired) w
          in if \<not> Prune (aset_spec set') then w
             else fold (\<lambda>(name, svc) w.
                     if map_of desired name \<noteq> None \<or> serviceHasMembers apps svc then w
                     else snd (cl_delete_service cl (om_namespace (svc_meta svc)) name w)) owned w)"

definition held_rollout :: "int \<Rightarrow> condition" where
  "held_rollout budget =
     \<lparr>cond_type = ''Converged'', cond_status = ''False'', cond_reason = ''RolloutHeld'',
      cond_message = ''rolling update held at maxUnavailable='' @ show_int budget\<rparr>"

text \<open>The children in the order of their names, until the budget of the rollout is spent.\<close>

fun converge_children ::
  "('q, 'w) set_cluster \<Rightarrow> 'q app_map \<Rightarrow> (string, bool) gomap \<Rightarrow> int \<Rightarrow> 'q app_map \<Rightarrow> int \<Rightarrow> 'w \<Rightarrow> condition option \<times> 'w" where
  "converge_children cl existing ready budget [] unavailable w = (None, w)"
| "converge_children cl existing ready budget ((name, d) # ds) unavailable w =
     (case map_of existing name of
        None \<Rightarrow> converge_children cl existing ready budget ds unavailable (snd (cl_create_application cl d w))
      | Some cur \<Rightarrow>
          let (merged, changed) = mergeManaged cur d; available = childRunning cur ready
          in if \<not> changed then converge_children cl existing ready budget ds unavailable w
             else if available \<and> 0 < budget \<and> budget \<le> unavailable then (Some (held_rollout budget), w)
             else case cl_update_application cl merged w of
                    (Some e, w') \<Rightarrow> converge_children cl existing ready budget ds unavailable w'
                  | (None, w') \<Rightarrow>
                      converge_children cl existing ready budget ds
                        (if available \<and> 0 < budget then unavailable + 1 else unavailable) w')"

definition unavailable_children :: "'q app_map \<Rightarrow> 'q app_map \<Rightarrow> (string, bool) gomap \<Rightarrow> int" where
  "unavailable_children existing desired ready =
     int (length (filter (\<lambda>(name, cur). map_of desired name \<noteq> None \<and> \<not> childRunning cur ready) existing))"

definition prune_children :: "('q, 'w) set_cluster \<Rightarrow> 'q app_map \<Rightarrow> 'q app_map \<Rightarrow> 'w \<Rightarrow> 'w" where
  "prune_children cl existing desired w =
     fold (\<lambda>(name, e) w. if map_of desired name \<noteq> None then w else snd (cl_delete_application cl (app_namespace e) name w))
       existing w"

definition converged :: condition where
  "converged = \<lparr>cond_type = ''Converged'', cond_status = ''True'', cond_reason = ''Converged'', cond_message = []\<rparr>"

definition awaiting_anchor :: condition where
  "awaiting_anchor =
     \<lparr>cond_type = ''Converged'', cond_status = ''False'', cond_reason = ''AwaitingAnchor'',
      cond_message = ''co-located set: waiting for the anchor child to be scheduled''\<rparr>"

text \<open>The children that may exist now: those past the init gate, co-located if the set asks for it.\<close>

definition admitted_children ::
  "('q::zero) application_set \<Rightarrow> 'q app_map \<Rightarrow> 'q app_map \<Rightarrow> 'q app_map \<times> condition option \<times> condition" where
  "admitted_children set' desired existing =
     (let (gated, initCond) = initGate set' desired existing
      in if SameNode (aset_spec set')
         then let (pinned, held) = pinSameNode gated existing (anchorChild set' gated)
              in (pinned, initCond, if held then awaiting_anchor else converged)
         else (gated, initCond, converged))"

definition reconcileSet ::
  "'q digests \<Rightarrow> ('q::zero, 'w) set_cluster \<Rightarrow> 'q node list \<Rightarrow> 'q application list \<Rightarrow> 'q application_set \<Rightarrow> 'w \<Rightarrow> 'w" where
  "reconcileSet dg cl nodes apps set' w =
     (let existing = ownedChildren set' apps
      in if Set_Deleting set' then cascade cl set' existing w
         else case Expand dg set' nodes of
                Inl e \<Rightarrow>
                  writeStatus cl set' existing (asst_desired (aset_status set')) nodes
                    [\<lparr>cond_type = ''Rendered'', cond_status = ''False'', cond_reason = ''RenderError'', cond_message = e\<rparr>] w
              | Inr desired \<Rightarrow>
                  let w = convergeServices dg cl set' apps w;
                      byName = fold (\<lambda>a. goput (app_name a) a) desired [];
                      (children, initCond, placed) = admitted_children set' byName existing;
                      ready = readyNodes nodes; budget = RolloutBudget (aset_spec set');
                      unavailable = (if 0 < budget then unavailable_children existing children ready else 0);
                      (held, w) = converge_children cl existing ready budget (sorted_entries children) unavailable w;
                      w = (if Prune (aset_spec set') then prune_children cl existing children w else w);
                      rendered = \<lparr>cond_type = ''Rendered'', cond_status = ''True'', cond_reason = ''Expanded'', cond_message = []\<rparr>
                  in writeStatus cl set' existing (int (length desired) - initChildCount set' desired) nodes
                       ([rendered, case held of None \<Rightarrow> placed | Some c \<Rightarrow> c] @
                        (case initCond of None \<Rightarrow> [] | Some c \<Rightarrow> [c])) w)"

definition live_sets :: "'q application_set list \<Rightarrow> (string, 'q application_set) gomap" where
  "live_sets sets = fold (\<lambda>s. goput (om_namespace (aset_meta s) @ ''/'' @ om_name (aset_meta s)) s) sets []"

text \<open>A child whose set is gone, or is another one of the same name.\<close>

definition orphaned :: "(string, 'q application_set) gomap \<Rightarrow> 'q application \<Rightarrow> bool" where
  "orphaned live a =
     (case AppsetOwner a of
        None \<Rightarrow> False
      | Some ref \<Rightarrow>
          (case map_of live (app_namespace a @ ''/'' @ or_name ref) of
             None \<Rightarrow> True | Some s \<Rightarrow> \<not> ownedBySet a s))"

definition collect_orphans :: "('q, 'w) set_cluster \<Rightarrow> 'q application_set list \<Rightarrow> 'q application list \<Rightarrow> 'w \<Rightarrow> 'w" where
  "collect_orphans cl sets apps w =
     fold (\<lambda>a w. if orphaned (live_sets sets) a
                 then snd (cl_delete_application cl (app_namespace a) (app_name a) w) else w) apps w"

definition reconcileOnce :: "'q digests \<Rightarrow> ('q::zero, 'w) set_cluster \<Rightarrow> 'w \<Rightarrow> 'w" where
  "reconcileOnce dg cl w =
     (case cl_sets cl w of
        Inl _ \<Rightarrow> w
      | Inr sets \<Rightarrow>
          (case cl_nodes cl w of
             Inl _ \<Rightarrow> w
           | Inr nodes \<Rightarrow>
               (case cl_applications cl w of
                  Inl _ \<Rightarrow> w
                | Inr apps \<Rightarrow> fold (reconcileSet dg cl nodes apps) sets (collect_orphans cl sets apps w))))"

end
