(* ===== verification/AppSetFacts.thy ===== *)
theory AppSetFacts
  imports AppSetLoop
begin

text \<open>
  What a pass of the ApplicationSet loop writes, as the sequence of its calls on the cluster with
  their outcomes.
\<close>

section \<open>Traces\<close>

datatype 'q set_call =
    CreateApp "'q application" | UpdateApp "'q application" | DeleteApp string string
  | CreateSvc service | UpdateSvc service | DeleteSvc string string
  | PutStatus "'q application_set" | PutSet "'q application_set" | DropSet string string

fun perform :: "('q, 'w) set_cluster \<Rightarrow> 'q set_call \<Rightarrow> 'w \<Rightarrow> string option \<times> 'w" where
  "perform cl (CreateApp a) w = cl_create_application cl a w"
| "perform cl (UpdateApp a) w = cl_update_application cl a w"
| "perform cl (DeleteApp ns n) w = cl_delete_application cl ns n w"
| "perform cl (CreateSvc s) w = cl_create_service cl s w"
| "perform cl (UpdateSvc s) w = cl_update_service cl s w"
| "perform cl (DeleteSvc ns n) w = cl_delete_service cl ns n w"
| "perform cl (PutStatus s) w = cl_update_set_status cl s w"
| "perform cl (PutSet s) w = cl_update_set cl s w"
| "perform cl (DropSet ns n) w = cl_delete_set cl ns n w"

inductive set_trace :: "('q, 'w) set_cluster \<Rightarrow> 'w \<Rightarrow> ('q set_call \<times> string option) list \<Rightarrow> 'w \<Rightarrow> bool" for cl where
  trace_Nil: "set_trace cl w [] w"
| trace_Cons: "perform cl c w = (e, w1) \<Longrightarrow> set_trace cl w1 cs w2 \<Longrightarrow> set_trace cl w ((c, e) # cs) w2"

inductive_simps set_trace_simps: "set_trace cl w [] w'" "set_trace cl w (ce # cs) w'"

lemma set_trace_append: "set_trace cl w cs w1 \<Longrightarrow> set_trace cl w1 cs' w2 \<Longrightarrow> set_trace cl w (cs @ cs') w2"
  by (induction rule: set_trace.induct) (auto intro: set_trace.intros)

text \<open>A run whose calls all satisfy a predicate.\<close>

definition makes :: "('q, 'w) set_cluster \<Rightarrow> ('q set_call \<times> string option \<Rightarrow> bool) \<Rightarrow> 'w \<Rightarrow> 'w \<Rightarrow> bool" where
  "makes cl P w w' \<longleftrightarrow> (\<exists>cs. set_trace cl w cs w' \<and> list_all P cs)"

lemma makes_refl [intro, simp]: "makes cl P w w"
  unfolding makes_def by (rule exI[of _ "[]"]) (simp add: trace_Nil)

lemma makes_trans: "makes cl P w w1 \<Longrightarrow> makes cl P w1 w2 \<Longrightarrow> makes cl P w w2"
  unfolding makes_def using set_trace_append list_all_append by metis

lemma makes_perform: "P (c, fst (perform cl c w)) \<Longrightarrow> makes cl P w (snd (perform cl c w))"
  unfolding makes_def
  by (rule exI[of _ "[(c, fst (perform cl c w))]"]) (simp add: set_trace_simps)

lemma makes_fold: "(\<And>x w. x \<in> set xs \<Longrightarrow> makes cl P w (f x w)) \<Longrightarrow> makes cl P w (fold f xs w)"
  by (induction xs arbitrary: w) (auto intro: makes_trans)

lemma makes_mono: "makes cl P w w' \<Longrightarrow> (\<And>c. P c \<Longrightarrow> Q c) \<Longrightarrow> makes cl Q w w'"
  unfolding makes_def by (metis list.pred_mono_strong)

lemmas makes_calls =
  makes_perform[where c = "CreateApp a" for a, simplified] makes_perform[where c = "UpdateApp a" for a, simplified]
  makes_perform[where c = "DeleteApp ns n" for ns n, simplified] makes_perform[where c = "CreateSvc s" for s, simplified]
  makes_perform[where c = "UpdateSvc s" for s, simplified] makes_perform[where c = "DeleteSvc ns n" for ns n, simplified]
  makes_perform[where c = "PutStatus s" for s, simplified] makes_perform[where c = "PutSet s" for s, simplified]
  makes_perform[where c = "DropSet ns n" for ns n, simplified]

lemma makes_put_status: "(\<And>st e. P (PutStatus (s\<lparr>aset_status := st\<rparr>), e)) \<Longrightarrow> makes cl P w (put_status cl s st w)"
  unfolding put_status_def by (auto intro: makes_calls)

lemma makes_write_all:
  "(\<And>x w. x \<in> set xs \<Longrightarrow> makes cl P w (snd (f x w))) \<Longrightarrow> makes cl P w (snd (write_all f xs w))"
  by (induction xs arbitrary: w) (auto simp: Let_def split: prod.splits intro: makes_trans, metis makes_trans snd_conv)

section \<open>Maps built by a loop\<close>

lemma find_SomeD: "find P xs = Some x \<Longrightarrow> x \<in> set xs \<and> P x"
  by (induction xs) (auto split: if_splits)

lemma fold_goput_member:
  "(n, x) \<in> set (fold (\<lambda>a. goput (k a) a) xs m) \<Longrightarrow> (n, x) \<in> set m \<or> x \<in> set xs \<and> n = k x"
proof (induction xs arbitrary: m)
  case (Cons a xs)
  then show ?case using in_set_goput[of n x "k a" a m] by fastforce
qed simp

lemma map_of_fold_goput: "map_of (fold (\<lambda>a. goput (k a) a) xs []) n = find (\<lambda>a. k a = n) (rev xs)"
proof (induction xs rule: rev_induct)
  case (snoc a xs)
  then show ?case by (auto simp: gomap_simps)
qed simp

lemma ownedChildren_fold: "ownedChildren s apps = fold (\<lambda>a. goput (app_name a) a) (filter (\<lambda>a. ownedBySet a s) apps) []"
proof -
  have "fold (\<lambda>a m. if ownedBySet a s then goput (app_name a) a m else m) apps m =
      fold (\<lambda>a. goput (app_name a) a) (filter (\<lambda>a. ownedBySet a s) apps) m" for m
    by (induction apps arbitrary: m) auto
  then show ?thesis by (simp add: ownedChildren_def)
qed

lemma ownedChildren_mem:
  assumes "(n, a) \<in> set (ownedChildren s apps)"
  shows "a \<in> set apps" "ownedBySet a s" "app_name a = n"
  using fold_goput_member[OF assms[unfolded ownedChildren_fold]] by auto

lemma ownedChildren_lookup:
  assumes "map_of (ownedChildren s apps) n = Some a"
  shows "a \<in> set apps" "ownedBySet a s" "app_name a = n"
  using ownedChildren_mem map_of_SomeD[OF assms] by blast+

lemma entries_of_mem: "(n, a) \<in> set (entries_of m ks) \<Longrightarrow> map_of m n = Some a"
  by (auto simp: entries_of_def List.map_filter_def)

lemma sorted_entries_mem: "(n, a) \<in> set (sorted_entries m) \<Longrightarrow> (n, a) \<in> set m"
  unfolding sorted_entries_def by (drule entries_of_mem) (rule map_of_SomeD)

section \<open>Rendered children\<close>

lemma AppsetOwnerOf_set_owner_ref [simp]: "AppsetOwnerOf [set_owner_ref s] = Some (set_owner_ref s)"
  by (simp add: AppsetOwnerOf_def appset_owner_ref_def set_owner_ref_def)

lemma ownedRefs_rendered [simp]: "ownedRefs [set_owner_ref s] (om_namespace (aset_meta s)) s"
  by (simp add: ownedRefs_def) (simp add: set_owner_ref_def)

lemma buildChild_meta [simp]:
  "om_owner_references (app_meta (buildChild dg s c n r)) = [set_owner_ref s]"
  "app_namespace (buildChild dg s c n r) = om_namespace (aset_meta s)"
  "app_labels (buildChild dg s c n r) = childLabels s c"
  by (simp_all add: buildChild_def Let_def)

lemma ownedBySet_buildChild [simp]: "ownedBySet (buildChild dg s c n r) s"
  by (simp add: ownedBySet_def)

lemma componentOf_buildChild [simp]: "componentOf (buildChild dg s c n r) = nas_name c"
  by (simp add: componentOf_def childLabels_def gomap_simps)

definition rendered_by :: "'q application_set \<Rightarrow> 'q application \<Rightarrow> bool" where
  "rendered_by s d \<longleftrightarrow> ownedBySet d s \<and> (\<exists>c \<in> set (ass_applications (aset_spec s)). componentOf d = nas_name c) \<and>
     distinct (map fst (app_labels d))"

lemma distinct_goput: "distinct (map fst m) \<Longrightarrow> distinct (map fst (goput k v m))"
  by (rule distinct_update)

lemma distinct_gocopy: "distinct (map fst m) \<Longrightarrow> distinct (map fst (gocopy m m'))"
  unfolding gocopy_def by (induction m' arbitrary: m) (auto simp: distinct_goput)

lemma rendered_component:
  assumes "d \<in> set (component_children dg s nodes c)" "c \<in> set (ass_applications (aset_spec s))"
  shows "rendered_by s d"
proof -
  have "distinct (map fst (childLabels s c))"
    by (simp add: childLabels_def mergeStrings_def distinct_goput distinct_gocopy)
  then show ?thesis
    using assms by (auto simp: component_children_def rendered_by_def split: option.splits)
qed

lemma add_child_fold: "rfold add_child cs ds = Inr ds' \<Longrightarrow> set ds' = set ds \<union> set cs"
  by (induction cs arbitrary: ds) (auto simp: add_child_def result_simps split: if_splits)

lemma Expand_rendered:
  assumes "Expand dg s nodes = Inr ds" "d \<in> set ds"
  shows "rendered_by s d"
proof -
  have "\<forall>c \<in> set cs. c \<in> set (ass_applications (aset_spec s)) \<Longrightarrow>
      rfold (\<lambda>c. rfold add_child (component_children dg s nodes c)) cs ds0 = Inr ds \<Longrightarrow>
      \<forall>d \<in> set ds0. rendered_by s d \<Longrightarrow> rendered_by s d" for cs ds0
  proof (induction cs arbitrary: ds0)
    case Nil
    then show ?case using assms(2) by simp
  next
    case (Cons c cs)
    obtain ds1 where ds1: "rfold add_child (component_children dg s nodes c) ds0 = Inr ds1"
      "rfold (\<lambda>c. rfold add_child (component_children dg s nodes c)) cs ds1 = Inr ds"
      using Cons.prems(2) by (auto simp: result_simps)
    have "\<forall>d \<in> set ds1. rendered_by s d"
      using add_child_fold[OF ds1(1)] Cons.prems(1,3) rendered_component by fastforce
    then show ?case using Cons.IH[OF _ ds1(2)] Cons.prems(1) by simp
  qed
  from this[of _ "[]"] show ?thesis using assms(1) by (auto simp: Expand_def split: if_splits)
qed

lemma ExpandServices_owned:
  assumes "x \<in> set (ExpandServices dg s)"
  shows "om_namespace (svc_meta x) = om_namespace (aset_meta s)" "om_owner_references (svc_meta x) = [set_owner_ref s]"
  using assms by (auto simp: ExpandServices_def expand_service_def Let_def split: if_splits)

section \<open>The children a pass converges\<close>

lemma gocopy_mem: "(n, x) \<in> set (gocopy m m') \<Longrightarrow> (n, x) \<in> set m \<or> (n, x) \<in> set m'"
  unfolding gocopy_def
proof (induction m' arbitrary: m)
  case (Cons e m')
  then show ?case using in_set_goput[of n x "fst e" "snd e" m] by (auto simp: case_prod_unfold)
qed simp

lemma init_steps_mem:
  "init_steps isInit desired existing cs allowed = (m, cond) \<Longrightarrow> (n, a) \<in> set m \<Longrightarrow>
   (n, a) \<in> set allowed \<or> (n, a) \<in> set desired"
proof (induction cs arbitrary: allowed)
  case Nil
  then show ?case using gocopy_mem by fastforce
next
  case (Cons c cs)
  show ?case
  proof (cases "goget False isInit (nas_name c)")
    case True
    have e: "(n, a) \<in> set (gocopy allowed (entries_of desired (childrenOf desired (nas_name c)))) \<Longrightarrow>
        (n, a) \<in> set allowed \<or> (n, a) \<in> set desired"
      using gocopy_mem entries_of_mem map_of_SomeD by metis
    from Cons True e show ?thesis by (auto simp: Let_def split: option.splits)
  qed (use Cons in auto)
qed

lemma initGate_mem: "(n, a) \<in> set (fst (initGate s desired existing)) \<Longrightarrow> (n, a) \<in> set desired"
  unfolding initGate_def using init_steps_mem by (metis empty_iff list.set(1) prod.collapse)

lemma set_node_simps [simp]:
  "app_meta (set_node n a) = app_meta a" "app_status (set_node n a) = app_status a"
  by (simp_all add: set_node_def)

text \<open>An admitted child is a rendered one, possibly on the node of the anchor.\<close>

lemma anchorChild_mem:
  assumes "anchorChild s m \<noteq> []"
  shows "\<exists>a. (anchorChild s m, a) \<in> set m"
proof -
  have k: "n \<in> fst ` set m" if "n # ns = sorted_keys (map fst m)" for n ns
    using that[symmetric] by (metis list.set_intros(1) set_map set_sorted_keys)
  have c: "hd ns \<in> fst ` set m" if "ns = childrenOf m c" "ns \<noteq> []" for ns c
    using hd_in_set[OF that(2)] unfolding that(1) childrenOf_def set_sort set_map by force
  let ?cs = "map (\<lambda>c. childrenOf m (nas_name c)) (filter (\<lambda>c. goget False (initComponents s) (nas_name c)) (ass_applications (aset_spec s)))"
  have "anchorChild s m \<in> fst ` set m"
  proof (cases "find (\<lambda>names. names \<noteq> []) ?cs")
    case None
    then show ?thesis using assms k by (auto simp: anchorChild_def Let_def split: list.splits)
  next
    case (Some ns)
    then have "ns \<in> set ?cs" "ns \<noteq> []" using find_SomeD by fast+
    then show ?thesis using c Some by (auto simp: anchorChild_def Let_def)
  qed
  then show ?thesis by force
qed

lemma admitted_children_mem:
  assumes "(n, a) \<in> set (fst (admitted_children s desired existing))"
  obtains d where "(n, d) \<in> set (fst (initGate s desired existing))" "app_meta a = app_meta d"
proof -
  obtain gated ic where g: "initGate s desired existing = (gated, ic)" by fastforce
  have "\<exists>d. (n, d) \<in> set gated \<and> app_meta a = app_meta d"
  proof (cases "SameNode (aset_spec s)")
    case False
    then show ?thesis using assms g by (auto simp: admitted_children_def)
  next
    case True
    let ?an = "anchorChild s gated"
    have m: "(n, a) \<in> set (fst (pinSameNode gated existing ?an))"
      using assms g True by (auto simp: admitted_children_def split: prod.splits)
    show ?thesis
    proof (cases "gated = [] \<or> ?an = []")
      case True
      then show ?thesis using m by (auto simp: pinSameNode_def)
    next
      case pinned: False
      then obtain d where d: "map_of gated ?an = Some d"
        using anchorChild_mem[of s gated] by (metis map_of_eq_None_iff not_Some_eq fst_conv image_eqI)
      from pinned m d map_of_SomeD[OF d] show ?thesis
        by (auto simp: pinSameNode_def Let_def goget_def dest!: sorted_entries_mem split: if_splits option.splits)
    qed
  qed
  then show thesis using that g by auto
qed

section \<open>The writes of a pass\<close>

text \<open>
  The calls a pass may make for a set \<open>s\<close>, the applications it listed being \<open>apps\<close>: it creates and
  rewrites its own children and services only, it takes children down only to prune them or to carry
  out a deletion that did not ask to keep them, and it erases a set only when that set is being
  deleted and its children are gone or released.
\<close>

definition own_child :: "'q application list \<Rightarrow> 'q application_set \<Rightarrow> string \<Rightarrow> string \<Rightarrow> bool" where
  "own_child apps s ns n \<longleftrightarrow> (\<exists>a \<in> set apps. ownedBySet a s \<and> app_namespace a = ns \<and> app_name a = n)"

definition own_service :: "('q, 'w) set_cluster \<Rightarrow> 'q application_set \<Rightarrow> string \<Rightarrow> string \<Rightarrow> bool" where
  "own_service cl s ns n \<longleftrightarrow>
     (\<exists>w all v. cl_services cl w = Inr all \<and> v \<in> set all \<and> om_namespace (svc_meta v) = ns \<and> om_name (svc_meta v) = n \<and>
        ownedRefs (om_owner_references (svc_meta v)) ns s)"

definition own_set :: "'q application_set \<Rightarrow> 'q application_set \<Rightarrow> bool" where
  "own_set s s' \<longleftrightarrow> om_namespace (aset_meta s') = om_namespace (aset_meta s) \<and> om_name (aset_meta s') = om_name (aset_meta s)"

fun own_call :: "('q, 'w) set_cluster \<Rightarrow> 'q application list \<Rightarrow> 'q application_set \<Rightarrow> 'q set_call \<Rightarrow> bool" where
  "own_call cl apps s (CreateApp a) \<longleftrightarrow> \<not> Set_Deleting s \<and> ownedBySet a s"
| "own_call cl apps s (UpdateApp a) \<longleftrightarrow>
     own_child apps s (app_namespace a) (app_name a) \<and>
     (if Set_Deleting s then orphanRequested s else ownedBySet a s)"
| "own_call cl apps s (DeleteApp ns n) \<longleftrightarrow>
     own_child apps s ns n \<and> (if Set_Deleting s then \<not> orphanRequested s else Prune (aset_spec s))"
| "own_call cl apps s (CreateSvc v) \<longleftrightarrow>
     \<not> Set_Deleting s \<and> ownedRefs (om_owner_references (svc_meta v)) (om_namespace (svc_meta v)) s"
| "own_call cl apps s (UpdateSvc v) \<longleftrightarrow>
     own_service cl s (om_namespace (svc_meta v)) (om_name (svc_meta v)) \<and> (Set_Deleting s \<longrightarrow> orphanRequested s)"
| "own_call cl apps s (DeleteSvc ns n) \<longleftrightarrow>
     own_service cl s ns n \<and> (if Set_Deleting s then \<not> orphanRequested s else Prune (aset_spec s))"
| "own_call cl apps s (PutStatus s') \<longleftrightarrow> own_set s s'"
| "own_call cl apps s (PutSet s') \<longleftrightarrow> own_set s s' \<and> Set_Deleting s"
| "own_call cl apps s (DropSet ns n) \<longleftrightarrow>
     ns = om_namespace (aset_meta s) \<and> n = om_name (aset_meta s) \<and> Set_Deleting s \<and>
     (orphanRequested s \<or> (\<forall>a \<in> set apps. \<not> ownedBySet a s))"

abbreviation makes_own :: "('q, 'w) set_cluster \<Rightarrow> 'q application list \<Rightarrow> 'q application_set \<Rightarrow> 'w \<Rightarrow> 'w \<Rightarrow> bool" where
  "makes_own cl apps s \<equiv> makes cl (\<lambda>ce. own_call cl apps s (fst ce))"

text \<open>A listing names every service once.\<close>

definition services_distinct :: "('q, 'w) set_cluster \<Rightarrow> bool" where
  "services_distinct cl \<longleftrightarrow>
     (\<forall>w all. cl_services cl w = Inr all \<longrightarrow> distinct (map (\<lambda>v. (om_namespace (svc_meta v), om_name (svc_meta v))) all))"

lemma own_childI: "(n, a) \<in> set (ownedChildren s apps) \<Longrightarrow> own_child apps s (app_namespace a) n"
  using ownedChildren_mem[of n a s apps] by (auto simp: own_child_def)

lemma put_status_own: "makes_own cl apps s w (put_status cl s st w)"
  by (rule makes_put_status) (simp add: own_set_def)

lemma release_hold_own:
  assumes "Set_Deleting s" "orphanRequested s \<or> (\<forall>a \<in> set apps. \<not> ownedBySet a s)"
  shows "makes_own cl apps s w (release_hold cl s w)"
proof -
  let ?kept = "filter (\<lambda>f. \<not> (f = FinalizerChildTeardown \<or> f = FinalizerOrphanDependents)) (om_finalizers (aset_meta s))"
  let ?s = "s\<lparr>aset_meta := (aset_meta s)\<lparr>om_finalizers := ?kept\<rparr>\<rparr>"
  have u: "makes_own cl apps s w (snd (cl_update_set cl ?s w))"
    by (rule makes_calls) (simp add: own_set_def assms(1))
  have d: "makes_own cl apps s w' (snd (cl_delete_set cl (om_namespace (aset_meta s)) (om_name (aset_meta s)) w'))" for w'
    by (rule makes_calls) (use assms in simp)
  show ?thesis
    using u d makes_trans[OF u d] by (auto simp: release_hold_def Let_def split: prod.splits if_splits)
qed

lemma own_serviceI:
  "cl_services cl w = Inr all \<Longrightarrow> v \<in> set all \<Longrightarrow> ownedRefs (om_owner_references (svc_meta v)) (om_namespace (svc_meta v)) s \<Longrightarrow>
   own_service cl s (om_namespace (svc_meta v)) (om_name (svc_meta v))"
  unfolding own_service_def by blast

lemma ownedServices_own:
  "ownedServices cl s w = Inr owned \<Longrightarrow> v \<in> set owned \<Longrightarrow> own_service cl s (om_namespace (svc_meta v)) (om_name (svc_meta v))"
  by (auto simp: ownedServices_def result_simps intro: own_serviceI)

lemma delete_services_own:
  assumes "Set_Deleting s" "\<not> orphanRequested s"
    and "\<And>v. v \<in> set vs \<Longrightarrow> own_service cl s (om_namespace (svc_meta v)) (om_name (svc_meta v))"
  shows "makes_own cl apps s w (snd (delete_services cl vs w))"
  using assms(3)
proof (induction vs arbitrary: w)
  case (Cons v vs)
  have c: "makes_own cl apps s w (snd (cl_delete_service cl (om_namespace (svc_meta v)) (om_name (svc_meta v)) w))"
    by (rule makes_calls) (use assms(1,2) Cons.prems in simp)
  have "makes_own cl apps s w' (snd (delete_services cl vs w'))" for w' by (rule Cons.IH) (use Cons.prems in simp)
  from makes_trans[OF c this] c show ?case by (auto split: prod.splits option.splits)
qed simp

lemma finishCascade_own:
  assumes "Set_Deleting s" "orphanRequested s \<or> (\<forall>a \<in> set apps. \<not> ownedBySet a s)"
  shows "makes_own cl apps s w (finishCascade cl s w)"
proof (cases "orphanRequested s")
  case False
  show ?thesis
  proof (cases "ownedServices cl s w")
    case (Inr owned)
    have d: "makes_own cl apps s w (snd (delete_services cl owned w))"
      by (rule delete_services_own[OF assms(1) False ownedServices_own[OF Inr]])
    from d makes_trans[OF d release_hold_own[OF assms]] show ?thesis
      using False Inr by (auto simp: finishCascade_def split: prod.splits)
  qed (use False in \<open>simp add: finishCascade_def\<close>)
qed (use release_hold_own[OF assms] in \<open>simp add: finishCascade_def\<close>)

lemma releaseServices_own:
  assumes "Set_Deleting s" "orphanRequested s"
  shows "makes_own cl apps s w (snd (releaseServices cl s w))"
proof (cases "ownedServices cl s w")
  case (Inr owned)
  have "makes_own cl apps s w' (snd (cl_update_service cl (v\<lparr>svc_meta := ReleaseAppsetMeta (svc_meta v)\<rparr>) w'))"
    if "v \<in> set owned" for v w'
    by (rule makes_calls) (use ownedServices_own[OF Inr that] assms in \<open>simp add: ReleaseAppsetMeta_def\<close>)
  then show ?thesis using Inr by (simp add: releaseServices_def makes_write_all)
qed (simp add: releaseServices_def)

lemma release_own:
  assumes "Set_Deleting s" "orphanRequested s"
  shows "makes_own cl apps s w (snd (release cl (ownedChildren s apps) w))"
  unfolding release_def
proof (rule makes_write_all)
  fix x w' assume x: "x \<in> set (ownedChildren s apps)"
  show "makes_own cl apps s w' (snd ((case x of (n, a) \<Rightarrow> cl_update_application cl (ReleaseAppsetChild a)) w'))"
    using x assms ownedChildren_mem[of "fst x" "snd x" s apps] own_childI[of "fst x" "snd x" s apps]
    by (auto simp: case_prod_unfold ReleaseAppsetChild_def ReleaseAppsetMeta_def intro!: makes_calls)
qed

lemma delete_children_own:
  assumes "Set_Deleting s" "\<not> orphanRequested s"
  shows "makes_own cl apps s w (delete_children cl (ownedChildren s apps) w)"
  unfolding delete_children_def
proof (rule makes_fold)
  fix x w' assume x: "x \<in> set (ownedChildren s apps)"
  show "makes_own cl apps s w' ((case x of (n, a) \<Rightarrow> \<lambda>w. if Deleting a then w
      else snd (cl_delete_application cl (app_namespace a) (app_name a) w)) w')"
    using x assms ownedChildren_mem[of "fst x" "snd x" s apps] own_childI[of "fst x" "snd x" s apps]
    by (auto simp: case_prod_unfold intro!: makes_calls)
qed

lemma ownedChildren_Nil: "ownedChildren s apps = [] \<Longrightarrow> a \<in> set apps \<Longrightarrow> \<not> ownedBySet a s"
proof
  assume e: "ownedChildren s apps = []" and a: "a \<in> set apps" "ownedBySet a s"
  have "map_of (ownedChildren s apps) (app_name a) \<noteq> None"
    unfolding ownedChildren_fold map_of_fold_goput using a by (auto simp: find_None_iff)
  then show False using e by simp
qed

lemma cascade_own:
  assumes "Set_Deleting s"
  shows "makes_own cl apps s w (cascade cl s (ownedChildren s apps) w)"
proof (cases "orphanRequested s")
  case True
  obtain ok w1 where r1: "releaseServices cl s w = (ok, w1)" by fastforce
  obtain ok2 w2 where r2: "release cl (ownedChildren s apps) w1 = (ok2, w2)" by fastforce
  have m1: "makes_own cl apps s w w1" using releaseServices_own[OF assms True, of cl apps w] r1 by simp
  have m2: "makes_own cl apps s w1 w2" using release_own[OF assms True, of cl apps w1] r2 by simp
  have f: "makes_own cl apps s w2 (finishCascade cl s w2)" by (rule finishCascade_own[OF assms]) (use True in simp)
  show ?thesis
    using True r1 r2 makes_trans[OF m1 makes_trans[OF m2 f]] makes_trans[OF m1 makes_trans[OF m2 put_status_own]]
      makes_trans[OF m1 put_status_own]
    by (auto simp: cascade_def holdTerminating_def)
next
  case False
  note d = delete_children_own[OF assms False]
  show ?thesis
  proof (cases "ownedChildren s apps = []")
    case True
    then have "orphanRequested s \<or> (\<forall>a \<in> set apps. \<not> ownedBySet a s)" using ownedChildren_Nil by blast
    from makes_trans[OF d finishCascade_own[OF assms this]] show ?thesis using False True by (simp add: cascade_def)
  qed (use False makes_trans[OF d put_status_own] in \<open>simp add: cascade_def holdTerminating_def Let_def\<close>)
qed

section \<open>Convergence\<close>

lemma services_map_mem:
  assumes "services_distinct cl" "cl_services cl w = Inr all"
    and "map_of (fold (\<lambda>v. goput (om_name (svc_meta v)) v) (filter (\<lambda>v. om_namespace (svc_meta v) = ns) all) []) n = Some cur"
    and "map_of (fold (\<lambda>v. goput (om_name (svc_meta v)) v)
      (filter P (filter (\<lambda>v. om_namespace (svc_meta v) = ns) all)) []) n = Some own"
  shows "cur = own"
proof -
  have "cur \<in> set all \<and> om_namespace (svc_meta cur) = ns \<and> om_name (svc_meta cur) = n"
    "own \<in> set all \<and> om_namespace (svc_meta own) = ns \<and> om_name (svc_meta own) = n"
    using assms(3,4) unfolding map_of_fold_goput by (auto dest!: find_SomeD)
  moreover have "inj_on (\<lambda>v. (om_namespace (svc_meta v), om_name (svc_meta v))) (set all)"
    using assms(1,2) by (auto simp: services_distinct_def distinct_map)
  ultimately show ?thesis by (auto dest: inj_onD)
qed

lemma convergeServices_own:
  assumes "services_distinct cl" "\<not> Set_Deleting s"
  shows "makes_own cl apps s w (convergeServices dg cl s apps w)"
proof (cases "cl_services cl w")
  case (Inr all)
  let ?here = "filter (\<lambda>v. om_namespace (svc_meta v) = om_namespace (aset_meta s)) all"
  let ?P = "\<lambda>v. ownedRefs (om_owner_references (svc_meta v)) (om_namespace (svc_meta v)) s"
  let ?byName = "fold (\<lambda>v. goput (om_name (svc_meta v)) v) ?here []"
  let ?owned = "fold (\<lambda>v. goput (om_name (svc_meta v)) v) (filter ?P ?here) []"
  let ?desired = "fold (\<lambda>v. goput (om_name (svc_meta v)) v) (ExpandServices dg s) []"
  have own: "own_service cl s (om_namespace (svc_meta v)) n \<and> om_name (svc_meta v) = n" if "(n, v) \<in> set ?owned" for n v
    using fold_goput_member[OF that] own_serviceI[OF Inr, of v s] by auto
  have "makes_own cl apps s w' (converge_service cl ?byName ?owned e w')" if e: "e \<in> set (sorted_entries ?desired)" for e w'
  proof -
    obtain n want where [simp]: "e = (n, want)" by fastforce
    have "(n, want) \<in> set ?desired" using e sorted_entries_mem by simp
    then have want: "want \<in> set (ExpandServices dg s)" using fold_goput_member by fastforce
    show ?thesis
    proof (cases "map_of ?byName n")
      case None
      then show ?thesis using ExpandServices_owned[OF want] assms(2) by (auto simp: converge_service_def intro!: makes_calls)
    next
      case (Some cur)
      show ?thesis
      proof (cases "map_of ?owned n")
        case o: (Some v)
        have "own_service cl s (om_namespace (svc_meta cur)) (om_name (svc_meta cur))"
          using own[OF map_of_SomeD[OF o]] services_map_mem[OF assms(1) Inr Some o] by auto
        then show ?thesis using Some o assms(2) by (auto simp: converge_service_def intro!: makes_calls)
      qed (use Some in \<open>simp add: converge_service_def\<close>)
    qed
  qed
  then have c: "makes_own cl apps s w (fold (converge_service cl ?byName ?owned) (sorted_entries ?desired) w)"
    by (rule makes_fold)
  have p: "makes_own cl apps s w' (fold (\<lambda>(n, v) w. if map_of ?desired n \<noteq> None \<or> serviceHasMembers apps v then w
      else snd (cl_delete_service cl (om_namespace (svc_meta v)) n w)) ?owned w')" if "Prune (aset_spec s)" for w'
    by (rule makes_fold) (use that own assms(2) in \<open>auto intro!: makes_calls\<close>)
  show ?thesis using c makes_trans[OF c p] Inr by (simp add: convergeServices_def Let_def)
qed (simp add: convergeServices_def)

lemma mergeManaged_meta [simp]:
  "app_name (fst (mergeManaged cur d)) = app_name cur" "app_namespace (fst (mergeManaged cur d)) = app_namespace cur"
  "om_owner_references (app_meta (fst (mergeManaged cur d))) = om_owner_references (app_meta d)"
  by (simp_all add: mergeManaged_def Let_def)

lemma ownedBySet_namespace: "ownedBySet a s \<Longrightarrow> app_namespace a = om_namespace (aset_meta s)"
  by (auto simp: ownedBySet_def ownedRefs_def split: option.splits)

lemma ownedBySet_merged: "ownedBySet cur s \<Longrightarrow> ownedBySet d s \<Longrightarrow> ownedBySet (fst (mergeManaged cur d)) s"
  using ownedBySet_namespace[of cur s] ownedBySet_namespace[of d s] by (simp add: ownedBySet_def)

lemma ownedBySet_cong: "app_meta a = app_meta d \<Longrightarrow> ownedBySet a s = ownedBySet d s"
  by (simp add: ownedBySet_def)

text \<open>The calls of the convergence loop: it creates what is missing and rewrites what is there.\<close>

lemma converge_children_makes:
  assumes "\<And>n d e. (n, d) \<in> set ds \<Longrightarrow> map_of existing n = None \<Longrightarrow> P (CreateApp d, e)"
    and "\<And>n d cur e. (n, d) \<in> set ds \<Longrightarrow> map_of existing n = Some cur \<Longrightarrow> P (UpdateApp (fst (mergeManaged cur d)), e)"
  shows "makes cl P w (snd (converge_children cl existing ready budget ds u w))"
  using assms
proof (induction ds arbitrary: u w)
  case (Cons x ds)
  obtain n d where [simp]: "x = (n, d)" by fastforce
  have ih: "makes cl P w' (snd (converge_children cl existing ready budget ds u' w'))" for u' w'
  proof (rule Cons.IH)
    fix n' d' e assume "(n', d') \<in> set ds" "map_of existing n' = None"
    then show "P (CreateApp d', e)" by (intro Cons.prems(1)) auto
  next
    fix n' d' cur e assume "(n', d') \<in> set ds" "map_of existing n' = Some cur"
    then show "P (UpdateApp (fst (mergeManaged cur d')), e)" by (intro Cons.prems(2)) auto
  qed
  show ?case
  proof (cases "map_of existing n")
    case None
    have "makes cl P w (snd (cl_create_application cl d w))" by (rule makes_calls) (use Cons.prems(1)[of n d] None in simp)
    then show ?thesis using None makes_trans[OF _ ih] by simp
  next
    case (Some cur)
    obtain merged changed where m: "mergeManaged cur d = (merged, changed)" by fastforce
    have u: "makes cl P w (snd (cl_update_application cl merged w))"
      by (rule makes_calls) (use Cons.prems(2)[of n d cur] Some m in simp)
    show ?thesis using Some m ih makes_trans[OF u ih]
      by (auto simp: Let_def split: prod.splits option.splits)
  qed
qed simp

lemma prune_children_makes:
  assumes "\<And>n a e. (n, a) \<in> set existing \<Longrightarrow> P (DeleteApp (app_namespace a) n, e)"
  shows "makes cl P w (prune_children cl existing children w)"
  unfolding prune_children_def by (rule makes_fold) (use assms in \<open>auto intro!: makes_calls\<close>)

lemma converge_children_own:
  assumes "\<not> Set_Deleting s" "\<And>n d. (n, d) \<in> set ds \<Longrightarrow> ownedBySet d s"
  shows "makes_own cl apps s w (snd (converge_children cl (ownedChildren s apps) ready budget ds u w))"
proof (rule converge_children_makes)
  fix n d cur e assume a: "(n, d) \<in> set ds" "map_of (ownedChildren s apps) n = Some cur"
  show "own_call cl apps s (fst (UpdateApp (fst (mergeManaged cur d)), e))"
    using assms(1) ownedChildren_lookup[OF a(2)] ownedBySet_merged[of cur s d, OF _ assms(2)[OF a(1)]] by (auto simp: own_child_def)
qed (use assms in simp)

text \<open>The rendered children of a set by their names.\<close>

definition rendered_map :: "'q application list \<Rightarrow> 'q app_map" where
  "rendered_map desired = fold (\<lambda>a. goput (app_name a) a) desired []"

lemma admitted_rendered:
  assumes "(n, a) \<in> set (fst (admitted_children s (rendered_map desired) existing))"
  obtains d where "d \<in> set desired" "app_name d = n" "app_meta a = app_meta d"
proof -
  obtain d where d: "(n, d) \<in> set (fst (initGate s (rendered_map desired) existing))" "app_meta a = app_meta d"
    using admitted_children_mem[OF assms] .
  have "d \<in> set desired \<and> app_name d = n"
    using initGate_mem[OF d(1)] unfolding rendered_map_def by (auto dest!: fold_goput_member)
  then show thesis using that d(2) by blast
qed

text \<open>A pass over a set that is not being deleted and that renders.\<close>

lemma reconcileSet_live:
  assumes "\<not> Set_Deleting s" "Expand dg s nodes = Inr desired"
    and "admitted_children s (rendered_map desired) (ownedChildren s apps) = (children, ic, pl)"
    and "converge_children cl (ownedChildren s apps) (readyNodes nodes) (RolloutBudget (aset_spec s)) (sorted_entries children)
      (if 0 < RolloutBudget (aset_spec s) then unavailable_children (ownedChildren s apps) children (readyNodes nodes) else 0)
      (convergeServices dg cl s apps w) = (held, w2)"
  obtains st where "reconcileSet dg cl nodes apps s w =
    put_status cl s st (if Prune (aset_spec s) then prune_children cl (ownedChildren s apps) children w2 else w2)"
proof -
  show thesis
    by (rule that)
      (simp only: reconcileSet_def writeStatus_def Let_def assms(1,2) sum.case if_False rendered_map_def[symmetric] assms(3,4) case_prod_conv)
qed

lemma rendered_owned:
  assumes "Expand dg s nodes = Inr desired" "(n, a) \<in> set (sorted_entries (fst (admitted_children s (rendered_map desired) existing)))"
  shows "ownedBySet a s"
proof -
  obtain d where "d \<in> set desired" "app_meta a = app_meta d"
    using sorted_entries_mem[OF assms(2)] by (rule admitted_rendered)
  then show ?thesis using Expand_rendered[OF assms(1)] ownedBySet_cong by (metis rendered_by_def)
qed

lemma reconcileSet_own:
  assumes "services_distinct cl"
  shows "makes_own cl apps s w (reconcileSet dg cl nodes apps s w)"
proof (cases "Set_Deleting s")
  case True
  then show ?thesis using cascade_own by (simp add: reconcileSet_def)
next
  case live: False
  let ?ex = "ownedChildren s apps"
  show ?thesis
  proof (cases "Expand dg s nodes")
    case (Inl e)
    then show ?thesis using live put_status_own by (simp add: reconcileSet_def writeStatus_def)
  next
    case (Inr desired)
    obtain children ic pl where ch: "admitted_children s (rendered_map desired) ?ex = (children, ic, pl)"
      using prod_cases3 by blast
    let ?u = "if 0 < RolloutBudget (aset_spec s) then unavailable_children ?ex children (readyNodes nodes) else 0"
    let ?w1 = "convergeServices dg cl s apps w"
    obtain held w2 where w2: "converge_children cl ?ex (readyNodes nodes) (RolloutBudget (aset_spec s)) (sorted_entries children) ?u ?w1 = (held, w2)"
      by fastforce
    have "makes_own cl apps s ?w1 (snd (converge_children cl ?ex (readyNodes nodes) (RolloutBudget (aset_spec s)) (sorted_entries children) ?u ?w1))"
      by (rule converge_children_own[OF live]) (use rendered_owned[OF Inr, of _ _ ?ex] ch in auto)
    then have c: "makes_own cl apps s w w2"
      using makes_trans[OF convergeServices_own[OF assms live]] unfolding w2 snd_conv by blast
    have p: "makes_own cl apps s w2 (prune_children cl ?ex children w2)" if "Prune (aset_spec s)"
      by (rule prune_children_makes) (use that live own_childI in auto)
    obtain st where "reconcileSet dg cl nodes apps s w =
        put_status cl s st (if Prune (aset_spec s) then prune_children cl ?ex children w2 else w2)"
      using reconcileSet_live[OF live Inr ch w2] .
    then show ?thesis
      using makes_trans[OF c put_status_own] makes_trans[OF makes_trans[OF c p] put_status_own] by auto
  qed
qed

end
