(* ===== verification/AppSetRollout.thy ===== *)
theory AppSetRollout
  imports AppSetFacts
begin

text \<open>
  The budget of a rollout: how many running children one pass takes down, and that passes come to an
  end when the children recover.
\<close>

section \<open>The cost of a pass\<close>

text \<open>A rewritten child that was running is taken down until its node brings it back.\<close>

fun disrupts :: "'q app_map \<Rightarrow> (string, bool) gomap \<Rightarrow> 'q set_call \<times> string option \<Rightarrow> bool" where
  "disrupts existing ready (UpdateApp a, None) =
     (case map_of existing (app_name a) of None \<Rightarrow> False | Some cur \<Rightarrow> childRunning cur ready)"
| "disrupts existing ready _ = False"

lemma undisturbed:
  assumes "makes cl P w w'" "\<And>ce. P ce \<Longrightarrow> \<not> disrupts existing ready ce"
  obtains cs where "set_trace cl w cs w'" "filter (disrupts existing ready) cs = []"
  using assms unfolding makes_def list_all_iff by (metis filter_False)

lemma converge_budget:
  assumes "0 < budget" "\<And>n cur. map_of existing n = Some cur \<Longrightarrow> app_name cur = n"
  shows "\<exists>cs. set_trace cl w cs (snd (converge_children cl existing ready budget ds u w)) \<and>
    int (length (filter (disrupts existing ready) cs)) \<le> max 0 (budget - u)"
proof (induction ds arbitrary: u w)
  case Nil
  then show ?case by (auto intro: exI[of _ "[]"] simp: set_trace_simps)
next
  case (Cons x ds)
  obtain n d where [simp]: "x = (n, d)" by fastforce
  show ?case
  proof (cases "map_of existing n")
    case None
    obtain e w1 where e: "cl_create_application cl d w = (e, w1)" by fastforce
    from Cons[of w1 u] obtain cs where "set_trace cl w1 cs (snd (converge_children cl existing ready budget ds u w1))"
      "int (length (filter (disrupts existing ready) cs)) \<le> max 0 (budget - u)" by blast
    then show ?thesis using None e by (auto intro!: exI[of _ "(CreateApp d, e) # cs"] simp: set_trace_simps)
  next
    case (Some cur)
    obtain merged changed where m: "mergeManaged cur d = (merged, changed)" by fastforce
    have nm: "app_name merged = n" using mergeManaged_meta(1)[of cur d] assms(2)[OF Some] m by simp
    let ?held = "childRunning cur ready \<and> budget \<le> u"
    show ?thesis
    proof (cases "changed \<and> \<not> ?held")
      case False
      then show ?thesis using Some m Cons[of w u] assms(1)
        by (auto simp: Let_def set_trace_simps intro: exI[of _ "[]"])
    next
      case True
      obtain e w1 where e: "cl_update_application cl merged w = (e, w1)" by fastforce
      let ?u = "if e = None \<and> childRunning cur ready then u + 1 else u"
      obtain cs where cs: "set_trace cl w1 cs (snd (converge_children cl existing ready budget ds ?u w1))"
        "int (length (filter (disrupts existing ready) cs)) \<le> max 0 (budget - ?u)" using Cons by blast
      have "converge_children cl existing ready budget (x # ds) u w = converge_children cl existing ready budget ds ?u w1"
        using True Some m e assms(1) by (cases e) (auto simp: Let_def)
      then have "set_trace cl w ((UpdateApp merged, e) # cs) (snd (converge_children cl existing ready budget (x # ds) u w))"
        using cs(1) e by (simp add: set_trace_simps)
      moreover have "int (length (filter (disrupts existing ready) ((UpdateApp merged, e) # cs))) \<le> max 0 (budget - u)"
        using cs(2) True nm Some by (cases e) (auto split: if_splits)
      ultimately show ?thesis by blast
    qed
  qed
qed

lemma convergeServices_makes:
  assumes "\<And>v e. P (CreateSvc v, e)" "\<And>v e. P (UpdateSvc v, e)" "\<And>ns n e. P (DeleteSvc ns n, e)"
  shows "makes cl P w (convergeServices dg cl s apps w)"
proof (cases "cl_services cl w")
  case (Inr all)
  have c: "makes cl P w (fold (converge_service cl byName owned) ds w)" for w byName owned ds
    by (rule makes_fold) (use assms in \<open>auto intro!: makes_calls simp: converge_service_def split: option.splits\<close>)
  have p: "makes cl P w (fold (\<lambda>(n, v) w. if map_of m n \<noteq> None \<or> serviceHasMembers apps v then w
      else snd (cl_delete_service cl (om_namespace (svc_meta v)) n w)) owned w)" for w m owned
    by (rule makes_fold) (use assms in \<open>auto intro!: makes_calls\<close>)
  show ?thesis unfolding convergeServices_def Inr sum.case Let_def
    by (cases "Prune (aset_spec s)"; simp only: not_True_eq_False not_False_eq_True if_True if_False)
      (rule makes_trans[OF c p], rule c)
qed (simp add: convergeServices_def)

lemma reconcileSet_tail:
  assumes "\<And>s e. P (PutStatus s, e)" "\<And>ns n e. P (DeleteApp ns n, e)"
  shows "makes cl P w (put_status cl s st (if prune then prune_children cl existing children w else w))"
proof -
  have "makes cl P w (if prune then prune_children cl existing children w else w)"
    by (simp add: prune_children_makes assms(2))
  then show ?thesis by (rule makes_trans) (rule makes_put_status, rule assms(1))
qed

section \<open>The end of a rollout\<close>

definition settled :: "'q app_map \<Rightarrow> string \<times> 'q application \<Rightarrow> bool" where
  "settled existing x \<longleftrightarrow> (\<exists>cur. map_of existing (fst x) = Some cur \<and> \<not> snd (mergeManaged cur (snd x)))"

text \<open>The applications a pass writes when no write fails.\<close>

fun rolled :: "'q app_map \<Rightarrow> (string, bool) gomap \<Rightarrow> int \<Rightarrow> 'q app_map \<Rightarrow> int \<Rightarrow> 'q application list" where
  "rolled existing ready budget [] u = []"
| "rolled existing ready budget ((n, d) # ds) u =
     (case map_of existing n of
        None \<Rightarrow> d # rolled existing ready budget ds u
      | Some cur \<Rightarrow>
          if \<not> snd (mergeManaged cur d) then rolled existing ready budget ds u
          else if childRunning cur ready \<and> budget \<le> u then []
          else fst (mergeManaged cur d) # rolled existing ready budget ds (if childRunning cur ready then u + 1 else u))"

text \<open>A cluster whose writes go through, seen through the map of the children it holds.\<close>

definition faithful :: "('q, 'w) set_cluster \<Rightarrow> ('w \<Rightarrow> 'q app_map) \<Rightarrow> bool" where
  "faithful cl view \<longleftrightarrow>
     (\<forall>a w. fst (cl_create_application cl a w) = None \<and> view (snd (cl_create_application cl a w)) = goput (app_name a) a (view w)) \<and>
     (\<forall>a w. fst (cl_update_application cl a w) = None \<and> view (snd (cl_update_application cl a w)) = goput (app_name a) a (view w))"

lemma converge_rolled:
  assumes "faithful cl view" "0 < budget"
  shows "view (snd (converge_children cl existing ready budget ds u w)) =
    fold (\<lambda>a. goput (app_name a) a) (rolled existing ready budget ds u) (view w)"
proof (induction ds arbitrary: u w)
  case (Cons x ds)
  obtain n d where [simp]: "x = (n, d)" by fastforce
  have c: "fst (cl_create_application cl a w) = None" "view (snd (cl_create_application cl a w)) = goput (app_name a) a (view w)"
    "fst (cl_update_application cl a w) = None" "view (snd (cl_update_application cl a w)) = goput (app_name a) a (view w)" for a w
    using assms(1) by (auto simp: faithful_def)
  have u: "cl_update_application cl a w = (None, snd (cl_update_application cl a w))" for a
    using c(3) by (metis prod.collapse)
  show ?case
  proof (cases "map_of existing n")
    case None
    then show ?thesis using Cons c(2) by simp
  next
    case (Some cur)
    obtain merged changed where m: "mergeManaged cur d = (merged, changed)" by fastforce
    obtain w1 where w1: "cl_update_application cl merged w = (None, w1)" "view w1 = goput (app_name merged) merged (view w)"
      using u[of merged] c(4)[of merged w] by metis
    show ?thesis using Some m w1 assms(2)
      by (cases changed; cases "childRunning cur ready \<and> budget \<le> u") (auto simp: Let_def Cons)
  qed
qed simp

definition written :: "'q app_map \<Rightarrow> string \<times> 'q application \<Rightarrow> 'q application" where
  "written existing x = (case map_of existing (fst x) of None \<Rightarrow> snd x | Some cur \<Rightarrow> fst (mergeManaged cur (snd x)))"

lemma rolled_mem:
  "a \<in> set (rolled existing ready budget ds u) \<Longrightarrow> \<exists>x \<in> set ds. \<not> settled existing x \<and> a = written existing x"
proof (induction ds arbitrary: u)
  case (Cons x ds)
  obtain n d where [simp]: "x = (n, d)" by fastforce
  show ?case
  proof (cases "a \<in> set (rolled existing ready budget ds u) \<or> a \<in> set (rolled existing ready budget ds (u + 1))")
    case True
    then show ?thesis using Cons.IH by (meson list.set_intros(2))
  next
    case False
    then have "\<not> settled existing x \<and> a = written existing x"
      using Cons.prems by (auto simp: settled_def written_def split: option.splits if_splits)
    then show ?thesis by auto
  qed
qed simp

lemma rolled_progress:
  "x \<in> set ds \<Longrightarrow> \<not> settled existing x \<Longrightarrow> u < budget \<Longrightarrow> rolled existing ready budget ds u \<noteq> []"
proof (induction ds arbitrary: u)
  case (Cons y ds)
  obtain n d where [simp]: "y = (n, d)" by fastforce
  from Cons show ?case by (cases "map_of existing n") (auto simp: settled_def)
qed simp

lemma maps_equal_refl: "distinct (map fst m) \<Longrightarrow> maps_equal m m"
  by (auto simp: maps_equal_def list_all_iff)

lemma mergeManaged_settles:
  assumes "distinct (map fst (app_labels d))"
  shows "\<not> snd (mergeManaged (fst (mergeManaged cur d)) d)" "\<not> snd (mergeManaged d d)"
  using maps_equal_refl[OF assms] by (auto simp: mergeManaged_def Let_def set_node_def)

lemma map_of_fold_goput_base:
  "map_of (fold (\<lambda>a. goput (k a) a) xs m) n = (case find (\<lambda>a. k a = n) (rev xs) of None \<Rightarrow> map_of m n | Some a \<Rightarrow> Some a)"
  by (induction xs rule: rev_induct) (auto simp: gomap_simps)

definition well_rendered :: "'q app_map \<Rightarrow> bool" where
  "well_rendered ds \<longleftrightarrow> distinct (map fst ds) \<and> (\<forall>x \<in> set ds. app_name (snd x) = fst x \<and> distinct (map fst (app_labels (snd x))))"

definition well_named :: "'q app_map \<Rightarrow> bool" where
  "well_named m \<longleftrightarrow> (\<forall>n a. map_of m n = Some a \<longrightarrow> app_name a = n)"

lemma written_facts:
  assumes "well_rendered ds" "well_named existing" "x \<in> set ds"
  shows "app_name (written existing x) = fst x" "\<not> snd (mergeManaged (written existing x) (snd x))"
  using assms mergeManaged_settles[of "snd x"]
  by (auto simp: well_rendered_def well_named_def written_def split: option.splits)

text \<open>After a pass: what was settled is settled, and so is what was written.\<close>

lemma rolled_settled:
  assumes "well_rendered ds" "well_named existing" "x \<in> set ds"
    and "settled existing x \<or> written existing x \<in> set (rolled existing ready budget ds u)"
  shows "settled (fold (\<lambda>a. goput (app_name a) a) (rolled existing ready budget ds u) existing) x"
proof -
  let ?ws = "rolled existing ready budget ds u"
  have w: "a = written existing x" if h: "a \<in> set ?ws" "app_name a = fst x" for a
  proof -
    obtain y where y: "y \<in> set ds" "a = written existing y" using rolled_mem[OF h(1)] by blast
    then have "fst y = fst x" using written_facts(1)[OF assms(1,2) y(1)] h(2) by simp
    then have "y = x" using assms(1,3) y(1) unfolding well_rendered_def distinct_map by (meson inj_onD)
    then show ?thesis using y(2) by simp
  qed
  show ?thesis
  proof (cases "find (\<lambda>a. app_name a = fst x) (rev ?ws)")
    case None
    then have "written existing x \<notin> set ?ws" using written_facts(1)[OF assms(1-3)] by (auto simp: find_None_iff)
    then show ?thesis using assms(4) None by (simp add: settled_def map_of_fold_goput_base)
  next
    case (Some a)
    then have "a = written existing x" using w find_SomeD[OF Some] by simp
    then show ?thesis using Some written_facts(2)[OF assms(1-3)] by (simp add: settled_def map_of_fold_goput_base)
  qed
qed

text \<open>
  Between two passes the scheduler places what has no node, and the nodes bring every child up: the
  rendered marks and the node of a placed child stay.
\<close>

definition comes_back :: "(string, bool) gomap \<Rightarrow> 'q application \<Rightarrow> 'q application \<Rightarrow> bool" where
  "comes_back ready a a' \<longleftrightarrow>
     app_name a' = app_name a \<and> app_labels a' = app_labels a \<and>
     goget [] (om_annotations (app_meta a')) AnnAppsetSpecHash = goget [] (om_annotations (app_meta a)) AnnAppsetSpecHash \<and>
     (app_node_name a \<noteq> [] \<longrightarrow> app_node_name a' = app_node_name a) \<and> childRunning a' ready"

definition recovered :: "(string, bool) gomap \<Rightarrow> 'q app_map \<Rightarrow> 'q app_map \<Rightarrow> bool" where
  "recovered ready m m' \<longleftrightarrow>
     dom (map_of m') = dom (map_of m) \<and>
     (\<forall>n a a'. map_of m n = Some a \<longrightarrow> map_of m' n = Some a' \<longrightarrow> comes_back ready a a')"

lemma recoveredD:
  assumes "recovered ready m m'" "map_of m' n = Some a'"
  obtains a where "map_of m n = Some a" "comes_back ready a a'"
  using assms unfolding recovered_def by (metis domD domI)

lemma recovered_settled:
  assumes "recovered ready m m'" "settled m x"
  shows "settled m' x"
proof -
  obtain a where a: "map_of m (fst x) = Some a" "\<not> snd (mergeManaged a (snd x))" using assms(2) by (auto simp: settled_def)
  obtain a' where a': "map_of m' (fst x) = Some a'" using assms(1) a(1) unfolding recovered_def by blast
  have "comes_back ready a a'" using assms(1) a(1) a' unfolding recovered_def by blast
  then show ?thesis using a(2) a' by (auto simp: settled_def mergeManaged_def Let_def comes_back_def)
qed

lemma recovered_named: "recovered ready m m' \<Longrightarrow> well_named m \<Longrightarrow> well_named m'"
  unfolding well_named_def by (auto elim!: recoveredD simp: comes_back_def)

lemma recovered_running: "recovered ready m m' \<Longrightarrow> map_of m' n = Some a' \<Longrightarrow> childRunning a' ready"
  by (auto elim!: recoveredD simp: comes_back_def)

lemma strict_decrease:
  fixes f :: "nat \<Rightarrow> nat"
  assumes "\<And>i. 0 < f i \<Longrightarrow> f (Suc i) < f i"
  shows "\<exists>k \<le> f 0. f k = 0"
proof -
  have "\<exists>k \<le> n. f (j + k) = 0" if "f j \<le> n" for n j
    using that
  proof (induction n arbitrary: j)
    case (Suc n)
    show ?case
    proof (cases "f j = 0")
      case False
      then have "f (Suc j) \<le> n" using assms[of j] Suc.prems by simp
      then obtain k where "k \<le> n" "f (Suc j + k) = 0" using Suc.IH by blast
      then show ?thesis by (intro exI[of _ "Suc k"]) simp
    qed (auto intro: exI[of _ 0])
  qed (auto intro: exI[of _ 0])
  from this[of 0] show ?thesis by fastforce
qed

end
