(* ===== verification/AppSetProps.thy ===== *)
theory AppSetProps
  imports AppSetRollout
begin

text \<open>Properties of the ApplicationSet loop, for any cluster it runs against.\<close>

section \<open>Whose objects a pass touches\<close>





section \<open>The disruption budget\<close>

text \<open>C35: A rollout stays within its budget. In one pass over a set with a positive maxUnavailable, the children that are not
  running and the running ones that are rewritten are together no more than the budget, or than were not running to
  begin with.\<close>

theorem rollout_budget:
  assumes "\<not> Set_Deleting s" "Expand dg s nodes = Inr desired" "0 < RolloutBudget (aset_spec s)"
    and "children = fst (admitted_children s (rendered_map desired) (ownedChildren s apps))"
    and "unavailable = unavailable_children (ownedChildren s apps) children (readyNodes nodes)"
  shows "\<exists>cs. set_trace cl w cs (reconcileSet dg cl nodes apps s w) \<and>
    unavailable + int (length (filter (disrupts (ownedChildren s apps) (readyNodes nodes)) cs))
      \<le> max (RolloutBudget (aset_spec s)) unavailable"
proof -
  let ?ex = "ownedChildren s apps" and ?b = "RolloutBudget (aset_spec s)" and ?r = "readyNodes nodes"
  let ?Q = "\<lambda>ce. \<not> disrupts ?ex ?r ce" and ?w1 = "convergeServices dg cl s apps w"
  obtain ic pl where ch: "admitted_children s (rendered_map desired) ?ex = (children, ic, pl)"
    using assms(4) by (metis prod.collapse)
  obtain held w2 where w2: "converge_children cl ?ex ?r ?b (sorted_entries children) unavailable ?w1 = (held, w2)" by fastforce
  obtain cs2 where cs2: "set_trace cl ?w1 cs2 w2" "int (length (filter (disrupts ?ex ?r) cs2)) \<le> max 0 (?b - unavailable)"
    using converge_budget[OF assms(3), of ?ex cl ?w1 ?r "sorted_entries children" unavailable] ownedChildren_lookup(3)[of s apps]
    unfolding w2 snd_conv by blast
  have w2': "converge_children cl ?ex ?r ?b (sorted_entries children) (if 0 < ?b then unavailable_children ?ex children ?r else 0) ?w1 = (held, w2)"
    using w2 assms(3,5) by simp
  obtain st where st: "reconcileSet dg cl nodes apps s w =
      put_status cl s st (if Prune (aset_spec s) then prune_children cl ?ex children w2 else w2)"
    by (rule reconcileSet_live[OF assms(1,2) ch w2'])
  have "makes cl ?Q w2 (reconcileSet dg cl nodes apps s w)" unfolding st by (rule reconcileSet_tail) simp_all
  then obtain cs3 where cs3: "set_trace cl w2 cs3 (reconcileSet dg cl nodes apps s w)" "filter (disrupts ?ex ?r) cs3 = []"
    by (rule undisturbed) blast
  obtain cs1 where cs1: "set_trace cl w cs1 ?w1" "filter (disrupts ?ex ?r) cs1 = []"
    by (rule undisturbed[of cl ?Q w ?w1 ?ex ?r]) (auto intro: convergeServices_makes)
  show ?thesis
    using set_trace_append[OF cs1(1) set_trace_append[OF cs2(1) cs3(1)]] cs2(2) cs1(2) cs3(2)
    by (intro exI[of _ "cs1 @ cs2 @ cs3"]) auto
qed

section \<open>Init steps\<close>

definition step_done :: "'q app_map \<Rightarrow> string \<Rightarrow> bool" where
  "step_done existing n \<longleftrightarrow>
     (\<exists>cur. map_of existing n = Some cur \<and> Finished cur \<and> ast_phase (app_status cur) \<noteq> AppPhaseFailed)"

lemma stepHold_None: "stepHold c names existing = None \<Longrightarrow> n \<in> set names \<Longrightarrow> step_done existing n"
  by (induction names) (auto simp: step_done_def split: option.splits if_splits)

lemma init_steps_done:
  assumes "init_steps isInit desired existing cs allowed = (m, cond)" "(n, a) \<in> set m" "\<not> goget False isInit (componentOf a)"
    and "\<And>n a. (n, a) \<in> set allowed \<Longrightarrow> goget False isInit (componentOf a)" "distinct (map fst desired)"
    and "c \<in> set cs" "goget False isInit (nas_name c)" "k \<in> set (childrenOf desired (nas_name c))"
  shows "step_done existing k"
  using assms
proof (induction cs arbitrary: allowed)
  case (Cons c' cs)
  show ?case
  proof (cases "goget False isInit (nas_name c')")
    case False
    then show ?thesis using Cons.IH[of allowed] Cons.prems by auto
  next
    case True
    let ?names = "childrenOf desired (nas_name c')"
    let ?allowed = "gocopy allowed (entries_of desired ?names)"
    have al: "goget False isInit (componentOf x)" if h: "(i, x) \<in> set ?allowed" for i x
    proof (cases "(i, x) \<in> set allowed")
      case False
      then have e: "(i, x) \<in> set (entries_of desired ?names)" using gocopy_mem[OF h] by blast
      then obtain y where y: "(i, y) \<in> set desired" "componentOf y = nas_name c'"
        by (auto simp: entries_of_def List.map_filter_def childrenOf_def)
      have "map_of desired i = Some y" using y(1) Cons.prems(5) by simp
      then have "x = y" using entries_of_mem[OF e] by simp
      then show ?thesis using y(2) True by simp
    qed (rule Cons.prems(4))
    show ?thesis
    proof (cases "stepHold (nas_name c') ?names existing")
      case None
      show ?thesis
      proof (cases "c = c'")
        case True
        then show ?thesis using stepHold_None[OF None] Cons.prems(8) by simp
      next
        case False
        then show ?thesis using Cons.IH[of ?allowed] Cons.prems True None al by (auto simp: Let_def)
      qed
    next
      case (Some h)
      then have "(n, a) \<in> set ?allowed" using Cons.prems(1,2) True by (auto simp: Let_def)
      then show ?thesis using al Cons.prems(3) by blast
    qed
  qed
qed simp

lemma distinct_fold_goput: "distinct (map fst m) \<Longrightarrow> distinct (map fst (fold (\<lambda>a. goput (k a) a) xs m))"
  by (induction xs arbitrary: m) (auto simp: distinct_goput)

lemma add_child_fold_distinct: "rfold add_child cs ds = Inr ds' \<Longrightarrow> distinct (map app_name ds) \<Longrightarrow> distinct (map app_name ds')"
  by (induction cs arbitrary: ds) (auto simp: add_child_def result_simps split: if_splits)

lemma Expand_distinct: "Expand dg s nodes = Inr ds \<Longrightarrow> distinct (map app_name ds)"
proof -
  have "rfold (\<lambda>c. rfold add_child (component_children dg s nodes c)) cs ds0 = Inr ds \<Longrightarrow> distinct (map app_name ds0) \<Longrightarrow>
      distinct (map app_name ds)" for cs ds0
    by (induction cs arbitrary: ds0) (auto simp: result_simps dest: add_child_fold_distinct)
  then show "Expand dg s nodes = Inr ds \<Longrightarrow> distinct (map app_name ds)" by (fastforce simp: Expand_def split: if_splits)
qed

lemma rendered_map_lookup:
  assumes "distinct (map app_name ds)" "d \<in> set ds"
  shows "map_of (rendered_map ds) (app_name d) = Some d"
proof -
  obtain d' where d': "find (\<lambda>a. app_name a = app_name d) (rev ds) = Some d'"
    using assms(2) by (cases "find (\<lambda>a. app_name a = app_name d) (rev ds)") (auto simp: find_None_iff)
  then have "d' = d" using find_SomeD[OF d'] assms unfolding distinct_map by (auto dest: inj_onD)
  then show ?thesis using d' by (simp add: rendered_map_def map_of_fold_goput)
qed

text \<open>C36: Init steps come first. A pass creates a child of a service component only when every child of every
  run-to-completion component of the set exists, has finished and has not failed.\<close>

theorem init_before_services:
  assumes "\<not> Set_Deleting s" "Expand dg s nodes = Inr desired"
  shows "makes cl (\<lambda>ce. \<forall>a. fst ce = CreateApp a \<longrightarrow> \<not> goget False (initComponents s) (componentOf a) \<longrightarrow>
      (\<forall>d \<in> set desired. goget False (initComponents s) (componentOf d) \<longrightarrow> step_done (ownedChildren s apps) (app_name d)))
    w (reconcileSet dg cl nodes apps s w)"
proof -
  let ?ex = "ownedChildren s apps" and ?b = "RolloutBudget (aset_spec s)" and ?r = "readyNodes nodes"
  let ?P = "\<lambda>ce. \<forall>a. fst ce = CreateApp a \<longrightarrow> \<not> goget False (initComponents s) (componentOf a) \<longrightarrow>
      (\<forall>d \<in> set desired. goget False (initComponents s) (componentOf d) \<longrightarrow> step_done ?ex (app_name d))"
  obtain children ic pl where ch: "admitted_children s (rendered_map desired) ?ex = (children, ic, pl)" using prod_cases3 by blast
  have steps: "step_done ?ex (app_name d)"
    if a: "(n, a) \<in> set children" "\<not> goget False (initComponents s) (componentOf a)"
      and d: "d \<in> set desired" "goget False (initComponents s) (componentOf d)" for n a d
  proof -
    obtain g where g: "(n, g) \<in> set (fst (initGate s (rendered_map desired) ?ex))" "app_meta a = app_meta g"
      using admitted_children_mem[of n a s "rendered_map desired" ?ex] a(1) ch by auto
    obtain c where c: "c \<in> set (ass_applications (aset_spec s))" "componentOf d = nas_name c"
      using Expand_rendered[OF assms(2) d(1)] by (auto simp: rendered_by_def)
    have "(app_name d, d) \<in> set (rendered_map desired)"
      using rendered_map_lookup[OF Expand_distinct[OF assms(2)] d(1)] by (rule map_of_SomeD)
    then have k: "app_name d \<in> set (childrenOf (rendered_map desired) (nas_name c))"
      using c(2) by (auto simp: childrenOf_def intro!: rev_image_eqI)
    obtain m cond where i: "init_steps (initComponents s) (rendered_map desired) ?ex (ass_applications (aset_spec s)) [] = (m, cond)"
      by fastforce
    show ?thesis
      by (rule init_steps_done[OF i _ _ _ _ c(1) _ k, of n g])
        (use g a(2) d(2) c(2) i in \<open>simp_all add: initGate_def componentOf_def rendered_map_def distinct_fold_goput\<close>)
  qed
  let ?u = "if 0 < ?b then unavailable_children ?ex children ?r else 0" and ?w1 = "convergeServices dg cl s apps w"
  obtain held w2 where w2: "converge_children cl ?ex ?r ?b (sorted_entries children) ?u ?w1 = (held, w2)" by fastforce
  have "makes cl ?P ?w1 (snd (converge_children cl ?ex ?r ?b (sorted_entries children) ?u ?w1))"
    by (rule converge_children_makes) (auto dest!: sorted_entries_mem intro: steps)
  then have c: "makes cl ?P ?w1 w2" unfolding w2 snd_conv .
  have c1: "makes cl ?P w ?w1" by (rule convergeServices_makes) simp_all
  obtain st where st: "reconcileSet dg cl nodes apps s w =
      put_status cl s st (if Prune (aset_spec s) then prune_children cl ?ex children w2 else w2)"
    by (rule reconcileSet_live[OF assms ch w2])
  have "makes cl ?P w2 (reconcileSet dg cl nodes apps s w)" unfolding st by (rule reconcileSet_tail) simp_all
  then show ?thesis by (rule makes_trans[OF makes_trans[OF c1 c]])
qed

section \<open>The end of a rollout\<close>



section \<open>A cluster that holds a map of children\<close>

definition demo_set :: "int application_set" where
  "demo_set =
     \<lparr>aset_meta = zero_object_meta\<lparr>om_name := ''shop'', om_namespace := ''dev'', om_uid := ''u1''\<rparr>,
      aset_spec = zero_set_spec
        \<lparr>ass_applications := [\<lparr>nas_name = ''web'', nas_metadata = \<lparr>cm_labels = [], cm_annotations = []\<rparr>, nas_spec = zero_application_spec,
           nas_scale = \<lparr>sca_replicas = None, sca_node_spread = None\<rparr>\<rparr>],
         ass_rollout := \<lparr>ro_max_unavailable = 1, ro_prune = None\<rparr>\<rparr>,
      aset_status = zero_set_status\<rparr>"

definition demo_digests :: "int digests" where
  "demo_digests = \<lparr>dg_spec_hash = (\<lambda>_. ''h2''), dg_name_suffix = (\<lambda>_. ''0'')\<rparr>"

definition demo_children :: "(int, int app_map) set_cluster" where
  "demo_children =
     \<lparr>cl_sets = (\<lambda>_. Inr [demo_set]), cl_nodes = (\<lambda>_. Inr []), cl_applications = (\<lambda>m. Inr (map snd m)),
      cl_create_application = (\<lambda>a m. (None, goput (app_name a) a m)), cl_update_application = (\<lambda>a m. (None, goput (app_name a) a m)),
      cl_delete_application = (\<lambda>_ n m. (None, godel n m)), cl_services = (\<lambda>_. Inr []),
      cl_create_service = (\<lambda>_ m. (None, m)), cl_update_service = (\<lambda>_ m. (None, m)), cl_delete_service = (\<lambda>_ _ m. (None, m)),
      cl_update_set_status = (\<lambda>_ m. (None, m)), cl_update_set = (\<lambda>_ m. (None, m)), cl_delete_set = (\<lambda>_ _ m. (None, m))\<rparr>"

lemma demo_set_simps [simp]:
  "om_name (aset_meta demo_set) = ''shop''" "om_namespace (aset_meta demo_set) = ''dev''" "\<not> Set_Deleting demo_set"
  "RolloutBudget (aset_spec demo_set) = 1" "services_distinct demo_children"
  by (simp_all add: demo_set_def zero_object_meta_def Set_Deleting_def RolloutBudget_def services_distinct_def demo_children_def)

definition demo_child :: "int application" where
  "demo_child = buildChild demo_digests demo_set (hd (ass_applications (aset_spec demo_set))) [] None"

lemma demo_expand: "Expand demo_digests demo_set [] = Inr [demo_child]"
  by (simp add: Expand_def demo_child_def component_children_def replicaIndexes_def add_child_def demo_set_def)

text \<open>A running child that carries an older rendering.\<close>

definition demo_old :: "int application" where
  "demo_old =
     \<lparr>app_meta = zero_object_meta\<lparr>om_name := ''shop-web'', om_namespace := ''dev'', om_annotations := [(AnnAppsetSpecHash, ''h1'')]\<rparr>,
      app_spec = app_spec (set_node ''n1'' zero_application),
      app_status = zero_application_status\<lparr>ast_phase := AppPhaseRunning\<rparr>\<rparr>"

definition demo_world :: "nat \<Rightarrow> int app_map" where
  "demo_world i = [(''shop-web'', if i = 0 then demo_old else fst (mergeManaged demo_old demo_child))]"

lemma demo_child_simps [simp]:
  "app_name demo_child = ''shop-web''" "app_node_name demo_child = []"
  "goget [] (om_annotations (app_meta demo_child)) AnnAppsetSpecHash = ''h2''" "distinct (map fst (app_labels demo_child))"
  by (simp_all add: demo_child_def buildChild_def Let_def demo_set_def sanitizeName_def child_name_def child_spec_def serviceFor_def
      renderedServiceName_def zero_application_spec_def projectCommon_def zero_set_spec_def gomap_simps demo_digests_def zero_object_meta_def
      trim_chars_def ascii_lower_def name_char_def char_range_def childLabels_def mergeStrings_def distinct_goput distinct_gocopy)


lemma demo_old_simps [simp]:
  "app_name demo_old = ''shop-web''" "app_node_name demo_old = ''n1''" "childRunning demo_old [(''n1'', True)]"
  "snd (mergeManaged demo_old demo_child)"
  by (simp_all add: demo_old_def zero_object_meta_def set_node_def childRunning_def zero_application_def zero_application_status_def goget_def
      mergeManaged_def Let_def gomap_simps demo_child_simps(3)[unfolded goget_def])

lemma demo_merged_simps [simp]:
  "app_node_name (fst (mergeManaged demo_old demo_child)) = ''n1''" "childRunning (fst (mergeManaged demo_old demo_child)) [(''n1'', True)]"
  using demo_old_simps(2,3) by (auto simp: mergeManaged_def Let_def set_node_def childRunning_def)


theorem rollout_budget_witness:
  "\<exists>cs. set_trace demo_children (demo_world 0) cs (reconcileSet demo_digests demo_children [] [] demo_set (demo_world 0)) \<and>
     length (filter (disrupts (ownedChildren demo_set []) (readyNodes ([] :: int node list))) cs) \<le> 1"
proof -
  have "unavailable_children (ownedChildren demo_set []) m (readyNodes ([] :: int node list)) = 0" for m
    by (simp add: unavailable_children_def ownedChildren_def)
  then show ?thesis
    using rollout_budget[OF _ demo_expand _ refl refl, of demo_children "demo_world 0" "[]"] by auto
qed

theorem init_before_services_witness:
  "makes demo_children (\<lambda>ce. \<forall>a. fst ce = CreateApp a \<longrightarrow> \<not> goget False (initComponents demo_set) (componentOf a) \<longrightarrow>
      (\<forall>d \<in> set [demo_child]. goget False (initComponents demo_set) (componentOf d) \<longrightarrow> step_done (ownedChildren demo_set []) (app_name d)))
    [] (reconcileSet demo_digests demo_children [] [] demo_set [])"
  by (rule init_before_services[OF _ demo_expand]) simp


end
