(* ===== verification/NodeCSR.thy ===== *)
theory NodeCSR
  imports AdmissionPolicy SchedPlugins
begin

text \<open>
  The approval loop for node certificates (\<^verbatim>\<open>controller/loops/nodecsr/csr.go\<close>): a request is signed when
  it is a node renewing its own certificate, and held with a reason otherwise; spent and stale requests
  are deleted.

  The interface \<open>Cluster\<close> is the record \<open>csr_cluster\<close> over a world \<open>'w\<close>. Parameters: the signer, a
  function of the request, the groups and the lifetime; \<open>csr_cn\<close>, the common name of a PEM request or
  the error, as in the admission policy; and the clock. Reasons are shortened.
\<close>

section \<open>The loop\<close>

record 'w csr_cluster =
  cq_csrs :: "'w \<Rightarrow> (string, csr list) result"
  cq_update_status :: "csr \<Rightarrow> 'w \<Rightarrow> string option \<times> 'w"
  cq_delete :: "string \<Rightarrow> 'w \<Rightarrow> string option \<times> 'w"

type_synonym signer = "string \<Rightarrow> string list \<Rightarrow> int \<Rightarrow> (string, string) result"


record csr_controller =
  ct_signer :: "signer option"
  ct_auto_approve :: bool
  ct_ttl :: int
  ct_retention :: int
  ct_max_pending_age :: int



definition decided :: "csr \<Rightarrow> bool" where
  "decided c \<longleftrightarrow> cst_phase (csr_stat c) \<noteq> [] \<and> cst_phase (csr_stat c) \<noteq> CSRPending"

definition expired :: "csr_controller \<Rightarrow> int \<Rightarrow> csr \<Rightarrow> bool" where
  "expired ct now c =
     (case om_creation_timestamp (csr_meta c) of
        None \<Rightarrow> False
      | Some created \<Rightarrow>
          let age = time_sub now created
          in decided c \<and> age > ct_retention ct \<or> \<not> decided c \<and> age > ct_max_pending_age ct)"

text \<open>\<open>gc\<close>: whether the request was deleted, and the world after it.\<close>

definition csr_gc :: "'w csr_cluster \<Rightarrow> csr_controller \<Rightarrow> int \<Rightarrow> csr \<Rightarrow> 'w \<Rightarrow> bool \<times> 'w" where
  "csr_gc cl ct now c w =
     (if \<not> expired ct now c then (False, w)
      else case cq_delete cl (om_name (csr_meta c)) w of (Some e, w') \<Rightarrow> (False, w') | (None, w') \<Rightarrow> (True, w'))"

text \<open>Why a request is not a node renewing its own certificate; empty when it is.\<close>

definition notSelfRotation :: "csr \<Rightarrow> string \<Rightarrow> string" where
  "notSelfRotation c cn =
     (let requester = goget [] (om_annotations (csr_meta c)) AnnRequester
      in if cn = [] then ''the request carries no common name''
         else if requester = [] then ''the request carries no verified requester''
         else if GroupNodes \<notin> set (split_on CHR '','' (goget [] (om_annotations (csr_meta c)) AnnRequesterGroups))
         then requester @ '' is not a node identity''
         else if requester \<noteq> cn then requester @ '' asks for a certificate naming '' @ cn
         else [])"

definition csr_hold :: "csr \<Rightarrow> string \<Rightarrow> csr_status option" where
  "csr_hold c why =
     (if cst_reason (csr_stat c) \<noteq> [] then None
      else Some \<lparr>cst_phase = CSRPending, cst_certificate = [], cst_reason = ''held: '' @ why\<rparr>)"

definition csr_sign :: "csr_controller \<Rightarrow> csr \<Rightarrow> csr_status option" where
  "csr_sign ct c =
     (case ct_signer ct of
        None \<Rightarrow> Some \<lparr>cst_phase = CSRApproved, cst_certificate = [], cst_reason = []\<rparr>
      | Some sign \<Rightarrow>
          (case sign (csr_request c) [GroupNodes] (ct_ttl ct) of
             Inl _ \<Rightarrow> None
           | Inr cert \<Rightarrow> Some \<lparr>cst_phase = CSRApproved, cst_certificate = cert, cst_reason = []\<rparr>))"

text \<open>The status a pass writes on a request, if any.\<close>

definition csr_verdict :: "(string \<Rightarrow> (string, string) result) \<Rightarrow> csr_controller \<Rightarrow> csr \<Rightarrow> csr_status option" where
  "csr_verdict csr_cn ct c =
     (if decided c then None
      else case csr_cn (csr_request c) of
             Inl e \<Rightarrow> Some \<lparr>cst_phase = CSRDenied, cst_certificate = [], cst_reason = ''unparseable CSR: '' @ e\<rparr>
           | Inr cn \<Rightarrow>
               let why = notSelfRotation c cn
               in if why \<noteq> [] then csr_hold c why
                  else if \<not> ct_auto_approve ct then csr_hold c ''automatic node certificate rotation is off''
                  else csr_sign ct c)"

definition reconcileCSR ::
  "(string \<Rightarrow> (string, string) result) \<Rightarrow> 'w csr_cluster \<Rightarrow> csr_controller \<Rightarrow> csr \<Rightarrow> 'w \<Rightarrow> 'w" where
  "reconcileCSR csr_cn cl ct c w =
     (case csr_verdict csr_cn ct c of None \<Rightarrow> w | Some st \<Rightarrow> snd (cq_update_status cl (c\<lparr>csr_stat := st\<rparr>) w))"

definition csr_reconcileOnce ::
  "(string \<Rightarrow> (string, string) result) \<Rightarrow> 'w csr_cluster \<Rightarrow> csr_controller \<Rightarrow> ('w \<Rightarrow> int) \<Rightarrow> 'w \<Rightarrow> 'w" where
  "csr_reconcileOnce csr_cn cl ct now w =
     (case cq_csrs cl w of
        Inl _ \<Rightarrow> w
      | Inr csrs \<Rightarrow>
          fold (\<lambda>c w. case csr_gc cl ct (now w) c w of (True, w') \<Rightarrow> w' | (False, w') \<Rightarrow> reconcileCSR csr_cn cl ct c w') csrs w)"

section \<open>What the loop signs\<close>
















end
