(* ===== verification/NodeMetrics.thy ===== *)
theory NodeMetrics
  imports SchedPlugins
begin

text \<open>
  The measured half of monitoring (\<^verbatim>\<open>controller/nodeserver/metrics.go\<close>): the last two samples of every
  workload and every node, and the rate between them. Times are nanoseconds, \<open>None\<close> the zero time; the
  counters are \<open>int64\<close>. A division by zero is the panic it is in Go (\<open>Inl\<close>).
\<close>

abbreviation metricsRetention :: int where "metricsRetention \<equiv> 120000000000"

record sample =
  sm_namespace :: string
  sm_name :: string
  sm_node :: string
  sm_cpu_usec :: int
  sm_cpu_throttled_usec :: int
  sm_memory_bytes :: int
  sm_memory_peak_bytes :: int
  sm_pids :: int
  sm_oom_kills :: int
  sm_at :: gotime
  sm_received :: gotime

record rate =
  rt_milli_cores :: int
  rt_memory_bytes :: int
  rt_window :: int
  rt_at :: gotime

record entry =
  en_prev :: sample
  en_cur :: sample

definition zero_sample :: sample where
  "zero_sample =
     \<lparr>sm_namespace = [], sm_name = [], sm_node = [], sm_cpu_usec = 0, sm_cpu_throttled_usec = 0, sm_memory_bytes = 0,
      sm_memory_peak_bytes = 0, sm_pids = 0, sm_oom_kills = 0, sm_at = None, sm_received = None\<rparr>"

definition zero_entry :: entry where
  "zero_entry = \<lparr>en_prev = zero_sample, en_cur = zero_sample\<rparr>"

datatype panic = DivideByZero

text \<open>The rate: absent until two samples exist, the second later than the first.\<close>

definition entry_rate :: "entry \<Rightarrow> (panic, rate option) result" where
  "entry_rate e =
     (case (sm_at (en_prev e), sm_at (en_cur e)) of
        (Some p, Some c) \<Rightarrow>
          if c \<le> p then Inr None
          else let window = time_sub c p; deltaCPU = wrap64 (sm_cpu_usec (en_cur e) - sm_cpu_usec (en_prev e))
               in if deltaCPU < 0 then Inr None
                  else let usec = window div 1000
                       in if usec = 0 then Inl DivideByZero
                          else Inr (Some \<lparr>rt_milli_cores = godiv (wrap64 (deltaCPU * 1000)) usec,
                                          rt_memory_bytes = sm_memory_bytes (en_cur e), rt_window = window, rt_at = Some c\<rparr>)
      | _ \<Rightarrow> Inr None)"

section \<open>The store\<close>

record metrics_store =
  ms_by :: "(string, entry) gomap"
  ms_nodes :: "(string, entry) gomap"


definition advance :: "entry \<Rightarrow> sample \<Rightarrow> entry" where
  "advance e s = (if sm_at (en_cur e) \<noteq> None then \<lparr>en_prev = en_cur e, en_cur = s\<rparr> else e\<lparr>en_cur := s\<rparr>)"


record node_usage =
  nu_cpu_usec :: int
  nu_memory_used_bytes :: int
  nu_memory_total_bytes :: int
  nu_timestamp_unix_nano :: int


definition metrics_putNode :: "int \<Rightarrow> string \<Rightarrow> node_usage \<Rightarrow> metrics_store \<Rightarrow> metrics_store" where
  "metrics_putNode now node nu m =
     (if node = [] then m
      else m\<lparr>ms_nodes := goput node (advance (goget zero_entry (ms_nodes m) node)
             (zero_sample\<lparr>sm_name := node, sm_node := node, sm_cpu_usec := nu_cpu_usec nu, sm_memory_bytes := nu_memory_used_bytes nu,
               sm_memory_peak_bytes := nu_memory_total_bytes nu, sm_at := Some (nu_timestamp_unix_nano nu),
               sm_received := Some now\<rparr>)) (ms_nodes m)\<rparr>)"

text \<open>An entry is read while its last report is recent, on the controller's clock.\<close>

definition stale_entry :: "int \<Rightarrow> entry \<Rightarrow> bool" where
  "stale_entry now e = (case sm_received (en_cur e) of None \<Rightarrow> True | Some r \<Rightarrow> time_sub now r > metricsRetention)"

definition fresh_entry :: "int \<Rightarrow> (string, entry) gomap \<Rightarrow> string \<Rightarrow> entry option" where
  "fresh_entry now m key = (case map_of m key of None \<Rightarrow> None | Some e \<Rightarrow> if stale_entry now e then None else Some e)"

definition Metrics :: "int \<Rightarrow> string \<Rightarrow> string \<Rightarrow> metrics_store \<Rightarrow> sample option" where
  "Metrics now namespace name m = map_option en_cur (fresh_entry now (ms_by m) (namespace @ ''/'' @ name))"


definition NodeRate :: "int \<Rightarrow> string \<Rightarrow> metrics_store \<Rightarrow> (panic, rate option) result" where
  "NodeRate now node m = (case fresh_entry now (ms_nodes m) node of None \<Rightarrow> Inr None | Some e \<Rightarrow> entry_rate e)"

definition all_rates :: "int \<Rightarrow> (string, entry) gomap \<Rightarrow> (panic, (string, rate) gomap) result" where
  "all_rates now m =
     rfold (\<lambda>(key, e) out. if stale_entry now e then Inr out
              else rbind (entry_rate e) (\<lambda>r. Inr (case r of None \<Rightarrow> out | Some x \<Rightarrow> goput key x out))) m []"

definition AllRates :: "int \<Rightarrow> metrics_store \<Rightarrow> (panic, (string, rate) gomap) result" where
  "AllRates now m = all_rates now (ms_by m)"

definition AllNodeRates :: "int \<Rightarrow> metrics_store \<Rightarrow> (panic, (string, rate) gomap) result" where
  "AllNodeRates now m = all_rates now (ms_nodes m)"

definition fresh_samples :: "int \<Rightarrow> (string, entry) gomap \<Rightarrow> sample list" where
  "fresh_samples now m = map (en_cur \<circ> snd) (filter (\<lambda>(key, e). \<not> stale_entry now e) m)"

definition AllMetrics :: "int \<Rightarrow> metrics_store \<Rightarrow> sample list" where
  "AllMetrics now m = sort_key (\<lambda>s. [sm_namespace s, sm_name s]) (fresh_samples now (ms_by m))"

definition AllNodeMetrics :: "int \<Rightarrow> metrics_store \<Rightarrow> sample list" where
  "AllNodeMetrics now m = sort_key sm_node (fresh_samples now (ms_nodes m))"

section \<open>The rate of two reports\<close>




end
