(* ===== verification/Spec2Isabelle.thy ===== *)
theory Spec2Isabelle
  imports SchedProps StoreProps ServiceProps AuthzProps UidProps AppSetProps NodeCSR NodeMetrics
begin

text \<open>
  A verification development of horchestra, an orchestrator whose controller keeps desired state in an
  embedded database and whose nodes run each application as one confined process.

  \<^bold>\<open>The parts and how they interact.\<close> A client's write reaches the service layer
  (\<^verbatim>\<open>controller/service\<close>), which decodes it, binds it to the namespace of the URL, runs the admission
  chain (\<^verbatim>\<open>controller/admission\<close>) over it and hands the admitted object to the store
  (\<^verbatim>\<open>pkg/storage/bolt\<close>). Two admission plugins ask the authorizer (\<^verbatim>\<open>controller/authz\<close>), whose policy is
  a projection of the stored roles and bindings. Two loops act on the stored objects: the scheduler
  (\<^verbatim>\<open>controller/loops/scheduler\<close>) gives every unplaced application a node, and the ApplicationSet loop
  (\<^verbatim>\<open>controller/loops/appset\<close>) renders sets into child applications and services and takes them down again.

  \<^bold>\<open>Theories.\<close>
  \<^item> \<open>Prelude\<close>: results with errors (\<open>rbind\<close>, \<open>guard\<close>, \<open>rfold\<close>), Go maps as association lists (\<open>goget\<close>,
    \<open>goput\<close>, \<open>godel\<close>), \<open>int64\<close> arithmetic (\<open>wrap64\<close>) and decimal numerals.
  \<^item> \<open>CoreTypes\<close>, \<open>ApiTypes\<close>, \<open>ApiText\<close>, \<open>Ids\<close>, \<open>NetIP\<close>: the Kinds of \<^verbatim>\<open>api/core/v1\<close>, \<^verbatim>\<open>api/rbac/v1\<close>,
    \<^verbatim>\<open>api/certificates/v1\<close> and \<^verbatim>\<open>api/secrets/v1\<close> as records, one constructor of \<open>api_value\<close> per Kind, their
    deciding methods, and what the code uses of the packages \<open>strings\<close>, \<open>path\<close>, \<open>strconv\<close> and \<open>net/netip\<close>.
  \<^item> \<open>SchedFramework\<close>, \<open>SchedPlugins\<close>, \<open>GoFloat\<close>, \<open>Scheduler\<close>: the extension points and snapshot of
    \<^verbatim>\<open>framework/framework.go\<close>, the nine plugins, IEEE double arithmetic for their scores, and a whole pass
    (\<open>scheduleOnce\<close>). \<open>SchedulePass\<close> and \<open>SchedBinding\<close> hold the invariants of a pass, \<open>SchedProps\<close> the
    properties: no overcommitment, anti-affinity, the rollback of a failed binding, the constraints of a
    binding, colocated volumes, the order of the queue and the bounds of the scores.
  \<^item> \<open>Storage\<close>, \<open>BoltStore\<close>: \<^verbatim>\<open>api/storage\<close>, the scheme's decoding and every operation of the bolt store over
    the parameter \<open>bbolt\<close>, a record of the database's calls. \<open>BoltLaws\<close> states the contract of that
    database as the locale \<open>bbolt_laws\<close> and interprets it on association lists; \<open>BoltSpec\<close>, \<open>BoltOps\<close>,
    \<open>BoltEffects\<close> and \<open>BoltRuns\<close> give the storage invariant, the effect of every operation and the runs;
    \<open>BoltDemo\<close> a concrete run, \<open>BoltProps\<close> the properties. \<open>MemStore\<close> is the in-memory store,
    \<open>VersionedStore\<close> the abstract store both implement (locale \<open>versioned_store\<close>), and \<open>StoreProps\<close> the
    refinements and what follows for every client.
  \<^item> \<open>Admission\<close>, \<open>AdmissionWorkload\<close>, \<open>AdmissionPolicy\<close>, \<open>AdmissionRefs\<close>, \<open>AdmissionAuthz\<close>, \<open>Authz\<close>: the chain,
    every plugin in the order of the chain, the two checks that ask the authorizer, the attributes of a
    request, the projection of the roles into policy lines and the decision. Casbin's enforcer is a
    parameter with the contract \<open>casbin_laws\<close>, interpreted on the matcher of the model file in
    \<open>AuthzFacts\<close>. \<open>AuthzProps\<close> shows that the decision is the RBAC reading of the stored roles and that
    nobody grants more than they hold; \<open>UidProps\<close> that host ids handed out are usable and not shared.
  \<^item> \<open>ApiCodec\<close>, \<open>ServiceLayer\<close>: the objects as the stores see them with their round trip, and every
    operation of the service but Watch. \<open>ServiceRuns\<close> is the contract between the service and its store
    (locale \<open>object_store\<close>, interpreted on the bolt store), \<open>ServiceSafety\<close> the interleaved runs
    (\<open>service_step\<close>: a request is admitted on one state and committed on a later one), \<open>ChainFacts\<close>,
    \<open>GuardedService\<close>, \<open>ServicePolicy\<close>, \<open>ServiceDelete\<close> and \<open>FinalizerFacts\<close> what the chain guarantees and how the
    writes keep it, \<open>ServiceDemo\<close> concrete runs, \<open>ServiceProps\<close> the properties.
  \<^item> \<open>AppSetExpand\<close>: the rendering of a set.

  \<^bold>\<open>Bounds.\<close> Every definition is total and executable; the loops that end for an arithmetic reason
  (\<open>free_block\<close>, \<open>free_id\<close>, \<open>firstFree\<close>) carry a measure, so no fuel is used. Integers that can overflow
  are kept at their width. The resourceVersion counter is modulo \<open>2 ^ 64\<close>; the store's properties ask
  for \<open>room\<close>, that it has not run out.

  \<^bold>\<open>Simplifications.\<close> A nil slice and an empty one are the same value, as are a nil and an empty map; a Go
  map iterates in the order of its list, and \<open>noNodeFits_deterministic\<close> shows where that order cannot
  matter. Texts of messages are shortened, log lines left out. Names are ASCII where the code folds
  case. \<open>deleteHistory\<close> reads the keys of its cursor first and deletes them then.

  \<^bold>\<open>Not modelled.\<close> Third-party code is a parameter: bbolt, Casbin, the JSON-schema, JSON-patch and
  DNS-1123 libraries, SHA-256, x509. The gRPC session, HTTP routing, authentication, goroutines and
  watches with their channels are I/O; node runtimes, the sandbox, the network daemon, OCI images,
  volumes, secrets on the node and the command line tools are system calls, files and network protocols
  around little decision of their own. Generated protobuf code is left out.
\<close>

end
